(* ===== verification/Prelude.thy ===== *)
theory Prelude
  imports Main "HOL-Library.Word"
begin

text \<open>
  Shared vocabulary of the development: the machine integers and byte strings of the Rust
  sources, \<open>std::time\<close> values, the result type of fallible operations, little-endian byte
  conversion, and generic lemmas on association lists, options and words that the component
  theories rely on.

  Conventions.  \<open>usize\<close> values that only count elements are \<open>nat\<close>; fixed-width integers whose
  wrap-around matters are \<open>word\<close>s.  An \<open>Instant\<close> is a number of nanoseconds since an arbitrary
  origin.  A fallible operation returns \<open>'e + 'a\<close> with \<open>Inl\<close> for \<open>Err\<close>.
\<close>

unbundle bit_operations_syntax

section \<open>Machine integers and byte strings\<close>

type_synonym u8 = "8 word"
type_synonym u16 = "16 word"
type_synonym u32 = "32 word"
type_synonym u64 = "64 word"
type_synonym u128 = "128 word"
type_synonym bytes = "u8 list"

text \<open>Bounds of the signed integers that are modelled as \<open>int\<close>.\<close>

definition i32_max :: int where
  "i32_max = 2 ^ 31 - 1"

definition i64_max :: int where
  "i64_max = 2 ^ 63 - 1"

definition i64_min :: int where
  "i64_min = - (2 ^ 63)"

text \<open>\<open>as i32\<close> and the wrap-around of \<open>i32\<close> arithmetic without overflow checks.\<close>

definition wrap_i32 :: "int \<Rightarrow> int" where
  "wrap_i32 x = (x + 2 ^ 31) mod 2 ^ 32 - 2 ^ 31"

definition saturating_add_i32 :: "int \<Rightarrow> int \<Rightarrow> int" where
  "saturating_add_i32 a b = max (- (2 ^ 31)) (min i32_max (a + b))"

definition saturating_sub_i64 :: "int \<Rightarrow> int \<Rightarrow> int" where
  "saturating_sub_i64 a b = max i64_min (min i64_max (a - b))"

section \<open>Time\<close>

type_synonym instant = nat

text \<open>\<open>Instant::elapsed\<close> saturates at zero, as truncating subtraction does.\<close>

definition elapsed :: "instant \<Rightarrow> instant \<Rightarrow> nat" where
  "elapsed now t = now - t"

definition as_secs :: "nat \<Rightarrow> nat" where
  "as_secs d = d div 1000000000"

definition as_millis :: "nat \<Rightarrow> nat" where
  "as_millis d = d div 1000000"

section \<open>Little-endian conversion\<close>

text \<open>\<open>to_le n v\<close> is the \<open>n\<close>-byte \<open>to_le_bytes\<close> of \<open>v\<close>, \<open>from_le\<close> the inverse \<open>from_le_bytes\<close>.\<close>

fun to_le :: "nat \<Rightarrow> nat \<Rightarrow> bytes" where
  "to_le 0 v = []"
| "to_le (Suc n) v = word_of_nat v # to_le n (v div 256)"

fun from_le :: "bytes \<Rightarrow> nat" where
  "from_le [] = 0"
| "from_le (b # bs) = unat b + 256 * from_le bs"

lemma unat_word8_of_nat [simp]: "unat (word_of_nat v :: u8) = v mod 256"
  by (simp add: unat_of_nat)

lemma unat_word8_less [simp]: "unat (b :: u8) < 256"
  using unsigned_less [of b] by simp

lemma to_le_numeral: "to_le (numeral k) v = word_of_nat v # to_le (pred_numeral k) (v div 256)"
  by (subst numeral_eq_Suc) (rule to_le.simps(2))

lemma length_to_le [simp]: "length (to_le n v) = n"
  by (induction n arbitrary: v) auto

lemma from_le_to_le_mod: "from_le (to_le n v) = v mod 256 ^ n"
proof (induction n arbitrary: v)
  case (Suc n)
  have "v mod 256 + 256 * (v div 256 mod 256 ^ n) = v mod (256 * 256 ^ n)"
    by (simp add: mod_mult2_eq)
  with Suc show ?case by simp
qed simp

lemma from_le_to_le [simp]: "v < 256 ^ n \<Longrightarrow> from_le (to_le n v) = v"
  by (simp add: from_le_to_le_mod)

lemma from_le_less: "from_le bs < 256 ^ length bs"
proof (induction bs)
  case (Cons b bs)
  have "unat b + 256 * from_le bs < 256 + 256 * from_le bs"
    by simp
  also have "\<dots> \<le> 256 * 256 ^ length bs"
    using Cons by (simp add: Suc_le_eq flip: mult_Suc_right)
  finally show ?case by simp
qed simp

lemma to_le_from_le [simp]: "to_le (length bs) (from_le bs) = bs"
proof (induction bs)
  case (Cons b bs)
  have "(word_of_nat (unat b + 256 * from_le bs) :: u8) = b"
    by (simp add: word_unat_eq_iff unat_word_ariths)
  moreover have "(unat b + 256 * from_le bs) div 256 = from_le bs"
    by (simp add: div_add1_eq)
  ultimately show ?case
    using Cons by simp
qed simp

lemma from_le_append: "from_le (xs @ ys) = from_le xs + 256 ^ length xs * from_le ys"
  by (induction xs) (auto simp: algebra_simps)

lemma from_le_replicate_0 [simp]: "from_le (replicate n 0) = 0"
  by (induction n) auto

text \<open>Adding numbers whose bits do not overlap is the bitwise disjunction the sources write.\<close>

lemma or_shift_eq_add:
  "a < 2 ^ k \<Longrightarrow> a OR (b * 2 ^ k) = a + b * 2 ^ k" for a b :: nat
proof -
  assume "a < 2 ^ k"
  then have "take_bit k a = a"
    by (simp add: take_bit_nat_eq_self)
  then have below: "bit a n \<Longrightarrow> n < k" for n
    by (metis bit_take_bit_iff)
  have "a AND push_bit k b = 0"
    by (rule bit_eqI) (auto simp: bit_simps dest: below)
  then have "a + push_bit k b = a OR push_bit k b"
    by (rule disjunctive_add_eq_or)
  then show ?thesis
    by (simp add: push_bit_eq_mult)
qed

section \<open>Association lists with distinct keys\<close>

text \<open>
  A \<open>HashMap\<close> whose iteration the code observes is a list of pairs with distinct keys, in the
  (unspecified) order the iterator yields them.  Lookup is \<open>map_of\<close>.
\<close>

fun alist_insert :: "'k \<Rightarrow> 'v \<Rightarrow> ('k \<times> 'v) list \<Rightarrow> ('k \<times> 'v) list" where
  "alist_insert k v [] = [(k, v)]"
| "alist_insert k v ((k', v') # m) =
     (if k = k' then (k, v) # m else (k', v') # alist_insert k v m)"

definition alist_remove :: "'k \<Rightarrow> ('k \<times> 'v) list \<Rightarrow> ('k \<times> 'v) list" where
  "alist_remove k m = filter (\<lambda>p. fst p \<noteq> k) m"

definition alist_modify :: "'k \<Rightarrow> ('v \<Rightarrow> 'v) \<Rightarrow> ('k \<times> 'v) list \<Rightarrow> ('k \<times> 'v) list" where
  "alist_modify k f m = map (\<lambda>p. if fst p = k then (k, f (snd p)) else p) m"

abbreviation alist_ok :: "('k \<times> 'v) list \<Rightarrow> bool" where
  "alist_ok m \<equiv> distinct (map fst m)"

lemma map_of_alist_insert [simp]: "map_of (alist_insert k v m) = (map_of m)(k \<mapsto> v)"
  by (induction m) (auto simp: fun_eq_iff)

lemma map_of_alist_remove [simp]: "map_of (alist_remove k m) = (map_of m)(k := None)"
  by (induction m) (auto simp: alist_remove_def fun_eq_iff)

lemma map_of_alist_modify [simp]:
  "map_of (alist_modify k f m) = (map_of m)(k := map_option f (map_of m k))"
  by (induction m) (auto simp: alist_modify_def fun_eq_iff)

lemma fst_alist_insert: "fst ` set (alist_insert k v m) = insert k (fst ` set m)"
  by (induction k v m rule: alist_insert.induct) auto

lemma fst_alist_modify [simp]: "map fst (alist_modify k f m) = map fst m"
  by (induction m) (auto simp: alist_modify_def)

lemma alist_ok_insert [intro, simp]: "alist_ok m \<Longrightarrow> alist_ok (alist_insert k v m)"
  by (induction m) (auto simp: fst_alist_insert)

lemma alist_ok_remove [intro, simp]: "alist_ok m \<Longrightarrow> alist_ok (alist_remove k m)"
  by (simp add: alist_remove_def distinct_map_filter)

lemma set_alist_insert:
  "alist_ok m \<Longrightarrow> set (alist_insert k v m) = insert (k, v) {p \<in> set m. fst p \<noteq> k}"
  by (induction m) (auto split: if_splits simp: rev_image_eqI)

lemma set_alist_remove [simp]: "set (alist_remove k m) = {p \<in> set m. fst p \<noteq> k}"
  by (auto simp: alist_remove_def)

lemma set_alist_modify:
  "set (alist_modify k f m) =
     {p \<in> set m. fst p \<noteq> k} \<union> (\<lambda>p. (k, f (snd p))) ` {p \<in> set m. fst p = k}"
  by (auto simp: alist_modify_def)

section \<open>Strings\<close>

text \<open>\<open>str::split\<close> on one character: always at least one field, empty fields kept.\<close>

fun split_char :: "char \<Rightarrow> string \<Rightarrow> string list" where
  "split_char c [] = [[]]"
| "split_char c (x # xs) =
     (if x = c then [] # split_char c xs
      else case split_char c xs of f # fs \<Rightarrow> (x # f) # fs | [] \<Rightarrow> [[x]])"

definition is_space :: "char \<Rightarrow> bool" where
  "is_space c \<longleftrightarrow> c \<in> {CHR '' '', CHR 0x09, CHR 0x0A, CHR 0x0B, CHR 0x0C, CHR 0x0D}"

definition trim :: "string \<Rightarrow> string" where
  "trim s = rev (dropWhile is_space (rev (dropWhile is_space s)))"

definition is_digit :: "char \<Rightarrow> bool" where
  "is_digit c \<longleftrightarrow> (48 :: nat) \<le> of_char c \<and> of_char c \<le> (57 :: nat)"

definition digit_val :: "char \<Rightarrow> nat" where
  "digit_val c = of_char c - 48"

text \<open>\<open>str::parse\<close> for unsigned (\<open>parse_unsigned max\<close>) and signed (\<open>parse_signed min max\<close>) integers.\<close>

definition digits_val :: "string \<Rightarrow> nat" where
  "digits_val ds = foldl (\<lambda>n d. n * 10 + digit_val d) 0 ds"

definition parse_unsigned :: "nat \<Rightarrow> string \<Rightarrow> nat option" where
  "parse_unsigned mx s =
     (let ds = (case s of c # cs \<Rightarrow> if c = CHR ''+'' then cs else s | [] \<Rightarrow> []) in
      if ds \<noteq> [] \<and> list_all is_digit ds \<and> digits_val ds \<le> mx then Some (digits_val ds) else None)"

definition parse_signed :: "int \<Rightarrow> int \<Rightarrow> string \<Rightarrow> int option" where
  "parse_signed mn mx s =
     (let (neg, ds) = (case s of
            c # cs \<Rightarrow> if c = CHR ''+'' then (False, cs) else if c = CHR ''-'' then (True, cs) else (False, s)
          | [] \<Rightarrow> (False, []));
          v = (if neg then - int (digits_val ds) else int (digits_val ds)) in
      if ds \<noteq> [] \<and> list_all is_digit ds \<and> mn \<le> v \<and> v \<le> mx then Some v else None)"

section \<open>Lists\<close>

lemma find_append_list:
  "find P (xs @ ys) = (case find P xs of None \<Rightarrow> find P ys | Some x \<Rightarrow> Some x)"
  by (induction xs) auto

section \<open>Step systems\<close>

text \<open>
  A system that moves by steps, an invariant every step keeps, and a quantity every step only
  extends; both then hold of runs.
\<close>

locale step_system =
  fixes sstep :: "'s \<Rightarrow> 's \<Rightarrow> bool" and sinv :: "'s \<Rightarrow> bool" and grows :: "'s \<Rightarrow> 's \<Rightarrow> bool"
  assumes grows_refl: "grows s s"
    and grows_trans: "grows s s' \<Longrightarrow> grows s' s'' \<Longrightarrow> grows s s''"
    and step_keeps: "sstep s s' \<Longrightarrow> sinv s \<Longrightarrow> sinv s' \<and> grows s s'"
begin

lemma run_keeps: "sstep\<^sup>*\<^sup>* s s' \<Longrightarrow> sinv s \<Longrightarrow> sinv s' \<and> grows s s'"
  by (induction rule: rtranclp_induct) (use grows_refl grows_trans step_keeps in \<open>blast+\<close>)

lemma run_inv: "sstep\<^sup>*\<^sup>* s s' \<Longrightarrow> sinv s \<Longrightarrow> sinv s'"
  using run_keeps by blast

end

end
