(* ===== verification/Bytes_Codec.thy ===== *)
theory Bytes_Codec
  imports Prelude
begin

text \<open>
  The length-prefixed frame codec of \<open>libs/hbb_common/src/bytes_codec.rs\<close>, through which every
  TCP connection of the client, the rendezvous server and the relay server runs.  The two low
  bits of the first byte give the number of header bytes; the remaining header bits are the
  payload length.

  The locale \<open>framing\<close> states what a stream reader needs of a codec, and proves once that the
  frames of a byte stream do not depend on how the network cuts it into chunks; the codec is its
  interpretation.
\<close>

section \<open>The codec\<close>

datatype DecodeState = Head | Data nat

record BytesCodec =
  codec_state :: DecodeState
  codec_raw :: bool
  max_packet_length :: nat

datatype io_error = InvalidData string | InvalidInput string

definition usize_max :: nat where
  "usize_max = 2 ^ 64 - 1"

definition MAX_PREALLOCATED_PAYLOAD_LEN :: nat where
  "MAX_PREALLOCATED_PAYLOAD_LEN = 256 * 1024"

definition codec_new :: BytesCodec where
  "codec_new = \<lparr>codec_state = Head, codec_raw = False, max_packet_length = usize_max\<rparr>"

definition set_raw :: "BytesCodec \<Rightarrow> BytesCodec" where
  "set_raw c = c\<lparr>codec_raw := True\<rparr>"

definition set_max_packet_length :: "nat \<Rightarrow> BytesCodec \<Rightarrow> BytesCodec" where
  "set_max_packet_length n c = c\<lparr>max_packet_length := n\<rparr>"

text \<open>
  \<open>decode_head\<close> returns the result, the remaining source buffer, and the number of bytes it asks
  the buffer to reserve.
\<close>

definition decode_head :: "BytesCodec \<Rightarrow> bytes \<Rightarrow> (io_error + nat option) \<times> bytes \<times> nat" where
  "decode_head c src =
     (if src = [] then (Inr None, src, 0)
      else
        let head_len = unat ((src ! 0 AND 3) + 1) in
        if length src < head_len then (Inr None, src, 0)
        else
          let n = unat (src ! 0);
              n = (if head_len > 1 then n OR push_bit 8 (unat (src ! 1)) else n);
              n = (if head_len > 2 then n OR push_bit 16 (unat (src ! 2)) else n);
              n = (if head_len > 3 then n OR push_bit 24 (unat (src ! 3)) else n);
              n = drop_bit 2 n
          in
          if n > max_packet_length c then (Inl (InvalidData ''Too big packet''), src, 0)
          else
            let src' = drop head_len src in
            (Inr (Some n), src', min (n - length src') MAX_PREALLOCATED_PAYLOAD_LEN))"

definition decode_data :: "nat \<Rightarrow> bytes \<Rightarrow> bytes option \<times> bytes" where
  "decode_data n src =
     (if length src < n then (None, src) else (Some (take n src), drop n src))"

definition decode ::
  "BytesCodec \<Rightarrow> bytes \<Rightarrow> (io_error + bytes option) \<times> BytesCodec \<times> bytes" where
  "decode c src =
     (if codec_raw c then
        (if src \<noteq> [] then (Inr (Some src), c, []) else (Inr None, c, src))
      else
        let body = (\<lambda>n c src.
          case decode_data n src of
            (Some data, src') \<Rightarrow> (Inr (Some data), c\<lparr>codec_state := Head\<rparr>, src')
          | (None, src') \<Rightarrow> (Inr None, c, src')) in
        case codec_state c of
          Head \<Rightarrow>
            (case decode_head c src of
               (Inl e, src', _) \<Rightarrow> (Inl e, c, src')
             | (Inr None, src', _) \<Rightarrow> (Inr None, c, src')
             | (Inr (Some n), src', _) \<Rightarrow> body n (c\<lparr>codec_state := Data n\<rparr>) src')
        | Data n \<Rightarrow> body n c src)"

definition encode :: "BytesCodec \<Rightarrow> bytes \<Rightarrow> bytes \<Rightarrow> io_error + bytes" where
  "encode c data buf =
     (if codec_raw c then Inr (buf @ data)
      else if length data \<le> 0x3F then
        Inr (buf @ [word_of_nat (push_bit 2 (length data))] @ data)
      else if length data \<le> 0x3FFF then
        Inr (buf @ to_le 2 (unat ((word_of_nat (push_bit 2 (length data)) :: u16) OR 1)) @ data)
      else if length data \<le> 0x3FFFFF then
        let h = (word_of_nat (push_bit 2 (length data)) :: u32) OR 2 in
        Inr (buf @ to_le 2 (unat (ucast (h AND 0xFFFF) :: u16)) @ [ucast (drop_bit 16 h)] @ data)
      else if length data \<le> 0x3FFFFFFF then
        Inr (buf @ to_le 4 (unat ((word_of_nat (push_bit 2 (length data)) :: u32) OR 3)) @ data)
      else Inl (InvalidInput ''Overflow''))"

section \<open>Reading a stream in chunks\<close>

text \<open>
  \<open>drain\<close> calls the decoder until it asks for more input (the reader's inner loop; \<open>fuel\<close> bounds
  the number of calls), \<open>feed\<close> appends one network chunk after another to the buffer and drains it.
\<close>

fun drain ::
  "('s \<Rightarrow> bytes \<Rightarrow> ('e + bytes option) \<times> 's \<times> bytes) \<Rightarrow> nat \<Rightarrow> 's \<Rightarrow> bytes \<Rightarrow>
   bytes list \<times> 's \<times> bytes" where
  "drain dec 0 s buf = ([], s, buf)"
| "drain dec (Suc fuel) s buf =
     (case dec s buf of
        (Inr (Some f), s', buf') \<Rightarrow>
          (case drain dec fuel s' buf' of (fs, r) \<Rightarrow> (f # fs, r))
      | (_, s', buf') \<Rightarrow> ([], s', buf'))"

fun feed ::
  "('s \<Rightarrow> bytes \<Rightarrow> ('e + bytes option) \<times> 's \<times> bytes) \<Rightarrow> nat \<Rightarrow> 's \<Rightarrow> bytes \<Rightarrow> bytes list \<Rightarrow>
   bytes list \<times> 's \<times> bytes" where
  "feed dec fuel s buf [] = ([], s, buf)"
| "feed dec fuel s buf (c # cs) =
     (case drain dec fuel s (buf @ c) of
        (fs, s', buf') \<Rightarrow>
          (case feed dec fuel s' buf' cs of (gs, r) \<Rightarrow> (fs @ gs, r)))"

locale framing =
  fixes enc :: "bytes \<Rightarrow> bytes option"
    and dec :: "'s \<Rightarrow> bytes \<Rightarrow> ('e + bytes option) \<times> 's \<times> bytes"
    and idle :: 's
  assumes dec_enc: "enc f = Some w \<Longrightarrow> dec idle (w @ rest) = (Inr (Some f), idle, rest)"
    and enc_nonempty: "enc f = Some w \<Longrightarrow> w \<noteq> []"
    and dec_empty: "dec idle [] = (Inr None, idle, [])"
    and dec_prefix: "enc f = Some (p @ q) \<Longrightarrow> q \<noteq> [] \<Longrightarrow>
          \<exists>s' p'. dec idle p = (Inr None, s', p') \<and>
            (\<forall>rest. dec s' (p' @ rest) = dec idle (p @ rest))"
begin

text \<open>A decoder state and buffer that behave as the idle decoder does on the pending bytes \<open>p\<close>.\<close>

definition resumes :: "'s \<Rightarrow> bytes \<Rightarrow> bytes \<Rightarrow> bool" where
  "resumes s buf p \<longleftrightarrow> (\<forall>rest. dec s (buf @ rest) = dec idle (p @ rest))"

lemma resumes_refl [simp]: "resumes idle p p"
  by (simp add: resumes_def)

lemma drain_resumes:
  assumes "resumes s buf p" and "fuel > 0"
  shows "drain dec fuel s (buf @ rest) = drain dec fuel idle (p @ rest)"
proof (cases fuel)
  case (Suc k)
  with assms show ?thesis by (simp add: resumes_def)
qed (use assms in simp)

text \<open>The bytes \<open>p\<close> are a proper prefix of one more frame, or nothing.\<close>

definition partial :: "bytes \<Rightarrow> bool" where
  "partial p \<longleftrightarrow> p = [] \<or> (\<exists>f q. enc f = Some (p @ q) \<and> q \<noteq> [])"

lemma dec_partial:
  assumes "partial p"
  obtains s' p' where "dec idle p = (Inr None, s', p')" "resumes s' p' p"
proof (cases "p = []")
  case True
  with that [of idle "[]"] show thesis by (simp add: dec_empty)
next
  case False
  with assms obtain f q where "enc f = Some (p @ q)" "q \<noteq> []"
    by (auto simp: partial_def)
  from dec_prefix [OF this] that show thesis by (auto simp: resumes_def)
qed

lemma drain_frames:
  assumes "list_all2 (\<lambda>f w. enc f = Some w) fs ws" and "partial p" and "length fs < fuel"
  obtains s' p' where "drain dec fuel idle (concat ws @ p) = (fs, s', p')" "resumes s' p' p"
proof -
  have "\<exists>s' p'. drain dec fuel idle (concat ws @ p) = (fs, s', p') \<and> resumes s' p' p"
    using assms(1,3)
  proof (induction fs ws arbitrary: fuel rule: list_all2_induct)
    case Nil
    then obtain k where "fuel = Suc k" by (cases fuel) auto
    moreover obtain s' p' where "dec idle p = (Inr None, s', p')" "resumes s' p' p"
      using dec_partial [OF assms(2)] .
    ultimately show ?case by simp
  next
    case (Cons f fs w ws)
    then obtain k where k: "fuel = Suc k" "length fs < k" by (cases fuel) auto
    from Cons.IH [OF k(2)] obtain s' p' where
      "drain dec k idle (concat ws @ p) = (fs, s', p')" "resumes s' p' p" by blast
    with k Cons.hyps(1) show ?case by (simp add: dec_enc)
  qed
  with that show thesis by blast
qed

text \<open>
  Splitting a prefix \<open>u\<close> of the wire image at the last frame boundary it reaches.
\<close>

lemma split_at_boundary:
  assumes "list_all2 (\<lambda>f w. enc f = Some w) fs ws" and "concat ws = u @ v"
  obtains fs1 ws1 fs2 ws2 p where
    "fs = fs1 @ fs2" "ws = ws1 @ ws2" "u = concat ws1 @ p" "p @ v = concat ws2"
    "list_all2 (\<lambda>f w. enc f = Some w) fs1 ws1" "list_all2 (\<lambda>f w. enc f = Some w) fs2 ws2"
    "partial p"
proof -
  let ?R = "list_all2 (\<lambda>f w. enc f = Some w)"
  have "\<exists>fs1 ws1 fs2 ws2 p. fs = fs1 @ fs2 \<and> ws = ws1 @ ws2 \<and> u = concat ws1 @ p \<and>
      p @ v = concat ws2 \<and> ?R fs1 ws1 \<and> ?R fs2 ws2 \<and> partial p"
    using assms
  proof (induction fs ws arbitrary: u rule: list_all2_induct)
    case Nil
    then show ?case
      by (intro exI [of _ "[]"]) (simp add: partial_def)
  next
    case (Cons f fs w ws)
    show ?case
    proof (cases "length w \<le> length u")
      case True
      with Cons.prems obtain u' where u': "u = w @ u'" "concat ws = u' @ v"
        by (auto simp: append_eq_append_conv2)
      from Cons.IH [OF u'(2)] obtain fs1 ws1 fs2 ws2 p where IH:
        "fs = fs1 @ fs2" "ws = ws1 @ ws2" "u' = concat ws1 @ p" "p @ v = concat ws2"
        "?R fs1 ws1" "?R fs2 ws2" "partial p" by blast
      show ?thesis
        by (rule exI [of _ "f # fs1"], rule exI [of _ "w # ws1"], rule exI [of _ fs2],
            rule exI [of _ ws2], rule exI [of _ p]) (use IH u' Cons.hyps in simp)
    next
      case False
      with Cons.prems obtain q where q: "w = u @ q" "q \<noteq> []"
        by (auto simp: append_eq_append_conv2)
      with Cons.hyps(1) have "partial u"
        unfolding partial_def by blast
      with Cons.prems Cons.hyps show ?thesis
        by (intro exI [of _ "[]"] exI [of _ "f # fs"] exI [of _ "w # ws"] exI [of _ u]) simp
    qed
  qed
  with that show thesis by blast
qed

lemma feed_frames:
  assumes "list_all2 (\<lambda>f w. enc f = Some w) fs ws"
    and "p @ concat cs = concat ws" and "partial p" and "resumes s buf p"
    and "length fs < fuel"
  shows "\<exists>s' buf'. feed dec fuel s buf cs = (fs, s', buf') \<and> resumes s' buf' []"
  using assms
proof (induction cs arbitrary: fs ws p s buf)
  case Nil
  have "fs = [] \<and> p = []"
  proof (cases fs)
    case (Cons f fs')
    with Nil.prems(1) obtain w ws' where w: "ws = w # ws'" "enc f = Some w"
      by (auto simp: list_all2_Cons1)
    have p: "p = w @ concat ws'" using Nil.prems(2) w by simp
    obtain s' p' where "dec idle p = (Inr None, s', p')"
      using dec_partial [OF Nil.prems(3)] .
    with dec_enc [OF w(2), of "concat ws'"] p show ?thesis by simp
  qed (use Nil in simp)
  with Nil.prems(4) show ?case by simp
next
  case (Cons c cs)
  have "concat ws = (p @ c) @ concat cs" using Cons.prems(2) by simp
  then obtain fs1 ws1 fs2 ws2 p2 where sp:
    "fs = fs1 @ fs2" "p @ c = concat ws1 @ p2" "p2 @ concat cs = concat ws2"
    "list_all2 (\<lambda>f w. enc f = Some w) fs1 ws1" "list_all2 (\<lambda>f w. enc f = Some w) fs2 ws2"
    "partial p2"
    by (rule split_at_boundary [OF Cons.prems(1)]) (rule that)
  have "length fs1 < fuel" using Cons.prems(5) sp(1) by simp
  from drain_frames [OF sp(4,6) this] obtain s' buf' where
    d: "drain dec fuel idle (concat ws1 @ p2) = (fs1, s', buf')" "resumes s' buf' p2" .
  have "drain dec fuel s (buf @ c) = drain dec fuel idle (p @ c)"
    using drain_resumes [OF Cons.prems(4)] Cons.prems(5) by simp
  with d sp(2) have "drain dec fuel s (buf @ c) = (fs1, s', buf')" by simp
  moreover have "length fs2 < fuel" using Cons.prems(5) sp(1) by simp
  from Cons.IH [OF sp(5) sp(3) sp(6) d(2) this] obtain s'' buf'' where
    "feed dec fuel s' buf' cs = (fs2, s'', buf'')" "resumes s'' buf'' []" by blast
  ultimately show ?case using sp(1) by simp
qed

text \<open>
  Whatever the chunking of the concatenated wire images, the reader obtains exactly the frames,
  in order, and ends in a state that behaves as the idle decoder on an empty buffer.
\<close>

lemma feed_chunks:
  assumes "list_all2 (\<lambda>f w. enc f = Some w) fs ws" and "concat cs = concat ws"
    and "length fs < fuel"
  shows "fst (feed dec fuel idle [] cs) = fs"
  using feed_frames [OF assms(1), of "[]" cs idle "[]" fuel] assms
  by (auto simp: partial_def)

end

section \<open>Closed forms of the bit manipulation\<close>

definition head_len :: "bytes \<Rightarrow> nat" where
  "head_len src = Suc (unat (hd src) mod 4)"

definition header_len :: "nat \<Rightarrow> nat" where
  "header_len n = (if n \<le> 0x3F then 1 else if n \<le> 0x3FFF then 2 else if n \<le> 0x3FFFFF then 3 else 4)"

definition header :: "nat \<Rightarrow> bytes" where
  "header n = to_le (header_len n) (4 * n + (header_len n - 1))"

lemma unat_and_3: "unat (b AND 3 :: u8) = unat b mod 4"
proof -
  have "unat (b AND 3) = unat b AND unat (3 :: u8)"
    by (simp add: unsigned_and_eq)
  also have "\<dots> = take_bit 2 (unat b)"
  proof -
    have "unat (3 :: u8) = mask 2" by code_simp
    then show ?thesis by (simp only: take_bit_eq_mask)
  qed
  finally show ?thesis
    by (simp add: take_bit_eq_mod)
qed

lemma unat_head_len: "unat ((b AND 3) + 1 :: u8) = Suc (unat b mod 4)"
  by (simp add: unat_word_ariths unat_and_3)

lemma or_bytes_2: "unat (a :: u8) OR push_bit 8 (unat (b :: u8)) = from_le [a, b]"
  using or_shift_eq_add [of "unat a" 8 "unat b"] by (simp add: push_bit_eq_mult)

lemma or_bytes_3: "from_le [a, b] OR push_bit 16 (unat (c :: u8)) = from_le [a, b, c]"
  using or_shift_eq_add [of "from_le [a, b]" 16 "unat c"] from_le_less [of "[a, b]"]
  by (simp add: push_bit_eq_mult)

lemma or_bytes_4: "from_le [a, b, c] OR push_bit 24 (unat (d :: u8)) = from_le [a, b, c, d]"
  using or_shift_eq_add [of "from_le [a, b, c]" 24 "unat d"] from_le_less [of "[a, b, c]"]
  by (simp add: push_bit_eq_mult)

lemmas or_bytes = or_bytes_2 or_bytes_3 or_bytes_4

lemma decode_head_eq:
  "decode_head c src =
     (if src = [] \<or> length src < head_len src then (Inr None, src, 0)
      else
        let n = from_le (take (head_len src) src) div 4;
            src' = drop (head_len src) src in
        if n > max_packet_length c then (Inl (InvalidData ''Too big packet''), src, 0)
        else (Inr (Some n), src', min (n - length src') MAX_PREALLOCATED_PAYLOAD_LEN))"
proof (cases "src = [] \<or> length src < head_len src")
  case True
  then show ?thesis
    by (auto simp: decode_head_def head_len_def unat_head_len hd_conv_nth)
next
  case False
  define k where "k = head_len src"
  have k4: "k \<in> {1, 2, 3, 4}"
    unfolding k_def head_len_def by auto
  have k: "unat ((src ! 0 AND 3) + 1) = k"
    using False by (simp add: k_def head_len_def unat_head_len hd_conv_nth)
  have len: "k \<le> length src" using False by (simp add: k_def)
  let ?n = "unat (src ! 0)"
  let ?n2 = "if k > 1 then ?n OR push_bit 8 (unat (src ! 1)) else ?n"
  let ?n3 = "if k > 2 then ?n2 OR push_bit 16 (unat (src ! 2)) else ?n2"
  let ?n4 = "if k > 3 then ?n3 OR push_bit 24 (unat (src ! 3)) else ?n3"
  have "?n4 = from_le (take k src)"
  proof -
    consider "k = 1" | "k = 2" | "k = 3" | "k = 4" using k4 by auto
    then show ?thesis
    proof cases
      case 1
      with len show ?thesis by (cases src) auto
    next
      case 2
      with len obtain a b r where "src = a # b # r"
        by (auto simp: Suc_le_length_iff numeral_eq_Suc)
      with 2 show ?thesis by (simp add: or_bytes del: from_le.simps)
    next
      case 3
      with len obtain a b c r where "src = a # b # c # r"
        by (auto simp: Suc_le_length_iff numeral_eq_Suc)
      with 3 show ?thesis by (simp add: or_bytes del: from_le.simps)
    next
      case 4
      with len obtain a b c d r where "src = a # b # c # d # r"
        by (auto simp: Suc_le_length_iff numeral_eq_Suc)
      with 4 show ?thesis by (simp add: or_bytes del: from_le.simps)
    qed
  qed
  then have n4: "drop_bit 2 ?n4 = from_le (take k src) div 4"
    by (simp only: drop_bit_eq_div) simp
  have "src \<noteq> []" "\<not> length src < k" using False k_def by auto
  then show ?thesis
    unfolding decode_head_def Let_def k n4 k_def [symmetric] by simp
qed

lemma header_len_bounds: "header_len n \<in> {1, 2, 3, 4}"
  by (simp add: header_len_def)

lemma header_value_less: "n \<le> 0x3FFFFFFF \<Longrightarrow> 4 * n + (header_len n - 1) < 256 ^ header_len n"
  by (auto simp: header_len_def)

lemma length_header [simp]: "length (header n) = header_len n"
  by (simp add: header_def)

lemma header_nonempty [simp]: "header n \<noteq> []"
  using header_len_bounds [of n] by (auto simp flip: length_0_conv)

lemma from_le_header [simp]: "n \<le> 0x3FFFFFFF \<Longrightarrow> from_le (header n) div 4 = n"
proof -
  assume "n \<le> 0x3FFFFFFF"
  then have "from_le (header n) = 4 * n + (header_len n - 1)"
    unfolding header_def by (intro from_le_to_le header_value_less)
  then show ?thesis
    using header_len_bounds [of n] by auto
qed

lemma unat_hd_header: "unat (hd (header n)) = (4 * n + (header_len n - 1)) mod 256"
proof -
  obtain k where "header_len n = Suc k"
    using header_len_bounds [of n] by (cases "header_len n") auto
  then show ?thesis
    by (simp add: header_def unat_of_nat del: of_nat_add of_nat_mult)
qed

lemma head_len_header [simp]: "head_len (header n @ rest) = header_len n"
proof -
  have "(4 * n + (header_len n - 1)) mod 256 mod 4 = (4 * n + (header_len n - 1)) mod 4"
    by (rule mod_mod_cancel) simp
  then show ?thesis
    using header_len_bounds [of n] by (auto simp: head_len_def unat_hd_header)
qed

text \<open>The encoder emits the canonical header followed by the payload, or refuses it.\<close>

lemma unat_shift2_or:
  fixes k :: nat
  assumes "4 * n < 2 ^ LENGTH('a)" and "k < 4" and "2 < LENGTH('a)"
  shows "unat ((word_of_nat (push_bit 2 n) :: 'a::len word) OR word_of_nat k) = 4 * n + k"
proof -
  have "(4 :: nat) < 2 ^ LENGTH('a)"
    using power_strict_increasing [OF assms(3), of "2 :: nat"] by simp
  with assms(2) have "unat (word_of_nat k :: 'a word) = k"
    by (simp add: unat_of_nat)
  moreover have "unat (word_of_nat (push_bit 2 n) :: 'a word) = n * 2 ^ 2"
    using assms(1) by (simp only: unat_of_nat push_bit_eq_mult) simp
  ultimately show ?thesis
    using or_shift_eq_add [of k 2 n] assms(2)
    by (simp add: unsigned_or_eq or.commute)
qed

lemma to_le_3_split: "to_le 2 (v mod 65536) @ [word_of_nat (v div 65536)] = to_le 3 v"
proof -
  have "v mod 65536 = 256 * (v div 256 mod 256) + v mod 256"
    using mod_mult2_eq [of v 256 256] by simp
  then show ?thesis
    by (simp add: numeral_2_eq_2 numeral_3_eq_3 word_unat_eq_iff div_mult2_eq [of v 256 256, simplified]
        del: of_nat_add of_nat_mult of_nat_Suc)
qed

lemma unat_low_u16: "unat (ucast (h AND 0xFFFF :: u32) :: u16) = unat h mod 65536"
proof -
  have "mask 16 = (0xFFFF :: u32)" by code_simp
  then have "h AND 0xFFFF = take_bit 16 h"
    by (simp add: take_bit_eq_mask)
  then show ?thesis
    by (simp add: unsigned_ucast_eq unsigned_take_bit_eq take_bit_eq_mod unat_mod)
qed

lemma ucast_high_byte: "(ucast (drop_bit 16 h :: u32) :: u8) = word_of_nat (unat h div 65536)"
  by (simp add: word_unat_eq_iff unsigned_ucast_eq unsigned_drop_bit_eq take_bit_eq_mod
      drop_bit_eq_div unat_div)

lemma encode_eq:
  assumes "\<not> codec_raw c"
  shows "encode c data buf =
     (if length data \<le> 0x3FFFFFFF then Inr (buf @ header (length data) @ data)
      else Inl (InvalidInput ''Overflow''))"
proof -
  let ?n = "length data"
  consider "?n \<le> 0x3F" | "0x3F < ?n" "?n \<le> 0x3FFF" | "0x3FFF < ?n" "?n \<le> 0x3FFFFF"
    | "0x3FFFFF < ?n" "?n \<le> 0x3FFFFFFF" | "0x3FFFFFFF < ?n" by linarith
  then show ?thesis
  proof cases
    case 1
    then show ?thesis using assms
      by (simp add: encode_def header_def header_len_def push_bit_eq_mult mult.commute)
  next
    case 2
    then show ?thesis using assms unat_shift2_or [where 'a = 16, of ?n 1]
      by (simp add: encode_def header_def header_len_def)
  next
    case 3
    let ?h = "(word_of_nat (push_bit 2 ?n) :: u32) OR 2"
    have h: "unat ?h = 4 * ?n + 2"
      using unat_shift2_or [where 'a = 32, of ?n 2] 3 by simp
    have "to_le 2 (unat (ucast (?h AND 0xFFFF) :: u16)) @ [ucast (drop_bit 16 ?h)] =
        to_le 3 (unat ?h)"
      by (simp only: unat_low_u16 ucast_high_byte to_le_3_split)
    with 3 h show ?thesis using assms
      by (simp add: encode_def header_def header_len_def Let_def)
  next
    case 4
    then show ?thesis using assms unat_shift2_or [where 'a = 32, of ?n 3]
      by (simp add: encode_def header_def header_len_def)
  next
    case 5
    then show ?thesis using assms by (simp add: encode_def)
  qed
qed

section \<open>The codec is a framing\<close>

definition codec_upto :: "nat \<Rightarrow> BytesCodec" where
  "codec_upto m = set_max_packet_length m codec_new"

definition wire :: "nat \<Rightarrow> bytes \<Rightarrow> bytes option" where
  "wire m f =
     (if length f \<le> m then case encode (codec_upto m) f [] of Inr w \<Rightarrow> Some w | Inl _ \<Rightarrow> None
      else None)"

lemma codec_upto_simps [simp]:
  "codec_raw (codec_upto m) = False" "codec_state (codec_upto m) = Head"
  "max_packet_length (codec_upto m) = m"
  by (simp_all add: codec_upto_def set_max_packet_length_def codec_new_def)

lemma wire_eq: "wire m f = Some w \<longleftrightarrow> length f \<le> m \<and> length f \<le> 0x3FFFFFFF \<and> w = header (length f) @ f"
  by (auto simp: wire_def encode_eq split: if_splits)

lemma decode_header:
  assumes "n \<le> m" and "n \<le> 0x3FFFFFFF"
  shows "decode (codec_upto m) (header n @ rest) =
     (if length rest < n then (Inr None, (codec_upto m)\<lparr>codec_state := Data n\<rparr>, rest)
      else (Inr (Some (take n rest)), codec_upto m, drop n rest))"
proof -
  have "(codec_upto m)\<lparr>codec_state := Head\<rparr> = codec_upto m"
    by (rule BytesCodec.equality) simp_all
  with assms show ?thesis
    by (simp add: decode_def decode_head_eq decode_data_def)
qed

lemma decode_data_state:
  "decode ((codec_upto m)\<lparr>codec_state := Data n\<rparr>) buf =
     (if length buf < n then (Inr None, (codec_upto m)\<lparr>codec_state := Data n\<rparr>, buf)
      else (Inr (Some (take n buf)), codec_upto m, drop n buf))"
proof -
  have "(codec_upto m)\<lparr>codec_state := Head\<rparr> = codec_upto m"
    by (rule BytesCodec.equality) simp_all
  then show ?thesis
    by (simp add: decode_def decode_data_def)
qed

lemma decode_short_header:
  assumes "p @ q = header n" and "q \<noteq> []"
  shows "decode (codec_upto m) p = (Inr None, codec_upto m, p)"
proof (cases "p = []")
  case False
  then have "hd p = hd (header n)"
    using assms(1) by (metis hd_append2)
  then have "head_len p = header_len n"
    using head_len_header [of n "[]"] by (simp add: head_len_def)
  moreover have "length p < header_len n"
    using assms by (metis length_append length_greater_0_conv length_header less_add_same_cancel1)
  ultimately show ?thesis
    by (simp add: decode_def decode_head_eq)
qed (simp add: decode_def decode_head_eq)

interpretation bc: framing "wire m" decode "codec_upto m" for m :: nat
proof (unfold_locales, goal_cases)
  case (1 f w rest)
  then show ?case
    by (simp add: wire_eq decode_header)
next
  case (2 f w)
  then show ?case by (simp add: wire_eq)
next
  case 3
  then show ?case by (simp add: decode_def decode_head_eq)
next
  case (4 f p q)
  then have f: "length f \<le> m" "length f \<le> 0x3FFFFFFF" "p @ q = header (length f) @ f"
    by (auto simp: wire_eq)
  show ?case
  proof (cases "length p < length (header (length f))")
    case True
    with f(3) obtain q' where q': "p @ q' = header (length f)"
      by (auto simp: append_eq_append_conv2)
    with True have "q' \<noteq> []" by auto
    note q' = q' this
    from decode_short_header [OF q'] show ?thesis by blast
  next
    case False
    with f(3) [symmetric] have "header (length f) = take (header_len (length f)) p"
      and f': "f = drop (header_len (length f)) p @ q"
      by (simp_all add: append_eq_append_conv_if)
    then obtain p' where p': "p = header (length f) @ p'" "f = p' @ q"
      by (metis append_take_drop_id)
    with 4(2) have "length p' < length f" by simp
    with f p' show ?thesis
      by (simp add: decode_header decode_data_state)
  qed
qed

section \<open>Properties\<close>

text \<open>
  C10: The byte stream produced by encoding a sequence of frames is decoded to exactly these
  frames in the same order, however the transport cuts the stream into chunks (a chunk boundary
  may fall inside a header or a payload), for every configured packet limit that admits the
  frames.
\<close>

theorem codec_stream_roundtrip:
  assumes "list_all2 (\<lambda>f w. length f \<le> m \<and> encode (codec_upto m) f [] = Inr w) fs ws"
    and "concat cs = concat ws" and "length fs < fuel"
  shows "fst (feed decode fuel (codec_upto m) [] cs) = fs"
proof -
  have "list_all2 (\<lambda>f w. wire m f = Some w) fs ws"
    using assms(1) by (rule list_all2_mono) (auto simp: wire_def)
  from bc.feed_chunks [OF this assms(2,3)] show ?thesis .
qed

theorem codec_stream_roundtrip_witness:
  "fst (feed decode 3 (codec_upto 100) [] [[12], [1, 2], [3, 8, 7], [9]]) = [[1, 2, 3], [7, 9]]"
proof -
  have "list_all2 (\<lambda>f w. length f \<le> 100 \<and> encode (codec_upto 100) f [] = Inr w)
      [[1, 2, 3], [7, 9]] [[12, 1, 2, 3], [8, 7, 9]]"
    by (simp add: encode_eq header_def header_len_def)
  from codec_stream_roundtrip [OF this, of "[[12], [1, 2], [3, 8, 7], [9]]" 3] show ?thesis
    by simp
qed

text \<open>
  A header declaring more than the configured packet limit is an error that leaves the
  decoder and the buffer as they were; an accepted header declares at most the limit; and no
  header, whatever length it declares, makes the decoder reserve more than 256 KiB.
\<close>

theorem codec_head_bounds:
  "case decode_head c src of
     (Inl e, src', reserve) \<Rightarrow> src' = src \<and> reserve = 0 \<and> e = InvalidData ''Too big packet''
   | (Inr None, src', reserve) \<Rightarrow> src' = src \<and> reserve = 0 \<and> length src < 4
   | (Inr (Some n), src', reserve) \<Rightarrow>
       n \<le> max_packet_length c \<and> n < 2 ^ 30 \<and> reserve \<le> 262144 \<and>
       (\<exists>h. src = h @ src' \<and> length h \<in> {1..4})"
proof -
  have hl: "head_len src \<in> {1..4}"
    by (auto simp: head_len_def)
  have val: "from_le (take (head_len src) src) div 4 < 2 ^ 30"
  proof -
    have "from_le (take (head_len src) src) < 256 ^ length (take (head_len src) src)"
      by (rule from_le_less)
    also have "\<dots> \<le> 256 ^ 4"
      using hl by (intro power_increasing) auto
    finally show ?thesis by simp
  qed
  show ?thesis
  proof (cases "src = [] \<or> length src < head_len src")
    case True
    with hl show ?thesis by (auto simp: decode_head_eq)
  next
    case False
    then have "src = take (head_len src) src @ drop (head_len src) src \<and>
        length (take (head_len src) src) \<in> {1..4}"
      using hl by auto
    with val False show ?thesis
      by (auto simp: decode_head_eq Let_def MAX_PREALLOCATED_PAYLOAD_LEN_def
          simp del: append_take_drop_id)
  qed
qed

text \<open>
  The encoder accepts a payload exactly when its length fits in 30 bits, and then appends to
  the output buffer a header of one to four bytes and the payload unchanged.
\<close>

theorem codec_encode_total:
  assumes "\<not> codec_raw c"
  shows "case encode c data buf of
     Inl e \<Rightarrow> length data > 0x3FFFFFFF \<and> e = InvalidInput ''Overflow''
   | Inr out \<Rightarrow> length data \<le> 0x3FFFFFFF \<and>
       (\<exists>h. out = buf @ h @ data \<and> length h \<in> {1..4} \<and> from_le h div 4 = length data \<and>
            from_le h mod 4 = length h - 1)"
proof (cases "length data \<le> 0x3FFFFFFF")
  case True
  let ?n = "length data"
  have "from_le (header ?n) = 4 * ?n + (header_len ?n - 1)"
    unfolding header_def using True by (intro from_le_to_le header_value_less)
  then have "from_le (header ?n) div 4 = ?n \<and> from_le (header ?n) mod 4 = header_len ?n - 1"
    using header_len_bounds [of ?n] by auto
  moreover have "header_len ?n \<in> {1..4}"
    using header_len_bounds [of ?n] by auto
  ultimately show ?thesis
    using True assms by (auto simp: encode_eq intro!: exI [of _ "header ?n"])
next
  case False
  with assms show ?thesis by (simp add: encode_eq)
qed

theorem codec_encode_total_witness:
  "\<not> codec_raw codec_new \<and>
   (\<exists>out h. encode codec_new [5, 6] [1] = Inr out \<and> out = [1] @ h @ [5, 6] \<and> length h \<in> {1..4})"
proof -
  have raw: "\<not> codec_raw codec_new" by (simp add: codec_new_def)
  have "encode codec_new [5, 6] [1] = Inr [1, 8, 5, 6]"
    using raw by (simp add: encode_eq header_def header_len_def)
  with codec_encode_total [OF raw, of "[5, 6]" "[1]"] raw show ?thesis
    by auto
qed

end
