(* ===== verification/Secure_Stream.thy ===== *)
theory Secure_Stream
  imports Bytes_Codec
begin

text \<open>
  The encrypted framed stream of \<open>libs/hbb_common/src/tcp.rs\<close> and the key agreement that sets its
  key: the controlled side in \<open>src/server.rs\<close> (\<open>create_tcp_connection\<close>), the controlling side in
  \<open>src/client.rs\<close> (\<open>secure_connection\<close>) and the client/rendezvous-server variant in
  \<open>src/common.rs\<close> (\<open>secure_tcp_impl\<close>).

  The primitives of libsodium, base64 and the protobuf serialiser are third-party code: they are
  fields of the record \<open>crypto\<close>, and what is used of them (opening a sealed box gives the plain
  text, and so on) is a named predicate on that record.
\<close>

section \<open>Third-party primitives\<close>

record crypto =
  secretbox_seal :: "bytes \<Rightarrow> bytes \<Rightarrow> bytes \<Rightarrow> bytes"
  secretbox_open :: "bytes \<Rightarrow> bytes \<Rightarrow> bytes \<Rightarrow> bytes option"
  box_seal :: "bytes \<Rightarrow> bytes \<Rightarrow> bytes \<Rightarrow> bytes \<Rightarrow> bytes"
  box_open :: "bytes \<Rightarrow> bytes \<Rightarrow> bytes \<Rightarrow> bytes \<Rightarrow> bytes option"
  sign_sign :: "bytes \<Rightarrow> bytes \<Rightarrow> bytes"
  sign_verify :: "bytes \<Rightarrow> bytes \<Rightarrow> bytes option"
  idpk_write :: "string \<times> bytes \<Rightarrow> bytes"
  idpk_parse :: "bytes \<Rightarrow> (string \<times> bytes) option"
  decode64 :: "string \<Rightarrow> bytes option"

text \<open>Authenticated symmetric encryption: opening inverts sealing, and a box carries a 16-byte tag.\<close>

definition secretbox_correct :: "crypto \<Rightarrow> bool" where
  "secretbox_correct cr \<longleftrightarrow>
     (\<forall>m n k. secretbox_open cr (secretbox_seal cr m n k) n k = Some m \<and>
              length (secretbox_seal cr m n k) = length m + 16)"

text \<open>Public-key boxes between two key pairs, signatures, and the \<open>IdPk\<close> message.\<close>

definition box_correct :: "crypto \<Rightarrow> (bytes \<times> bytes) \<Rightarrow> (bytes \<times> bytes) \<Rightarrow> bool" where
  "box_correct cr a b \<longleftrightarrow>
     (\<forall>m n. box_open cr (box_seal cr m n (fst a) (snd b)) n (fst b) (snd a) = Some m)"

definition sign_correct :: "crypto \<Rightarrow> bytes \<Rightarrow> bytes \<Rightarrow> bool" where
  "sign_correct cr pk sk \<longleftrightarrow> (\<forall>m. sign_verify cr (sign_sign cr m sk) pk = Some m)"

definition idpk_correct :: "crypto \<Rightarrow> bool" where
  "idpk_correct cr \<longleftrightarrow> (\<forall>x. idpk_parse cr (idpk_write cr x) = Some x)"

section \<open>The encrypted stream\<close>

record Encrypt =
  enc_key :: bytes
  enc_seq :: u64
  dec_seq :: u64

definition Encrypt_new :: "bytes \<Rightarrow> Encrypt" where
  "Encrypt_new key = \<lparr>enc_key = key, enc_seq = 0, dec_seq = 0\<rparr>"

definition NONCEBYTES :: nat where
  "NONCEBYTES = 24"

definition get_nonce :: "u64 \<Rightarrow> bytes" where
  "get_nonce seqnum = to_le 8 (unat seqnum) @ replicate (NONCEBYTES - 8) 0"

datatype stream_error = DecryptionError | CodecError io_error

definition Encrypt_dec :: "crypto \<Rightarrow> Encrypt \<Rightarrow> bytes \<Rightarrow> (stream_error + bytes) \<times> Encrypt" where
  "Encrypt_dec cr e bs =
     (if length bs \<le> 1 then (Inr bs, e)
      else
        let e' = e\<lparr>dec_seq := dec_seq e + 1\<rparr> in
        case secretbox_open cr bs (get_nonce (dec_seq e')) (enc_key e') of
          Some res \<Rightarrow> (Inr res, e')
        | None \<Rightarrow> (Inl DecryptionError, e'))"

definition Encrypt_enc :: "crypto \<Rightarrow> Encrypt \<Rightarrow> bytes \<Rightarrow> bytes \<times> Encrypt" where
  "Encrypt_enc cr e data =
     (let e' = e\<lparr>enc_seq := enc_seq e + 1\<rparr> in
      (secretbox_seal cr data (get_nonce (enc_seq e')) (enc_key e'), e'))"

record FramedStream =
  fs_codec :: BytesCodec
  fs_encrypt :: "Encrypt option"
  fs_send_timeout :: nat

definition stream_from :: FramedStream where
  "stream_from = \<lparr>fs_codec = codec_new, fs_encrypt = None, fs_send_timeout = 0\<rparr>"

definition stream_set_send_timeout :: "nat \<Rightarrow> FramedStream \<Rightarrow> FramedStream" where
  "stream_set_send_timeout ms s = s\<lparr>fs_send_timeout := ms\<rparr>"

definition stream_set_raw :: "FramedStream \<Rightarrow> FramedStream" where
  "stream_set_raw s = s\<lparr>fs_codec := set_raw (fs_codec s), fs_encrypt := None\<rparr>"

definition is_secured :: "FramedStream \<Rightarrow> bool" where
  "is_secured s \<longleftrightarrow> fs_encrypt s \<noteq> None"

definition stream_set_key :: "bytes \<Rightarrow> FramedStream \<Rightarrow> FramedStream" where
  "stream_set_key key s = s\<lparr>fs_encrypt := Some (Encrypt_new key)\<rparr>"

text \<open>\<open>send_raw\<close>: encrypt when a key is set, then frame; the bytes put on the wire, or the error.\<close>

definition send_raw ::
  "crypto \<Rightarrow> FramedStream \<Rightarrow> bytes \<Rightarrow> (io_error + bytes) \<times> FramedStream" where
  "send_raw cr s msg =
     (case fs_encrypt s of
        None \<Rightarrow> (encode (fs_codec s) msg [], s)
      | Some e \<Rightarrow>
          let (msg', e') = Encrypt_enc cr e msg in
          (encode (fs_codec s) msg' [], s\<lparr>fs_encrypt := Some e'\<rparr>))"

text \<open>\<open>next\<close> on what the framing layer yields: end of stream, an error, or a frame.\<close>

definition stream_next ::
  "crypto \<Rightarrow> FramedStream \<Rightarrow> (io_error + bytes) option \<Rightarrow>
   (stream_error + bytes) option \<times> FramedStream" where
  "stream_next cr s res =
     (case res of
        None \<Rightarrow> (None, s)
      | Some (Inl err) \<Rightarrow> (Some (Inl (CodecError err)), s)
      | Some (Inr bs) \<Rightarrow>
          (case fs_encrypt s of
             None \<Rightarrow> (Some (Inr bs), s)
           | Some e \<Rightarrow>
               let (r, e') = Encrypt_dec cr e bs in
               (Some r, s\<lparr>fs_encrypt := Some e'\<rparr>)))"

text \<open>Sending and receiving a sequence of messages on one stream.\<close>

fun send_all ::
  "crypto \<Rightarrow> FramedStream \<Rightarrow> bytes list \<Rightarrow> (io_error + bytes) list \<times> FramedStream" where
  "send_all cr s [] = ([], s)"
| "send_all cr s (m # ms) =
     (let (r, s') = send_raw cr s m; (rs, s'') = send_all cr s' ms in (r # rs, s''))"

fun recv_all ::
  "crypto \<Rightarrow> FramedStream \<Rightarrow> bytes list \<Rightarrow> (stream_error + bytes) option list \<times> FramedStream" where
  "recv_all cr s [] = ([], s)"
| "recv_all cr s (f # fs) =
     (let (r, s') = stream_next cr s (Some (Inr f)); (rs, s'') = recv_all cr s' fs in (r # rs, s''))"

section \<open>Key agreement\<close>

definition PUBLICKEYBYTES :: nat where
  "PUBLICKEYBYTES = 32"

definition SECRETKEYBYTES :: nat where
  "SECRETKEYBYTES = 64"

definition KEYBYTES :: nat where
  "KEYBYTES = 32"

datatype hs_error =
    PkLength | BoxDecryptionFailure | InvalidSecretKeyLength | InvalidSignKeyLength
  | InvalidMessageFormat | NoPublicKey | SignatureMismatch | BadIdPk | WrongPublicLength
  | ResetByPeer | Timeout | SendFailed | RecvFailed | InvalidRsKey | InvalidKeyExchange

definition Encrypt_decode :: "crypto \<Rightarrow> bytes \<Rightarrow> bytes \<Rightarrow> bytes \<Rightarrow> hs_error + bytes" where
  "Encrypt_decode cr symmetric_data their_pk_b our_sk_b =
     (if length their_pk_b \<noteq> PUBLICKEYBYTES then Inl PkLength
      else
        case box_open cr symmetric_data (replicate NONCEBYTES 0) their_pk_b our_sk_b of
          None \<Rightarrow> Inl BoxDecryptionFailure
        | Some symmetric_key \<Rightarrow>
            if length symmetric_key \<noteq> KEYBYTES then Inl InvalidSecretKeyLength
            else Inr symmetric_key)"

text \<open>The messages of the handshake; \<open>EmptyMsg\<close> is \<open>Message::new()\<close>.\<close>

datatype hs_msg = SignedId bytes | PublicKey bytes bytes | EmptyMsg | OtherMsg

text \<open>What a timed receive yields, once the message parser has been applied to the bytes.\<close>

datatype recv = RecvTimeout | RecvClosed | RecvErr | RecvUnparsed | RecvMsg hs_msg

text \<open>
  Outcome of a handshake side: the messages sent, the symmetric key set on the stream (if any)
  and whether the stored key confirmation is reset.
\<close>

record hs_out =
  hs_sent :: "hs_msg list"
  hs_key :: "bytes option"
  hs_unconfirm :: bool

definition server_handshake ::
  "crypto \<Rightarrow> bool \<Rightarrow> bytes \<Rightarrow> bytes \<Rightarrow> string \<Rightarrow> (bytes \<times> bytes) \<Rightarrow> bool \<Rightarrow> recv \<Rightarrow> hs_error + hs_out" where
  "server_handshake cr secure sk pk my_id our_box send_ok reply =
     (if secure \<and> length pk = PUBLICKEYBYTES \<and> length sk = SECRETKEYBYTES then
        let (our_pk_b, our_sk_b) = our_box;
            msg_out = SignedId (sign_sign cr (idpk_write cr (my_id, our_pk_b)) sk) in
        if \<not> send_ok then Inl SendFailed
        else
          case reply of
            RecvTimeout \<Rightarrow> Inl Timeout
          | RecvClosed \<Rightarrow> Inl NoPublicKey
          | RecvErr \<Rightarrow> Inl RecvFailed
          | RecvUnparsed \<Rightarrow> Inl InvalidMessageFormat
          | RecvMsg (PublicKey asymmetric_value symmetric_value) \<Rightarrow>
              if length asymmetric_value = PUBLICKEYBYTES then
                (case Encrypt_decode cr symmetric_value asymmetric_value our_sk_b of
                   Inl e \<Rightarrow> Inl e
                 | Inr key \<Rightarrow> Inr \<lparr>hs_sent = [msg_out], hs_key = Some key, hs_unconfirm = False\<rparr>)
              else if asymmetric_value = [] then
                Inr \<lparr>hs_sent = [msg_out], hs_key = None, hs_unconfirm = True\<rparr>
              else Inl InvalidSignKeyLength
          | RecvMsg _ \<Rightarrow> Inr \<lparr>hs_sent = [msg_out], hs_key = None, hs_unconfirm = False\<rparr>
      else Inr \<lparr>hs_sent = [], hs_key = None, hs_unconfirm = False\<rparr>)"

definition get_pk :: "bytes \<Rightarrow> bytes option" where
  "get_pk pk = (if length pk = 32 then Some pk else None)"

definition get_rs_pk :: "crypto \<Rightarrow> string \<Rightarrow> bytes option" where
  "get_rs_pk cr str_base64 =
     (case decode64 cr str_base64 of Some pk \<Rightarrow> get_pk pk | None \<Rightarrow> None)"

definition decode_id_pk :: "crypto \<Rightarrow> bytes \<Rightarrow> bytes \<Rightarrow> hs_error + (string \<times> bytes)" where
  "decode_id_pk cr signed_data key =
     (case sign_verify cr signed_data key of
        None \<Rightarrow> Inl SignatureMismatch
      | Some m \<Rightarrow>
          (case idpk_parse cr m of
             None \<Rightarrow> Inl BadIdPk
           | Some (i, pk) \<Rightarrow>
               (case get_pk pk of Some pk' \<Rightarrow> Inr (i, pk') | None \<Rightarrow> Inl WrongPublicLength)))"

text \<open>
  \<open>create_symmetric_key_msg\<close>: the fresh box key pair and the fresh symmetric key are arguments.
\<close>

definition create_symmetric_key_msg ::
  "crypto \<Rightarrow> (bytes \<times> bytes) \<Rightarrow> bytes \<Rightarrow> bytes \<Rightarrow> bytes \<times> bytes \<times> bytes" where
  "create_symmetric_key_msg cr our_box key their_pk_b =
     (let (our_pk_b, our_sk_b) = our_box;
          sealed_key = box_seal cr key (replicate NONCEBYTES 0) their_pk_b our_sk_b in
      (our_pk_b, sealed_key, key))"

text \<open>
  \<open>secure_connection\<close>: the second component is the peer's signing key, returned when the
  rendezvous server vouched for it (\<open>option_pk\<close>).
\<close>

definition client_handshake ::
  "crypto \<Rightarrow> string \<Rightarrow> string \<Rightarrow> bytes \<Rightarrow> string \<Rightarrow> (bytes \<times> bytes) \<Rightarrow> bytes \<Rightarrow> bool \<Rightarrow> recv \<Rightarrow>
   hs_error + (hs_out \<times> bytes option)" where
  "client_handshake cr rs_pub_key peer_id signed_id_pk key our_box sym_key send_ok reply =
     (let rs_pk = get_rs_pk cr (if key = [] then rs_pub_key else key);
          sign_pk =
            (if signed_id_pk \<noteq> [] then
               (case rs_pk of
                  Some rs \<Rightarrow>
                    (case decode_id_pk cr signed_id_pk rs of
                       Inr (i, pk) \<Rightarrow> if i = peer_id then Some pk else None
                     | Inl _ \<Rightarrow> None)
                | None \<Rightarrow> None)
             else None);
          plain = (\<lambda>m. if send_ok
                       then Inr (\<lparr>hs_sent = [m], hs_key = None, hs_unconfirm = False\<rparr>, sign_pk)
                       else Inl SendFailed) in
      case sign_pk of
        None \<Rightarrow> plain EmptyMsg
      | Some spk \<Rightarrow>
          (case reply of
             RecvTimeout \<Rightarrow> Inl Timeout
           | RecvClosed \<Rightarrow> Inl ResetByPeer
           | RecvErr \<Rightarrow> Inl RecvFailed
           | RecvUnparsed \<Rightarrow> plain EmptyMsg
           | RecvMsg (SignedId si) \<Rightarrow>
               (case decode_id_pk cr si spk of
                  Inl _ \<Rightarrow> plain (PublicKey [] [])
                | Inr (i, their_pk_b) \<Rightarrow>
                    if i = peer_id then
                      (let (asymmetric_value, symmetric_value, k) =
                             create_symmetric_key_msg cr our_box sym_key their_pk_b in
                       if send_ok then
                         Inr (\<lparr>hs_sent = [PublicKey asymmetric_value symmetric_value],
                               hs_key = Some k, hs_unconfirm = False\<rparr>, Some spk)
                       else Inl SendFailed)
                    else plain EmptyMsg)
           | RecvMsg _ \<Rightarrow> plain EmptyMsg))"

text \<open>\<open>secure_tcp_impl\<close>: the reply is a \<open>KeyExchange\<close> (its keys), another message, or nothing usable.\<close>

datatype ex_recv = ExTimeout | ExKeys "bytes list" | ExOther

definition secure_tcp_impl ::
  "crypto \<Rightarrow> bool \<Rightarrow> string \<Rightarrow> (bytes \<times> bytes) \<Rightarrow> bytes \<Rightarrow> bool \<Rightarrow> ex_recv \<Rightarrow>
   hs_error + (bytes list list \<times> bytes option)" where
  "secure_tcp_impl cr use_ws key our_box sym_key send_ok reply =
     (if use_ws then Inr ([], None)
      else
        case get_rs_pk cr key of
          None \<Rightarrow> Inl InvalidRsKey
        | Some rs_pk \<Rightarrow>
            (case reply of
               ExTimeout \<Rightarrow> Inl Timeout
             | ExOther \<Rightarrow> Inr ([], None)
             | ExKeys keys \<Rightarrow>
                 (case keys of
                    [k0] \<Rightarrow>
                      (case sign_verify cr k0 rs_pk of
                         None \<Rightarrow> Inl SignatureMismatch
                       | Some their_pk_b \<Rightarrow>
                           (case get_pk their_pk_b of
                              None \<Rightarrow> Inl WrongPublicLength
                            | Some their_pk \<Rightarrow>
                                let (a, s, k) = create_symmetric_key_msg cr our_box sym_key their_pk in
                                if send_ok then Inr ([[a, s]], Some k) else Inl SendFailed))
                  | _ \<Rightarrow> Inl InvalidKeyExchange)))"

section \<open>Properties of the stream\<close>

lemma length_get_nonce [simp]: "length (get_nonce n) = NONCEBYTES"
  by (simp add: get_nonce_def NONCEBYTES_def)

lemma get_nonce_inject [simp]: "get_nonce a = get_nonce b \<longleftrightarrow> a = b"
proof
  assume "get_nonce a = get_nonce b"
  then have "to_le 8 (unat a) = to_le 8 (unat b)"
    by (simp add: get_nonce_def)
  then have "from_le (to_le 8 (unat a)) = from_le (to_le 8 (unat b))"
    by simp
  moreover have "unat x < 256 ^ 8" for x :: u64
    using unsigned_less [of x] by simp
  ultimately show "a = b"
    by (metis from_le_to_le unsigned_word_eqI)
qed simp

text \<open>A sender stream with key \<open>k\<close> that has sent \<open>i\<close> messages, a receiver that has opened \<open>j\<close>.\<close>

definition keyed :: "bytes \<Rightarrow> nat \<Rightarrow> nat \<Rightarrow> FramedStream \<Rightarrow> bool" where
  "keyed k i j s \<longleftrightarrow>
     fs_codec s = codec_new \<and>
     fs_encrypt s = Some \<lparr>enc_key = k, enc_seq = word_of_nat i, dec_seq = word_of_nat j\<rparr>"

lemma keyed_set_key [simp]: "keyed k 0 0 (stream_set_key k stream_from)"
  by (simp add: keyed_def stream_set_key_def stream_from_def Encrypt_new_def)

lemma send_raw_keyed:
  assumes "keyed k i j s"
  shows "fst (send_raw cr s m) =
      encode codec_new (secretbox_seal cr m (get_nonce (word_of_nat (Suc i))) k) []"
    and "keyed k (Suc i) j (snd (send_raw cr s m))"
  using assms by (auto simp: keyed_def send_raw_def Encrypt_enc_def Let_def add.commute)

lemma send_all_keyed:
  assumes "keyed k i j s"
  shows "fst (send_all cr s ms) =
      map (\<lambda>(n, m). encode codec_new (secretbox_seal cr m (get_nonce (word_of_nat (Suc n))) k) [])
        (enumerate i ms)"
  using assms
proof (induction ms arbitrary: i s)
  case (Cons m ms)
  from Cons.IH [OF send_raw_keyed(2) [OF Cons.prems]] send_raw_keyed(1) [OF Cons.prems]
  show ?case by (simp add: case_prod_beta)
qed simp

lemma stream_next_keyed:
  assumes "keyed k i j s" and "secretbox_correct cr"
  shows "\<exists>s'. stream_next cr s
      (Some (Inr (secretbox_seal cr m (get_nonce (word_of_nat (Suc j))) k))) = (Some (Inr m), s') \<and>
      keyed k i (Suc j) s'"
  using assms
  by (auto simp: keyed_def secretbox_correct_def stream_next_def Encrypt_dec_def Let_def add.commute)

lemma recv_all_keyed:
  assumes "keyed k i j s" and "secretbox_correct cr"
  shows "fst (recv_all cr s
      (map (\<lambda>(n, m). secretbox_seal cr m (get_nonce (word_of_nat (Suc n))) k) (enumerate j ms))) =
      map (\<lambda>m. Some (Inr m)) ms"
  using assms(1)
proof (induction ms arbitrary: j s)
  case (Cons m ms)
  from stream_next_keyed [OF Cons.prems assms(2), of m] obtain s' where s':
    "stream_next cr s (Some (Inr (secretbox_seal cr m (get_nonce (word_of_nat (Suc j))) k))) =
       (Some (Inr m), s')" "keyed k i (Suc j) s'" by blast
  from Cons.IH [OF s'(2)] s'(1) show ?case
    by (simp add: case_prod_beta del: of_nat_Suc)
qed simp

lemma codec_new_upto: "codec_new = codec_upto usize_max"
  by (rule BytesCodec.equality) (simp_all add: codec_new_def)

text \<open>
  C9: Two ends that hold the same fresh key deliver every message: whatever a sender encrypts,
  frames and puts on the wire with \<open>send_raw\<close>, cut by the network into any chunks, the receiver
  decodes and decrypts with \<open>next\<close> to exactly the messages sent, in order.
\<close>

theorem secure_stream_roundtrip:
  assumes "secretbox_correct cr"
    and "\<forall>m \<in> set ms. length m + 16 \<le> 0x3FFFFFFF"
    and "fst (send_all cr (stream_set_key k stream_from) ms) = map Inr ws"
    and "concat cs = concat ws" and "length ms < fuel"
  shows "fst (recv_all cr (stream_set_key k stream_from)
           (fst (feed decode fuel codec_new [] cs))) = map (\<lambda>m. Some (Inr m)) ms"
proof -
  define fs where "fs = map (\<lambda>(n, m). secretbox_seal cr m (get_nonce (word_of_nat (Suc n))) k)
    (enumerate 0 ms)"
  have sent: "map (\<lambda>f. encode codec_new f []) fs = map Inr ws"
    using assms(3) send_all_keyed [OF keyed_set_key, of cr k ms]
    by (simp add: fs_def case_prod_unfold comp_def)
  have small: "length f \<le> 0x3FFFFFFF" if "f \<in> set fs" for f
    using that assms(1,2)
    by (auto simp: fs_def secretbox_correct_def in_set_enumerate_eq)
  have len: "length fs = length ws" using sent by (metis length_map)
  have "list_all2 (\<lambda>f w. length f \<le> usize_max \<and> encode (codec_upto usize_max) f [] = Inr w) fs ws"
  proof (rule list_all2_all_nthI [OF len])
    fix n assume n: "n < length fs"
    then have "encode codec_new (fs ! n) [] = Inr (ws ! n)"
      using sent len by (metis nth_map)
    moreover have "length (fs ! n) \<le> usize_max"
      using small [of "fs ! n"] n by (simp add: usize_max_def)
    ultimately show "length (fs ! n) \<le> usize_max \<and>
        encode (codec_upto usize_max) (fs ! n) [] = Inr (ws ! n)"
      by (simp add: codec_new_upto)
  qed
  moreover have "length fs < fuel"
    using assms(5) by (simp add: fs_def)
  ultimately have "fst (feed decode fuel codec_new [] cs) = fs"
    unfolding codec_new_upto
    by (intro bc.feed_chunks [of usize_max fs ws cs fuel] assms(4))
      (auto simp: wire_def elim: list_all2_mono)
  then show ?thesis
    using recv_all_keyed [OF keyed_set_key assms(1), of k ms] by (simp add: fs_def)
qed

text \<open>
  A concrete instance of the primitives for evaluating the definitions: the tag of a box is the
  start of its nonce, a signature is the key in front of the message.
\<close>

definition demo_tag :: "bytes \<Rightarrow> bytes" where
  "demo_tag n = take 16 (n @ replicate 16 0)"

fun demo_idpk_parse :: "bytes \<Rightarrow> (string \<times> bytes) option" where
  "demo_idpk_parse (b # bs) =
     (if b = 0 then Some ([], bs)
      else case bs of
        c # cs \<Rightarrow> map_option (\<lambda>(i, pk). (char_of (unat c) # i, pk)) (demo_idpk_parse cs)
      | [] \<Rightarrow> None)"
| "demo_idpk_parse [] = None"

definition demo_bytes :: "string \<Rightarrow> bytes" where
  "demo_bytes s = map (\<lambda>c. word_of_nat (of_char c)) s"

definition demo_crypto :: crypto where
  "demo_crypto =
     \<lparr>secretbox_seal = (\<lambda>m n k. demo_tag n @ m),
      secretbox_open = (\<lambda>b n k. if take 16 b = demo_tag n then Some (drop 16 b) else None),
      box_seal = (\<lambda>m n pk sk. pk @ m),
      box_open = (\<lambda>b n pk sk. if take 32 b = take 32 sk then Some (drop 32 b) else None),
      sign_sign = (\<lambda>m sk. drop 32 sk @ m),
      sign_verify = (\<lambda>b pk. if take 32 b = pk then Some (drop 32 b) else None),
      idpk_write = (\<lambda>(i, pk). concat (map (\<lambda>c. [1, c]) (demo_bytes i)) @ [0] @ pk),
      idpk_parse = demo_idpk_parse,
      decode64 = (\<lambda>s. Some (demo_bytes s))\<rparr>"

lemma length_demo_tag [simp]: "length (demo_tag n) = 16"
  by (simp add: demo_tag_def min_def)

lemma demo_secretbox_correct: "secretbox_correct demo_crypto"
  by (simp add: secretbox_correct_def demo_crypto_def)

theorem secure_stream_roundtrip_witness:
  "fst (recv_all demo_crypto (stream_set_key [9] stream_from)
     (fst (feed decode 3 codec_new []
       [[68] @ demo_tag (get_nonce 1), [7, 72] @ demo_tag (get_nonce 2) @ [8], [6]]))) =
   [Some (Inr [7]), Some (Inr [8, 6])]"
proof -
  have sent: "fst (send_all demo_crypto (stream_set_key [9] stream_from) [[7], [8, 6]]) =
      map Inr [[68] @ demo_tag (get_nonce 1) @ [7], [72] @ demo_tag (get_nonce 2) @ [8, 6]]"
    by (simp add: send_raw_def stream_set_key_def stream_from_def Encrypt_enc_def Encrypt_new_def
        Let_def encode_eq codec_new_def demo_crypto_def header_def header_len_def)
  have small: "\<forall>m \<in> set [[7 :: u8], [8, 6]]. length m + 16 \<le> 0x3FFFFFFF"
    by simp
  have wire: "concat [[68] @ demo_tag (get_nonce 1), [7, 72] @ demo_tag (get_nonce 2) @ [8], [6]] =
    concat [[68] @ demo_tag (get_nonce 1) @ [7], [72] @ demo_tag (get_nonce 2) @ [8, 6]]"
    by simp
  show ?thesis
    using secure_stream_roundtrip [OF demo_secretbox_correct small sent wire, of 3] by simp
qed





section \<open>Properties of the key agreement\<close>

lemma get_pk_Some [simp]: "get_pk pk = Some pk' \<longleftrightarrow> length pk = 32 \<and> pk' = pk"
  by (auto simp: get_pk_def)

lemma get_pk_None [simp]: "get_pk pk = None \<longleftrightarrow> length pk \<noteq> 32"
  by (simp add: get_pk_def)

lemma decode_id_pk_Inr:
  "decode_id_pk cr d key = Inr (i, pk) \<longleftrightarrow>
     (\<exists>m. sign_verify cr d key = Some m \<and> idpk_parse cr m = Some (i, pk) \<and> length pk = 32)"
  by (auto simp: decode_id_pk_def split: option.splits)

text \<open>
  C1: Agreement: when the rendezvous server vouched for the controlled side's signing key and the
  messages are delivered unchanged, the controlling and the controlled side both complete the
  handshake and set the same symmetric key on their streams.
\<close>

theorem handshake_agreement:
  assumes "idpk_correct cr" and "sign_correct cr pk sk" and "sign_correct cr rs_pk rs_sk"
    and "box_correct cr server_box client_box"
    and "length pk = 32" "length sk = 64" "length (fst server_box) = 32" "length (fst client_box) = 32"
    and "length sym_key = 32" and "key \<noteq> []" and "get_rs_pk cr key = Some rs_pk"
    and "signed_id_pk = sign_sign cr (idpk_write cr (peer, pk)) rs_sk" and "signed_id_pk \<noteq> []"
  shows "\<exists>cm sm.
     client_handshake cr rs_default peer signed_id_pk key client_box sym_key True (RecvMsg sm) =
       Inr (\<lparr>hs_sent = [cm], hs_key = Some sym_key, hs_unconfirm = False\<rparr>, Some pk) \<and>
     server_handshake cr True sk pk peer server_box True (RecvMsg cm) =
       Inr \<lparr>hs_sent = [sm], hs_key = Some sym_key, hs_unconfirm = False\<rparr>"
proof -
  let ?sm = "SignedId (sign_sign cr (idpk_write cr (peer, fst server_box)) sk)"
  let ?sealed = "box_seal cr sym_key (replicate NONCEBYTES 0) (fst server_box) (snd client_box)"
  let ?cm = "PublicKey (fst client_box) ?sealed"
  have 1: "decode_id_pk cr signed_id_pk rs_pk = Inr (peer, pk)"
    using assms by (simp add: decode_id_pk_Inr sign_correct_def idpk_correct_def)
  have 2: "decode_id_pk cr (sign_sign cr (idpk_write cr (peer, fst server_box)) sk) pk =
      Inr (peer, fst server_box)"
    using assms by (simp add: decode_id_pk_Inr sign_correct_def idpk_correct_def)
  have 3: "Encrypt_decode cr ?sealed (fst client_box) (snd server_box) = Inr sym_key"
    using assms by (simp add: Encrypt_decode_def box_correct_def PUBLICKEYBYTES_def KEYBYTES_def)
  have "client_handshake cr rs_default peer signed_id_pk key client_box sym_key True (RecvMsg ?sm) =
      Inr (\<lparr>hs_sent = [?cm], hs_key = Some sym_key, hs_unconfirm = False\<rparr>, Some pk)"
    using 1 2 assms(10-13)
    by (simp add: client_handshake_def create_symmetric_key_msg_def case_prod_unfold Let_def)
  moreover have "server_handshake cr True sk pk peer server_box True (RecvMsg ?cm) =
      Inr \<lparr>hs_sent = [?sm], hs_key = Some sym_key, hs_unconfirm = False\<rparr>"
    using 3 assms by (simp add: server_handshake_def PUBLICKEYBYTES_def SECRETKEYBYTES_def
        case_prod_unfold Let_def)
  ultimately show ?thesis by blast
qed

lemma demo_idpk_parse_write:
  "demo_idpk_parse (concat (map (\<lambda>c. [1, c]) (demo_bytes i)) @ [0] @ pk) = Some (i, pk)"
  by (induction i) (auto simp: demo_bytes_def unat_of_nat)

lemma demo_idpk_correct: "idpk_correct demo_crypto"
  using demo_idpk_parse_write by (auto simp: idpk_correct_def demo_crypto_def)

lemma demo_sign_correct: "length pk = 32 \<Longrightarrow> drop 32 sk = pk \<Longrightarrow> sign_correct demo_crypto pk sk"
  by (simp add: sign_correct_def demo_crypto_def)

lemma demo_box_correct: "length pk = 32 \<Longrightarrow> box_correct demo_crypto (pk, pk) b"
  by (simp add: box_correct_def demo_crypto_def)

theorem handshake_agreement_witness:
  "\<exists>cm sm.
     client_handshake demo_crypto [] ''peer-1''
       (sign_sign demo_crypto (idpk_write demo_crypto (''peer-1'', replicate 32 1))
          (replicate 32 0 @ demo_bytes (replicate 32 CHR ''K'')))
       (replicate 32 CHR ''K'') (replicate 32 3, replicate 32 3) (replicate 32 7) True (RecvMsg sm) =
       Inr (\<lparr>hs_sent = [cm], hs_key = Some (replicate 32 7), hs_unconfirm = False\<rparr>,
            Some (replicate 32 1)) \<and>
     server_handshake demo_crypto True (replicate 64 1) (replicate 32 1) ''peer-1''
       (replicate 32 2, replicate 32 2) True (RecvMsg cm) =
       Inr \<lparr>hs_sent = [sm], hs_key = Some (replicate 32 7), hs_unconfirm = False\<rparr>"
proof (rule handshake_agreement [where rs_pk = "demo_bytes (replicate 32 CHR ''K'')"
      and rs_sk = "replicate 32 0 @ demo_bytes (replicate 32 CHR ''K'')"])
  show "sign_correct demo_crypto (replicate 32 1) (replicate 64 1)"
    by (rule demo_sign_correct) (simp_all add: drop_replicate)
  show "sign_correct demo_crypto (demo_bytes (replicate 32 CHR ''K''))
      (replicate 32 0 @ demo_bytes (replicate 32 CHR ''K''))"
    by (rule demo_sign_correct) (simp_all add: demo_bytes_def)
  show "get_rs_pk demo_crypto (replicate 32 CHR ''K'') = Some (demo_bytes (replicate 32 CHR ''K''))"
    by (simp add: get_rs_pk_def demo_crypto_def demo_bytes_def get_pk_def)
qed (simp_all add: demo_idpk_correct demo_box_correct, simp_all add: demo_crypto_def)

text \<open>
  C15: The controlling side sets a key only after verifying both links of the chain: the rendezvous
  server signed the requested peer id together with a signing key, and under that signing key the
  same id was signed together with the box key the symmetric key is sealed to.  Otherwise the
  connection is left unencrypted.
\<close>

theorem client_key_authenticated:
  assumes "client_handshake cr rs_default peer signed_id_pk key our_box sym_key send_ok reply = Inr (out, opk)"
  shows "case hs_key out of
     None \<Rightarrow> hs_sent out \<in> {[EmptyMsg], [PublicKey [] []]}
   | Some k \<Rightarrow> k = sym_key \<and>
       (\<exists>rs_pk m1 pk si m2 box_pk.
          get_rs_pk cr (if key = [] then rs_default else key) = Some rs_pk \<and>
          sign_verify cr signed_id_pk rs_pk = Some m1 \<and> idpk_parse cr m1 = Some (peer, pk) \<and>
          reply = RecvMsg (SignedId si) \<and>
          sign_verify cr si pk = Some m2 \<and> idpk_parse cr m2 = Some (peer, box_pk) \<and>
          hs_sent out = [PublicKey (fst our_box)
            (box_seal cr sym_key (replicate NONCEBYTES 0) box_pk (snd our_box))] \<and> opk = Some pk)"
proof -
  let ?rs = "get_rs_pk cr (if key = [] then rs_default else key)"
  let ?spk = "if signed_id_pk \<noteq> [] then
      (case ?rs of Some rs \<Rightarrow> (case decode_id_pk cr signed_id_pk rs of
         Inr (i, pk) \<Rightarrow> if i = peer then Some pk else None | Inl _ \<Rightarrow> None) | None \<Rightarrow> None) else None"
  show ?thesis
  proof (cases ?spk)
    case None
    with assms show ?thesis
      by (auto simp: client_handshake_def Let_def split: if_splits)
  next
    case (Some pk)
    then obtain rs where rs: "?rs = Some rs" "decode_id_pk cr signed_id_pk rs = Inr (peer, pk)"
      by (auto split: if_splits option.splits sum.splits)
    show ?thesis
    proof (cases "\<exists>si box_pk. reply = RecvMsg (SignedId si) \<and> decode_id_pk cr si pk = Inr (peer, box_pk)")
      case True
      then obtain si box_pk where r: "reply = RecvMsg (SignedId si)" "decode_id_pk cr si pk = Inr (peer, box_pk)"
        by blast
      with assms Some have "send_ok" "out = \<lparr>hs_sent = [PublicKey (fst our_box)
          (box_seal cr sym_key (replicate NONCEBYTES 0) box_pk (snd our_box))],
          hs_key = Some sym_key, hs_unconfirm = False\<rparr>" "opk = Some pk"
        by (auto simp: client_handshake_def create_symmetric_key_msg_def case_prod_unfold Let_def
            split: if_splits)
      with rs r show ?thesis
        by (auto simp: decode_id_pk_Inr)
    next
      case False
      with assms Some show ?thesis
        by (auto simp: client_handshake_def Let_def split: if_splits recv.splits hs_msg.splits sum.splits)
    qed
  qed
qed

theorem client_key_authenticated_witness:
  "\<exists>out opk. client_handshake demo_crypto [] ''p'' [] ''K'' ([1], [1]) [7] True RecvClosed = Inr (out, opk) \<and>
     hs_sent out \<in> {[EmptyMsg], [PublicKey [] []]}"
proof -
  have c: "client_handshake demo_crypto [] ''p'' [] ''K'' ([1], [1]) [7] True RecvClosed =
      Inr (\<lparr>hs_sent = [EmptyMsg], hs_key = None, hs_unconfirm = False\<rparr>, None)"
    by (simp add: client_handshake_def)
  from client_key_authenticated [OF c] c show ?thesis by auto
qed

end
