(* ===== verification/Net_Addr.thy ===== *)
theory Net_Addr
  imports Prelude
begin

text \<open>
  Socket addresses and the address mangling of \<open>libs/hbb_common/src/lib.rs\<close>: \<open>try_into_v4\<close>,
  \<open>AddrMangle::encode\<close> and \<open>AddrMangle::decode\<close>, by which hbbs tells one peer the public address
  of another in a form that NAT devices do not rewrite.

  An IPv4 address is its four octets, an IPv6 address the 128-bit number of its sixteen octets in
  network order.  The \<open>u128\<close> arithmetic of the encoder is on \<open>nat\<close>, with the wrap-around of the
  two subtractions of the decoder written out; a build with overflow checks panics there instead,
  which is the result \<open>None\<close>.
\<close>

section \<open>Addresses\<close>

datatype Ipv4Addr = Ipv4 u8 u8 u8 u8

type_synonym Ipv6Addr = u128

datatype IpAddr = IpV4 Ipv4Addr | IpV6 Ipv6Addr

text \<open>\<open>SocketAddrV6\<close> also carries a flow label and a scope id.\<close>

datatype SocketAddr = V4 Ipv4Addr u16 | V6 Ipv6Addr u16 u32 u32

fun addr_ip :: "SocketAddr \<Rightarrow> IpAddr" where
  "addr_ip (V4 a _) = IpV4 a"
| "addr_ip (V6 a _ _ _) = IpV6 a"

fun addr_port :: "SocketAddr \<Rightarrow> u16" where
  "addr_port (V4 _ p) = p"
| "addr_port (V6 _ p _ _) = p"

fun octets4 :: "Ipv4Addr \<Rightarrow> bytes" where
  "octets4 (Ipv4 a b c d) = [a, b, c, d]"

definition octets6 :: "Ipv6Addr \<Rightarrow> bytes" where
  "octets6 v = rev (to_le 16 (unat v))"

definition from_octets6 :: "bytes \<Rightarrow> Ipv6Addr" where
  "from_octets6 bs = word_of_nat (from_le (rev bs))"

fun is_loopback :: "IpAddr \<Rightarrow> bool" where
  "is_loopback (IpV4 (Ipv4 a _ _ _)) = (a = 127)"
| "is_loopback (IpV6 v) = (v = 1)"

text \<open>\<open>Ipv6Addr::to_ipv4\<close>: IPv4-compatible (\<open>::a.b.c.d\<close>) and IPv4-mapped (\<open>::ffff:a.b.c.d\<close>) addresses.\<close>

definition to_ipv4 :: "Ipv6Addr \<Rightarrow> Ipv4Addr option" where
  "to_ipv4 v =
     (let hi = unat v div 2 ^ 32 in
      if hi = 0 \<or> hi = 0xFFFF then
        (case drop 12 (octets6 v) of
           [a, b, c, d] \<Rightarrow> Some (Ipv4 a b c d)
         | _ \<Rightarrow> None)
      else None)"

definition try_into_v4 :: "SocketAddr \<Rightarrow> SocketAddr" where
  "try_into_v4 addr =
     (case addr of
        V6 ip port flow scope \<Rightarrow>
          if \<not> is_loopback (addr_ip addr) then
            (case to_ipv4 ip of Some v4 \<Rightarrow> V4 v4 port | None \<Rightarrow> addr)
          else addr
      | V4 _ _ \<Rightarrow> addr)"

section \<open>Display of IP addresses\<close>

text \<open>
  \<open>IpAddr::to_string\<close>: dotted decimal for IPv4; for IPv6 the eight segments in hexadecimal with the
  first longest run of at least two zero segments compressed, and IPv4-mapped addresses in mixed
  notation.
\<close>

definition digit_char :: "nat \<Rightarrow> char" where
  "digit_char d = (if d < 10 then char_of (48 + d) else char_of (87 + d))"

fun nat_to_base :: "nat \<Rightarrow> nat \<Rightarrow> string" where
  "nat_to_base b n =
     (if b < 2 then [] else if n < b then [digit_char n]
      else nat_to_base b (n div b) @ [digit_char (n mod b)])"

declare nat_to_base.simps [simp del]

definition nat_to_string :: "nat \<Rightarrow> string" where
  "nat_to_string n = nat_to_base 10 n"

fun ipv4_to_string :: "Ipv4Addr \<Rightarrow> string" where
  "ipv4_to_string (Ipv4 a b c d) =
     nat_to_string (unat a) @ ''.'' @ nat_to_string (unat b) @ ''.'' @
     nat_to_string (unat c) @ ''.'' @ nat_to_string (unat d)"

fun intercalate :: "string \<Rightarrow> string list \<Rightarrow> string" where
  "intercalate sep [] = []"
| "intercalate sep [x] = x"
| "intercalate sep (x # y # xs) = x @ sep @ intercalate sep (y # xs)"

fun pair_up :: "bytes \<Rightarrow> nat list" where
  "pair_up (h # l # bs) = (unat h * 256 + unat l) # pair_up bs"
| "pair_up _ = []"

definition segments :: "Ipv6Addr \<Rightarrow> nat list" where
  "segments v = pair_up (octets6 v)"

text \<open>State of the scan for the longest zero run: index, current run, longest run (start, length).\<close>

fun zero_scan :: "nat \<Rightarrow> nat \<times> nat \<Rightarrow> nat \<times> nat \<Rightarrow> nat list \<Rightarrow> nat \<times> nat" where
  "zero_scan i cur longest [] = longest"
| "zero_scan i (cs, cl) (ls, ll) (s # ss) =
     (if s = 0 then
        let cs' = (if cl = 0 then i else cs); cl' = cl + 1 in
        zero_scan (Suc i) (cs', cl') (if cl' > ll then (cs', cl') else (ls, ll)) ss
      else zero_scan (Suc i) (0, 0) (ls, ll) ss)"

definition fmt_subslice :: "nat list \<Rightarrow> string" where
  "fmt_subslice ss = intercalate '':'' (map (nat_to_base 16) ss)"

definition ipv6_to_string :: "Ipv6Addr \<Rightarrow> string" where
  "ipv6_to_string v =
     (let ss = segments v in
      if take 6 ss = [0, 0, 0, 0, 0, 0xFFFF] then
        (case drop 12 (octets6 v) of
           [a, b, c, d] \<Rightarrow> ''::ffff:'' @ ipv4_to_string (Ipv4 a b c d)
         | _ \<Rightarrow> [])
      else
        let (st, len) = zero_scan 0 (0, 0) (0, 0) ss in
        if len > 1 then fmt_subslice (take st ss) @ ''::'' @ fmt_subslice (drop (st + len) ss)
        else fmt_subslice ss)"

fun ip_to_string :: "IpAddr \<Rightarrow> string" where
  "ip_to_string (IpV4 a) = ipv4_to_string a"
| "ip_to_string (IpV6 v) = ipv6_to_string v"

section \<open>AddrMangle\<close>

text \<open>\<open>tm\<close> is the low 32 bits of the current time in microseconds.\<close>

definition AddrMangle_encode :: "u32 \<Rightarrow> SocketAddr \<Rightarrow> bytes" where
  "AddrMangle_encode tm32 addr0 =
     (case try_into_v4 addr0 of
        V4 ip4 port16 \<Rightarrow>
          (let tm = unat tm32;
               ip = from_le (octets4 ip4);
               port = unat port16;
               v = (push_bit 49 (ip + tm) OR push_bit 17 tm) OR (port + (tm AND 0xFFFF));
               bs = to_le 16 v;
               n_padding = length (takeWhile (\<lambda>i. i = 0) (rev bs)) in
           take (16 - n_padding) bs)
      | V6 ip6 port16 _ _ \<Rightarrow> octets6 ip6 @ to_le 2 (unat port16))"

definition sub_u128 :: "bool \<Rightarrow> nat \<Rightarrow> nat \<Rightarrow> nat option" where
  "sub_u128 overflow_checks a b =
     (if b \<le> a then Some (a - b)
      else if overflow_checks then None
      else Some (a + 2 ^ 128 - b))"

definition any_listen_addr_v6 :: SocketAddr where
  "any_listen_addr_v6 = V6 0 0 0 0"

definition AddrMangle_decode :: "bool \<Rightarrow> bytes \<Rightarrow> SocketAddr option" where
  "AddrMangle_decode overflow_checks bs =
     (if length bs > 16 then
        (if length bs \<noteq> 18 then Some any_listen_addr_v6
         else Some (V6 (from_octets6 (take 16 bs)) (word_of_nat (from_le (drop 16 bs))) 0 0))
      else
        let number = from_le (bs @ replicate (16 - length bs) 0);
            tm = drop_bit 17 number AND 0xFFFFFFFF in
        case sub_u128 overflow_checks (drop_bit 49 number) tm of
          None \<Rightarrow> None
        | Some hi \<Rightarrow>
            (case sub_u128 overflow_checks (number AND 0xFFFFFF) (tm AND 0xFFFF) of
               None \<Rightarrow> None
             | Some port \<Rightarrow>
                 (case to_le 4 (hi mod 2 ^ 32) of
                    [a, b, c, d] \<Rightarrow> Some (V4 (Ipv4 a b c d) (word_of_nat port))
                  | _ \<Rightarrow> None)))"

section \<open>Lemmas\<close>

lemma and_mask_mod: "(x :: nat) AND 0xFFFF = x mod 2 ^ 16" "(x :: nat) AND 0xFFFFFF = x mod 2 ^ 24"
  "(x :: nat) AND 0xFFFFFFFF = x mod 2 ^ 32"
proof -
  have "mask 16 = (0xFFFF :: nat)" "mask 24 = (0xFFFFFF :: nat)" "mask 32 = (0xFFFFFFFF :: nat)"
    by (simp_all add: mask_eq_exp_minus_1)
  then show "x AND 0xFFFF = x mod 2 ^ 16" "x AND 0xFFFFFF = x mod 2 ^ 24"
    "x AND 0xFFFFFFFF = x mod 2 ^ 32"
    by (metis take_bit_eq_mask take_bit_eq_mod)+
qed

lemma mangled_value:
  fixes ip tm port :: nat
  assumes "tm < 2 ^ 32" and "port < 2 ^ 16"
  shows "(push_bit 49 (ip + tm) OR push_bit 17 tm) OR (port + (tm AND 0xFFFF)) =
     (ip + tm) * 2 ^ 49 + tm * 2 ^ 17 + (port + tm mod 2 ^ 16)"
proof -
  have "tm * 2 ^ 17 < 2 ^ 49" using assms(1) by simp
  then have 1: "push_bit 49 (ip + tm) OR push_bit 17 tm = (ip + tm) * 2 ^ 49 + tm * 2 ^ 17"
    using or_shift_eq_add [of "tm * 2 ^ 17" 49 "ip + tm"]
    by (simp only: push_bit_eq_mult or.commute add.commute)
  have low: "port + tm mod 2 ^ 16 < 2 ^ 17"
    using assms(2) mod_less_divisor [of "2 ^ 16" tm] by simp
  have "(ip + tm) * 2 ^ 49 + tm * 2 ^ 17 = ((ip + tm) * 2 ^ 32 + tm) * 2 ^ 17"
    by (simp add: algebra_simps)
  then show ?thesis
    using or_shift_eq_add [OF low, of "(ip + tm) * 2 ^ 32 + tm"] 1
    by (simp only: and_mask_mod or.commute add.commute)
qed

lemma take_strip_zeros:
  "let n = length (takeWhile (\<lambda>i. i = 0) (rev (bs :: bytes))) in
   take (length bs - n) bs @ replicate n 0 = bs"
proof -
  let ?p = "\<lambda>i :: u8. i = 0"
  let ?n = "length (takeWhile ?p (rev bs))"
  have z: "takeWhile ?p (rev bs) = replicate ?n 0"
    by (rule replicate_eqI) (auto dest: set_takeWhileD)
  have "rev bs = replicate ?n 0 @ dropWhile ?p (rev bs)"
    using z takeWhile_dropWhile_id [of ?p "rev bs"] by simp
  then have "bs = rev (dropWhile ?p (rev bs)) @ replicate ?n 0"
    by (metis rev_append rev_replicate rev_rev_ident)
  then show ?thesis
    unfolding Let_def by (metis append_eq_conv_conj diff_add_inverse2 length_append length_replicate)
qed

lemma mangled_fields:
  fixes ip tm port :: nat
  assumes "tm < 2 ^ 32" and "port < 2 ^ 16"
  defines "N \<equiv> (ip + tm) * 2 ^ 49 + tm * 2 ^ 17 + (port + tm mod 2 ^ 16)"
  shows "N div 2 ^ 49 = ip + tm" and "N div 2 ^ 17 mod 2 ^ 32 = tm"
    and "N mod 2 ^ 24 = tm mod 128 * 2 ^ 17 + (port + tm mod 2 ^ 16)"
proof -
  let ?L = "port + tm mod 2 ^ 16"
  have L: "?L < 2 ^ 17"
    using assms(2) mod_less_divisor [of "2 ^ 16" tm] by simp
  have N17: "N div 2 ^ 17 = (ip + tm) * 2 ^ 32 + tm"
  proof -
    have "N = ((ip + tm) * 2 ^ 32 + tm) * 2 ^ 17 + ?L"
      by (simp add: N_def algebra_simps)
    with L show ?thesis by (simp only: div_mult_self3 div_less)
  qed
  then show "N div 2 ^ 17 mod 2 ^ 32 = tm"
    using assms(1) by (simp only: mod_mult_self3 mod_less)
  have "N div 2 ^ 49 = N div 2 ^ 17 div 2 ^ 32"
    by (simp flip: div_mult2_eq)
  also have "\<dots> = ip + tm"
    unfolding N17 using assms(1) by (subst div_mult_self3) simp_all
  finally show "N div 2 ^ 49 = ip + tm" .
  have "tm * 2 ^ 17 = (tm div 128 * 128 + tm mod 128) * 2 ^ 17"
    by (simp only: div_mult_mod_eq)
  also have "\<dots> = tm div 128 * 2 ^ 24 + tm mod 128 * 2 ^ 17"
    by (simp only: distrib_right) simp
  finally have "tm * 2 ^ 17 = tm div 128 * 2 ^ 24 + tm mod 128 * 2 ^ 17" .
  then have "N = ((ip + tm) * 2 ^ 25 + tm div 128) * 2 ^ 24 + (tm mod 128 * 2 ^ 17 + ?L)"
    by (simp add: N_def algebra_simps)
  moreover have "tm mod 128 * 2 ^ 17 + ?L < 2 ^ 24"
    using L mod_less_divisor [of 128 tm] by simp
  ultimately show "N mod 2 ^ 24 = tm mod 128 * 2 ^ 17 + ?L"
    by (simp only: mod_mult_self3 mod_less)
qed

lemma from_octets6_octets6 [simp]: "from_octets6 (octets6 v) = v"
proof -
  have "unat v < 256 ^ 16" using unsigned_less [of v] by simp
  then show ?thesis by (simp add: from_octets6_def octets6_def)
qed

lemma length_octets6 [simp]: "length (octets6 v) = 16"
  by (simp add: octets6_def)

lemma decode_mangled_v4:
  assumes "tm < 2 ^ 32" and "port < 2 ^ 16"
    and "number = (ip + tm) * 2 ^ 49 + tm * 2 ^ 17 + (port + tm mod 2 ^ 16)"
    and "ip = from_le [a, b, c, d]"
    and "from_le (bs @ replicate (16 - length bs) 0) = number" and "length bs \<le> 16"
  shows "AddrMangle_decode ch bs = Some (V4 (Ipv4 a b c d) (word_of_nat port))"
proof -
  have ip: "ip < 2 ^ 32"
    using from_le_less [of "[a, b, c, d]"] assms(4) by simp
  have tm: "drop_bit 17 number AND 0xFFFFFFFF = tm"
    using mangled_fields(2) [OF assms(1,2), of ip] assms(3)
    by (simp add: drop_bit_eq_div and_mask_mod)
  have hi: "sub_u128 ch (drop_bit 49 number) tm = Some ip"
    using mangled_fields(1) [OF assms(1,2), of ip] assms(3)
    by (simp add: drop_bit_eq_div sub_u128_def)
  have "number AND 0xFFFFFF = tm mod 128 * 2 ^ 17 + (port + tm mod 2 ^ 16)"
    using mangled_fields(3) [OF assms(1,2), of ip] assms(3)
    by (simp add: and_mask_mod)
  then have lo: "sub_u128 ch (number AND 0xFFFFFF) (tm AND 0xFFFF) = Some (tm mod 128 * 2 ^ 17 + port)"
    by (simp add: sub_u128_def and_mask_mod)
  have port: "(word_of_nat (tm mod 128 * 2 ^ 17 + port) :: u16) = word_of_nat port"
  proof -
    have "(tm mod 128 * 2 ^ 17 + port) mod 2 ^ 16 = port mod 2 ^ 16"
      using mod_mult_self3 [of "tm mod 128 * 2" "2 ^ 16" port] by (simp add: mult.assoc)
    then show ?thesis
      by (simp add: word_unat_eq_iff unat_of_nat del: of_nat_add of_nat_mult)
  qed
  have oct: "to_le 4 (ip mod 2 ^ 32) = [a, b, c, d]"
  proof -
    have "to_le (length [a, b, c, d]) (from_le [a, b, c, d]) = [a, b, c, d]"
      by (rule to_le_from_le)
    moreover have "length [a, b, c, d] = 4" by simp
    ultimately show ?thesis
      using ip assms(4) by (simp only: mod_less)
  qed
  show ?thesis
    using assms(5,6) tm hi lo port oct
    by (simp add: AddrMangle_decode_def Let_def del: of_nat_add of_nat_mult)
qed

definition ipv4_of_le :: "nat \<Rightarrow> Ipv4Addr" where
  "ipv4_of_le x =
     Ipv4 (word_of_nat x) (word_of_nat (x div 256)) (word_of_nat (x div 256 div 256))
       (word_of_nat (x div 256 div 256 div 256))"

lemma decode_short:
  assumes "length bs \<le> 16"
  shows "AddrMangle_decode ch bs =
     (case sub_u128 ch (from_le bs div 2 ^ 49) (from_le bs div 2 ^ 17 mod 2 ^ 32) of
        None \<Rightarrow> None
      | Some hi \<Rightarrow>
          (case sub_u128 ch (from_le bs mod 2 ^ 24) (from_le bs div 2 ^ 17 mod 2 ^ 16) of
             None \<Rightarrow> None
           | Some p \<Rightarrow> Some (V4 (ipv4_of_le (hi mod 2 ^ 32)) (word_of_nat p))))"
proof -
  have num: "from_le (bs @ replicate (16 - length bs) 0) = from_le bs"
    by (simp add: from_le_append)
  have mm: "x mod 2 ^ 32 mod 2 ^ 16 = x mod 2 ^ 16" for x :: nat
    by (rule mod_mod_cancel) simp
  have four: "to_le 4 x = [word_of_nat x, word_of_nat (x div 256), word_of_nat (x div 256 div 256),
      word_of_nat (x div 256 div 256 div 256)]" for x
  proof -
    have "(4 :: nat) = Suc (Suc (Suc (Suc 0)))" by simp
    then show ?thesis by (simp only: to_le.simps)
  qed
  have "\<not> length bs > 16" using assms by simp
  then show ?thesis
    unfolding AddrMangle_decode_def Let_def num drop_bit_eq_div and_mask_mod mm four ipv4_of_le_def
    by (simp only: if_False list.case)
qed

text \<open>What survives the round trip: the flow label and scope id of an IPv6 address are not sent.\<close>

fun strip_scope :: "SocketAddr \<Rightarrow> SocketAddr" where
  "strip_scope (V4 a p) = V4 a p"
| "strip_scope (V6 a p _ _) = V6 a p 0 0"

lemma decode_encode:
  "AddrMangle_decode ch (AddrMangle_encode tm addr) = Some (strip_scope (try_into_v4 addr)) \<and>
   length (AddrMangle_encode tm addr) \<le> 18"
proof (cases "try_into_v4 addr")
  case (V6 ip port fl sc)
  have "unat port < 256 ^ 2" using unsigned_less [of port] by simp
  then show ?thesis using V6
    by (simp add: AddrMangle_encode_def AddrMangle_decode_def)
next
  case (V4 ip4 port)
  obtain a b c d where ip4: "ip4 = Ipv4 a b c d" by (cases ip4)
  let ?ip = "from_le (octets4 ip4)"
  let ?v = "(?ip + unat tm) * 2 ^ 49 + unat tm * 2 ^ 17 + (unat port + unat tm mod 2 ^ 16)"
  let ?bs = "to_le 16 ?v"
  let ?n = "length (takeWhile (\<lambda>i. i = 0) (rev ?bs))"
  have tm: "unat tm < 2 ^ 32" and pt: "unat port < 2 ^ 16"
    using unsigned_less [of tm] unsigned_less [of port] by simp_all
  have enc: "AddrMangle_encode tm addr = take (16 - ?n) ?bs"
    using V4 mangled_value [OF tm pt, of ?ip] by (simp add: AddrMangle_encode_def Let_def)
  have n16: "?n \<le> 16"
    by (metis length_rev length_takeWhile_le length_to_le)
  have pad: "take (16 - ?n) ?bs @ replicate (16 - length (take (16 - ?n) ?bs)) 0 = ?bs"
    using take_strip_zeros [of ?bs] n16 by (simp add: Let_def)
  have "?ip < 2 ^ 32"
    using from_le_less [of "octets4 ip4"] ip4 by simp
  then have "?v < 256 ^ 16"
    using tm pt mod_less_divisor [of "2 ^ 16" "unat tm"] by simp
  then have "from_le (take (16 - ?n) ?bs @ replicate (16 - length (take (16 - ?n) ?bs)) 0) = ?v"
    unfolding pad by (rule from_le_to_le)
  from decode_mangled_v4 [OF tm pt refl _ this, of a b c d ch] ip4 enc V4 show ?thesis
    by simp
qed

lemma decode_release_total: "AddrMangle_decode False bs \<noteq> None"
proof (cases "length bs \<le> 16")
  case True
  then show ?thesis by (simp add: decode_short sub_u128_def)
qed (simp add: AddrMangle_decode_def)

section \<open>Properties\<close>


text \<open>
  On arbitrary bytes (they come from the network) the decoder always yields an address when
  overflow checks are off; with overflow checks it panics exactly on the byte strings of at most
  16 bytes whose time stamp field exceeds one of the two numbers it is subtracted from, and such
  strings exist.
\<close>

theorem addr_mangle_decode_total:
  "AddrMangle_decode False bs \<noteq> None \<and>
   (AddrMangle_decode True bs = None \<longleftrightarrow>
      length bs \<le> 16 \<and>
      (from_le bs div 2 ^ 49 < from_le bs div 2 ^ 17 mod 2 ^ 32 \<or>
       from_le bs mod 2 ^ 24 < from_le bs div 2 ^ 17 mod 2 ^ 16)) \<and>
   AddrMangle_decode True [0, 0, 0, 0, 1] = None"
proof -
  note decode_release_total
  moreover have "AddrMangle_decode True bs = None \<longleftrightarrow>
      length bs \<le> 16 \<and>
      (from_le bs div 2 ^ 49 < from_le bs div 2 ^ 17 mod 2 ^ 32 \<or>
       from_le bs mod 2 ^ 24 < from_le bs div 2 ^ 17 mod 2 ^ 16)"
  proof (cases "length bs \<le> 16")
    case True
    then show ?thesis
      by (simp add: decode_short sub_u128_def not_le del: power_numeral)
  qed (simp add: AddrMangle_decode_def)
  moreover have "AddrMangle_decode True [0, 0, 0, 0, 1] = None"
    by (simp add: decode_short sub_u128_def)
  ultimately show ?thesis by blast
qed

end
