(* ===== verification/Peer_Map.thy ===== *)
theory Peer_Map
  imports Net_Addr
begin

text \<open>
  The peer registry of the rendezvous server: the \<open>peer\<close> table of \<open>server/src/database.rs\<close> and the
  in-memory cache in front of it, \<open>PeerMap\<close> of \<open>server/src/peer.rs\<close>.

  A \<open>LockPeer\<close> handle of the code is a shared reference into the cache, whose entries are never
  removed; the model names it by the peer id.  SQLite may fail on any statement: each database
  operation takes a flag \<open>fail\<close>.  The JSON serialiser of \<open>PeerInfo\<close> is third-party code, the record
  \<open>json\<close>.
\<close>

section \<open>The database\<close>

record db_row =
  row_guid :: bytes
  row_id :: string
  row_uuid :: bytes
  row_pk :: bytes
  row_info :: string

type_synonym db = "db_row list"

definition db_get_peer :: "bool \<Rightarrow> db \<Rightarrow> string \<Rightarrow> unit + db_row option" where
  "db_get_peer fail db peer_id =
     (if fail then Inl () else Inr (find (\<lambda>r. row_id r = peer_id) db))"

text \<open>\<open>guid\<close> is the fresh random UUID; the primary key and the unique index on \<open>id\<close> refuse duplicates.\<close>

definition db_insert_peer ::
  "bool \<Rightarrow> bytes \<Rightarrow> db \<Rightarrow> string \<Rightarrow> bytes \<Rightarrow> bytes \<Rightarrow> string \<Rightarrow> (unit + bytes) \<times> db" where
  "db_insert_peer fail guid db peer_id uuid pk info =
     (if fail \<or> (\<exists>r \<in> set db. row_guid r = guid \<or> row_id r = peer_id) then (Inl (), db)
      else (Inr guid,
            db @ [\<lparr>row_guid = guid, row_id = peer_id, row_uuid = uuid, row_pk = pk, row_info = info\<rparr>]))"

definition db_update_pk ::
  "bool \<Rightarrow> db \<Rightarrow> bytes \<Rightarrow> string \<Rightarrow> bytes \<Rightarrow> string \<Rightarrow> (unit + unit) \<times> db" where
  "db_update_pk fail db guid peer_id pk info =
     (if fail \<or> ((\<exists>r \<in> set db. row_guid r = guid) \<and>
                 (\<exists>r \<in> set db. row_guid r \<noteq> guid \<and> row_id r = peer_id)) then (Inl (), db)
      else (Inr (),
            map (\<lambda>r. if row_guid r = guid then r\<lparr>row_id := peer_id, row_pk := pk, row_info := info\<rparr> else r) db))"

section \<open>Peers and the cache\<close>

record json =
  info_to_string :: "string \<Rightarrow> string"
  info_from_str :: "string \<Rightarrow> string option"

definition json_correct :: "json \<Rightarrow> bool" where
  "json_correct js \<longleftrightarrow> (\<forall>ip. info_from_str js (info_to_string js ip) = Some ip)"

definition get_expired_time :: "instant \<Rightarrow> instant" where
  "get_expired_time now = (if 3600 * 1000000000 \<le> now then now - 3600 * 1000000000 else now)"

record Peer =
  p_socket_addr :: SocketAddr
  p_last_reg_time :: instant
  p_guid :: bytes
  p_uuid :: bytes
  p_pk :: bytes
  p_info_ip :: string
  p_reg_pk :: "nat \<times> instant"

definition Peer_default :: "instant \<Rightarrow> Peer" where
  "Peer_default now =
     \<lparr>p_socket_addr = V4 (Ipv4 0 0 0 0) 0, p_last_reg_time = get_expired_time now, p_guid = [], p_uuid = [],
      p_pk = [], p_info_ip = [], p_reg_pk = (0, get_expired_time now)\<rparr>"

record PeerMap =
  pm_map :: "string \<rightharpoonup> Peer"
  pm_db :: db

datatype rk_result = RK_OK | UUID_MISMATCH | ID_EXISTS | TOO_FREQUENT | INVALID_ID_FORMAT | NOT_SUPPORT
  | SERVER_ERROR | NOT_DEPLOYED

text \<open>Writing through the handle of an entry of the cache.\<close>

definition pm_write :: "string \<Rightarrow> (Peer \<Rightarrow> Peer) \<Rightarrow> PeerMap \<Rightarrow> PeerMap" where
  "pm_write peer_id f pm = pm\<lparr>pm_map := (pm_map pm)(peer_id := map_option f (pm_map pm peer_id))\<rparr>"

definition get_in_memory :: "PeerMap \<Rightarrow> string \<Rightarrow> Peer option" where
  "get_in_memory pm peer_id = pm_map pm peer_id"

definition is_in_memory :: "PeerMap \<Rightarrow> string \<Rightarrow> bool" where
  "is_in_memory pm peer_id \<longleftrightarrow> pm_map pm peer_id \<noteq> None"

definition peer_of_row :: "json \<Rightarrow> instant \<Rightarrow> db_row \<Rightarrow> Peer" where
  "peer_of_row js now v =
     (Peer_default now)\<lparr>p_guid := row_guid v, p_uuid := row_uuid v, p_pk := row_pk v,
        p_info_ip := (case info_from_str js (row_info v) of Some ip \<Rightarrow> ip | None \<Rightarrow> [])\<rparr>"

definition pm_get :: "json \<Rightarrow> bool \<Rightarrow> instant \<Rightarrow> PeerMap \<Rightarrow> string \<Rightarrow> Peer option \<times> PeerMap" where
  "pm_get js fail now pm peer_id =
     (case pm_map pm peer_id of
        Some p \<Rightarrow> (Some p, pm)
      | None \<Rightarrow>
          (case db_get_peer fail (pm_db pm) peer_id of
             Inr (Some v) \<Rightarrow>
               let peer = peer_of_row js now v in
               (Some peer, pm\<lparr>pm_map := (pm_map pm)(peer_id \<mapsto> peer)\<rparr>)
           | _ \<Rightarrow> (None, pm)))"

definition pm_get_or :: "json \<Rightarrow> bool \<Rightarrow> instant \<Rightarrow> PeerMap \<Rightarrow> string \<Rightarrow> Peer \<times> PeerMap" where
  "pm_get_or js fail now pm peer_id =
     (case pm_get js fail now pm peer_id of
        (Some p, pm') \<Rightarrow> (p, pm')
      | (None, pm') \<Rightarrow>
          (case pm_map pm' peer_id of
             Some p \<Rightarrow> (p, pm')
           | None \<Rightarrow>
               let tmp = Peer_default now in
               (tmp, pm'\<lparr>pm_map := (pm_map pm')(peer_id \<mapsto> tmp)\<rparr>)))"

text \<open>
  \<open>update_pk\<close> through the handle of \<open>peer_id\<close>; \<open>fresh\<close> is the UUID a database insertion would draw.
  The handle is always an entry of the cache; the first case only makes the function total.
\<close>

definition pm_update_pk ::
  "json \<Rightarrow> bool \<Rightarrow> bytes \<Rightarrow> instant \<Rightarrow> PeerMap \<Rightarrow> string \<Rightarrow> SocketAddr \<Rightarrow> bytes \<Rightarrow> bytes \<Rightarrow> string \<Rightarrow>
   rk_result \<times> PeerMap" where
  "pm_update_pk js fail fresh now pm peer_id addr uuid' pk' ip =
     (case pm_map pm peer_id of
        None \<Rightarrow> (SERVER_ERROR, pm)
      | Some p \<Rightarrow>
          let pm1 = pm_write peer_id (\<lambda>w. w\<lparr>p_socket_addr := addr, p_uuid := uuid', p_pk := pk',
                      p_last_reg_time := now, p_info_ip := ip\<rparr>) pm;
              info_str = info_to_string js ip in
          if p_guid p = [] then
            (case db_insert_peer fail fresh (pm_db pm1) peer_id uuid' pk' info_str of
               (Inl _, db') \<Rightarrow> (SERVER_ERROR, pm1\<lparr>pm_db := db'\<rparr>)
             | (Inr g, db') \<Rightarrow> (RK_OK, pm_write peer_id (\<lambda>w. w\<lparr>p_guid := g\<rparr>) (pm1\<lparr>pm_db := db'\<rparr>)))
          else
            (case db_update_pk fail (pm_db pm1) (p_guid p) peer_id pk' info_str of
               (Inl _, db') \<Rightarrow> (SERVER_ERROR, pm1\<lparr>pm_db := db'\<rparr>)
             | (Inr _, db') \<Rightarrow> (RK_OK, pm1\<lparr>pm_db := db'\<rparr>)))"

text \<open>A restart of the server keeps the database and loses the cache.\<close>

definition pm_restart :: "PeerMap \<Rightarrow> PeerMap" where
  "pm_restart pm = pm\<lparr>pm_map := Map.empty\<rparr>"

section \<open>The cache as an interface\<close>

text \<open>What the request handlers rely on when they look peers up.\<close>

locale peer_cache =
  fixes mem :: "'pm \<Rightarrow> string \<Rightarrow> Peer option"
    and get :: "'pm \<Rightarrow> string \<Rightarrow> Peer option \<times> 'pm"
    and get_or :: "'pm \<Rightarrow> string \<Rightarrow> Peer \<times> 'pm"
  assumes get_hit: "mem pm i = Some p \<Longrightarrow> get pm i = (Some p, pm)"
    and get_stores: "get pm i = (r, pm') \<Longrightarrow> mem pm' i = r"
    and get_frame: "i' \<noteq> i \<Longrightarrow> mem (snd (get pm i)) i' = mem pm i'"
    and get_or_found: "get pm i = (Some p, pm') \<Longrightarrow> get_or pm i = (p, pm')"
    and get_or_stores: "get_or pm i = (p, pm') \<Longrightarrow> mem pm' i = Some p"
    and get_or_frame: "i' \<noteq> i \<Longrightarrow> mem (snd (get_or pm i)) i' = mem pm i'"
begin

lemma get_twice: "get (snd (get pm i)) i = (fst (get pm i), snd (get pm i)) \<or> fst (get pm i) = None"
  by (cases "get pm i"; cases "fst (get pm i)") (auto dest: get_stores intro: get_hit)

lemma get_after_get_or: "get (snd (get_or pm i)) i = (Some (fst (get_or pm i)), snd (get_or pm i))"
  by (rule get_hit, rule get_or_stores) simp

lemma get_or_twice: "get_or (snd (get_or pm i)) i = get_or pm i"
  using get_or_found [OF get_after_get_or] by simp

text \<open>A lookup never forgets or changes an entry that is already cached.\<close>

lemma get_keeps: "mem pm j = Some p \<Longrightarrow> mem (snd (get pm i)) j = Some p"
  by (cases "j = i") (simp_all add: get_hit get_frame)

lemma get_or_keeps: "mem pm j = Some p \<Longrightarrow> mem (snd (get_or pm i)) j = Some p"
  by (cases "j = i") (simp_all add: get_or_found [OF get_hit] get_or_frame)

end

interpretation pc: peer_cache get_in_memory "pm_get js fail now" "pm_get_or js fail now"
  for js fail now
  by unfold_locales
    (auto simp: get_in_memory_def pm_get_def pm_get_or_def Let_def
       split: option.splits sum.splits prod.splits if_splits)

section \<open>Invariant\<close>

text \<open>
  Table constraints, and agreement of cache and table: a cached peer with a \<open>guid\<close> has a row of
  that \<open>guid\<close> for its id, with the same \<open>uuid\<close>.
\<close>

definition db_ok :: "db \<Rightarrow> bool" where
  "db_ok db \<longleftrightarrow>
     distinct (map row_id db) \<and> distinct (map row_guid db) \<and>
     (\<forall>r \<in> set db. row_guid r \<noteq> [] \<and> row_uuid r \<noteq> [])"

definition pm_ok :: "PeerMap \<Rightarrow> bool" where
  "pm_ok pm \<longleftrightarrow>
     db_ok (pm_db pm) \<and>
     (\<forall>i p. pm_map pm i = Some p \<and> p_guid p \<noteq> [] \<longrightarrow>
        (\<exists>r \<in> set (pm_db pm). row_guid r = p_guid p \<and> row_id r = i \<and> row_uuid r = p_uuid p))"

lemma find_row: "find (\<lambda>r. row_id r = i) db = Some r \<Longrightarrow> r \<in> set db \<and> row_id r = i"
  by (auto simp: find_Some_iff)

lemma pm_get_ok: "pm_ok pm \<Longrightarrow> pm_ok (snd (pm_get js fail now pm i))"
  by (auto simp: pm_ok_def pm_get_def db_get_peer_def peer_of_row_def Let_def
      split: option.splits if_splits dest: find_row)

lemma pm_get_or_eq:
  "pm_get_or js fail now pm i =
     (case pm_map pm i of
        Some p \<Rightarrow> (p, pm)
      | None \<Rightarrow>
          let p = (case db_get_peer fail (pm_db pm) i of
                     Inr (Some v) \<Rightarrow> peer_of_row js now v
                   | _ \<Rightarrow> Peer_default now) in
          (p, pm\<lparr>pm_map := (pm_map pm)(i \<mapsto> p)\<rparr>))"
  by (auto simp: pm_get_or_def pm_get_def Let_def split: option.splits sum.splits)

lemma pm_get_or_ok: "pm_ok pm \<Longrightarrow> pm_ok (snd (pm_get_or js fail now pm i))"
  by (auto simp: pm_get_or_eq pm_ok_def db_get_peer_def peer_of_row_def Peer_default_def Let_def
      split: option.splits if_splits dest: find_row)

lemma pm_db_get [simp]: "pm_db (snd (pm_get js fail now pm i)) = pm_db pm"
  by (auto simp: pm_get_def db_get_peer_def Let_def split: option.splits)

lemma pm_db_get_or [simp]: "pm_db (snd (pm_get_or js fail now pm i)) = pm_db pm"
  by (auto simp: pm_get_or_eq Let_def split: option.splits)

lemma pm_write_ok:
  assumes "pm_ok pm"
    and "\<And>p. pm_map pm i = Some p \<Longrightarrow>
           p_guid (f p) = p_guid p \<and> (p_guid p \<noteq> [] \<longrightarrow> p_uuid (f p) = p_uuid p)"
  shows "pm_ok (pm_write i f pm)"
  using assms by (auto simp: pm_ok_def pm_write_def)

lemma pm_map_write [simp]:
  "pm_map (pm_write i f pm) = (pm_map pm)(i := map_option f (pm_map pm i))"
  "pm_db (pm_write i f pm) = pm_db pm"
  by (simp_all add: pm_write_def)

text \<open>Updating the row of a peer keeps ids, guids and uuids of all rows.\<close>

definition set_row :: "bytes \<Rightarrow> string \<Rightarrow> bytes \<Rightarrow> string \<Rightarrow> db_row \<Rightarrow> db_row" where
  "set_row g i pk' info r =
     (if row_guid r = g then r\<lparr>row_id := i, row_pk := pk', row_info := info\<rparr> else r)"

lemma set_row_simps [simp]:
  "row_guid (set_row g i pk' info r) = row_guid r"
  "row_uuid (set_row g i pk' info r) = row_uuid r"
  by (simp_all add: set_row_def)

lemma unique_guid:
  "db_ok db \<Longrightarrow> r \<in> set db \<Longrightarrow> r' \<in> set db \<Longrightarrow> row_guid r = row_guid r' \<Longrightarrow> r = r'"
  unfolding db_ok_def distinct_map by (blast dest: inj_onD)

lemma unique_id:
  "db_ok db \<Longrightarrow> r \<in> set db \<Longrightarrow> r' \<in> set db \<Longrightarrow> row_id r = row_id r' \<Longrightarrow> r = r'"
  unfolding db_ok_def distinct_map by (blast dest: inj_onD)

lemma set_row_id:
  assumes "db_ok db" and "r \<in> set db" "row_guid r = g" "row_id r = i" and "r' \<in> set db"
  shows "row_id (set_row g i pk' info r') = row_id r'"
proof (cases "row_guid r' = g")
  case True
  then have "r = r'" using unique_guid [OF assms(1,2,5)] assms(3) by simp
  with assms show ?thesis by (simp add: set_row_def)
qed (simp add: set_row_def)

lemma db_update_ok:
  assumes "db_ok db" and "r \<in> set db" "row_guid r = g" "row_id r = i"
  shows "db_ok (map (set_row g i pk' info) db)"
proof -
  have "map row_id (map (set_row g i pk' info) db) = map row_id db"
    using set_row_id [OF assms] by simp
  moreover have "map row_guid (map (set_row g i pk' info) db) = map row_guid db"
    by (simp add: comp_def)
  ultimately show ?thesis
    using assms(1) unfolding db_ok_def by (auto simp del: map_map)
qed

lemma pm_ok_set_row:
  assumes "pm_ok pm" and "r \<in> set (pm_db pm)" "row_guid r = g" "row_id r = i"
  shows "pm_ok (pm\<lparr>pm_db := map (set_row g i k info) (pm_db pm)\<rparr>)"
proof -
  have dbk: "db_ok (pm_db pm)" using assms(1) by (simp add: pm_ok_def)
  have keep: "\<exists>r \<in> set (map (set_row g i k info) (pm_db pm)). row_guid r = p_guid p \<and> row_id r = j \<and> row_uuid r = p_uuid p"
    if "pm_map pm j = Some p" "p_guid p \<noteq> []" for j p
  proof -
    from that assms(1) obtain r' where "r' \<in> set (pm_db pm)" "row_guid r' = p_guid p" "row_id r' = j"
      "row_uuid r' = p_uuid p" unfolding pm_ok_def by blast
    then show ?thesis
      using set_row_id [OF dbk assms(2-4)] by (intro bexI [of _ "set_row g i k info r'"]) auto
  qed
  then show ?thesis
    using db_update_ok [OF dbk assms(2-4), of k info] unfolding pm_ok_def by simp
qed

text \<open>What \<open>update_pk\<close> does to cache and table under the invariant, by the kind of the peer.\<close>

lemma pm_update_pk_known:
  assumes "pm_ok pm" and "pm_map pm i = Some p" and "p_guid p \<noteq> []"
  shows "pm_update_pk js fail fresh now pm i addr u k ip =
     (let pm1 = pm_write i (\<lambda>w. w\<lparr>p_socket_addr := addr, p_uuid := u, p_pk := k,
                    p_last_reg_time := now, p_info_ip := ip\<rparr>) pm in
      if fail then (SERVER_ERROR, pm1)
      else (RK_OK, pm1\<lparr>pm_db := map (set_row (p_guid p) i k (info_to_string js ip)) (pm_db pm)\<rparr>))"
proof -
  from assms obtain r where r: "r \<in> set (pm_db pm)" "row_guid r = p_guid p" "row_id r = i"
    by (auto simp: pm_ok_def)
  have "\<not> (\<exists>r' \<in> set (pm_db pm). row_guid r' \<noteq> p_guid p \<and> row_id r' = i)"
    using unique_id [of "pm_db pm"] assms(1) r unfolding pm_ok_def by blast
  then show ?thesis
    using assms by (auto simp: pm_update_pk_def db_update_pk_def set_row_def [abs_def] Let_def pm_write_def)
qed

lemma pm_update_pk_new:
  assumes "pm_map pm i = Some p" and "p_guid p = []"
  shows "pm_update_pk js fail fresh now pm i addr u k ip =
     (let f = (\<lambda>w. w\<lparr>p_socket_addr := addr, p_uuid := u, p_pk := k,
                    p_last_reg_time := now, p_info_ip := ip\<rparr>) in
      if fail \<or> (\<exists>r \<in> set (pm_db pm). row_guid r = fresh \<or> row_id r = i)
      then (SERVER_ERROR, pm_write i f pm)
      else (RK_OK, (pm_write i (\<lambda>w. (f w)\<lparr>p_guid := fresh\<rparr>) pm)
        \<lparr>pm_db := pm_db pm @ [\<lparr>row_guid = fresh, row_id = i, row_uuid = u, row_pk = k,
            row_info = info_to_string js ip\<rparr>]\<rparr>))"
  using assms by (simp add: pm_update_pk_def db_insert_peer_def Let_def pm_write_def)

lemma pm_update_pk_ok:
  assumes ok: "pm_ok pm" and "fresh \<noteq> []" and "u \<noteq> []"
    and same: "\<And>p. pm_map pm i = Some p \<Longrightarrow> p_guid p \<noteq> [] \<Longrightarrow> u = p_uuid p"
  shows "pm_ok (snd (pm_update_pk js fail fresh now pm i addr u k ip))"
proof (cases "pm_map pm i")
  case None
  with ok show ?thesis by (simp add: pm_update_pk_def)
next
  case (Some p)
  show ?thesis
  proof (cases "p_guid p = []")
    case True
    with Some assms show ?thesis
      by (auto simp: pm_update_pk_new pm_ok_def db_ok_def Let_def)
  next
    case False
    with ok Some obtain r where r: "r \<in> set (pm_db pm)" "row_guid r = p_guid p" "row_id r = i"
      by (auto simp: pm_ok_def)
    let ?pm1 = "pm_write i (\<lambda>w. w\<lparr>p_socket_addr := addr, p_uuid := u, p_pk := k,
        p_last_reg_time := now, p_info_ip := ip\<rparr>) pm"
    have pm1: "pm_ok ?pm1"
      using ok same by (intro pm_write_ok) auto
    have r1: "r \<in> set (pm_db ?pm1)" using r(1) by simp
    show ?thesis
      using pm_ok_set_row [OF pm1 r1 r(2,3)] pm1 by (simp add: pm_update_pk_known [OF ok Some False] Let_def)
  qed
qed

section \<open>Properties\<close>

text \<open>
  C22: A key registration that reports success is durable: after the server restarts with an empty
  cache and the same database, looking the peer up yields the registered uuid, public key and IP.
\<close>

theorem update_pk_durable:
  assumes "pm_ok pm" and "json_correct js" and "pm_map pm i = Some p"
    and "p_guid p \<noteq> [] \<longrightarrow> u = p_uuid p"
    and "pm_update_pk js fail fresh now pm i addr u k ip = (RK_OK, pm')"
  shows "\<exists>p'. fst (pm_get js False now' (pm_restart pm') i) = Some p' \<and>
     p_uuid p' = u \<and> p_pk p' = k \<and> p_info_ip p' = ip"
proof -
  have row: "\<exists>r. find (\<lambda>r. row_id r = i) (pm_db pm') = Some r \<and>
      row_uuid r = u \<and> row_pk r = k \<and> row_info r = info_to_string js ip"
  proof (cases "p_guid p = []")
    case True
    then have new: "\<not> (\<exists>r \<in> set (pm_db pm). row_id r = i)"
      and db: "pm_db pm' = pm_db pm @ [\<lparr>row_guid = fresh, row_id = i, row_uuid = u, row_pk = k,
          row_info = info_to_string js ip\<rparr>]"
      using assms(3,5) by (auto simp: pm_update_pk_new Let_def split: if_splits)
    from new have "find (\<lambda>r. row_id r = i) (pm_db pm) = None"
      by (auto simp: find_None_iff)
    then show ?thesis by (simp add: db find_append_list)
  next
    case False
    with assms obtain r where r: "r \<in> set (pm_db pm)" "row_guid r = p_guid p" "row_id r = i"
        "row_uuid r = p_uuid p"
      by (auto simp: pm_ok_def)
    let ?f = "set_row (p_guid p) i k (info_to_string js ip)"
    have dbk: "db_ok (pm_db pm)" using assms(1) by (simp add: pm_ok_def)
    have db: "pm_db pm' = map ?f (pm_db pm)"
      using assms(5) False by (auto simp: pm_update_pk_known [OF assms(1,3)] Let_def split: if_splits)
    have "?f r \<in> set (pm_db pm') \<and> row_id (?f r) = i"
      using r by (simp add: db set_row_id [OF dbk r(1-3) r(1)])
    then obtain r' where r': "find (\<lambda>r. row_id r = i) (pm_db pm') = Some r'"
      by (cases "find (\<lambda>r. row_id r = i) (pm_db pm')") (auto simp: find_None_iff)
    have "db_ok (pm_db pm')"
      unfolding db by (rule db_update_ok [OF dbk r(1-3)])
    then have "r' = ?f r"
      using find_row [OF r'] \<open>?f r \<in> set (pm_db pm') \<and> row_id (?f r) = i\<close> unique_id by metis
    with r' r assms(4) False show ?thesis by (simp add: set_row_def)
  qed
  with assms(2) show ?thesis
    by (auto simp: pm_get_def pm_restart_def db_get_peer_def peer_of_row_def json_correct_def Let_def)
qed

definition demo_json :: json where
  "demo_json = \<lparr>info_to_string = (\<lambda>ip. ip), info_from_str = Some\<rparr>"

theorem update_pk_durable_witness:
  "\<exists>p' pm'. pm_update_pk demo_json False [1] 7
       \<lparr>pm_map = [''peer-1'' \<mapsto> Peer_default 5], pm_db = []\<rparr> ''peer-1'' (V4 (Ipv4 1 2 3 4) 9) [2] [3] ''1.2.3.4''
       = (RK_OK, pm') \<and>
     fst (pm_get demo_json False 9 (pm_restart pm') ''peer-1'') = Some p' \<and> p_pk p' = [3]"
proof -
  let ?pm = "\<lparr>pm_map = [''peer-1'' \<mapsto> Peer_default 5], pm_db = []\<rparr>"
  have ok: "pm_ok ?pm" by (simp add: pm_ok_def db_ok_def Peer_default_def)
  have js: "json_correct demo_json" by (simp add: json_correct_def demo_json_def)
  have m: "pm_map ?pm ''peer-1'' = Some (Peer_default 5)" by simp
  have g: "p_guid (Peer_default 5) \<noteq> [] \<longrightarrow> [2] = p_uuid (Peer_default 5)"
    by (simp add: Peer_default_def)
  obtain pm' where u: "pm_update_pk demo_json False [1] 7 ?pm ''peer-1'' (V4 (Ipv4 1 2 3 4) 9) [2] [3] ''1.2.3.4''
      = (RK_OK, pm')"
    by (simp add: pm_update_pk_def db_insert_peer_def Peer_default_def Let_def)
  from update_pk_durable [OF ok js m g u, of 9] u show ?thesis by blast
qed

text \<open>
  Looking a peer up never loses or alters what is registered: under the table invariant, a
  lookup leaves the database as it is, keeps every cached entry, preserves the invariant, and a
  second lookup of the same id finds the cached peer without consulting the database.
\<close>

theorem peer_lookup_stable:
  assumes "pm_ok pm"
  shows "pm_ok (snd (pm_get_or js fail now pm i)) \<and>
     pm_db (snd (pm_get_or js fail now pm i)) = pm_db pm \<and>
     (\<forall>j p. pm_map pm j = Some p \<longrightarrow> pm_map (snd (pm_get_or js fail now pm i)) j = Some p) \<and>
     pm_get js fail' now' (snd (pm_get_or js fail now pm i)) i =
       (Some (fst (pm_get_or js fail now pm i)), snd (pm_get_or js fail now pm i))"
proof -
  have "get_in_memory (snd (pm_get_or js fail now pm i)) i = Some (fst (pm_get_or js fail now pm i))"
    by (rule pc.get_or_stores) simp
  then have "pm_get js fail' now' (snd (pm_get_or js fail now pm i)) i =
      (Some (fst (pm_get_or js fail now pm i)), snd (pm_get_or js fail now pm i))"
    by (rule pc.get_hit)
  with pm_get_or_ok [OF assms] pc.get_or_keeps show ?thesis
    by (simp add: get_in_memory_def)
qed

theorem peer_lookup_stable_witness:
  "pm_ok \<lparr>pm_map = Map.empty, pm_db = []\<rparr> \<and>
   pm_ok (snd (pm_get_or demo_json False 5 \<lparr>pm_map = Map.empty, pm_db = []\<rparr> ''peer-1''))"
proof -
  have "pm_ok \<lparr>pm_map = Map.empty, pm_db = []\<rparr>" by (simp add: pm_ok_def db_ok_def)
  from peer_lookup_stable [OF this] this show ?thesis by blast
qed

end
