(* ===== verification/Rate_Limit.thy ===== *)
theory Rate_Limit
  imports Prelude
begin

text \<open>
  The rate limits of the rendezvous server: the per-IP blocker \<open>check_ip_blocker\<close> with its state
  \<open>IP_BLOCKER\<close>, the per-peer limit on \<open>RegisterPk\<close> (\<open>Peer::reg_pk\<close>), and the record of IP changes
  \<open>IP_CHANGES\<close> (\<open>server/src/rendezvous_server.rs\<close>, \<open>server/src/peer.rs\<close>).

  Both limits are counters stamped with the time of the last accepted request.  The locale
  \<open>burst_limiter\<close> states this contract and derives from it how many requests can be accepted
  within one window; both limits interpret it.
\<close>

section \<open>The limits of the server\<close>

definition IP_CHANGE_DUR :: nat where
  "IP_CHANGE_DUR = 180"

definition IP_CHANGE_DUR_X2 :: nat where
  "IP_CHANGE_DUR_X2 = IP_CHANGE_DUR * 2"

definition DAY_SECONDS :: nat where
  "DAY_SECONDS = 3600 * 24"

definition IP_BLOCK_DUR :: nat where
  "IP_BLOCK_DUR = 60"

text \<open>\<open>((u32, Instant), (HashSet<String>, Instant))\<close>.\<close>

type_synonym ip_block_entry = "(nat \<times> instant) \<times> (string list \<times> instant)"

type_synonym IpBlockMap = "(string \<times> ip_block_entry) list"

text \<open>The id set is a duplicate-free list: its \<open>length\<close> is the \<open>len()\<close> of the \<open>HashSet\<close>.\<close>

definition check_ip_blocker ::
  "instant \<Rightarrow> string \<Rightarrow> string \<Rightarrow> IpBlockMap \<Rightarrow> bool \<times> IpBlockMap" where
  "check_ip_blocker now ip peer_id m =
     (case map_of m ip of
        Some ((n, t), (ids, t2)) \<Rightarrow>
          if \<not> as_secs (elapsed now t) > IP_BLOCK_DUR \<and> n > 30 then (False, m)
          else
            let n' = (if as_secs (elapsed now t) > IP_BLOCK_DUR then 0 else n) + 1;
                is_new = (peer_id \<notin> set ids) in
            if \<not> as_secs (elapsed now t2) > DAY_SECONDS \<and> length ids > 300 then
              (\<not> is_new, alist_insert ip ((n', now), (ids, t2)) m)
            else
              let ids' = (if as_secs (elapsed now t2) > DAY_SECONDS then [] else ids);
                  ids'' = (if is_new then peer_id # ids' else ids') in
              (True, alist_insert ip ((n', now), (ids'', now)) m)
      | None \<Rightarrow> (True, alist_insert ip ((0, now), ([], now)) m))"

text \<open>The limit on \<open>RegisterPk\<close> for one peer: \<open>None\<close> is the answer \<open>TOO_FREQUENT\<close>.\<close>

definition reg_pk_check :: "instant \<Rightarrow> nat \<times> instant \<Rightarrow> (nat \<times> instant) option" where
  "reg_pk_check now req_pk =
     (if as_secs (elapsed now (snd req_pk)) > 6 then Some (0 + 1, now)
      else if fst req_pk > 2 then None
      else Some (fst req_pk + 1, now))"

text \<open>\<open>IP_CHANGES\<close>: for each peer id, the start of the observation and how often each IP was seen.\<close>

type_synonym IpChangesMap = "(string \<times> instant \<times> (string \<times> nat) list) list"

definition record_ip_change :: "instant \<Rightarrow> string \<Rightarrow> string \<Rightarrow> IpChangesMap \<Rightarrow> IpChangesMap" where
  "record_ip_change now peer_id ip m =
     (case map_of m peer_id of
        Some (tm, ips) \<Rightarrow>
          if as_secs (elapsed now tm) > IP_CHANGE_DUR then alist_insert peer_id (now, [(ip, 1)]) m
          else
            (case map_of ips ip of
               Some v \<Rightarrow> alist_insert peer_id (tm, alist_insert ip (v + 1) ips) m
             | None \<Rightarrow> alist_insert peer_id (tm, alist_insert ip 1 ips) m)
      | None \<Rightarrow> alist_insert peer_id (now, [(ip, 1)]) m)"

text \<open>Runs of requests: events \<open>(ip, id, time)\<close> for the blocker, times for one peer.\<close>

fun ip_blocker_run :: "(string \<times> string \<times> instant) list \<Rightarrow> IpBlockMap \<Rightarrow> bool list \<times> IpBlockMap" where
  "ip_blocker_run [] m = ([], m)"
| "ip_blocker_run ((ip, peer_id, now) # es) m =
     (let (ok, m') = check_ip_blocker now ip peer_id m; (oks, m'') = ip_blocker_run es m' in
      (ok # oks, m''))"

section \<open>Stamped counters\<close>

fun run_steps :: "('e \<Rightarrow> 's \<Rightarrow> bool \<times> 's) \<Rightarrow> 'e list \<Rightarrow> 's \<Rightarrow> bool list" where
  "run_steps step [] s = []"
| "run_steps step (e # es) s = fst (step e s) # run_steps step es (snd (step e s))"

definition accepted :: "('e \<Rightarrow> bool) \<Rightarrow> 'e list \<Rightarrow> bool list \<Rightarrow> nat" where
  "accepted mine es oks = length (filter (\<lambda>(e, ok). mine e \<and> ok) (zip es oks))"

lemma accepted_Cons [simp]:
  "accepted mine (e # es) (ok # oks) = (if mine e \<and> ok then 1 else 0) + accepted mine es oks"
  by (simp add: accepted_def)

lemma accepted_Nil [simp]: "accepted mine [] oks = 0"
  by (simp add: accepted_def)

locale burst_limiter =
  fixes step :: "'e \<Rightarrow> 's \<Rightarrow> bool \<times> 's"
    and mine :: "'e \<Rightarrow> bool"
    and time :: "'e \<Rightarrow> instant"
    and counter :: "'s \<Rightarrow> (nat \<times> instant) option"
    and cap :: nat
    and dur :: nat
  assumes other: "\<not> mine e \<Longrightarrow> counter (snd (step e s)) = counter s"
    and admit: "mine e \<Longrightarrow> fst (step e s) \<Longrightarrow> \<exists>n. counter (snd (step e s)) = Some (n, time e)"
    and within: "mine e \<Longrightarrow> counter s = Some (n, t) \<Longrightarrow> as_secs (elapsed (time e) t) \<le> dur \<Longrightarrow>
          (fst (step e s) \<longrightarrow> n \<le> cap) \<and>
          (\<exists>n' t'. counter (snd (step e s)) = Some (n', t') \<and> (t' = t \<or> t' = time e) \<and>
             n' \<ge> n + (if fst (step e s) then 1 else 0))"
begin

text \<open>Every event lies in the window of \<open>dur\<close> seconds that starts at \<open>T\<close>.\<close>

definition in_window :: "instant \<Rightarrow> 'e list \<Rightarrow> bool" where
  "in_window T es \<longleftrightarrow> (\<forall>e \<in> set es. T \<le> time e \<and> as_secs (time e - T) \<le> dur)"

lemma as_secs_mono: "a \<le> b \<Longrightarrow> as_secs a \<le> as_secs b"
  by (simp add: as_secs_def div_le_mono)

lemma counted_bound:
  assumes "in_window T es" and "counter s = Some (n, t)" and "T \<le> t"
  shows "n + accepted mine es (run_steps step es s) \<le> max n (cap + 1)"
  using assms
proof (induction es arbitrary: s n t)
  case (Cons e es)
  from Cons.prems(1) have win: "in_window T es" and te: "T \<le> time e" "as_secs (time e - T) \<le> dur"
    by (auto simp: in_window_def)
  show ?case
  proof (cases "mine e")
    case False
    then have "counter (snd (step e s)) = Some (n, t)"
      using other Cons.prems(2) by simp
    from Cons.IH [OF win this Cons.prems(3)] False show ?thesis by simp
  next
    case True
    have "as_secs (elapsed (time e) t) \<le> as_secs (time e - T)"
      using Cons.prems(3) by (intro as_secs_mono) (simp add: elapsed_def)
    with te(2) have "as_secs (elapsed (time e) t) \<le> dur" by simp
    from within [OF True Cons.prems(2) this] obtain n' t' where st:
      "fst (step e s) \<longrightarrow> n \<le> cap" "counter (snd (step e s)) = Some (n', t')"
      "t' = t \<or> t' = time e" "n' \<ge> n + (if fst (step e s) then 1 else 0)" by auto
    have "T \<le> t'" using st(3) te(1) Cons.prems(3) by auto
    from Cons.IH [OF win st(2) this] st(1,4) True show ?thesis
      by (auto simp: max_def split: if_splits)
  qed
qed simp

text \<open>Within one window at most \<open>cap + 2\<close> requests are admitted, from any state.\<close>

lemma burst_bound:
  assumes "in_window T es"
  shows "accepted mine es (run_steps step es s) \<le> cap + 2"
  using assms
proof (induction es arbitrary: s)
  case (Cons e es)
  from Cons.prems have win: "in_window T es" and te: "T \<le> time e"
    by (auto simp: in_window_def)
  show ?case
  proof (cases "mine e \<and> fst (step e s)")
    case True
    with admit obtain n where "counter (snd (step e s)) = Some (n, time e)" by blast
    from counted_bound [OF win this te] True show ?thesis by (auto simp: max_def split: if_splits)
  next
    case False
    with Cons.IH [OF win] show ?thesis by auto
  qed
qed simp

end

text \<open>A limiter whose counter starts at one on the first admitted request.\<close>

locale strict_burst_limiter = burst_limiter +
  assumes admit_pos: "mine e \<Longrightarrow> fst (step e s) \<Longrightarrow>
    \<exists>n > 0. counter (snd (step e s)) = Some (n, time e)"
begin

lemma strict_burst_bound:
  assumes "in_window T es"
  shows "accepted mine es (run_steps step es s) \<le> cap + 1"
  using assms
proof (induction es arbitrary: s)
  case (Cons e es)
  from Cons.prems have win: "in_window T es" and te: "T \<le> time e"
    by (auto simp: in_window_def)
  show ?case
  proof (cases "mine e \<and> fst (step e s)")
    case True
    with admit_pos obtain n where "n > 0" "counter (snd (step e s)) = Some (n, time e)" by blast
    with counted_bound [OF win this(2) te] True show ?thesis by (auto simp: max_def split: if_splits)
  next
    case False
    with Cons.IH [OF win] show ?thesis by auto
  qed
qed simp

end

section \<open>The two limits are stamped counters\<close>

definition blocker_step :: "string \<times> string \<times> instant \<Rightarrow> IpBlockMap \<Rightarrow> bool \<times> IpBlockMap" where
  "blocker_step e m = (case e of (ip, peer_id, now) \<Rightarrow> check_ip_blocker now ip peer_id m)"

lemma ip_blocker_run_steps: "fst (ip_blocker_run es m) = run_steps blocker_step es m"
  by (induction es arbitrary: m) (auto simp: blocker_step_def case_prod_unfold Let_def)

text \<open>The blocker on an address it has no entry for, and on one it has.\<close>

lemma check_ip_blocker_None:
  "map_of m ip = None \<Longrightarrow>
   check_ip_blocker now ip peer_id m = (True, alist_insert ip ((0, now), ([], now)) m)"
  by (simp add: check_ip_blocker_def)

lemma check_ip_blocker_Some:
  assumes "map_of m ip = Some ((n, t), (ids, t2))"
  obtains "as_secs (elapsed now t) \<le> IP_BLOCK_DUR" "n > 30"
    "check_ip_blocker now ip peer_id m = (False, m)"
  | n' ids' t2' ok where "n' = (if as_secs (elapsed now t) \<le> IP_BLOCK_DUR then n else 0) + 1"
    "as_secs (elapsed now t) \<le> IP_BLOCK_DUR \<longrightarrow> n \<le> 30"
    "check_ip_blocker now ip peer_id m = (ok, alist_insert ip ((n', now), (ids', t2')) m)"
    "distinct ids \<Longrightarrow> length ids \<le> 301 \<Longrightarrow> distinct ids' \<and> length ids' \<le> 301"
proof (cases "as_secs (elapsed now t) \<le> IP_BLOCK_DUR \<and> n > 30")
  case True
  then show thesis
    using that(1) assms by (simp add: check_ip_blocker_def)
next
  case False
  let ?n = "(if as_secs (elapsed now t) \<le> IP_BLOCK_DUR then n else 0) + 1"
  let ?day = "as_secs (elapsed now t2) \<le> DAY_SECONDS"
  let ?ids = "if ?day then ids else []"
  let ?ids' = "if peer_id \<in> set ids then ?ids else peer_id # ?ids"
  have eq: "check_ip_blocker now ip peer_id m =
      (if ?day \<and> length ids > 300 then (peer_id \<in> set ids, alist_insert ip ((?n, now), (ids, t2)) m)
       else (True, alist_insert ip ((?n, now), (?ids', now)) m))"
    using False assms by (auto simp: check_ip_blocker_def Let_def not_less)
  show thesis
  proof (cases "?day \<and> length ids > 300")
    case True
    with eq False show thesis by (intro that(2) [of ?n "peer_id \<in> set ids" ids t2]) auto
  next
    case day: False
    with eq False show thesis by (intro that(2) [of ?n True ?ids' now]) auto
  qed
qed

interpretation ipb: burst_limiter blocker_step "\<lambda>(ip, _, _). ip = ip0" "\<lambda>(_, _, now). now"
  "\<lambda>m. map_option fst (map_of m ip0)" 30 IP_BLOCK_DUR for ip0
proof (unfold_locales, goal_cases)
  case (1 e s)
  obtain ip i now where e: "e = (ip, i, now)" by (cases e)
  show ?case
  proof (cases "map_of s ip")
    case None
    with 1 e show ?thesis by (simp add: blocker_step_def check_ip_blocker_None)
  next
    case (Some x)
    then obtain n t ids t2 where x: "map_of s ip = Some ((n, t), (ids, t2))" by (cases x) auto
    show ?thesis
      by (rule check_ip_blocker_Some [OF x, of now i]; use 1 e in \<open>simp add: blocker_step_def\<close>)
  qed
next
  case (2 e s)
  obtain ip i now where e: "e = (ip, i, now)" by (cases e)
  show ?case
  proof (cases "map_of s ip")
    case None
    with 2 e show ?thesis by (simp add: blocker_step_def check_ip_blocker_None)
  next
    case (Some x)
    then obtain n t ids t2 where x: "map_of s ip = Some ((n, t), (ids, t2))" by (cases x) auto
    show ?thesis
      by (rule check_ip_blocker_Some [OF x, of now i]; use 2 e in \<open>simp add: blocker_step_def\<close>)
  qed
next
  case (3 e s n t)
  obtain ip i now where e: "e = (ip, i, now)" by (cases e)
  with 3 obtain ids t2 where x: "map_of s ip = Some ((n, t), (ids, t2))" by auto
  show ?case
    by (rule check_ip_blocker_Some [OF x, of now i]; use 3 e x in \<open>auto simp: blocker_step_def\<close>)
qed

definition reg_step :: "instant \<Rightarrow> nat \<times> instant \<Rightarrow> bool \<times> (nat \<times> instant)" where
  "reg_step now s = (case reg_pk_check now s of Some s' \<Rightarrow> (True, s') | None \<Rightarrow> (False, s))"

interpretation reg: strict_burst_limiter reg_step "\<lambda>_. True" "\<lambda>now. now" Some 2 6
  by unfold_locales (auto simp: reg_step_def reg_pk_check_def split: option.splits if_splits)

section \<open>Properties\<close>

text \<open>
  C21: In any window of 60 seconds, at most 32 key registrations from one IP address pass the
  blocker, whatever other addresses send meanwhile and whatever the blocker recorded before.
\<close>

theorem ip_blocker_window_bound:
  assumes "\<forall>(ip, peer_id, now) \<in> set es. T \<le> now \<and> as_secs (now - T) \<le> IP_BLOCK_DUR"
  shows "accepted (\<lambda>(ip, _, _). ip = ip0) es (fst (ip_blocker_run es m)) \<le> 32"
proof -
  have "ipb.in_window T es"
    using assms by (auto simp: ipb.in_window_def)
  from ipb.burst_bound [OF this, of ip0 m] show ?thesis
    by (simp add: ip_blocker_run_steps)
qed

theorem ip_blocker_window_bound_witness:
  "accepted (\<lambda>(ip, _, _). ip = ''1.2.3.4'') [(''1.2.3.4'', ''a'', 5 :: instant), (''1.2.3.5'', ''b'', 6)]
     (fst (ip_blocker_run [(''1.2.3.4'', ''a'', 5), (''1.2.3.5'', ''b'', 6)] [])) \<le> 32"
  by (rule ip_blocker_window_bound [of _ 5]) (simp add: as_secs_def IP_BLOCK_DUR_def)

fun entry_ok :: "ip_block_entry \<Rightarrow> bool" where
  "entry_ok ((n, t), (ids, t2)) \<longleftrightarrow> n \<le> 31 \<and> length ids \<le> 301 \<and> distinct ids"

definition blocker_ok :: "IpBlockMap \<Rightarrow> bool" where
  "blocker_ok m \<longleftrightarrow> alist_ok m \<and> (\<forall>(ip, x) \<in> set m. entry_ok x)"

lemma blocker_ok_insert: "blocker_ok m \<Longrightarrow> entry_ok x \<Longrightarrow> blocker_ok (alist_insert ip x m)"
  by (auto simp: blocker_ok_def set_alist_insert)

lemma blocker_ok_filter: "blocker_ok m \<Longrightarrow> blocker_ok (filter P m)"
  by (auto simp: blocker_ok_def distinct_map_filter)

lemma blocker_ok_remove: "blocker_ok m \<Longrightarrow> blocker_ok (alist_remove ip m)"
  by (simp add: alist_remove_def blocker_ok_filter)

lemma check_ip_blocker_ok:
  assumes "blocker_ok m"
  shows "blocker_ok (snd (check_ip_blocker now ip peer_id m))"
proof (cases "map_of m ip")
  case None
  with assms show ?thesis by (simp add: check_ip_blocker_None blocker_ok_insert)
next
  case (Some x)
  then obtain n t ids t2 where x: "map_of m ip = Some ((n, t), (ids, t2))" by (cases x) auto
  with assms have old: "entry_ok ((n, t), (ids, t2))"
    unfolding blocker_ok_def by (blast dest: map_of_SomeD)
  show ?thesis
  proof (rule check_ip_blocker_Some [OF x, of now peer_id], goal_cases)
    case 1
    then show ?thesis using assms by simp
  next
    case (2 n' ids' t2' ok)
    have "n' \<le> 31" using 2(1,2) old by (simp split: if_splits)
    moreover have "distinct ids' \<and> length ids' \<le> 301" using 2(4) old by simp
    ultimately have "entry_ok ((n', now), (ids', t2'))" by simp
    then show ?thesis using assms 2(3) by (simp add: blocker_ok_insert)
  qed
qed

text \<open>
  The blocker keeps its state bounded: for every address the request counter stays at most 31
  (so the \<open>u32\<close> never overflows) and at most 301 distinct peer ids are remembered; and once 301
  ids are remembered, a request for a further id within the day is refused.
\<close>

theorem ip_blocker_bounded:
  assumes "blocker_ok m"
  shows "blocker_ok (snd (ip_blocker_run es m)) \<and>
     (\<forall>ip n t ids t2 now peer_id.
        map_of (snd (ip_blocker_run es m)) ip = Some ((n, t), (ids, t2)) \<and> length ids = 301 \<and>
        as_secs (elapsed now t2) \<le> DAY_SECONDS \<and> peer_id \<notin> set ids \<longrightarrow>
        \<not> fst (check_ip_blocker now ip peer_id (snd (ip_blocker_run es m))))"
proof
  show "blocker_ok (snd (ip_blocker_run es m))"
    using assms
  proof (induction es arbitrary: m)
    case (Cons e es)
    then show ?case
      by (cases e) (simp add: case_prod_unfold Let_def Cons.IH check_ip_blocker_ok)
  qed simp
qed (auto simp: check_ip_blocker_def Let_def)

theorem ip_blocker_bounded_witness:
  "blocker_ok [] \<and>
   blocker_ok (snd (ip_blocker_run [(''1.2.3.4'', ''a'', 5), (''1.2.3.4'', ''b'', 6)] []))"
proof -
  have "blocker_ok []" by (simp add: blocker_ok_def)
  from ip_blocker_bounded [OF this] this show ?thesis by blast
qed

text \<open>
  A peer gets at most three key registrations through in any window of six seconds, from any
  previous state of its counter.
\<close>

theorem reg_pk_window_bound:
  assumes "\<forall>now \<in> set ts. T \<le> now \<and> as_secs (now - T) \<le> 6"
  shows "accepted (\<lambda>_. True) ts (run_steps reg_step ts s) \<le> 3"
  using reg.strict_burst_bound [of T ts s] assms by (simp add: reg.in_window_def)

theorem reg_pk_window_bound_witness:
  "accepted (\<lambda>_. True) [1 :: instant, 2, 3, 4] (run_steps reg_step [1, 2, 3, 4] (0, 0)) \<le> 3"
  by (rule reg_pk_window_bound [of _ 1]) (simp add: as_secs_def)

end
