(* ===== verification/Rendezvous_Msg.thy ===== *)
theory Rendezvous_Msg
  imports Peer_Map
begin

text \<open>
  The messages of the rendezvous protocol (\<open>libs/hbb_common/protos/rendezvous.proto\<close>) that the
  rendezvous and relay servers read or write, one record per message and one constructor of
  \<open>RendezvousMessage\<close> per member of its \<open>union\<close>.

  A string is its UTF-8 byte sequence (so \<open>length\<close> is \<open>String::len\<close>), an enumeration field is the
  \<open>int32\<close> that was received (\<open>EnumOrUnknown\<close>), and an absent field has the proto3 default value.
\<close>

datatype NatType = UNKNOWN_NAT | ASYMMETRIC | SYMMETRIC

fun nat_type_value :: "NatType \<Rightarrow> int" where
  "nat_type_value UNKNOWN_NAT = 0"
| "nat_type_value ASYMMETRIC = 1"
| "nat_type_value SYMMETRIC = 2"

text \<open>\<open>EnumOrUnknown::enum_value().ok()\<close>.\<close>

definition nat_type_enum :: "int \<Rightarrow> NatType option" where
  "nat_type_enum v =
     (if v = 0 then Some UNKNOWN_NAT else if v = 1 then Some ASYMMETRIC
      else if v = 2 then Some SYMMETRIC else None)"

record RegisterPeer =
  rp_id :: string
  rp_serial :: int

record PunchHoleRequest =
  phr_id :: string
  phr_nat_type :: int
  phr_licence_key :: string
  phr_conn_type :: int
  phr_token :: string
  phr_version :: string
  phr_udp_port :: int
  phr_force_relay :: bool
  phr_upnp_port :: int
  phr_socket_addr_v6 :: bytes

record PunchHole =
  ph_socket_addr :: bytes
  ph_relay_server :: string
  ph_nat_type :: int
  ph_udp_port :: int
  ph_force_relay :: bool
  ph_upnp_port :: int
  ph_socket_addr_v6 :: bytes
  ph_control_permissions :: "u64 option"
  ph_controlled_context :: "string option"

definition PunchHole_default :: PunchHole where
  "PunchHole_default =
     \<lparr>ph_socket_addr = [], ph_relay_server = [], ph_nat_type = 0, ph_udp_port = 0,
      ph_force_relay = False, ph_upnp_port = 0, ph_socket_addr_v6 = [],
      ph_control_permissions = None, ph_controlled_context = None\<rparr>"

record ConfigUpdate =
  cu_serial :: int
  cu_rendezvous_servers :: "string list"

record TestNatResponse =
  tnr_port :: int
  tnr_cu :: "ConfigUpdate option"

record PunchHoleSent =
  phs_socket_addr :: bytes
  phs_id :: string
  phs_relay_server :: string
  phs_nat_type :: int
  phs_version :: string
  phs_upnp_port :: int
  phs_socket_addr_v6 :: bytes

record RegisterPk =
  rk_id :: string
  rk_uuid :: bytes
  rk_pk :: bytes
  rk_old_id :: string
  rk_no_register_device :: bool

datatype Failure = ID_NOT_EXIST | OFFLINE | LICENSE_MISMATCH | LICENSE_OVERUSE

datatype phres_oneof = PresNatType NatType | PresIsLocal bool

record PunchHoleResponse =
  phres_socket_addr :: bytes
  phres_pk :: bytes
  phres_failure :: Failure
  phres_relay_server :: string
  phres_union :: "phres_oneof option"
  phres_other_failure :: string
  phres_feedback :: int
  phres_is_udp :: bool
  phres_upnp_port :: int
  phres_socket_addr_v6 :: bytes

definition PunchHoleResponse_default :: PunchHoleResponse where
  "PunchHoleResponse_default =
     \<lparr>phres_socket_addr = [], phres_pk = [], phres_failure = ID_NOT_EXIST, phres_relay_server = [],
      phres_union = None, phres_other_failure = [], phres_feedback = 0, phres_is_udp = False,
      phres_upnp_port = 0, phres_socket_addr_v6 = []\<rparr>"

record RequestRelay =
  rf_id :: string
  rf_uuid :: string
  rf_socket_addr :: bytes
  rf_relay_server :: string
  rf_secure :: bool
  rf_licence_key :: string
  rf_conn_type :: int
  rf_token :: string
  rf_control_permissions :: "u64 option"
  rf_controlled_context :: "string option"

datatype rr_oneof = RrId string | RrPk bytes

record RelayResponse =
  rr_socket_addr :: bytes
  rr_uuid :: string
  rr_relay_server :: string
  rr_union :: "rr_oneof option"
  rr_refuse_reason :: string
  rr_version :: string
  rr_feedback :: int
  rr_socket_addr_v6 :: bytes
  rr_upnp_port :: int

text \<open>The generated accessor \<open>id()\<close> gives the empty string when the union holds no id.\<close>

definition rr_get_id :: "RelayResponse \<Rightarrow> string" where
  "rr_get_id rr = (case rr_union rr of Some (RrId i) \<Rightarrow> i | _ \<Rightarrow> [])"

record FetchLocalAddr =
  fla_socket_addr :: bytes
  fla_relay_server :: string
  fla_socket_addr_v6 :: bytes
  fla_control_permissions :: "u64 option"
  fla_controlled_context :: "string option"

record LocalAddr =
  la_socket_addr :: bytes
  la_local_addr :: bytes
  la_relay_server :: string
  la_id :: string
  la_version :: string
  la_socket_addr_v6 :: bytes

datatype RendezvousMessage =
    MRegisterPeer RegisterPeer
  | MRegisterPeerResponse bool
  | MPunchHoleRequest PunchHoleRequest
  | MPunchHole PunchHole
  | MPunchHoleSent PunchHoleSent
  | MPunchHoleResponse PunchHoleResponse
  | MFetchLocalAddr FetchLocalAddr
  | MLocalAddr LocalAddr
  | MConfigureUpdate ConfigUpdate
  | MRegisterPk RegisterPk
  | MRegisterPkResponse rk_result
  | MSoftwareUpdate string
  | MRequestRelay RequestRelay
  | MRelayResponse RelayResponse
  | MTestNatRequest int
  | MTestNatResponse TestNatResponse
  | MOnlineRequest string "string list"
  | MOnlineResponse bytes
  | MOther

end
