(* ===== verification/Addr_Parse.thy ===== *)
theory Addr_Parse
  imports Net_Addr
begin

text \<open>
  \<open>FromStr\<close> of \<open>IpAddr\<close> and \<open>SocketAddr\<close> (the parser of \<open>core::net\<close>), which the rendezvous server uses on
  the \<open>X-Real-IP\<close> header and in its admin commands.  A reader takes the remaining input and gives the
  value with the input left, or \<open>None\<close> and leaves the input alone.
\<close>

type_synonym 'a reader = "string \<Rightarrow> ('a \<times> string) option"

definition read_char :: "char \<Rightarrow> string \<Rightarrow> string option" where
  "read_char c s = (case s of x # xs \<Rightarrow> if x = c then Some xs else None | [] \<Rightarrow> None)"

definition to_digit :: "nat \<Rightarrow> char \<Rightarrow> nat option" where
  "to_digit radix c =
     (let n = (of_char c :: nat);
          v = (if 48 \<le> n \<and> n \<le> 57 then n - 48
               else if 97 \<le> n \<and> n \<le> 122 then n - 87
               else if 65 \<le> n \<and> n \<le> 90 then n - 55 else radix) in
      if v < radix then Some v else None)"

fun digits_of :: "nat \<Rightarrow> string \<Rightarrow> nat list \<times> string" where
  "digits_of radix [] = ([], [])"
| "digits_of radix (c # cs) =
     (case to_digit radix c of
        Some v \<Rightarrow> (case digits_of radix cs of (ds, rest) \<Rightarrow> (v # ds, rest))
      | None \<Rightarrow> ([], c # cs))"

text \<open>\<open>bound\<close> is one more than the greatest value of the integer type.\<close>

definition read_number :: "nat \<Rightarrow> nat option \<Rightarrow> bool \<Rightarrow> nat \<Rightarrow> nat reader" where
  "read_number radix max_digits allow_zero_prefix bound s =
     (let (ds, rest) = digits_of radix s;
          v = foldl (\<lambda>a d. a * radix + d) 0 ds in
      if ds = [] \<or> (case max_digits of Some m \<Rightarrow> length ds > m | None \<Rightarrow> False) \<or>
         (\<not> allow_zero_prefix \<and> hd ds = 0 \<and> length ds > 1) \<or> v \<ge> bound
      then None else Some (v, rest))"

definition read_octet :: "nat reader" where
  "read_octet = read_number 10 (Some 3) False 256"

definition read_ipv4 :: "Ipv4Addr reader" where
  "read_ipv4 s =
     Option.bind (read_octet s) (\<lambda>(a, s). Option.bind (read_char (CHR ''.'') s) (\<lambda>s.
     Option.bind (read_octet s) (\<lambda>(b, s). Option.bind (read_char (CHR ''.'') s) (\<lambda>s.
     Option.bind (read_octet s) (\<lambda>(c, s). Option.bind (read_char (CHR ''.'') s) (\<lambda>s.
     Option.bind (read_octet s) (\<lambda>(d, s).
       Some (Ipv4 (word_of_nat a) (word_of_nat b) (word_of_nat c) (word_of_nat d), s))))))))"

definition read_separator :: "nat \<Rightarrow> 'a reader \<Rightarrow> 'a reader" where
  "read_separator i inner s =
     (if i > 0 then Option.bind (read_char (CHR '':'') s) inner else inner s)"

text \<open>Up to \<open>limit - i\<close> further groups; the flag says that the last two came from an IPv4 address.\<close>

function read_groups :: "nat \<Rightarrow> nat \<Rightarrow> string \<Rightarrow> nat list \<times> bool \<times> string" where
  "read_groups limit i s =
     (if i \<ge> limit then ([], False, s)
      else
        case (if i < limit - 1 then read_separator i read_ipv4 s else None) of
          Some (Ipv4 a b c d, s') \<Rightarrow>
            ([unat a * 256 + unat b, unat c * 256 + unat d], True, s')
        | None \<Rightarrow>
            (case read_separator i (read_number 16 (Some 4) True 65536) s of
               Some (g, s') \<Rightarrow> (case read_groups limit (Suc i) s' of (gs, v4, s'') \<Rightarrow> (g # gs, v4, s''))
             | None \<Rightarrow> ([], False, s)))"
  by pat_completeness auto
termination by (relation "measure (\<lambda>(limit, i, s). limit - i)") auto

definition ipv6_of_groups :: "nat list \<Rightarrow> Ipv6Addr" where
  "ipv6_of_groups gs = foldl (\<lambda>a g. a * 65536 + word_of_nat g) 0 gs"

definition read_ipv6 :: "Ipv6Addr reader" where
  "read_ipv6 s =
     (case read_groups 8 0 s of
        (head, head_ipv4, s1) \<Rightarrow>
          if length head = 8 then Some (ipv6_of_groups head, s1)
          else if head_ipv4 then None
          else
            Option.bind (read_char (CHR '':'') s1) (\<lambda>s2. Option.bind (read_char (CHR '':'') s2) (\<lambda>s3.
              (case read_groups (8 - (length head + 1)) 0 s3 of
                 (tail, _, s4) \<Rightarrow>
                   Some (ipv6_of_groups (head @ replicate (8 - length head - length tail) 0 @ tail), s4)))))"

definition parse_all :: "('a \<times> string) option \<Rightarrow> 'a option" where
  "parse_all r = (case r of Some (v, []) \<Rightarrow> Some v | _ \<Rightarrow> None)"

text \<open>\<open>str::parse::<IpAddr>\<close> and \<open>str::parse::<SocketAddr>\<close>.\<close>

definition parse_ip_addr :: "string \<Rightarrow> IpAddr option" where
  "parse_ip_addr s =
     parse_all (case read_ipv4 s of
        Some (ip, r) \<Rightarrow> Some (IpV4 ip, r)
      | None \<Rightarrow> map_option (\<lambda>(ip, r). (IpV6 ip, r)) (read_ipv6 s))"

definition read_port :: "nat reader" where
  "read_port s = Option.bind (read_char (CHR '':'') s) (read_number 10 None True 65536)"

definition read_socket_addr_v4 :: "SocketAddr reader" where
  "read_socket_addr_v4 s =
     Option.bind (read_ipv4 s) (\<lambda>(ip, s). Option.bind (read_port s) (\<lambda>(p, s). Some (V4 ip (word_of_nat p), s)))"

definition read_scope_id :: "nat reader" where
  "read_scope_id s = Option.bind (read_char (CHR ''%'') s) (read_number 10 None True (2 ^ 32))"

definition read_socket_addr_v6 :: "SocketAddr reader" where
  "read_socket_addr_v6 s =
     Option.bind (read_char (CHR ''['') s) (\<lambda>s. Option.bind (read_ipv6 s) (\<lambda>(ip, s).
       (case (case read_scope_id s of Some r \<Rightarrow> r | None \<Rightarrow> (0, s)) of
          (scope, s) \<Rightarrow>
            Option.bind (read_char (CHR '']'') s) (\<lambda>s. Option.bind (read_port s) (\<lambda>(p, s).
              Some (V6 ip (word_of_nat p) 0 (word_of_nat scope), s))))))"

definition parse_socket_addr :: "string \<Rightarrow> SocketAddr option" where
  "parse_socket_addr s =
     parse_all (case read_socket_addr_v4 s of
        Some r \<Rightarrow> Some r
      | None \<Rightarrow> read_socket_addr_v6 s)"

declare read_groups.simps [simp del]

section \<open>Examples\<close>

lemmas parse_defs = parse_ip_addr_def parse_socket_addr_def parse_all_def read_socket_addr_v4_def
  read_socket_addr_v6_def read_scope_id_def read_port_def read_ipv6_def read_ipv4_def read_octet_def
  read_number_def read_separator_def read_char_def to_digit_def ipv6_of_groups_def read_groups.simps

lemma replicate_5_7: "replicate 5 x = [x, x, x, x, x]" "replicate 7 x = [x, x, x, x, x, x, x]"
  by (simp_all add: numeral_eq_Suc)

lemma parse_ip_addr_v4_example: "parse_ip_addr ''192.168.1.20'' = Some (IpV4 (Ipv4 192 168 1 20))"
  by (simp add: parse_defs Let_def)

lemma parse_ip_addr_v6_example: "parse_ip_addr ''fe80::1:ff'' = Some (IpV6 0xFE8000000000000000000000000100FF)"
  by (simp add: parse_defs Let_def replicate_5_7)

lemma parse_ip_addr_bad_examples:
  "parse_ip_addr ''1.2.3'' = None" "parse_ip_addr ''1.2.3.256'' = None" "parse_ip_addr ''01.2.3.4'' = None"
  "parse_ip_addr ''1::2::3'' = None"
  by (simp_all add: parse_defs Let_def)

lemma parse_socket_addr_examples:
  "parse_socket_addr ''1.2.3.4:80'' = Some (V4 (Ipv4 1 2 3 4) 80)"
  "parse_socket_addr ''[::1]:0'' = Some (V6 1 0 0 0)"
  by (simp_all add: parse_defs Let_def replicate_5_7)

end
