(* ===== verification/Rendezvous.thy ===== *)
theory Rendezvous
  imports Rendezvous_Msg Rate_Limit Secure_Stream "HOL-Library.Sublist" "HOL-Library.Multiset"
begin

text \<open>
  The request handlers of the rendezvous server (\<open>server/src/rendezvous_server.rs\<close>).

  \<open>RendezvousServer\<close> is cloned for every accepted connection: the configuration it carries
  (\<open>LocalConf\<close>: relay and rendezvous servers, \<open>inner\<close>) is a snapshot of that moment, while the peer
  map, the waiting TCP sinks, the static tables and the channel \<open>tx\<close> are shared (\<open>Shared\<close>).  A
  handler runs to completion on both; it returns the sends it performs, in order, as \<open>action\<close>s.

  Received bytes are given as \<open>RendezvousMessage option\<close>, \<open>None\<close> when \<open>parse_from_bytes\<close> fails.  What
  a handler obtains from its surroundings (clock, failures of the database, a fresh UUID) is the
  record \<open>Env\<close>; third-party code and name resolution is the record \<open>Deps\<close>.  Addresses are decoded
  without overflow checks, as the release profile compiles them.
\<close>

section \<open>State\<close>

definition REG_TIMEOUT :: nat where
  "REG_TIMEOUT = 30000"

definition PUNCH_REQ_DEDUPE_SEC :: nat where
  "PUNCH_REQ_DEDUPE_SEC = 60"

text \<open>A sink is known by the number of its connection.\<close>

datatype Sink = TcpSink nat | WsSink nat

datatype ChanData = DMsg RendezvousMessage SocketAddr | DRelayServers0 string | DRelayServers "string list"

record PunchReqEntry =
  pre_tm :: instant
  pre_from_ip :: string
  pre_to_ip :: string
  pre_to_id :: string

text \<open>The network mask is the membership test \<open>Ipv4Network::contains\<close> of the parsed argument.\<close>

record Inner =
  in_serial :: int
  in_version :: string
  in_software_url :: string
  in_mask :: "(Ipv4Addr \<Rightarrow> bool) option"
  in_local_ip :: string
  in_sk :: "bytes option"

record LocalConf =
  rs_relay_servers :: "string list"
  rs_relay_servers0 :: "string list"
  rs_rendezvous_servers :: "string list"
  rs_inner :: Inner

record Shared =
  sh_pm :: PeerMap
  sh_tcp_punch :: "SocketAddr \<rightharpoonup> Sink"
  sh_tx :: "ChanData list"
  sh_ip_blocker :: IpBlockMap
  sh_ip_changes :: IpChangesMap
  sh_punch_reqs :: "PunchReqEntry list"
  sh_rotation :: u64
  sh_always_use_relay :: bool

record Env =
  env_now :: instant
  env_micros :: u32
  env_get_fail :: bool
  env_put_fail :: bool
  env_fresh :: bytes

record Deps =
  dep_crypto :: crypto
  dep_json :: json
  dep_resolve :: "string \<Rightarrow> bool"

datatype action =
    UdpSend RendezvousMessage SocketAddr
  | SinkSend Sink RendezvousMessage
  | StreamSend RendezvousMessage

section \<open>Helpers of the server\<close>

definition contains_char :: "char \<Rightarrow> string \<Rightarrow> bool" where
  "contains_char c s \<longleftrightarrow> c \<in> set s"

text \<open>Whether the host resolves to at least one socket address; \<open>dep_resolve\<close> asks the resolver.\<close>

definition test_if_valid_server :: "Deps \<Rightarrow> string \<Rightarrow> bool" where
  "test_if_valid_server d host =
     (if contains_char (CHR '':'') host then dep_resolve d host else dep_resolve d (host @ '':0''))"

definition get_servers :: "Deps \<Rightarrow> string \<Rightarrow> string list" where
  "get_servers d s = filter (\<lambda>x. x \<noteq> [] \<and> test_if_valid_server d x) (split_char (CHR '','') s)"

definition parse_relay_servers :: "Deps \<Rightarrow> string \<Rightarrow> LocalConf \<Rightarrow> LocalConf" where
  "parse_relay_servers d relay_servers lc =
     (let rs = get_servers d relay_servers in lc\<lparr>rs_relay_servers0 := rs, rs_relay_servers := rs\<rparr>)"

text \<open>\<open>ROTATION_RELAY_SERVER\<close> is a \<open>usize\<close>: \<open>fetch_add\<close> wraps around.\<close>

definition get_relay_server :: "LocalConf \<Rightarrow> Shared \<Rightarrow> string \<times> Shared" where
  "get_relay_server lc sh =
     (if rs_relay_servers lc = [] then ([], sh)
      else if length (rs_relay_servers lc) = 1 then (rs_relay_servers lc ! 0, sh)
      else
        let i = unat (sh_rotation sh) mod length (rs_relay_servers lc) in
        (rs_relay_servers lc ! i, sh\<lparr>sh_rotation := sh_rotation sh + 1\<rparr>))"

definition is_lan :: "LocalConf \<Rightarrow> SocketAddr \<Rightarrow> bool" where
  "is_lan lc addr =
     (case in_mask (rs_inner lc) of
        None \<Rightarrow> False
      | Some network \<Rightarrow>
          (case addr of
             V4 ip _ \<Rightarrow> network ip
           | V6 ip _ _ _ \<Rightarrow> (case to_ipv4 ip of Some v4 \<Rightarrow> network v4 | None \<Rightarrow> False)))"

definition decode_addr :: "bytes \<Rightarrow> SocketAddr" where
  "decode_addr bs = (case AddrMangle_decode False bs of Some a \<Rightarrow> a | None \<Rightarrow> any_listen_addr_v6)"

text \<open>The signed \<open>IdPk\<close> of a registered peer.\<close>

definition server_get_pk :: "Deps \<Rightarrow> Env \<Rightarrow> LocalConf \<Rightarrow> string \<Rightarrow> string \<Rightarrow> Shared \<Rightarrow> bytes \<times> Shared" where
  "server_get_pk d e lc version peer_id sh =
     (case in_sk (rs_inner lc) of
        None \<Rightarrow> ([], sh)
      | Some sk \<Rightarrow>
          if version = [] then ([], sh)
          else
            (case pm_get (dep_json d) (env_get_fail e) (env_now e) (sh_pm sh) peer_id of
               (Some peer, pm') \<Rightarrow>
                 (sign_sign (dep_crypto d) (idpk_write (dep_crypto d) (peer_id, p_pk peer)) sk, sh\<lparr>sh_pm := pm'\<rparr>)
             | (None, pm') \<Rightarrow> ([], sh\<lparr>sh_pm := pm'\<rparr>)))"

section \<open>Sinks\<close>

definition send_to_sink :: "Sink option \<Rightarrow> RendezvousMessage \<Rightarrow> action list" where
  "send_to_sink sink msg = (case sink of Some s \<Rightarrow> [SinkSend s msg] | None \<Rightarrow> [])"

text \<open>Both variants take the sink out of the table; \<open>send_to_tcp\<close> sends from a spawned task.\<close>

definition send_to_tcp :: "RendezvousMessage \<Rightarrow> SocketAddr \<Rightarrow> Shared \<Rightarrow> action list \<times> Shared" where
  "send_to_tcp msg addr sh =
     (send_to_sink (sh_tcp_punch sh (try_into_v4 addr)) msg,
      sh\<lparr>sh_tcp_punch := (sh_tcp_punch sh)(try_into_v4 addr := None)\<rparr>)"

definition send_to_tcp_sync :: "RendezvousMessage \<Rightarrow> SocketAddr \<Rightarrow> Shared \<Rightarrow> action list \<times> Shared" where
  "send_to_tcp_sync msg addr sh =
     (let sink = sh_tcp_punch sh (try_into_v4 addr);
          sh' = sh\<lparr>sh_tcp_punch := (sh_tcp_punch sh)(try_into_v4 addr := None)\<rparr> in
      (send_to_sink sink msg, sh'))"

definition push_tx :: "ChanData \<Rightarrow> Shared \<Rightarrow> Shared" where
  "push_tx x sh = sh\<lparr>sh_tx := sh_tx sh @ [x]\<rparr>"

section \<open>Registration\<close>

definition send_rk_res :: "SocketAddr \<Rightarrow> rk_result \<Rightarrow> action list" where
  "send_rk_res addr res = [UdpSend (MRegisterPkResponse res) addr]"

text \<open>
  \<open>update_addr\<close>.  The old address of an IP change is only logged.
\<close>

definition update_addr :: "Env \<Rightarrow> string \<Rightarrow> SocketAddr \<Rightarrow> Shared \<Rightarrow> action list \<times> Shared" where
  "update_addr e peer_id socket_addr sh =
     (case get_in_memory (sh_pm sh) peer_id of
        Some old \<Rightarrow>
          let ip = addr_ip socket_addr;
              ip_change = ((if addr_port (p_socket_addr old) \<noteq> 0 then ip \<noteq> addr_ip (p_socket_addr old)
                            else ip_to_string ip \<noteq> p_info_ip old) \<and> \<not> is_loopback ip);
              request_pk = (p_pk old = [] \<or> ip_change) in
          ([UdpSend (MRegisterPeerResponse request_pk) socket_addr],
           if request_pk then sh
           else sh\<lparr>sh_pm := pm_write peer_id
                  (\<lambda>w. w\<lparr>p_socket_addr := socket_addr, p_last_reg_time := env_now e\<rparr>) (sh_pm sh)\<rparr>)
      | None \<Rightarrow> ([UdpSend (MRegisterPeerResponse True) socket_addr], sh))"

text \<open>The decision of \<open>RegisterPk\<close> on the stored peer: refused, or (changed, ip\_changed).\<close>

definition rk_decide :: "Peer \<Rightarrow> RegisterPk \<Rightarrow> string \<Rightarrow> (bool \<times> bool) option" where
  "rk_decide peer rk ip =
     (if p_uuid peer = [] then Some (True, False)
      else if p_uuid peer = rk_uuid rk then
        (if p_info_ip peer \<noteq> ip \<and> p_pk peer \<noteq> rk_pk rk then None
         else
           let ip_changed = (p_info_ip peer \<noteq> ip) in
           Some (p_uuid peer \<noteq> rk_uuid rk \<or> p_pk peer \<noteq> rk_pk rk \<or> ip_changed, ip_changed))
      else None)"

definition register_pk :: "Deps \<Rightarrow> Env \<Rightarrow> SocketAddr \<Rightarrow> RegisterPk \<Rightarrow> Shared \<Rightarrow> action list \<times> Shared" where
  "register_pk d e addr rk sh =
     (if rk_uuid rk = [] \<or> rk_pk rk = [] then ([], sh)
      else
        let peer_id = rk_id rk;
            ip = ip_to_string (addr_ip addr) in
        if length peer_id < 6 then (send_rk_res addr UUID_MISMATCH, sh)
        else
          let (pass, bl) = check_ip_blocker (env_now e) ip peer_id (sh_ip_blocker sh);
              sh1 = sh\<lparr>sh_ip_blocker := bl\<rparr> in
          if \<not> pass then (send_rk_res addr TOO_FREQUENT, sh1)
          else
            let (peer, pm2) = pm_get_or (dep_json d) (env_get_fail e) (env_now e) (sh_pm sh1) peer_id;
                sh2 = sh1\<lparr>sh_pm := pm2\<rparr> in
            (case rk_decide peer rk ip of
               None \<Rightarrow> (send_rk_res addr UUID_MISMATCH, sh2)
             | Some (changed, ip_changed) \<Rightarrow>
                 (case reg_pk_check (env_now e) (p_reg_pk peer) of
                    None \<Rightarrow> (send_rk_res addr TOO_FREQUENT, sh2)
                  | Some req_pk \<Rightarrow>
                      let pm3 = pm_write peer_id (\<lambda>w. w\<lparr>p_reg_pk := req_pk\<rparr>) (sh_pm sh2);
                          ic = (if ip_changed
                                then record_ip_change (env_now e) peer_id ip (sh_ip_changes sh2)
                                else sh_ip_changes sh2);
                          pm4 = (if changed
                                 then snd (pm_update_pk (dep_json d) (env_put_fail e) (env_fresh e) (env_now e)
                                             pm3 peer_id addr (rk_uuid rk) (rk_pk rk) ip)
                                 else pm3) in
                      ([UdpSend (MRegisterPkResponse RK_OK) addr],
                       sh2\<lparr>sh_pm := pm4, sh_ip_changes := ic\<rparr>))))"

section \<open>Hole punching\<close>

text \<open>The flag says whether the message came in by UDP, where the answer goes out by UDP too.\<close>

definition handle_hole_sent ::
  "Deps \<Rightarrow> Env \<Rightarrow> LocalConf \<Rightarrow> PunchHoleSent \<Rightarrow> SocketAddr \<Rightarrow> bool \<Rightarrow> Shared \<Rightarrow> action list \<times> Shared" where
  "handle_hole_sent d e lc phs addr udp sh =
     (let addr_a = decode_addr (phs_socket_addr phs);
          (pk, sh') = server_get_pk d e lc (phs_version phs) (phs_id phs) sh;
          p = PunchHoleResponse_default\<lparr>phres_socket_addr := AddrMangle_encode (env_micros e) addr,
                phres_pk := pk, phres_relay_server := phs_relay_server phs\<rparr>;
          p' = (case nat_type_enum (phs_nat_type phs) of
                  Some t \<Rightarrow> p\<lparr>phres_union := Some (PresNatType t)\<rparr>
                | None \<Rightarrow> p) in
      if udp then ([UdpSend (MPunchHoleResponse p') addr_a], sh')
      else send_to_tcp (MPunchHoleResponse p') addr_a sh')"

definition handle_local_addr ::
  "Deps \<Rightarrow> Env \<Rightarrow> LocalConf \<Rightarrow> LocalAddr \<Rightarrow> SocketAddr \<Rightarrow> bool \<Rightarrow> Shared \<Rightarrow> action list \<times> Shared" where
  "handle_local_addr d e lc la addr udp sh =
     (let addr_a = decode_addr (la_socket_addr la);
          (pk, sh') = server_get_pk d e lc (la_version la) (la_id la) sh;
          p = PunchHoleResponse_default\<lparr>phres_socket_addr := la_local_addr la, phres_pk := pk,
                phres_relay_server := la_relay_server la, phres_union := Some (PresIsLocal True)\<rparr> in
      if udp then ([UdpSend (MPunchHoleResponse p) addr_a], sh')
      else send_to_tcp (MPunchHoleResponse p) addr_a sh')"

text \<open>The duplicate scan over the last 30 entries stops at the first entry of the same pair.\<close>

fun punch_dup :: "instant \<Rightarrow> string \<Rightarrow> string \<Rightarrow> PunchReqEntry list \<Rightarrow> bool" where
  "punch_dup now from_ip to_id [] = False"
| "punch_dup now from_ip to_id (x # xs) =
     (if pre_from_ip x = from_ip \<and> pre_to_id x = to_id
      then as_secs (elapsed now (pre_tm x)) < PUNCH_REQ_DEDUPE_SEC
      else punch_dup now from_ip to_id xs)"

definition record_punch_req ::
  "instant \<Rightarrow> string \<Rightarrow> string \<Rightarrow> string \<Rightarrow> PunchReqEntry list \<Rightarrow> PunchReqEntry list" where
  "record_punch_req now from_ip to_ip to_id lock =
     (if punch_dup now from_ip to_id (take 30 (rev lock)) then lock
      else lock @ [\<lparr>pre_tm = now, pre_from_ip = from_ip, pre_to_ip = to_ip, pre_to_id = to_id\<rparr>])"

definition same_ip :: "SocketAddr \<Rightarrow> SocketAddr \<Rightarrow> bool" where
  "same_ip peer_addr addr =
     (case (peer_addr, addr) of
        (V4 a _, V4 b _) \<Rightarrow> a = b
      | (V6 a _ _ _, V6 b _ _ _) \<Rightarrow> a = b
      | _ \<Rightarrow> False)"

definition failure_msg :: "Failure \<Rightarrow> RendezvousMessage" where
  "failure_msg f = MPunchHoleResponse (PunchHoleResponse_default\<lparr>phres_failure := f\<rparr>)"

definition handle_punch_hole_request ::
  "Deps \<Rightarrow> Env \<Rightarrow> LocalConf \<Rightarrow> SocketAddr \<Rightarrow> PunchHoleRequest \<Rightarrow> string \<Rightarrow> bool \<Rightarrow> Shared \<Rightarrow>
   (RendezvousMessage \<times> SocketAddr option) \<times> Shared" where
  "handle_punch_hole_request d e lc addr ph key ws sh =
     (if key \<noteq> [] \<and> phr_licence_key ph \<noteq> key then ((failure_msg LICENSE_MISMATCH, None), sh)
      else
        let peer_id = phr_id ph in
        (case pm_get (dep_json d) (env_get_fail e) (env_now e) (sh_pm sh) peer_id of
           (None, pm') \<Rightarrow> ((failure_msg ID_NOT_EXIST, None), sh\<lparr>sh_pm := pm'\<rparr>)
         | (Some peer, pm') \<Rightarrow>
             let sh1 = sh\<lparr>sh_pm := pm'\<rparr>;
                 peer_addr = p_socket_addr peer in
             if as_millis (elapsed (env_now e) (p_last_reg_time peer)) \<ge> REG_TIMEOUT
             then ((failure_msg OFFLINE, None), sh1)
             else
               let from_ip = ip_to_string (addr_ip (try_into_v4 addr));
                   to_ip = ip_to_string (addr_ip (try_into_v4 peer_addr));
                   sh2 = sh1\<lparr>sh_punch_reqs :=
                            record_punch_req (env_now e) from_ip to_ip peer_id (sh_punch_reqs sh1)\<rparr>;
                   peer_is_lan = is_lan lc peer_addr;
                   addr_is_lan = is_lan lc addr;
                   (relay_server, sh3) = get_relay_server lc sh2;
                   force = (sh_always_use_relay sh3 \<or> peer_is_lan \<noteq> addr_is_lan);
                   relay_server' = (if force \<and> peer_is_lan then in_local_ip (rs_inner lc) else relay_server);
                   nat_type = (if force then nat_type_value SYMMETRIC else phr_nat_type ph);
                   same_intranet = (\<not> ws \<and> (peer_is_lan \<and> addr_is_lan \<or> same_ip peer_addr addr));
                   socket_addr = AddrMangle_encode (env_micros e) addr;
                   msg_out =
                     (if same_intranet then
                        MFetchLocalAddr \<lparr>fla_socket_addr = socket_addr, fla_relay_server = relay_server',
                          fla_socket_addr_v6 = [], fla_control_permissions = None, fla_controlled_context = None\<rparr>
                      else
                        MPunchHole (PunchHole_default\<lparr>ph_socket_addr := socket_addr, ph_nat_type := nat_type,
                          ph_relay_server := relay_server'\<rparr>)) in
               ((msg_out, Some peer_addr), sh3)))"

definition handle_tcp_punch_hole_request ::
  "Deps \<Rightarrow> Env \<Rightarrow> LocalConf \<Rightarrow> SocketAddr \<Rightarrow> PunchHoleRequest \<Rightarrow> string \<Rightarrow> bool \<Rightarrow> Shared \<Rightarrow> action list \<times> Shared" where
  "handle_tcp_punch_hole_request d e lc addr ph key ws sh =
     (case handle_punch_hole_request d e lc addr ph key ws sh of
        ((msg, Some to_addr), sh') \<Rightarrow> ([], push_tx (DMsg msg to_addr) sh')
      | ((msg, None), sh') \<Rightarrow> send_to_tcp_sync msg addr sh')"

definition handle_udp_punch_hole_request ::
  "Deps \<Rightarrow> Env \<Rightarrow> LocalConf \<Rightarrow> SocketAddr \<Rightarrow> PunchHoleRequest \<Rightarrow> string \<Rightarrow> Shared \<Rightarrow> action list \<times> Shared" where
  "handle_udp_punch_hole_request d e lc addr ph key sh =
     (case handle_punch_hole_request d e lc addr ph key False sh of
        ((msg, to_addr), sh') \<Rightarrow>
          ([], push_tx (DMsg msg (case to_addr of Some a \<Rightarrow> a | None \<Rightarrow> addr)) sh'))"

section \<open>Online state\<close>

definition peer_online :: "instant \<Rightarrow> PeerMap \<Rightarrow> string \<Rightarrow> bool" where
  "peer_online now pm peer_id =
     (case get_in_memory pm peer_id of
        Some peer \<Rightarrow> as_millis (elapsed now (p_last_reg_time peer)) < REG_TIMEOUT
      | None \<Rightarrow> False)"

fun online_states :: "instant \<Rightarrow> PeerMap \<Rightarrow> nat \<Rightarrow> string list \<Rightarrow> bytes \<Rightarrow> bytes" where
  "online_states now pm i [] states = states"
| "online_states now pm i (peer_id # peers) states =
     (let states_idx = i div 8;
          bit_idx = 7 - i mod 8 in
      online_states now pm (i + 1) peers
        (if peer_online now pm peer_id
         then states[states_idx := (states ! states_idx) OR push_bit bit_idx 1]
         else states))"

definition handle_online_request :: "Env \<Rightarrow> string list \<Rightarrow> Shared \<Rightarrow> action list" where
  "handle_online_request e peers sh =
     [StreamSend (MOnlineResponse
        (online_states (env_now e) (sh_pm sh) 0 peers (replicate ((length peers + 7) div 8) 0)))]"

section \<open>Dispatch\<close>

definition handle_udp ::
  "Deps \<Rightarrow> Env \<Rightarrow> string \<Rightarrow> SocketAddr \<Rightarrow> RendezvousMessage option \<Rightarrow> LocalConf \<Rightarrow> Shared \<Rightarrow>
   action list \<times> LocalConf \<times> Shared" where
  "handle_udp d e key addr msg_in lc sh =
     (case msg_in of
        Some (MRegisterPeer rp) \<Rightarrow>
          if rp_id rp \<noteq> [] then
            let (acts, sh') = update_addr e (rp_id rp) addr sh in
            (acts @ (if in_serial (rs_inner lc) > rp_serial rp
                     then [UdpSend (MConfigureUpdate \<lparr>cu_serial = in_serial (rs_inner lc),
                             cu_rendezvous_servers = rs_rendezvous_servers lc\<rparr>) addr]
                     else []), lc, sh')
          else ([], lc, sh)
      | Some (MRegisterPk rk) \<Rightarrow>
          let (acts, sh') = register_pk d e addr rk sh in (acts, lc, sh')
      | Some (MPunchHoleSent phs) \<Rightarrow>
          let (acts, sh') = handle_hole_sent d e lc phs addr True sh in (acts, lc, sh')
      | Some (MLocalAddr la) \<Rightarrow>
          let (acts, sh') = handle_local_addr d e lc la addr True sh in (acts, lc, sh')
      | Some (MConfigureUpdate cu) \<Rightarrow>
          if is_loopback (addr_ip (try_into_v4 addr)) \<and> cu_serial cu > in_serial (rs_inner lc) then
            ([], lc\<lparr>rs_inner := (rs_inner lc)\<lparr>in_serial := cu_serial cu\<rparr>,
                   rs_rendezvous_servers :=
                     filter (\<lambda>x. x \<noteq> [] \<and> test_if_valid_server d x) (cu_rendezvous_servers cu)\<rparr>, sh)
          else ([], lc, sh)
      | Some (MSoftwareUpdate url) \<Rightarrow>
          (if in_version (rs_inner lc) \<noteq> [] \<and> url \<noteq> in_version (rs_inner lc)
           then [UdpSend (MSoftwareUpdate (in_software_url (rs_inner lc))) addr] else [], lc, sh)
      | _ \<Rightarrow> ([], lc, sh))"

text \<open>The sink of a session moves into the table of waiting clients.\<close>

definition park_sink :: "SocketAddr \<Rightarrow> Sink option \<Rightarrow> Shared \<Rightarrow> Shared" where
  "park_sink addr sink sh =
     (case sink of
        Some s \<Rightarrow> sh\<lparr>sh_tcp_punch := (sh_tcp_punch sh)(try_into_v4 addr \<mapsto> s)\<rparr>
      | None \<Rightarrow> sh)"

text \<open>\<open>handle_tcp\<close>: the first component tells the session to go on reading.\<close>

definition handle_tcp ::
  "Deps \<Rightarrow> Env \<Rightarrow> LocalConf \<Rightarrow> RendezvousMessage option \<Rightarrow> Sink option \<Rightarrow> SocketAddr \<Rightarrow> string \<Rightarrow> bool \<Rightarrow> Shared \<Rightarrow>
   bool \<times> action list \<times> Sink option \<times> Shared" where
  "handle_tcp d e lc msg_in sink addr key ws sh =
     (case msg_in of
        Some (MPunchHoleRequest ph) \<Rightarrow>
          let (acts, sh') = handle_tcp_punch_hole_request d e lc addr ph key ws (park_sink addr sink sh) in
          (True, acts, None, sh')
      | Some (MRequestRelay rf) \<Rightarrow>
          let sh1 = park_sink addr sink sh in
          (case get_in_memory (sh_pm sh1) (rf_id rf) of
             Some peer \<Rightarrow>
               (True, [], None,
                push_tx (DMsg (MRequestRelay (rf\<lparr>rf_socket_addr := AddrMangle_encode (env_micros e) addr\<rparr>))
                              (p_socket_addr peer)) sh1)
           | None \<Rightarrow> (True, [], None, sh1))
      | Some (MRelayResponse rr) \<Rightarrow>
          let addr_b = decode_addr (rr_socket_addr rr);
              rr1 = rr\<lparr>rr_socket_addr := []\<rparr>;
              (rr2, sh1) =
                (if rr_get_id rr1 \<noteq> [] then
                   (case server_get_pk d e lc (rr_version rr1) (rr_get_id rr1) sh of
                      (pk, sh') \<Rightarrow> (rr1\<lparr>rr_union := Some (RrPk pk)\<rparr>, sh'))
                 else (rr1, sh));
              (rr3, sh2) =
                (if rr_relay_server rr2 \<noteq> [] then
                   (if is_lan lc addr_b then (rr2\<lparr>rr_relay_server := in_local_ip (rs_inner lc)\<rparr>, sh1)
                    else if rr_relay_server rr2 = in_local_ip (rs_inner lc) then
                      (case get_relay_server lc sh1 of (r, sh') \<Rightarrow> (rr2\<lparr>rr_relay_server := r\<rparr>, sh'))
                    else (rr2, sh1))
                 else (rr2, sh1));
              (acts, sh3) = send_to_tcp_sync (MRelayResponse rr3) addr_b sh2 in
          (False, acts, sink, sh3)
      | Some (MPunchHoleSent phs) \<Rightarrow>
          let (acts, sh') = handle_hole_sent d e lc phs addr False sh in (False, acts, sink, sh')
      | Some (MLocalAddr la) \<Rightarrow>
          let (acts, sh') = handle_local_addr d e lc la addr False sh in (False, acts, sink, sh')
      | Some (MTestNatRequest serial) \<Rightarrow>
          (False,
           send_to_sink sink (MTestNatResponse \<lparr>tnr_port = int (unat (addr_port addr)),
             tnr_cu = (if in_serial (rs_inner lc) > serial
                       then Some \<lparr>cu_serial = in_serial (rs_inner lc),
                                  cu_rendezvous_servers = rs_rendezvous_servers lc\<rparr>
                       else None)\<rparr>), sink, sh)
      | Some (MRegisterPk _) \<Rightarrow>
          (False, send_to_sink sink (MRegisterPkResponse NOT_SUPPORT), sink, sh)
      | _ \<Rightarrow> (False, [], sink, sh))"

section \<open>What handlers keep of the registry\<close>

text \<open>
  The identity bindings of the database: which guid and uuid an id is bound to.  Handlers only ever
  add bindings at the end.
\<close>

definition bindings :: "PeerMap \<Rightarrow> (bytes \<times> string \<times> bytes) list" where
  "bindings pm = map (\<lambda>r. (row_guid r, row_id r, row_uuid r)) (pm_db pm)"

definition pm_step :: "PeerMap \<Rightarrow> PeerMap \<Rightarrow> bool" where
  "pm_step pm pm' \<longleftrightarrow> pm_ok pm' \<and> prefix (bindings pm) (bindings pm')"

lemma pm_step_refl [simp]: "pm_ok pm \<Longrightarrow> pm_step pm pm"
  by (simp add: pm_step_def)

lemma pm_step_trans: "pm_step pm pm' \<Longrightarrow> pm_step pm' pm'' \<Longrightarrow> pm_step pm pm''"
  by (auto simp: pm_step_def intro: prefix_order.trans)

lemma pm_step_ok: "pm_step pm pm' \<Longrightarrow> pm_ok pm'"
  by (simp add: pm_step_def)

lemma pm_step_same_db: "pm_ok pm' \<Longrightarrow> pm_db pm' = pm_db pm \<Longrightarrow> pm_step pm pm'"
  by (simp add: pm_step_def bindings_def)

lemma pm_step_get: "pm_ok pm \<Longrightarrow> pm_step pm (snd (pm_get js fail now pm i))"
  by (rule pm_step_same_db) (simp_all add: pm_get_ok)

lemma pm_step_get_or: "pm_ok pm \<Longrightarrow> pm_step pm (snd (pm_get_or js fail now pm i))"
  by (rule pm_step_same_db) (simp_all add: pm_get_or_ok)

lemma bindings_update_pk:
  assumes "pm_ok pm"
  shows "prefix (bindings pm) (bindings (snd (pm_update_pk js fail fresh now pm i addr u k ip)))"
proof (cases "pm_map pm i")
  case None
  then show ?thesis by (simp add: pm_update_pk_def)
next
  case (Some p)
  show ?thesis
  proof (cases "p_guid p = []")
    case True
    then show ?thesis
      by (simp add: pm_update_pk_new [OF Some True] Let_def bindings_def)
  next
    case False
    with assms Some obtain r where r: "r \<in> set (pm_db pm)" "row_guid r = p_guid p" "row_id r = i"
      by (auto simp: pm_ok_def)
    have "db_ok (pm_db pm)" using assms by (simp add: pm_ok_def)
    note same = set_row_id [OF this r]
    show ?thesis
      by (simp add: pm_update_pk_known [OF assms Some False] Let_def bindings_def same
          cong: map_cong)
  qed
qed

lemma pm_step_update_pk:
  assumes "pm_ok pm" and "fresh \<noteq> []" and "u \<noteq> []"
    and "\<And>p. pm_map pm i = Some p \<Longrightarrow> p_guid p \<noteq> [] \<Longrightarrow> u = p_uuid p"
  shows "pm_step pm (snd (pm_update_pk js fail fresh now pm i addr u k ip))"
  unfolding pm_step_def
  using pm_update_pk_ok [OF assms] bindings_update_pk [OF assms(1)] by blast

text \<open>The cached entry after \<open>update_pk\<close>, whether or not the database took the change.\<close>

lemma pm_update_pk_mem:
  assumes "pm_map pm i = Some p"
  shows "\<exists>g. pm_map (snd (pm_update_pk js fail fresh now pm i addr u k ip)) i =
     Some (p\<lparr>p_socket_addr := addr, p_last_reg_time := now, p_guid := g, p_uuid := u, p_pk := k, p_info_ip := ip\<rparr>)"
  using assms
  by (cases p) (auto simp: pm_update_pk_def db_insert_peer_def db_update_pk_def Let_def)

lemma pm_update_pk_mem_frame:
  "j \<noteq> i \<Longrightarrow> pm_map (snd (pm_update_pk js fail fresh now pm i addr u k ip)) j = pm_map pm j"
  by (auto simp: pm_update_pk_def db_insert_peer_def db_update_pk_def Let_def split: option.splits)

text \<open>A key registration is either refused, leaving at most a cached copy of the row, or accepted.\<close>

lemma register_pk_cases:
  assumes "register_pk d e addr rk sh = (acts, sh')"
  obtains (refused) res where "res \<noteq> RK_OK" "acts = [] \<or> acts = send_rk_res addr res"
    "sh_pm sh' = sh_pm sh \<or>
     sh_pm sh' = snd (pm_get_or (dep_json d) (env_get_fail e) (env_now e) (sh_pm sh) (rk_id rk))"
  | (accepted) peer pm2 changed ip_changed req_pk where
    "pm_get_or (dep_json d) (env_get_fail e) (env_now e) (sh_pm sh) (rk_id rk) = (peer, pm2)"
    "rk_uuid rk \<noteq> []" "rk_pk rk \<noteq> []" "length (rk_id rk) \<ge> 6"
    "rk_decide peer rk (ip_to_string (addr_ip addr)) = Some (changed, ip_changed)"
    "reg_pk_check (env_now e) (p_reg_pk peer) = Some req_pk"
    "acts = send_rk_res addr RK_OK"
    "sh_pm sh' = (let pm3 = pm_write (rk_id rk) (\<lambda>w. w\<lparr>p_reg_pk := req_pk\<rparr>) pm2 in
       if changed then snd (pm_update_pk (dep_json d) (env_put_fail e) (env_fresh e) (env_now e)
            pm3 (rk_id rk) addr (rk_uuid rk) (rk_pk rk) (ip_to_string (addr_ip addr)))
       else pm3)"
proof (cases "rk_uuid rk = [] \<or> rk_pk rk = [] \<or> length (rk_id rk) < 6 \<or>
    \<not> fst (check_ip_blocker (env_now e) (ip_to_string (addr_ip addr)) (rk_id rk) (sh_ip_blocker sh))")
  case True
  with assms refused [of UUID_MISMATCH] refused [of TOO_FREQUENT] show thesis
    by (auto simp: register_pk_def case_prod_unfold Let_def split: if_splits)
next
  case False
  obtain peer pm2 where g: "pm_get_or (dep_json d) (env_get_fail e) (env_now e) (sh_pm sh) (rk_id rk) = (peer, pm2)"
    by (cases "pm_get_or (dep_json d) (env_get_fail e) (env_now e) (sh_pm sh) (rk_id rk)")
  show thesis
  proof (cases "rk_decide peer rk (ip_to_string (addr_ip addr))")
    case None
    with False g assms refused [of UUID_MISMATCH] show thesis
      by (auto simp: register_pk_def case_prod_unfold Let_def)
  next
    case (Some c)
    show thesis
    proof (cases "reg_pk_check (env_now e) (p_reg_pk peer)")
      case None
      with Some False g assms refused [of TOO_FREQUENT] show thesis
        by (auto simp: register_pk_def case_prod_unfold Let_def)
    next
      case rq: (Some req_pk)
      from accepted [OF g _ _ _ _ rq, of "fst c" "snd c"] Some rq False g assms show thesis
        by (auto simp: register_pk_def case_prod_unfold Let_def send_rk_res_def not_less)
    qed
  qed
qed

lemma rk_decide_Some:
  "rk_decide peer rk ip = Some (changed, ip_changed) \<Longrightarrow>
   p_uuid peer = [] \<and> changed \<or>
   p_uuid peer = rk_uuid rk \<and> (p_info_ip peer = ip \<or> p_pk peer = rk_pk rk) \<and>
     (changed \<longleftrightarrow> p_pk peer \<noteq> rk_pk rk \<or> p_info_ip peer \<noteq> ip)"
  by (auto simp: rk_decide_def Let_def split: if_splits)

lemma guid_uuid: "pm_ok pm \<Longrightarrow> pm_map pm i = Some p \<Longrightarrow> p_guid p \<noteq> [] \<Longrightarrow> p_uuid p \<noteq> []"
  by (force simp: pm_ok_def db_ok_def)

lemma pm_get_or_mem:
  "pm_get_or js fail now pm i = (p, pm') \<Longrightarrow> pm_map pm' i = Some p"
  using pc.get_or_stores [of js fail now pm i p pm'] by (simp add: get_in_memory_def)

lemma pm_step_register_pk:
  assumes ok: "pm_ok (sh_pm sh)" and fresh: "env_fresh e \<noteq> []"
    and reg: "register_pk d e addr rk sh = (acts, sh')"
  shows "pm_step (sh_pm sh) (sh_pm sh')"
proof (cases rule: register_pk_cases [OF reg])
  case (1 res)
  with ok show ?thesis by (auto simp: pm_step_get_or)
next
  case (2 peer pm2 changed ip_changed req_pk)
  let ?pm3 = "pm_write (rk_id rk) (\<lambda>w. w\<lparr>p_reg_pk := req_pk\<rparr>) pm2"
  from pm_step_get_or [OF ok] 2(1) have s2: "pm_step (sh_pm sh) pm2" by (metis snd_conv)
  have ok3: "pm_ok ?pm3"
    by (rule pm_write_ok [OF pm_step_ok [OF s2]]) simp
  then have s3: "pm_step (sh_pm sh) ?pm3"
    by (rule pm_step_trans [OF s2 pm_step_same_db]) simp
  have mem: "pm_map ?pm3 (rk_id rk) = Some (peer\<lparr>p_reg_pk := req_pk\<rparr>)"
    using pm_get_or_mem [OF 2(1)] by simp
  have same: "rk_uuid rk = p_uuid p" if "pm_map ?pm3 (rk_id rk) = Some p" "p_guid p \<noteq> []" for p
  proof -
    from that(1) have "p = peer\<lparr>p_reg_pk := req_pk\<rparr>" unfolding mem by (rule option.inject [THEN iffD1, symmetric])
    with guid_uuid [OF ok3 that] rk_decide_Some [OF 2(5)] show ?thesis by auto
  qed
  have "pm_step ?pm3 (snd (pm_update_pk (dep_json d) (env_put_fail e) (env_fresh e) (env_now e)
      ?pm3 (rk_id rk) addr (rk_uuid rk) (rk_pk rk) (ip_to_string (addr_ip addr))))"
    by (rule pm_step_update_pk [OF ok3 fresh 2(2) same])
  with s3 2(8) show ?thesis by (auto simp: Let_def intro: pm_step_trans)
qed

lemma server_get_pk_frame [simp]:
  "sh_tcp_punch (snd (server_get_pk d e lc v i sh)) = sh_tcp_punch sh"
  "sh_tx (snd (server_get_pk d e lc v i sh)) = sh_tx sh"
  "sh_ip_blocker (snd (server_get_pk d e lc v i sh)) = sh_ip_blocker sh"
  "sh_ip_changes (snd (server_get_pk d e lc v i sh)) = sh_ip_changes sh"
  "sh_punch_reqs (snd (server_get_pk d e lc v i sh)) = sh_punch_reqs sh"
  "sh_rotation (snd (server_get_pk d e lc v i sh)) = sh_rotation sh"
  "sh_always_use_relay (snd (server_get_pk d e lc v i sh)) = sh_always_use_relay sh"
  by (auto simp: server_get_pk_def case_prod_unfold split: option.splits)

lemma get_relay_server_frame [simp]:
  "sh_pm (snd (get_relay_server lc sh)) = sh_pm sh"
  "sh_tcp_punch (snd (get_relay_server lc sh)) = sh_tcp_punch sh"
  "sh_tx (snd (get_relay_server lc sh)) = sh_tx sh"
  "sh_ip_blocker (snd (get_relay_server lc sh)) = sh_ip_blocker sh"
  "sh_punch_reqs (snd (get_relay_server lc sh)) = sh_punch_reqs sh"
  "sh_always_use_relay (snd (get_relay_server lc sh)) = sh_always_use_relay sh"
  by (simp_all add: get_relay_server_def Let_def)

lemma send_to_tcp_frame [simp]:
  "sh_pm (snd (send_to_tcp m a sh)) = sh_pm sh"
  "sh_ip_blocker (snd (send_to_tcp m a sh)) = sh_ip_blocker sh"
  "sh_tx (snd (send_to_tcp m a sh)) = sh_tx sh"
  by (simp_all add: send_to_tcp_def)

lemma send_to_tcp_sync_eq: "send_to_tcp_sync m a sh = send_to_tcp m a sh"
  by (simp add: send_to_tcp_def send_to_tcp_sync_def)

lemma park_sink_frame [simp]:
  "sh_pm (park_sink a s sh) = sh_pm sh"
  "sh_tx (park_sink a s sh) = sh_tx sh"
  "sh_ip_blocker (park_sink a s sh) = sh_ip_blocker sh"
  "sh_punch_reqs (park_sink a s sh) = sh_punch_reqs sh"
  "sh_always_use_relay (park_sink a s sh) = sh_always_use_relay sh"
  by (simp_all add: park_sink_def split: option.splits)

lemma push_tx_frame [simp]:
  "sh_pm (push_tx x sh) = sh_pm sh" "sh_ip_blocker (push_tx x sh) = sh_ip_blocker sh"
  "sh_tcp_punch (push_tx x sh) = sh_tcp_punch sh" "sh_tx (push_tx x sh) = sh_tx sh @ [x]"
  by (simp_all add: push_tx_def)

lemma pm_step_server_get_pk:
  "pm_ok (sh_pm sh) \<Longrightarrow> pm_step (sh_pm sh) (sh_pm (snd (server_get_pk d e lc v i sh)))"
  using pm_step_get [of "sh_pm sh" "dep_json d" "env_get_fail e" "env_now e" i]
  by (auto simp: server_get_pk_def case_prod_unfold split: option.splits)

lemma pm_step_update_addr:
  assumes "pm_ok (sh_pm sh)"
  shows "pm_step (sh_pm sh) (sh_pm (snd (update_addr e i a sh)))"
proof -
  have "pm_ok (pm_write i (\<lambda>w. w\<lparr>p_socket_addr := a, p_last_reg_time := env_now e\<rparr>) (sh_pm sh))"
    by (rule pm_write_ok [OF assms]) simp
  then show ?thesis
    using assms by (auto simp: update_addr_def Let_def pm_step_same_db split: option.splits)
qed

lemma pm_step_hole_sent:
  "pm_ok (sh_pm sh) \<Longrightarrow> pm_step (sh_pm sh) (sh_pm (snd (handle_hole_sent d e lc phs a udp sh)))"
  using pm_step_server_get_pk [of sh d e lc "phs_version phs" "phs_id phs"]
  by (simp add: handle_hole_sent_def Let_def case_prod_unfold)

lemma pm_step_local_addr:
  "pm_ok (sh_pm sh) \<Longrightarrow> pm_step (sh_pm sh) (sh_pm (snd (handle_local_addr d e lc la a udp sh)))"
  using pm_step_server_get_pk [of sh d e lc "la_version la" "la_id la"]
  by (simp add: handle_local_addr_def Let_def case_prod_unfold)

lemma punch_hole_request_pm:
  "sh_pm (snd (handle_punch_hole_request d e lc a ph key ws sh)) =
     (if key \<noteq> [] \<and> phr_licence_key ph \<noteq> key then sh_pm sh
      else snd (pm_get (dep_json d) (env_get_fail e) (env_now e) (sh_pm sh) (phr_id ph)))"
  by (auto simp: handle_punch_hole_request_def Let_def case_prod_unfold split: option.splits)

lemma pm_step_punch_hole_request:
  "pm_ok (sh_pm sh) \<Longrightarrow> pm_step (sh_pm sh) (sh_pm (snd (handle_punch_hole_request d e lc a ph key ws sh)))"
  by (simp add: punch_hole_request_pm pm_step_get)

lemma pm_step_tcp_punch_hole_request:
  "pm_ok (sh_pm sh) \<Longrightarrow> pm_step (sh_pm sh) (sh_pm (snd (handle_tcp_punch_hole_request d e lc a ph key ws sh)))"
  using pm_step_punch_hole_request [of sh d e lc a ph key ws]
  by (auto simp: handle_tcp_punch_hole_request_def send_to_tcp_sync_eq case_prod_unfold split: option.splits)

lemma pm_step_handle_udp:
  assumes "pm_ok (sh_pm sh)" and "env_fresh e \<noteq> []"
  shows "pm_step (sh_pm sh) (sh_pm (snd (snd (handle_udp d e key addr m lc sh))))"
proof -
  note steps = pm_step_update_addr [OF assms(1)] pm_step_hole_sent [OF assms(1)] pm_step_local_addr [OF assms(1)]
  have "pm_step (sh_pm sh) (sh_pm (snd (register_pk d e addr rk sh)))" for rk
    by (rule pm_step_register_pk [OF assms, of d addr rk "fst (register_pk d e addr rk sh)"]) simp
  with steps assms(1) show ?thesis
    by (simp add: handle_udp_def Let_def case_prod_unfold split: option.split RendezvousMessage.split)
qed

text \<open>The answer of \<open>RelayResponse\<close> is prepared and then routed to the sink of the requester.\<close>

lemma relay_response_pm:
  "\<exists>sh1. sh_pm (snd (snd (snd (handle_tcp d e lc (Some (MRelayResponse rr)) sink addr key ws sh)))) = sh_pm sh1 \<and>
     (sh1 = sh \<or> sh1 = snd (server_get_pk d e lc (rr_version rr) (rr_get_id (rr\<lparr>rr_socket_addr := []\<rparr>)) sh))"
  by (simp add: handle_tcp_def Let_def case_prod_unfold send_to_tcp_sync_eq) blast

lemma pm_step_handle_tcp:
  assumes "pm_ok (sh_pm sh)"
  shows "pm_step (sh_pm sh) (sh_pm (snd (snd (snd (handle_tcp d e lc m sink addr key ws sh)))))"
proof (cases "\<exists>rr. m = Some (MRelayResponse rr)")
  case True
  then obtain rr where m: "m = Some (MRelayResponse rr)" by blast
  from relay_response_pm [of d e lc rr sink addr key ws sh] pm_step_server_get_pk [OF assms] assms
  show ?thesis unfolding m by auto
next
  case False
  note steps = pm_step_hole_sent [OF assms] pm_step_local_addr [OF assms]
  have "pm_step (sh_pm sh) (sh_pm (snd (handle_tcp_punch_hole_request d e lc addr ph key ws (park_sink addr sink sh))))"
    for ph using pm_step_tcp_punch_hole_request [of "park_sink addr sink sh"] assms by simp
  with steps assms False show ?thesis
    by (auto simp: handle_tcp_def Let_def case_prod_unfold split: option.split RendezvousMessage.split)
qed

section \<open>Identity and keys\<close>

lemma pm_get_or_keeps:
  "pm_get_or js fail now pm i = (p', pm') \<Longrightarrow> pm_map pm j = Some p \<Longrightarrow> pm_map pm' j = Some p"
  using pc.get_or_keeps [of pm j p js fail now i] by (simp add: get_in_memory_def)

lemma register_pk_accepted_mem:
  assumes "pm_get_or js gf now pm i = (peer, pm2)"
    and "pm' = (let pm3 = pm_write i (\<lambda>w. w\<lparr>p_reg_pk := req_pk\<rparr>) pm2 in
       if changed then snd (pm_update_pk js pf fresh now pm3 i addr u k ip) else pm3)"
  shows "\<exists>p'. pm_map pm' i = Some p' \<and>
     p_uuid p' = (if changed then u else p_uuid peer) \<and>
     p_pk p' = (if changed then k else p_pk peer) \<and>
     p_info_ip p' = (if changed then ip else p_info_ip peer)"
    and "j \<noteq> i \<Longrightarrow> pm_map pm' j = pm_map pm2 j"
proof -
  let ?pm3 = "pm_write i (\<lambda>w. w\<lparr>p_reg_pk := req_pk\<rparr>) pm2"
  have mem: "pm_map ?pm3 i = Some (peer\<lparr>p_reg_pk := req_pk\<rparr>)"
    using pm_get_or_mem [OF assms(1)] by simp
  show "\<exists>p'. pm_map pm' i = Some p' \<and>
     p_uuid p' = (if changed then u else p_uuid peer) \<and>
     p_pk p' = (if changed then k else p_pk peer) \<and>
     p_info_ip p' = (if changed then ip else p_info_ip peer)"
    using mem pm_update_pk_mem [OF mem, of js pf fresh now addr u k ip]
    by (auto simp: assms(2) Let_def)
  show "j \<noteq> i \<Longrightarrow> pm_map pm' j = pm_map pm2 j"
    by (simp add: assms(2) Let_def pm_update_pk_mem_frame)
qed

text \<open>
  C12: An identity cannot be taken over: when a peer with a uuid is known, no \<open>RegisterPk\<close> message
  changes its uuid, and its public key changes only on a request for its id that presents its uuid
  and comes from the IP address it was last registered from.
\<close>

theorem register_pk_identity:
  assumes "register_pk d e addr rk sh = (acts, sh')"
    and "pm_map (sh_pm sh) i = Some p" and "p_uuid p \<noteq> []"
  shows "\<exists>p'. pm_map (sh_pm sh') i = Some p' \<and> p_uuid p' = p_uuid p \<and>
     (p_pk p' \<noteq> p_pk p \<longrightarrow>
        i = rk_id rk \<and> rk_uuid rk = p_uuid p \<and> p_pk p' = rk_pk rk \<and> p_info_ip p = ip_to_string (addr_ip addr))"
proof (cases rule: register_pk_cases [OF assms(1)])
  case (1 res)
  then show ?thesis
    using assms(2) pm_get_or_keeps [OF prod.collapse [symmetric] assms(2)] by auto
next
  case (2 peer pm2 changed ip_changed req_pk)
  note mem = register_pk_accepted_mem [OF 2(1) 2(8)]
  have p2: "pm_map pm2 i = Some p" by (rule pm_get_or_keeps [OF 2(1) assms(2)])
  show ?thesis
  proof (cases "i = rk_id rk")
    case True
    with p2 pm_get_or_mem [OF 2(1)] have "peer = p" by simp
    with mem(1) rk_decide_Some [OF 2(5)] assms(3) True show ?thesis by auto
  next
    case False
    with mem(2) [of i] p2 show ?thesis by simp
  qed
qed

definition demo_deps :: Deps where
  "demo_deps = \<lparr>dep_crypto = demo_crypto, dep_json = demo_json, dep_resolve = (\<lambda>_. True)\<rparr>"

definition demo_env :: "instant \<Rightarrow> Env" where
  "demo_env now = \<lparr>env_now = now, env_micros = 77, env_get_fail = False, env_put_fail = False, env_fresh = [1]\<rparr>"

definition demo_peer :: Peer where
  "demo_peer = (Peer_default 0)\<lparr>p_socket_addr := V4 (Ipv4 1 2 3 4) 9, p_guid := [9], p_uuid := [2], p_pk := [3],
     p_info_ip := ''1.2.3.4''\<rparr>"

definition demo_shared :: Shared where
  "demo_shared = \<lparr>sh_pm = \<lparr>pm_map = [''peer-1'' \<mapsto> demo_peer],
        pm_db = [\<lparr>row_guid = [9], row_id = ''peer-1'', row_uuid = [2], row_pk = [3], row_info = ''1.2.3.4''\<rparr>]\<rparr>,
      sh_tcp_punch = Map.empty, sh_tx = [], sh_ip_blocker = [], sh_ip_changes = [], sh_punch_reqs = [],
      sh_rotation = 0, sh_always_use_relay = False\<rparr>"

theorem register_pk_identity_witness:
  "\<exists>p'. pm_map (sh_pm (snd (register_pk demo_deps (demo_env 5) (V4 (Ipv4 6 6 6 6) 1)
       \<lparr>rk_id = ''peer-1'', rk_uuid = [7], rk_pk = [8], rk_old_id = [], rk_no_register_device = False\<rparr>
       demo_shared))) ''peer-1'' = Some p' \<and> p_uuid p' = [2]"
  using register_pk_identity [OF prod.collapse [symmetric], of demo_shared "''peer-1''" demo_peer]
  by (force simp: demo_shared_def demo_peer_def)

text \<open>
  The answer to \<open>RegisterPk\<close> tells the truth about the running server: after the answer \<open>OK\<close>
  the id is cached with exactly the uuid, public key and IP address of the request; after any other
  outcome every cached peer and the whole database are as before.
\<close>

theorem register_pk_reply:
  assumes "handle_udp d e key addr (Some (MRegisterPk rk)) lc sh = (acts, lc', sh')"
  shows "(acts = [UdpSend (MRegisterPkResponse RK_OK) addr] \<longrightarrow>
      (\<exists>p'. pm_map (sh_pm sh') (rk_id rk) = Some p' \<and> p_uuid p' = rk_uuid rk \<and> p_pk p' = rk_pk rk \<and>
         p_info_ip p' = ip_to_string (addr_ip addr))) \<and>
     (acts \<noteq> [UdpSend (MRegisterPkResponse RK_OK) addr] \<longrightarrow>
      pm_db (sh_pm sh') = pm_db (sh_pm sh) \<and>
      (\<forall>i p. pm_map (sh_pm sh) i = Some p \<longrightarrow> pm_map (sh_pm sh') i = Some p)) \<and>
     lc' = lc"
proof -
  from assms have reg: "register_pk d e addr rk sh = (acts, sh')" and lc: "lc' = lc"
    by (simp_all add: handle_udp_def Let_def case_prod_unfold prod_eq_iff)
  show ?thesis
  proof (cases rule: register_pk_cases [OF reg])
    case (1 res)
    then show ?thesis
      using lc pm_get_or_keeps [OF prod.collapse [symmetric]] by (auto simp: send_rk_res_def)
  next
    case (2 peer pm2 changed ip_changed req_pk)
    with register_pk_accepted_mem(1) [OF 2(1) 2(8)] rk_decide_Some [OF 2(5)] lc show ?thesis
      by (auto simp: send_rk_res_def)
  qed
qed

definition demo_conf :: LocalConf where
  "demo_conf = \<lparr>rs_relay_servers = [''r1'', ''r2''], rs_relay_servers0 = [''r1'', ''r2''], rs_rendezvous_servers = [],
      rs_inner = \<lparr>in_serial = 0, in_version = [], in_software_url = [], in_mask = None, in_local_ip = [],
        in_sk = Some (replicate 64 5)\<rparr>\<rparr>"

definition demo_hijack :: RegisterPk where
  "demo_hijack = \<lparr>rk_id = ''peer-1'', rk_uuid = [7], rk_pk = [8], rk_old_id = [], rk_no_register_device = False\<rparr>"

theorem register_pk_reply_witness:
  "fst (handle_udp demo_deps (demo_env 5) [] (V4 (Ipv4 6 6 6 6) 1) (Some (MRegisterPk demo_hijack)) demo_conf demo_shared)
     = [UdpSend (MRegisterPkResponse UUID_MISMATCH) (V4 (Ipv4 6 6 6 6) 1)] \<and>
   pm_map (sh_pm (snd (snd (handle_udp demo_deps (demo_env 5) [] (V4 (Ipv4 6 6 6 6) 1)
       (Some (MRegisterPk demo_hijack)) demo_conf demo_shared)))) ''peer-1'' = Some demo_peer"
proof -
  let ?r = "handle_udp demo_deps (demo_env 5) [] (V4 (Ipv4 6 6 6 6) 1) (Some (MRegisterPk demo_hijack))
      demo_conf demo_shared"
  have acts: "fst ?r = [UdpSend (MRegisterPkResponse UUID_MISMATCH) (V4 (Ipv4 6 6 6 6) 1)]"
    by (simp add: handle_udp_def register_pk_def demo_hijack_def demo_shared_def demo_peer_def demo_env_def
        check_ip_blocker_def pm_get_or_def pm_get_def rk_decide_def send_rk_res_def Let_def)
  have "?r = (fst ?r, fst (snd ?r), snd (snd ?r))" by simp
  from register_pk_reply [OF this] acts show ?thesis
    by (auto simp: demo_shared_def)
qed

section \<open>Relay servers\<close>

lemma get_relay_server_many:
  assumes "length (rs_relay_servers lc) > 1"
  shows "get_relay_server lc sh =
     (rs_relay_servers lc ! (unat (sh_rotation sh) mod length (rs_relay_servers lc)),
      sh\<lparr>sh_rotation := sh_rotation sh + 1\<rparr>)"
  using assms by (auto simp: get_relay_server_def Let_def)

lemma get_relay_server_mem:
  "fst (get_relay_server lc sh) \<in> set (rs_relay_servers lc) \<or>
   rs_relay_servers lc = [] \<and> fst (get_relay_server lc sh) = []"
  by (auto simp: get_relay_server_def Let_def intro!: nth_mem)

text \<open>The servers handed out by consecutive requests.\<close>

fun relay_run :: "LocalConf \<Rightarrow> nat \<Rightarrow> Shared \<Rightarrow> string list" where
  "relay_run lc 0 sh = []"
| "relay_run lc (Suc n) sh =
     (case get_relay_server lc sh of (r, sh') \<Rightarrow> r # relay_run lc n sh')"

lemma relay_run_nth:
  assumes "length (rs_relay_servers lc) > 1" and "unat (sh_rotation sh) + n \<le> 2 ^ 64"
  shows "relay_run lc n sh =
     map (\<lambda>i. rs_relay_servers lc ! ((unat (sh_rotation sh) + i) mod length (rs_relay_servers lc))) [0..<n]"
  using assms(2)
proof (induction n arbitrary: sh)
  case (Suc n)
  show ?case
  proof (cases n)
    case 0
    then show ?thesis by (simp add: get_relay_server_many [OF assms(1)])
  next
    case (Suc k)
    with Suc.prems have "unat (sh_rotation sh) < 2 ^ 64 - 1" by simp
    then have inc: "unat (sh_rotation sh + 1) = Suc (unat (sh_rotation sh))"
      by (simp add: unat_word_ariths)
    have "relay_run lc n (sh\<lparr>sh_rotation := sh_rotation sh + 1\<rparr>) =
        map (\<lambda>i. rs_relay_servers lc ! ((Suc (unat (sh_rotation sh)) + i) mod length (rs_relay_servers lc))) [0..<n]"
      using Suc.IH [of "sh\<lparr>sh_rotation := sh_rotation sh + 1\<rparr>"] Suc.prems inc by simp
    then show ?thesis
      by (simp add: get_relay_server_many [OF assms(1)] upt_conv_Cons map_Suc_upt [symmetric] del: upt_Suc)
  qed
qed simp

lemma mset_rotation:
  assumes "xs \<noteq> []"
  shows "mset (map (\<lambda>i. xs ! ((k + i) mod length xs)) [0..<length xs]) = mset xs"
proof -
  have "map (\<lambda>i. xs ! ((k + i) mod length xs)) [0..<length xs] = rotate k xs"
    by (rule nth_equalityI) (simp_all add: nth_rotate)
  then show ?thesis
    by (simp only: rotate_drop_take) (metis append_take_drop_id mset_append union_commute)
qed

text \<open>
  C23: Relay servers are used in turn: with \<open>n > 1\<close> relay servers, any \<open>n\<close> consecutive choices
  hand out every server exactly once (up to the wrap-around of the 64-bit counter).
\<close>

theorem relay_rotation_fair:
  assumes "length (rs_relay_servers lc) > 1"
    and "unat (sh_rotation sh) + length (rs_relay_servers lc) \<le> 2 ^ 64"
  shows "mset (relay_run lc (length (rs_relay_servers lc)) sh) = mset (rs_relay_servers lc)"
proof -
  have "rs_relay_servers lc \<noteq> []" using assms(1) by auto
  then show ?thesis
    unfolding relay_run_nth [OF assms] by (rule mset_rotation)
qed

theorem relay_rotation_fair_witness:
  "mset (relay_run demo_conf 2 demo_shared) = mset [''r1'', ''r2'']"
proof -
  have rs: "rs_relay_servers demo_conf = [''r1'', ''r2'']" and "unat (sh_rotation demo_shared) = 0"
    and len: "length [''r1'', ''r2''] = 2"
    by (simp_all add: demo_conf_def demo_shared_def)
  with relay_rotation_fair [of demo_conf demo_shared] show ?thesis unfolding rs len by simp
qed

section \<open>Online states\<close>

lemma length_online_states [simp]: "length (online_states now pm i ps st) = length st"
  by (induction ps arbitrary: i st) (auto simp: Let_def)

lemma bit_set_u8: "bit ((w :: u8) OR 2 ^ k) n \<longleftrightarrow> bit w n \<or> n = k \<and> k < 8"
  by (auto simp: bit_simps)

lemma online_states_bit:
  assumes "length ps + i \<le> 8 * length st" and "j div 8 < length st" and "n < 8"
  shows "bit (online_states now pm i ps st ! (j div 8)) n \<longleftrightarrow>
     bit (st ! (j div 8)) n \<or>
     (\<exists>k < length ps. (i + k) div 8 = j div 8 \<and> n = 7 - (i + k) mod 8 \<and> peer_online now pm (ps ! k))"
  using assms
proof (induction ps arbitrary: i st)
  case (Cons p ps)
  define st' where "st' = (if peer_online now pm p then st[i div 8 := (st ! (i div 8)) OR push_bit (7 - i mod 8) 1] else st)"
  have len: "length st' = length st" by (simp add: st'_def)
  have step: "bit (st' ! (j div 8)) n \<longleftrightarrow>
      bit (st ! (j div 8)) n \<or> i div 8 = j div 8 \<and> n = 7 - i mod 8 \<and> peer_online now pm p"
    using Cons.prems by (auto simp: st'_def nth_list_update bit_set_u8 push_bit_of_1)
  have "online_states now pm i (p # ps) st = online_states now pm (Suc i) ps st'"
    by (simp add: st'_def Let_def)
  moreover have "bit (online_states now pm (Suc i) ps st' ! (j div 8)) n \<longleftrightarrow>
      bit (st' ! (j div 8)) n \<or>
      (\<exists>k < length ps. (Suc i + k) div 8 = j div 8 \<and> n = 7 - (Suc i + k) mod 8 \<and> peer_online now pm (ps ! k))"
    using Cons.prems by (intro Cons.IH) (simp_all add: len)
  ultimately show ?case
    by (simp only: step Ex_less_Suc2 length_Cons nth_Cons_0 nth_Cons_Suc add_0_right add_Suc_right add_Suc) blast
qed simp

lemma div_mod_8_inj:
  assumes "(a :: nat) div 8 = b div 8" and "7 - a mod 8 = 7 - b mod 8"
  shows "a = b"
proof -
  have "a mod 8 < 8" "b mod 8 < 8" by simp_all
  with assms(2) have "a mod 8 = b mod 8" by linarith
  with assms(1) show ?thesis by (metis div_mult_mod_eq)
qed

text \<open>
  The answer to an online query: the bitmap has one bit per queried id, most significant bit
  first, set exactly for the peers that are in memory and registered within the last 30 seconds;
  the padding bits are clear.
\<close>

theorem online_request_bits:
  assumes "handle_online_request e peers sh = [StreamSend (MOnlineResponse states)]"
  shows "length states = (length peers + 7) div 8 \<and>
     (\<forall>j < 8 * length states.
        bit (states ! (j div 8)) (7 - j mod 8) \<longleftrightarrow>
          j < length peers \<and> peer_online (env_now e) (sh_pm sh) (peers ! j))"
proof -
  let ?st = "replicate ((length peers + 7) div 8) (0 :: u8)"
  from assms have states: "states = online_states (env_now e) (sh_pm sh) 0 peers ?st"
    by (simp add: handle_online_request_def)
  have cover: "length peers + 0 \<le> 8 * length ?st" by simp
  have "bit (states ! (j div 8)) (7 - j mod 8) \<longleftrightarrow>
      j < length peers \<and> peer_online (env_now e) (sh_pm sh) (peers ! j)" if "j < 8 * length states" for j
  proof -
    from that have j: "j div 8 < length ?st" by (simp add: states less_mult_imp_div_less mult.commute)
    have "bit (states ! (j div 8)) (7 - j mod 8) \<longleftrightarrow>
        (\<exists>k < length peers. k div 8 = j div 8 \<and> 7 - j mod 8 = 7 - k mod 8 \<and>
           peer_online (env_now e) (sh_pm sh) (peers ! k))"
      unfolding states using online_states_bit [OF cover j, of "7 - j mod 8"] j by simp
    also have "\<dots> \<longleftrightarrow> j < length peers \<and> peer_online (env_now e) (sh_pm sh) (peers ! j)"
      by (metis div_mod_8_inj)
    finally show ?thesis .
  qed
  then show ?thesis by (simp add: states)
qed

theorem online_request_bits_witness:
  "\<exists>states. handle_online_request (demo_env 5) [''x'', ''peer-1''] demo_shared = [StreamSend (MOnlineResponse states)] \<and>
     length states = 1 \<and> bit (states ! 0) 6 \<and> \<not> bit (states ! 0) 7"
proof -
  obtain states where st: "handle_online_request (demo_env 5) [''x'', ''peer-1''] demo_shared
      = [StreamSend (MOnlineResponse states)]"
    by (simp add: handle_online_request_def)
  note bits = online_request_bits [OF this, THEN conjunct2, rule_format]
  from online_request_bits [OF st] have len: "length states = 1" by simp
  show ?thesis
    using st len bits [of 0] bits [of 1]
    by (simp add: demo_env_def peer_online_def get_in_memory_def demo_shared_def demo_peer_def Peer_default_def
        get_expired_time_def as_millis_def elapsed_def REG_TIMEOUT_def)
qed

section \<open>Hole punching\<close>

lemma decode_addr_encode [simp]: "decode_addr (AddrMangle_encode tm addr) = strip_scope (try_into_v4 addr)"
  using decode_encode [of False tm addr] by (simp add: decode_addr_def)

text \<open>The address of the requester and the relay server that a message to the peer carries.\<close>

fun punch_socket_addr :: "RendezvousMessage \<Rightarrow> bytes" where
  "punch_socket_addr (MPunchHole p) = ph_socket_addr p"
| "punch_socket_addr (MFetchLocalAddr f) = fla_socket_addr f"
| "punch_socket_addr _ = []"

fun punch_relay_server :: "RendezvousMessage \<Rightarrow> string" where
  "punch_relay_server (MPunchHole p) = ph_relay_server p"
| "punch_relay_server (MFetchLocalAddr f) = fla_relay_server f"
| "punch_relay_server _ = []"

definition same_intranet :: "LocalConf \<Rightarrow> bool \<Rightarrow> SocketAddr \<Rightarrow> SocketAddr \<Rightarrow> bool" where
  "same_intranet lc ws peer_addr addr \<longleftrightarrow>
     \<not> ws \<and> (is_lan lc peer_addr \<and> is_lan lc addr \<or> same_ip peer_addr addr)"

text \<open>What the message to the peer must say.\<close>

definition forwards :: "LocalConf \<Rightarrow> bool \<Rightarrow> bool \<Rightarrow> SocketAddr \<Rightarrow> SocketAddr \<Rightarrow> RendezvousMessage \<Rightarrow> bool" where
  "forwards lc ws always peer_addr addr m \<longleftrightarrow>
     decode_addr (punch_socket_addr m) = strip_scope (try_into_v4 addr) \<and>
     ((\<exists>f. m = MFetchLocalAddr f) \<longleftrightarrow> same_intranet lc ws peer_addr addr) \<and>
     ((\<exists>f. m = MPunchHole f) \<longleftrightarrow> \<not> same_intranet lc ws peer_addr addr) \<and>
     punch_relay_server m \<in> set (rs_relay_servers lc) \<union> {in_local_ip (rs_inner lc), []} \<and>
     (\<forall>f. m = MPunchHole f \<and> always \<longrightarrow> ph_nat_type f = nat_type_value SYMMETRIC)"

lemma punch_hole_online:
  fixes d e lc addr ph key ws sh
  defines "r \<equiv> handle_punch_hole_request d e lc addr ph key ws sh"
  assumes "key = [] \<or> phr_licence_key ph = key"
    and "fst (pm_get (dep_json d) (env_get_fail e) (env_now e) (sh_pm sh) (phr_id ph)) = Some p"
    and "\<not> as_millis (elapsed (env_now e) (p_last_reg_time p)) \<ge> REG_TIMEOUT"
  shows "snd (fst r) = Some (p_socket_addr p)"
    and "forwards lc ws (sh_always_use_relay sh) (p_socket_addr p) addr (fst (fst r))"
    and "sh_tcp_punch (snd r) = sh_tcp_punch sh" and "sh_tx (snd r) = sh_tx sh"
proof -
  obtain pm' where g: "pm_get (dep_json d) (env_get_fail e) (env_now e) (sh_pm sh) (phr_id ph) = (Some p, pm')"
    using assms(3) by (metis prod.collapse)
  let ?sh2 = "sh\<lparr>sh_pm := pm', sh_punch_reqs := record_punch_req (env_now e)
      (ip_to_string (addr_ip (try_into_v4 addr))) (ip_to_string (addr_ip (try_into_v4 (p_socket_addr p))))
      (phr_id ph) (sh_punch_reqs sh)\<rparr>"
  note eval = r_def handle_punch_hole_request_def Let_def case_prod_unfold same_intranet_def
  have "snd r = snd (get_relay_server lc ?sh2)" and addr: "snd (fst r) = Some (p_socket_addr p)"
    using assms g by (auto simp: eval)
  then show "sh_tcp_punch (snd r) = sh_tcp_punch sh" and "sh_tx (snd r) = sh_tx sh"
    and "snd (fst r) = Some (p_socket_addr p)" by simp_all
  have "punch_socket_addr (fst (fst r)) = AddrMangle_encode (env_micros e) addr"
    "(\<exists>f. fst (fst r) = MFetchLocalAddr f) \<longleftrightarrow> same_intranet lc ws (p_socket_addr p) addr"
    "(\<exists>f. fst (fst r) = MPunchHole f) \<longleftrightarrow> \<not> same_intranet lc ws (p_socket_addr p) addr"
    using assms g by (auto simp: eval)
  moreover have "punch_relay_server (fst (fst r)) \<in> set (rs_relay_servers lc) \<union> {in_local_ip (rs_inner lc), []}"
    using assms g get_relay_server_mem [of lc ?sh2] by (auto simp: eval)
  moreover have "\<forall>f. fst (fst r) = MPunchHole f \<and> sh_always_use_relay sh \<longrightarrow> ph_nat_type f = nat_type_value SYMMETRIC"
    using assms g by (auto simp: eval)
  ultimately show "forwards lc ws (sh_always_use_relay sh) (p_socket_addr p) addr (fst (fst r))"
    by (simp add: forwards_def)
qed

text \<open>
  C17: What a punch-hole request is answered with.  A wrong key is refused with
  \<open>LICENSE_MISMATCH\<close> and changes nothing; an unknown id gives \<open>ID_NOT_EXIST\<close>; a peer that has not
  registered for 30 seconds gives \<open>OFFLINE\<close>; otherwise the message goes to the address the peer
  registered from, carries the address of the requester, is a \<open>FetchLocalAddr\<close> exactly when both are
  in the same intranet, and names a configured relay server (or the local IP, or none).
\<close>

theorem punch_hole_request_spec:
  "(key \<noteq> [] \<and> phr_licence_key ph \<noteq> key \<longrightarrow>
      handle_punch_hole_request d e lc addr ph key ws sh = ((failure_msg LICENSE_MISMATCH, None), sh)) \<and>
   (key = [] \<or> phr_licence_key ph = key \<longrightarrow>
      (case fst (pm_get (dep_json d) (env_get_fail e) (env_now e) (sh_pm sh) (phr_id ph)) of
         None \<Rightarrow> fst (handle_punch_hole_request d e lc addr ph key ws sh) = (failure_msg ID_NOT_EXIST, None)
       | Some p \<Rightarrow>
           if as_millis (elapsed (env_now e) (p_last_reg_time p)) \<ge> REG_TIMEOUT
           then fst (handle_punch_hole_request d e lc addr ph key ws sh) = (failure_msg OFFLINE, None)
           else \<exists>m. fst (handle_punch_hole_request d e lc addr ph key ws sh) = (m, Some (p_socket_addr p)) \<and>
              forwards lc ws (sh_always_use_relay sh) (p_socket_addr p) addr m))"
proof (intro conjI impI)
  let ?r = "handle_punch_hole_request d e lc addr ph key ws sh"
  assume k: "key = [] \<or> phr_licence_key ph = key"
  show "case fst (pm_get (dep_json d) (env_get_fail e) (env_now e) (sh_pm sh) (phr_id ph)) of
         None \<Rightarrow> fst ?r = (failure_msg ID_NOT_EXIST, None)
       | Some p \<Rightarrow>
           if as_millis (elapsed (env_now e) (p_last_reg_time p)) \<ge> REG_TIMEOUT
           then fst ?r = (failure_msg OFFLINE, None)
           else \<exists>m. fst ?r = (m, Some (p_socket_addr p)) \<and>
              forwards lc ws (sh_always_use_relay sh) (p_socket_addr p) addr m"
  proof (cases "fst (pm_get (dep_json d) (env_get_fail e) (env_now e) (sh_pm sh) (phr_id ph))")
    case (Some p)
    show ?thesis
    proof (cases "as_millis (elapsed (env_now e) (p_last_reg_time p)) \<ge> REG_TIMEOUT")
      case False
      note online = punch_hole_online [OF k Some False, where lc = lc and addr = addr and ws = ws]
      have "\<exists>m. fst ?r = (m, Some (p_socket_addr p)) \<and>
          forwards lc ws (sh_always_use_relay sh) (p_socket_addr p) addr m"
        by (rule exI [of _ "fst (fst ?r)"]) (simp add: online prod_eq_iff)
      with Some False show ?thesis by simp
    qed (use Some k in \<open>auto simp: handle_punch_hole_request_def Let_def case_prod_unfold\<close>)
  qed (use k in \<open>auto simp: handle_punch_hole_request_def Let_def case_prod_unfold\<close>)
qed (simp add: handle_punch_hole_request_def)

definition demo_request :: PunchHoleRequest where
  "demo_request = \<lparr>phr_id = ''peer-1'', phr_nat_type = 1, phr_licence_key = ''k'', phr_conn_type = 0, phr_token = [],
     phr_version = [], phr_udp_port = 0, phr_force_relay = False, phr_upnp_port = 0, phr_socket_addr_v6 = []\<rparr>"

lemma demo_online: "\<not> REG_TIMEOUT \<le> as_millis (elapsed 5 (p_last_reg_time demo_peer))"
  by (simp add: demo_peer_def Peer_default_def get_expired_time_def as_millis_def elapsed_def REG_TIMEOUT_def)

lemma demo_lookup: "pm_get js fail now (sh_pm demo_shared) ''peer-1'' = (Some demo_peer, sh_pm demo_shared)"
  by (simp add: pm_get_def demo_shared_def)

theorem punch_hole_request_spec_witness:
  "handle_punch_hole_request demo_deps (demo_env 5) demo_conf (V4 (Ipv4 9 9 9 9) 7) demo_request ''other'' False demo_shared =
     ((failure_msg LICENSE_MISMATCH, None), demo_shared) \<and>
   (\<exists>m. fst (handle_punch_hole_request demo_deps (demo_env 5) demo_conf (V4 (Ipv4 9 9 9 9) 7) demo_request ''k'' False
        demo_shared) = (m, Some (V4 (Ipv4 1 2 3 4) 9)) \<and>
      decode_addr (punch_socket_addr m) = V4 (Ipv4 9 9 9 9) 7)"
proof -
  have now: "env_now (demo_env 5) = 5" and i: "phr_id demo_request = ''peer-1''"
    and k: "phr_licence_key demo_request = ''k''" and a: "p_socket_addr demo_peer = V4 (Ipv4 1 2 3 4) 9"
    by (simp_all add: demo_env_def demo_request_def demo_peer_def)
  note spec = punch_hole_request_spec [of _ demo_request demo_deps "demo_env 5" demo_conf "V4 (Ipv4 9 9 9 9) 7" False demo_shared]
  from spec [of "''other''"] spec [of "''k''"] show ?thesis
    by (auto simp: now i k a demo_lookup demo_online forwards_def try_into_v4_def)
qed

section \<open>Routing of replies\<close>

lemma try_into_v4_stable:
  "strip_scope a = a \<Longrightarrow> try_into_v4 (strip_scope (try_into_v4 a)) = try_into_v4 a"
  by (cases a) (auto simp: try_into_v4_def split: option.split)

lemma handle_hole_sent_tcp:
  "\<exists>p. fst (handle_hole_sent d e lc phs addr False sh) =
       send_to_sink (sh_tcp_punch sh (try_into_v4 (decode_addr (phs_socket_addr phs)))) (MPunchHoleResponse p) \<and>
     decode_addr (phres_socket_addr p) = strip_scope (try_into_v4 addr) \<and>
     phres_relay_server p = phs_relay_server phs \<and>
     phres_pk p = fst (server_get_pk d e lc (phs_version phs) (phs_id phs) sh) \<and>
     sh_tcp_punch (snd (handle_hole_sent d e lc phs addr False sh)) =
       (sh_tcp_punch sh)(try_into_v4 (decode_addr (phs_socket_addr phs)) := None)"
  by (simp add: handle_hole_sent_def Let_def case_prod_unfold send_to_tcp_def split: option.split)
    (force simp: PunchHoleResponse_default_def)



end
