(* ===== verification/Rendezvous_Loop.thy ===== *)
theory Rendezvous_Loop
  imports Rendezvous Addr_Parse
begin

text \<open>
  The rendezvous server as a running system (\<open>server/src/rendezvous_server.rs\<close>): the admin commands
  of the loopback port, the TCP and WebSocket sessions, the relay check, and \<open>io_loop\<close> as a step
  relation over the main loop's configuration, the shared state, the live sessions and the spawned
  tasks.  Invariants of all reachable states follow by rule induction.
\<close>

section \<open>Admin commands\<close>

definition writeln :: "string \<Rightarrow> string" where
  "writeln s = s @ [CHR 0x0A]"

text \<open>\<open>format!("{:?}")\<close> of a string, and of a map from strings to counters.\<close>

definition debug_char :: "char \<Rightarrow> string" where
  "debug_char c =
     (if c = CHR 0x22 then [CHR 0x5C, CHR 0x22] else if c = CHR 0x5C then [CHR 0x5C, CHR 0x5C]
      else if c = CHR 0x0A then [CHR 0x5C, CHR ''n''] else if c = CHR 0x0D then [CHR 0x5C, CHR ''r'']
      else if c = CHR 0x09 then [CHR 0x5C, CHR ''t''] else [c])"

definition debug_string :: "string \<Rightarrow> string" where
  "debug_string s = [CHR 0x22] @ concat (map debug_char s) @ [CHR 0x22]"

definition debug_counts :: "(string \<times> nat) list \<Rightarrow> string" where
  "debug_counts m =
     ''{'' @ intercalate '', '' (map (\<lambda>(k, n). debug_string k @ '': '' @ nat_to_string n) m) @ ''}''"

text \<open>The listing loop \<open>for i in 0..(start + 10)\<close>, whose bound wraps at 32 bits.\<close>

fun page :: "int \<Rightarrow> int \<Rightarrow> int \<Rightarrow> 'a list \<Rightarrow> 'a list" where
  "page i bound start [] = []"
| "page i bound start (x # xs) =
     (if i \<ge> bound then []
      else if i < start then page (i + 1) bound start xs
      else x # page (i + 1) bound start xs)"

definition cmd_start :: "string option \<Rightarrow> int" where
  "cmd_start arg =
     (case arg of
        Some x \<Rightarrow> (case parse_signed (- (2 ^ 31)) (2 ^ 31 - 1) x of Some v \<Rightarrow> v | None \<Rightarrow> -1)
      | None \<Rightarrow> -1)"

fun next_arg :: "string list \<Rightarrow> string option" where
  "next_arg [] = None"
| "next_arg (x # xs) = Some x"

definition show_block_entry :: "instant \<Rightarrow> ip_block_entry \<Rightarrow> string" where
  "show_block_entry now x =
     (case x of ((n, t), (ids, t2)) \<Rightarrow>
        nat_to_string n @ ''/'' @ nat_to_string (as_secs (elapsed now t)) @ ''s '' @
        nat_to_string (length ids) @ ''/'' @ nat_to_string (as_secs (elapsed now t2)) @ ''s'')"

definition cmd_ip_blocker :: "instant \<Rightarrow> string list \<Rightarrow> Shared \<Rightarrow> string \<times> Shared" where
  "cmd_ip_blocker now args sh =
     (let lock = filter (\<lambda>(_, ((_, t), (_, t2))). as_secs (elapsed now t) \<le> IP_BLOCK_DUR \<or>
                                             as_secs (elapsed now t2) \<le> DAY_SECONDS) (sh_ip_blocker sh);
          res = writeln (nat_to_string (length lock));
          ip = next_arg args;
          start = cmd_start ip;
          (res1, lock1, start1) =
            (if start < 0 then
               (case ip of
                  Some ip' \<Rightarrow>
                    (res @ (case map_of lock ip' of Some x \<Rightarrow> writeln (show_block_entry now x) | None \<Rightarrow> []),
                     (if next_arg (tl args) = Some ''-'' then alist_remove ip' lock else lock), start)
                | None \<Rightarrow> (res, lock, 0))
             else (res, lock, start));
          res2 =
            (if start1 \<ge> 0 then
               res1 @ concat (map (\<lambda>(ip', x). writeln (ip' @ '': '' @ show_block_entry now x))
                                (page 0 (wrap_i32 (start1 + 10)) start1 lock1))
             else res1) in
      (res2, sh\<lparr>sh_ip_blocker := lock1\<rparr>))"

definition cmd_ip_changes :: "instant \<Rightarrow> string list \<Rightarrow> Shared \<Rightarrow> string \<times> Shared" where
  "cmd_ip_changes now args sh =
     (let lock = filter (\<lambda>(_, (tm, ips)). as_secs (elapsed now tm) < IP_CHANGE_DUR_X2 \<and> length ips > 1)
                   (sh_ip_changes sh);
          res = writeln (nat_to_string (length lock));
          peer_id = next_arg args;
          start = cmd_start peer_id;
          show_ic = (\<lambda>(tm, ips). nat_to_string (as_secs (elapsed now tm)) @ ''s '' @ debug_counts ips);
          (res1, lock1, start1) =
            (if \<not> (0 \<le> start \<and> start \<le> 10000000) then
               (case peer_id of
                  Some i \<Rightarrow>
                    (res @ (case map_of lock i of Some x \<Rightarrow> writeln (show_ic x) | None \<Rightarrow> []),
                     (if next_arg (tl args) = Some ''-'' then alist_remove i lock else lock), start)
                | None \<Rightarrow> (res, lock, 0))
             else (res, lock, start));
          res2 =
            (if start1 \<ge> 0 then
               res1 @ concat (map (\<lambda>(i, x). writeln (i @ '': '' @ show_ic x))
                                (page 0 (wrap_i32 (start1 + 10)) start1 lock1))
             else res1) in
      (res2, sh\<lparr>sh_ip_changes := lock1\<rparr>))"

text \<open>\<open>rfc3339\<close> renders the moment that lies the given time before now (the \<open>chrono\<close> crate).\<close>

definition cmd_punch_requests :: "(nat \<Rightarrow> string) \<Rightarrow> instant \<Rightarrow> string list \<Rightarrow> Shared \<Rightarrow> string \<times> Shared" where
  "cmd_punch_requests rfc3339 now args sh =
     (if next_arg args = Some ''-'' then ([], sh\<lparr>sh_punch_reqs := []\<rparr>)
      else
        let start = (case Option.bind (next_arg args) (parse_unsigned usize_max) of Some n \<Rightarrow> n | None \<Rightarrow> 0);
            page_size = (case Option.bind (next_arg (tl args)) (parse_unsigned usize_max) of Some n \<Rightarrow> n | None \<Rightarrow> 10);
            page_size' = (if page_size = 0 then 10 else page_size) in
        (concat (map (\<lambda>x. writeln (rfc3339 (elapsed now (pre_tm x)) @ '' '' @ pre_from_ip x @ '' -> '' @
                              pre_to_id x @ ''@'' @ pre_to_ip x))
           (take page_size' (drop start (sh_punch_reqs sh)))), sh))"

definition cmd_always_use_relay :: "string list \<Rightarrow> Shared \<Rightarrow> string \<times> Shared" where
  "cmd_always_use_relay args sh =
     (case next_arg args of
        Some rs \<Rightarrow>
          ([], push_tx (DRelayServers0 rs) (sh\<lparr>sh_always_use_relay := (rs = ''Y'' \<or> rs = ''y'')\<rparr>))
      | None \<Rightarrow>
          (writeln (''ALWAYS_USE_RELAY: '' @ (if sh_always_use_relay sh then ''true'' else ''false'')), sh))"

definition cmd_test_geo :: "LocalConf \<Rightarrow> string list \<Rightarrow> Shared \<Rightarrow> string \<times> Shared" where
  "cmd_test_geo lc args sh =
     (case args of
        [] \<Rightarrow> ([], sh)
      | rs # args' \<Rightarrow>
          if parse_ip_addr rs = None then ([], sh)
          else
            (case args' of
               rs2 # _ \<Rightarrow>
                 if parse_ip_addr rs2 = None then ([], sh)
                 else (case get_relay_server lc sh of (r, sh') \<Rightarrow> (debug_string r, sh'))
             | [] \<Rightarrow> (case get_relay_server lc sh of (r, sh') \<Rightarrow> (debug_string r, sh'))))"

definition help_text :: string where
  "help_text = concat (map writeln
     [''relay-servers(rs) <separated by ,>'', ''reload-geo(rg)'', ''ip-blocker(ib) [<ip>|<number>] [-]'',
      ''ip-changes(ic) [<id>|<number>] [-]'', ''punch-requests(pr) [<number>] [-]'', ''always-use-relay(aur)'',
      ''test-geo(tg) <ip1> <ip2>''])"

definition cmd_relay_servers :: "LocalConf \<Rightarrow> string list \<Rightarrow> Shared \<Rightarrow> string \<times> Shared" where
  "cmd_relay_servers lc args sh =
     (case next_arg args of
        Some rs \<Rightarrow> ([], push_tx (DRelayServers0 rs) sh)
      | None \<Rightarrow> (concat (map writeln (rs_relay_servers lc)), sh))"

definition check_cmd :: "(nat \<Rightarrow> string) \<Rightarrow> instant \<Rightarrow> LocalConf \<Rightarrow> string \<Rightarrow> Shared \<Rightarrow> string \<times> Shared" where
  "check_cmd rfc3339 now lc cmd sh =
     (let fds = split_char (CHR '' '') (trim cmd);
          args = tl fds in
      case next_arg fds of
        None \<Rightarrow> ([], sh)
      | Some c \<Rightarrow>
          if c = ''h'' then (help_text, sh)
          else if c = ''relay-servers'' \<or> c = ''rs'' then cmd_relay_servers lc args sh
          else if c = ''ip-blocker'' \<or> c = ''ib'' then cmd_ip_blocker now args sh
          else if c = ''ip-changes'' \<or> c = ''ic'' then cmd_ip_changes now args sh
          else if c = ''punch-requests'' \<or> c = ''pr'' then cmd_punch_requests rfc3339 now args sh
          else if c = ''always-use-relay'' \<or> c = ''aur'' then cmd_always_use_relay args sh
          else if c = ''test-geo'' \<or> c = ''tg'' then cmd_test_geo lc args sh
          else ([], sh))"

section \<open>Sessions and spawned tasks\<close>

record Session =
  se_conf :: LocalConf
  se_sink :: "Sink option"
  se_addr :: SocketAddr
  se_ws :: bool

text \<open>The address behind a reverse proxy, from the headers of the WebSocket handshake.\<close>

definition ws_addr :: "string option \<Rightarrow> string option \<Rightarrow> SocketAddr \<Rightarrow> SocketAddr" where
  "ws_addr x_real_ip x_forwarded_for addr =
     (case (case x_real_ip of Some h \<Rightarrow> Some h | None \<Rightarrow> x_forwarded_for) of
        Some ip \<Rightarrow>
          (case parse_socket_addr (if contains_char (CHR ''.'') ip then ip @ '':0'' else ''['' @ ip @ '']:0'') of
             Some a \<Rightarrow> a
           | None \<Rightarrow> addr)
      | None \<Rightarrow> addr)"

definition open_session ::
  "nat \<Rightarrow> LocalConf \<Rightarrow> SocketAddr \<Rightarrow> bool \<Rightarrow> string option \<Rightarrow> string option \<Rightarrow> Session" where
  "open_session n lc addr ws x_real_ip x_forwarded_for =
     (if ws then \<lparr>se_conf = lc, se_sink = Some (WsSink n), se_addr = ws_addr x_real_ip x_forwarded_for addr, se_ws = True\<rparr>
      else \<lparr>se_conf = lc, se_sink = Some (TcpSink n), se_addr = addr, se_ws = False\<rparr>)"

text \<open>The end of \<open>handle_listener_inner\<close>: a parked sink is taken out of the table.\<close>

definition close_session :: "Session \<Rightarrow> Shared \<Rightarrow> Shared" where
  "close_session se sh =
     (if se_sink se = None
      then sh\<lparr>sh_tcp_punch := (sh_tcp_punch sh)(try_into_v4 (se_addr se) := None)\<rparr> else sh)"

text \<open>One received message of a session: the session goes on, or ends.\<close>

definition session_message ::
  "Deps \<Rightarrow> Env \<Rightarrow> string \<Rightarrow> RendezvousMessage option \<Rightarrow> Session \<Rightarrow> Shared \<Rightarrow> action list \<times> Session option \<times> Shared" where
  "session_message d e key m se sh =
     (case handle_tcp d e (se_conf se) m (se_sink se) (se_addr se) key (se_ws se) sh of
        (True, acts, sink', sh') \<Rightarrow> (acts, Some (se\<lparr>se_sink := sink'\<rparr>), sh')
      | (False, acts, sink', sh') \<Rightarrow> (acts, None, close_session (se\<lparr>se_sink := sink'\<rparr>) sh'))"

text \<open>
  \<open>handle_listener2\<close> after its read: a loopback connection carries a command (the reply is not a
  protocol message), any other one a NAT test or an online query.
\<close>

definition listener2_cmd :: "(nat \<Rightarrow> string) \<Rightarrow> Env \<Rightarrow> LocalConf \<Rightarrow> SocketAddr \<Rightarrow> string \<Rightarrow> Shared \<Rightarrow> string \<times> Shared" where
  "listener2_cmd rfc3339 e lc addr cmd sh =
     (if is_loopback (addr_ip (try_into_v4 addr)) then check_cmd rfc3339 (env_now e) lc cmd sh else ([], sh))"

definition listener2_msg :: "Env \<Rightarrow> SocketAddr \<Rightarrow> RendezvousMessage option \<Rightarrow> Shared \<Rightarrow> action list" where
  "listener2_msg e addr m sh =
     (if is_loopback (addr_ip (try_into_v4 addr)) then []
      else
        case m of
          Some (MTestNatRequest _) \<Rightarrow>
            [StreamSend (MTestNatResponse \<lparr>tnr_port = int (unat (addr_port addr)), tnr_cu = None\<rparr>)]
        | Some (MOnlineRequest _ peers) \<Rightarrow> handle_online_request e peers sh
        | _ \<Rightarrow> [])"

text \<open>\<open>check_relay_servers\<close>: \<open>up\<close> lists the probed servers that answered, in the order they did.\<close>

definition check_relay_servers :: "string list \<Rightarrow> Shared \<Rightarrow> Shared" where
  "check_relay_servers up sh = (if up \<noteq> [] then push_tx (DRelayServers up) sh else sh)"

section \<open>The main loop\<close>

record System =
  sys_conf :: LocalConf
  sys_shared :: Shared
  sys_sessions :: "nat \<rightharpoonup> Session"
  sys_checks :: "string list list"
  sys_admin :: "(LocalConf \<times> SocketAddr) list"

definition recv_data :: "Deps \<Rightarrow> ChanData \<Rightarrow> LocalConf \<Rightarrow> action list \<times> LocalConf" where
  "recv_data d x lc =
     (case x of
        DMsg msg addr \<Rightarrow> ([UdpSend msg addr], lc)
      | DRelayServers0 rs \<Rightarrow> ([], parse_relay_servers d rs lc)
      | DRelayServers rs \<Rightarrow> ([], lc\<lparr>rs_relay_servers := rs\<rparr>))"

text \<open>
  One round of \<open>io_loop\<close>, or one step of a task it spawned.  A failed send makes \<open>io_loop\<close> return
  and \<open>start\<close> enter it again on the same server, so it leaves the state as the handler left it.
\<close>

inductive server_step :: "Deps \<Rightarrow> (nat \<Rightarrow> string) \<Rightarrow> string \<Rightarrow> System \<Rightarrow> System \<Rightarrow> bool" for d rfc3339 key where
  tick: "length (rs_relay_servers0 (sys_conf s)) > 1 \<Longrightarrow>
    server_step d rfc3339 key s (s\<lparr>sys_checks := sys_checks s @ [rs_relay_servers0 (sys_conf s)]\<rparr>)"
| checked: "c \<in> set (sys_checks s) \<Longrightarrow> mset up \<subseteq># mset c \<Longrightarrow>
    server_step d rfc3339 key s
      (s\<lparr>sys_checks := remove1 c (sys_checks s), sys_shared := check_relay_servers up (sys_shared s)\<rparr>)"
| recv: "sh_tx (sys_shared s) = x # q \<Longrightarrow>
    server_step d rfc3339 key s
      (s\<lparr>sys_conf := snd (recv_data d x (sys_conf s)), sys_shared := (sys_shared s)\<lparr>sh_tx := q\<rparr>\<rparr>)"
| udp: "env_fresh e \<noteq> [] \<Longrightarrow> handle_udp d e key addr m (sys_conf s) (sys_shared s) = (acts, lc', sh') \<Longrightarrow>
    server_step d rfc3339 key s (s\<lparr>sys_conf := lc', sys_shared := sh'\<rparr>)"
| accept: "n \<notin> dom (sys_sessions s) \<Longrightarrow>
    server_step d rfc3339 key s
      (s\<lparr>sys_sessions := (sys_sessions s)(n \<mapsto> open_session n (sys_conf s) addr ws h1 h2)\<rparr>)"
| message: "sys_sessions s n = Some se \<Longrightarrow>
    session_message d e key m se (sys_shared s) = (acts, se', sh') \<Longrightarrow>
    server_step d rfc3339 key s (s\<lparr>sys_sessions := (sys_sessions s)(n := se'), sys_shared := sh'\<rparr>)"
| hangup: "sys_sessions s n = Some se \<Longrightarrow>
    server_step d rfc3339 key s
      (s\<lparr>sys_sessions := (sys_sessions s)(n := None), sys_shared := close_session se (sys_shared s)\<rparr>)"
| accept2: "server_step d rfc3339 key s (s\<lparr>sys_admin := (sys_conf s, addr) # sys_admin s\<rparr>)"
| admin: "(lc, addr) \<in> set (sys_admin s) \<Longrightarrow>
    listener2_cmd rfc3339 e lc addr cmd (sys_shared s) = (res, sh') \<Longrightarrow>
    server_step d rfc3339 key s (s\<lparr>sys_admin := remove1 (lc, addr) (sys_admin s), sys_shared := sh'\<rparr>)"

inductive_cases server_stepE: "server_step d rfc3339 key s s'"

definition reachable :: "Deps \<Rightarrow> (nat \<Rightarrow> string) \<Rightarrow> string \<Rightarrow> System \<Rightarrow> System \<Rightarrow> bool" where
  "reachable d rfc3339 key = (server_step d rfc3339 key)\<^sup>*\<^sup>*"

section \<open>Registry and blocker in all reachable states\<close>

lemma blocker_register_pk:
  "blocker_ok (sh_ip_blocker sh) \<Longrightarrow> blocker_ok (sh_ip_blocker (snd (register_pk d e addr rk sh)))"
  by (auto simp: register_pk_def Let_def case_prod_unfold check_ip_blocker_ok split: option.split)

lemma update_addr_blocker [simp]: "sh_ip_blocker (snd (update_addr e i a sh)) = sh_ip_blocker sh"
  by (simp add: update_addr_def Let_def split: option.split)

lemma hole_sent_blocker [simp]: "sh_ip_blocker (snd (handle_hole_sent d e lc phs a udp sh)) = sh_ip_blocker sh"
  by (simp add: handle_hole_sent_def Let_def case_prod_unfold)

lemma local_addr_blocker [simp]: "sh_ip_blocker (snd (handle_local_addr d e lc la a udp sh)) = sh_ip_blocker sh"
  by (simp add: handle_local_addr_def Let_def case_prod_unfold)

lemma punch_hole_request_blocker [simp]:
  "sh_ip_blocker (snd (handle_punch_hole_request d e lc a ph key ws sh)) = sh_ip_blocker sh"
  by (auto simp: handle_punch_hole_request_def Let_def case_prod_unfold split: option.split)

lemma tcp_punch_hole_request_blocker [simp]:
  "sh_ip_blocker (snd (handle_tcp_punch_hole_request d e lc a ph key ws sh)) = sh_ip_blocker sh"
  using punch_hole_request_blocker [of d e lc a ph key ws sh]
  by (auto simp: handle_tcp_punch_hole_request_def send_to_tcp_sync_eq case_prod_unfold split: option.split)

lemma blocker_handle_udp:
  "blocker_ok (sh_ip_blocker sh) \<Longrightarrow> blocker_ok (sh_ip_blocker (snd (snd (handle_udp d e key a m lc sh))))"
  by (simp add: handle_udp_def Let_def case_prod_unfold blocker_register_pk split: option.split RendezvousMessage.split)

lemma handle_tcp_blocker [simp]:
  "sh_ip_blocker (snd (snd (snd (handle_tcp d e lc m sink a key ws sh)))) = sh_ip_blocker sh"
  by (auto simp: handle_tcp_def Let_def case_prod_unfold send_to_tcp_sync_eq split: option.split RendezvousMessage.split)

lemma close_session_frame [simp]:
  "sh_pm (close_session se sh) = sh_pm sh" "sh_ip_blocker (close_session se sh) = sh_ip_blocker sh"
  "sh_tx (close_session se sh) = sh_tx sh"
  by (simp_all add: close_session_def)

lemma session_message_shared:
  "\<exists>se'. snd (snd (session_message d e key m se sh)) =
     (let sh' = snd (snd (snd (handle_tcp d e (se_conf se) m (se_sink se) (se_addr se) key (se_ws se) sh))) in
      if fst (handle_tcp d e (se_conf se) m (se_sink se) (se_addr se) key (se_ws se) sh) then sh'
      else close_session se' sh')"
  by (cases "handle_tcp d e (se_conf se) m (se_sink se) (se_addr se) key (se_ws se) sh")
    (auto simp: session_message_def split: bool.split)

lemma admin_pm [simp]: "sh_pm (snd (listener2_cmd r e lc a cmd sh)) = sh_pm sh"
  by (auto simp: listener2_cmd_def check_cmd_def cmd_relay_servers_def cmd_ip_blocker_def cmd_ip_changes_def
      cmd_punch_requests_def cmd_always_use_relay_def cmd_test_geo_def Let_def case_prod_unfold
      split: option.split list.split)

lemma cmd_ip_blocker_ok:
  "blocker_ok (sh_ip_blocker sh) \<Longrightarrow> blocker_ok (sh_ip_blocker (snd (cmd_ip_blocker now args sh)))"
  by (auto simp: cmd_ip_blocker_def Let_def blocker_ok_filter blocker_ok_remove split: option.split)

lemma admin_blocker:
  assumes "blocker_ok (sh_ip_blocker sh)"
  shows "blocker_ok (sh_ip_blocker (snd (listener2_cmd r e lc a cmd sh)))"
  using assms cmd_ip_blocker_ok [OF assms]
  by (auto simp: listener2_cmd_def check_cmd_def cmd_relay_servers_def cmd_ip_changes_def
      cmd_punch_requests_def cmd_always_use_relay_def cmd_test_geo_def Let_def case_prod_unfold
      split: option.split list.split)

definition registry_ok :: "System \<Rightarrow> bool" where
  "registry_ok s \<longleftrightarrow> pm_ok (sh_pm (sys_shared s)) \<and> blocker_ok (sh_ip_blocker (sys_shared s))"

lemma registry_udp:
  assumes "registry_ok s" and "env_fresh e \<noteq> []"
    and "handle_udp d e key addr m (sys_conf s) (sys_shared s) = (acts, lc', sh')"
  shows "pm_step (sh_pm (sys_shared s)) (sh_pm sh') \<and> blocker_ok (sh_ip_blocker sh')"
  using assms(1) pm_step_handle_udp [of "sys_shared s" e d key addr m "sys_conf s"] assms(2,3)
    blocker_handle_udp [of "sys_shared s" d e key addr m "sys_conf s"]
  by (simp add: registry_ok_def)

lemma registry_message:
  assumes "registry_ok s" and "session_message d e key m se (sys_shared s) = (acts, se', sh')"
  shows "pm_step (sh_pm (sys_shared s)) (sh_pm sh') \<and> blocker_ok (sh_ip_blocker sh')"
proof -
  let ?r = "handle_tcp d e (se_conf se) m (se_sink se) (se_addr se) key (se_ws se) (sys_shared s)"
  from assms(2) have "sh' = snd (snd (session_message d e key m se (sys_shared s)))" by simp
  with session_message_shared [of d e key m se "sys_shared s"]
  have "sh_pm sh' = sh_pm (snd (snd (snd ?r)))" "sh_ip_blocker sh' = sh_ip_blocker (snd (snd (snd ?r)))"
    by (auto simp: Let_def)
  with assms(1) show ?thesis
    by (simp add: registry_ok_def pm_step_handle_tcp)
qed

lemma registry_admin:
  assumes "registry_ok s" and "listener2_cmd r e lc addr cmd (sys_shared s) = (res, sh')"
  shows "pm_step (sh_pm (sys_shared s)) (sh_pm sh') \<and> blocker_ok (sh_ip_blocker sh')"
  using assms(1) admin_pm [of r e lc addr cmd "sys_shared s"] admin_blocker [of "sys_shared s" r e lc addr cmd] assms(2)
  by (simp add: registry_ok_def)

lemma registry_step:
  assumes "server_step d r key s s'" and ok: "registry_ok s"
  shows "registry_ok s' \<and> pm_step (sh_pm (sys_shared s)) (sh_pm (sys_shared s'))"
proof -
  have "pm_step (sh_pm (sys_shared s)) (sh_pm (sys_shared s')) \<and> blocker_ok (sh_ip_blocker (sys_shared s'))"
    using assms(1)
  proof cases
    case (udp e addr m acts lc' sh')
    with registry_udp [OF ok udp(2,3)] show ?thesis by simp
  next
    case (message n se e m acts se' sh')
    with registry_message [OF ok message(3)] show ?thesis by simp
  next
    case (admin lc addr e cmd res sh')
    with registry_admin [OF ok admin(3)] show ?thesis by simp
  qed (use ok in \<open>simp_all add: registry_ok_def check_relay_servers_def\<close>)
  then show ?thesis by (simp add: registry_ok_def pm_step_def)
qed

interpretation registry: step_system "server_step d r key" registry_ok
    "\<lambda>s s'. prefix (bindings (sh_pm (sys_shared s))) (bindings (sh_pm (sys_shared s')))" for d r key
  by unfold_locales (auto simp: pm_step_def intro: prefix_order.trans dest: registry_step)


definition demo_system :: System where
  "demo_system = \<lparr>sys_conf = demo_conf, sys_shared = demo_shared, sys_sessions = Map.empty, sys_checks = [],
     sys_admin = []\<rparr>"

lemma demo_registry_ok: "registry_ok demo_system"
  by (simp add: registry_ok_def demo_system_def demo_shared_def demo_peer_def pm_ok_def db_ok_def blocker_ok_def)


section \<open>Waiting clients\<close>

fun sink_id :: "Sink \<Rightarrow> nat" where
  "sink_id (TcpSink n) = n"
| "sink_id (WsSink n) = n"

definition sinks_live :: "System \<Rightarrow> bool" where
  "sinks_live s \<longleftrightarrow>
     (\<forall>a k. sh_tcp_punch (sys_shared s) a = Some k \<longrightarrow>
        (\<exists>se. sys_sessions s (sink_id k) = Some se \<and> se_sink se = None \<and> try_into_v4 (se_addr se) = a)) \<and>
     (\<forall>n se k. sys_sessions s n = Some se \<and> se_sink se = Some k \<longrightarrow> sink_id k = n)"

lemma send_to_tcp_le: "sh_tcp_punch (snd (send_to_tcp m a sh)) \<subseteq>\<^sub>m sh_tcp_punch sh"
  by (auto simp: send_to_tcp_def map_le_def)

lemma hole_sent_le: "sh_tcp_punch (snd (handle_hole_sent d e lc phs a udp sh)) \<subseteq>\<^sub>m sh_tcp_punch sh"
  using send_to_tcp_le by (simp add: handle_hole_sent_def Let_def case_prod_unfold) (metis server_get_pk_frame(1))

lemma local_addr_le: "sh_tcp_punch (snd (handle_local_addr d e lc la a udp sh)) \<subseteq>\<^sub>m sh_tcp_punch sh"
  using send_to_tcp_le by (simp add: handle_local_addr_def Let_def case_prod_unfold) (metis server_get_pk_frame(1))

lemma punch_hole_request_table [simp]:
  "sh_tcp_punch (snd (handle_punch_hole_request d e lc a ph key ws sh)) = sh_tcp_punch sh"
  by (auto simp: handle_punch_hole_request_def Let_def case_prod_unfold split: option.split)

lemma tcp_punch_hole_request_le:
  "sh_tcp_punch (snd (handle_tcp_punch_hole_request d e lc a ph key ws sh)) \<subseteq>\<^sub>m sh_tcp_punch sh"
  using send_to_tcp_le [of _ a "snd (handle_punch_hole_request d e lc a ph key ws sh)"]
  by (auto simp: handle_tcp_punch_hole_request_def send_to_tcp_sync_eq case_prod_unfold split: option.split)

lemma handle_udp_le:
  "sh_tcp_punch (snd (snd (handle_udp d e key a m lc sh))) \<subseteq>\<^sub>m sh_tcp_punch sh"
proof -
  have "sh_tcp_punch (snd (register_pk d e a rk sh)) = sh_tcp_punch sh" for rk
    by (auto simp: register_pk_def Let_def case_prod_unfold split: option.split)
  moreover have "sh_tcp_punch (snd (update_addr e i a sh)) = sh_tcp_punch sh" for i
    by (simp add: update_addr_def Let_def split: option.split)
  ultimately show ?thesis
    by (simp add: handle_udp_def Let_def case_prod_unfold hole_sent_le local_addr_le
        split: option.split RendezvousMessage.split)
qed

text \<open>A session that goes on has parked its sink; one that ends leaves the table but for removals.\<close>

lemma handle_tcp_table:
  assumes "handle_tcp d e lc m sink addr key ws sh = (go, acts, sink', sh')"
  shows "go \<and> sink' = None \<and> sh_tcp_punch sh' \<subseteq>\<^sub>m sh_tcp_punch (park_sink addr sink sh) \<or>
     \<not> go \<and> sink' = sink \<and> sh_tcp_punch sh' \<subseteq>\<^sub>m sh_tcp_punch sh"
proof (cases "\<exists>rr. m = Some (MRelayResponse rr)")
  case True
  then obtain rr where m: "m = Some (MRelayResponse rr)" by blast
  have "sh_tcp_punch (snd (send_to_tcp x a sh1)) \<subseteq>\<^sub>m sh_tcp_punch sh" if "sh_tcp_punch sh1 = sh_tcp_punch sh" for x a sh1
    using send_to_tcp_le [of x a sh1] that by simp
  with assms show ?thesis unfolding m
    by (auto simp: handle_tcp_def Let_def case_prod_unfold send_to_tcp_sync_eq split: if_splits)
next
  case False
  have "\<And>ph. sh_tcp_punch (snd (handle_tcp_punch_hole_request d e lc addr ph key ws (park_sink addr sink sh)))
      \<subseteq>\<^sub>m sh_tcp_punch (park_sink addr sink sh)"
    by (rule tcp_punch_hole_request_le)
  with assms False hole_sent_le local_addr_le show ?thesis
    by (auto simp: handle_tcp_def Let_def case_prod_unfold split: option.splits RendezvousMessage.splits)
qed

lemma map_le_Some: "f \<subseteq>\<^sub>m g \<Longrightarrow> f a = Some x \<Longrightarrow> g a = Some x"
  by (auto simp: map_le_def dom_def)

lemma sinks_live_le:
  assumes "sinks_live s" and "sh_tcp_punch sh' \<subseteq>\<^sub>m sh_tcp_punch (sys_shared s)"
    and "sys_sessions s' = sys_sessions s" and "sys_shared s' = sh'"
  shows "sinks_live s'"
  using assms map_le_Some [OF assms(2)] by (simp add: sinks_live_def)

lemma close_session_live:
  assumes "sinks_live s" and "sys_sessions s n = Some se"
  shows "sinks_live (s\<lparr>sys_sessions := (sys_sessions s)(n := None), sys_shared := close_session se (sys_shared s)\<rparr>)"
  unfolding sinks_live_def
proof (intro conjI allI impI)
  fix a k
  assume "sh_tcp_punch (sys_shared (s\<lparr>sys_sessions := (sys_sessions s)(n := None),
      sys_shared := close_session se (sys_shared s)\<rparr>)) a = Some k"
  then have k: "sh_tcp_punch (sys_shared s) a = Some k" and out: "se_sink se = None \<longrightarrow> a \<noteq> try_into_v4 (se_addr se)"
    by (auto simp: close_session_def split: if_splits)
  from assms(1) k obtain se' where se': "sys_sessions s (sink_id k) = Some se'" "se_sink se' = None"
      "try_into_v4 (se_addr se') = a"
    unfolding sinks_live_def by blast
  with out assms(2) have "sink_id k \<noteq> n" by auto
  with se' show "\<exists>se'. sys_sessions (s\<lparr>sys_sessions := (sys_sessions s)(n := None),
      sys_shared := close_session se (sys_shared s)\<rparr>) (sink_id k) = Some se' \<and> se_sink se' = None \<and>
      try_into_v4 (se_addr se') = a" by auto
next
  fix n' se' k
  assume "sys_sessions (s\<lparr>sys_sessions := (sys_sessions s)(n := None),
      sys_shared := close_session se (sys_shared s)\<rparr>) n' = Some se' \<and> se_sink se' = Some k"
  with assms(1) show "sink_id k = n'" by (auto simp: sinks_live_def split: if_splits)
qed

lemma park_session_live:
  assumes "sinks_live s" and "sys_sessions s n = Some se"
    and "sh_tcp_punch sh' \<subseteq>\<^sub>m sh_tcp_punch (park_sink (se_addr se) (se_sink se) (sys_shared s))"
  shows "sinks_live (s\<lparr>sys_sessions := (sys_sessions s)(n \<mapsto> se\<lparr>se_sink := None\<rparr>), sys_shared := sh'\<rparr>)"
  unfolding sinks_live_def
proof (intro conjI allI impI)
  fix a k
  assume "sh_tcp_punch (sys_shared (s\<lparr>sys_sessions := (sys_sessions s)(n \<mapsto> se\<lparr>se_sink := None\<rparr>), sys_shared := sh'\<rparr>)) a = Some k"
  then have "sh_tcp_punch (park_sink (se_addr se) (se_sink se) (sys_shared s)) a = Some k"
    using map_le_Some [OF assms(3)] by simp
  then consider "se_sink se = Some k" "a = try_into_v4 (se_addr se)" | "sh_tcp_punch (sys_shared s) a = Some k"
    by (auto simp: park_sink_def split: option.splits if_splits)
  then show "\<exists>se'. sys_sessions (s\<lparr>sys_sessions := (sys_sessions s)(n \<mapsto> se\<lparr>se_sink := None\<rparr>), sys_shared := sh'\<rparr>)
      (sink_id k) = Some se' \<and> se_sink se' = None \<and> try_into_v4 (se_addr se') = a"
  proof cases
    case 1
    with assms(1,2) have "sink_id k = n" unfolding sinks_live_def by blast
    with 1 show ?thesis by simp
  next
    case 2
    with assms(1) obtain se' where se': "sys_sessions s (sink_id k) = Some se'" "se_sink se' = None"
        "try_into_v4 (se_addr se') = a"
      unfolding sinks_live_def by blast
    with assms(2) show ?thesis by (cases "sink_id k = n") auto
  qed
next
  fix n' se' k
  assume "sys_sessions (s\<lparr>sys_sessions := (sys_sessions s)(n \<mapsto> se\<lparr>se_sink := None\<rparr>), sys_shared := sh'\<rparr>) n' = Some se' \<and>
      se_sink se' = Some k"
  with assms(1) show "sink_id k = n'" by (auto simp: sinks_live_def split: if_splits)
qed

lemma admin_table [simp]: "sh_tcp_punch (snd (listener2_cmd r e lc a cmd sh)) = sh_tcp_punch sh"
  by (auto simp: listener2_cmd_def check_cmd_def cmd_relay_servers_def cmd_ip_blocker_def cmd_ip_changes_def
      cmd_punch_requests_def cmd_always_use_relay_def cmd_test_geo_def Let_def case_prod_unfold
      split: option.split list.split)

lemma accept_live:
  assumes "sinks_live s" and "n \<notin> dom (sys_sessions s)"
  shows "sinks_live (s\<lparr>sys_sessions := (sys_sessions s)(n \<mapsto> open_session n lc addr ws h1 h2)\<rparr>)"
proof -
  have "sink_id k \<noteq> n" if "sh_tcp_punch (sys_shared s) a = Some k" for a k
    using that assms unfolding sinks_live_def by blast
  moreover have "sink_id k = n" if "se_sink (open_session n lc addr ws h1 h2) = Some k" for k
    using that by (auto simp: open_session_def split: if_splits)
  ultimately show ?thesis
    using assms(1) by (auto simp: sinks_live_def)
qed

lemma message_live:
  assumes live: "sinks_live s" and se: "sys_sessions s n = Some se"
    and msg: "session_message d e key m se (sys_shared s) = (acts, se', sh')"
  shows "sinks_live (s\<lparr>sys_sessions := (sys_sessions s)(n := se'), sys_shared := sh'\<rparr>)"
proof -
  obtain go acts' sink' sh1 where r: "handle_tcp d e (se_conf se) m (se_sink se) (se_addr se) key (se_ws se) (sys_shared s)
      = (go, acts', sink', sh1)"
    by (metis prod.collapse)
  from handle_tcp_table [OF r] show ?thesis
  proof
    assume go: "go \<and> sink' = None \<and> sh_tcp_punch sh1 \<subseteq>\<^sub>m sh_tcp_punch (park_sink (se_addr se) (se_sink se) (sys_shared s))"
    with msg r have "se' = Some (se\<lparr>se_sink := None\<rparr>)" "sh' = sh1" by (simp_all add: session_message_def)
    with park_session_live [OF live se] go show ?thesis by simp
  next
    assume stop: "\<not> go \<and> sink' = se_sink se \<and> sh_tcp_punch sh1 \<subseteq>\<^sub>m sh_tcp_punch (sys_shared s)"
    with msg r have eqs: "se' = None" "sh' = close_session se sh1" by (simp_all add: session_message_def)
    have "sinks_live (s\<lparr>sys_shared := sh1\<rparr>)"
      using stop by (intro sinks_live_le [OF live]) auto
    from close_session_live [OF this, of n se] se eqs show ?thesis by simp
  qed
qed

lemma sinks_live_step:
  assumes "server_step d r key s s'" and live: "sinks_live s"
  shows "sinks_live s'"
  using assms(1)
proof cases
  case (udp e addr m acts lc' sh')
  with handle_udp_le [of d e key addr m "sys_conf s" "sys_shared s"] show ?thesis
    by (intro sinks_live_le [OF live]) auto
next
  case (message n se e m acts se' sh')
  with message_live [OF live message(2,3)] show ?thesis by simp
next
  case (hangup n se)
  with close_session_live [OF live hangup(2)] show ?thesis by simp
next
  case (accept n addr ws h1 h2)
  with accept_live [OF live accept(2)] show ?thesis by simp
next
  case (admin lc addr e cmd res sh')
  with admin_table [of r e lc addr cmd "sys_shared s"] show ?thesis
    by (intro sinks_live_le [OF live, of sh']) simp_all
next
  case (checked c up)
  with live show ?thesis by (simp add: sinks_live_def check_relay_servers_def)
qed (use live in \<open>simp_all add: sinks_live_def\<close>)

interpretation waiting: step_system "server_step d r key" sinks_live "\<lambda>_ _. True" for d r key
  by unfold_locales (auto intro: sinks_live_step)

text \<open>
  C16: The table of waiting clients never leaks or misdirects: in every state reachable from the
  start, each entry belongs to a session that is still open, has handed its sink over, and has
  exactly the address the entry is filed under; when a session ends, its entry is gone.
\<close>

theorem waiting_sinks_live:
  assumes "reachable d r key s s'" and "sh_tcp_punch (sys_shared s) = Map.empty" and "sys_sessions s = Map.empty"
    and "sh_tcp_punch (sys_shared s') a = Some k"
  shows "\<exists>se. sys_sessions s' (sink_id k) = Some se \<and> se_sink se = None \<and> try_into_v4 (se_addr se) = a"
proof -
  have "sinks_live s" using assms(2,3) by (simp add: sinks_live_def)
  with assms(1) have "sinks_live s'" unfolding reachable_def by (rule waiting.run_inv)
  with assms(4) show ?thesis by (simp add: sinks_live_def)
qed

text \<open>A client asks for the demo peer: its sink is parked under its address.\<close>

definition demo_waiting :: System where
  "demo_waiting =
     (let se = open_session 1 demo_conf (V4 (Ipv4 9 9 9 9) 7) False None None;
          (acts, se', sh') = session_message demo_deps (demo_env 5) [] (Some (MRequestRelay
            \<lparr>rf_id = ''peer-1'', rf_uuid = [], rf_socket_addr = [], rf_relay_server = [], rf_secure = False, rf_licence_key = [],
             rf_conn_type = 0, rf_token = [], rf_control_permissions = None, rf_controlled_context = None\<rparr>)) se demo_shared in
      demo_system\<lparr>sys_sessions := [1 \<mapsto> the se'], sys_shared := sh'\<rparr>)"

theorem waiting_sinks_live_witness:
  "reachable demo_deps (\<lambda>_. []) [] demo_system demo_waiting \<and>
   (\<exists>se. sys_sessions demo_waiting 1 = Some se \<and> se_sink se = None \<and> try_into_v4 (se_addr se) = V4 (Ipv4 9 9 9 9) 7)"
proof -
  let ?se = "open_session 1 demo_conf (V4 (Ipv4 9 9 9 9) 7) False None None"
  let ?m = "Some (MRequestRelay
            \<lparr>rf_id = ''peer-1'', rf_uuid = [], rf_socket_addr = [], rf_relay_server = [], rf_secure = False, rf_licence_key = [],
             rf_conn_type = 0, rf_token = [], rf_control_permissions = None, rf_controlled_context = None\<rparr>)"
  let ?s1 = "demo_system\<lparr>sys_sessions := [1 \<mapsto> ?se]\<rparr>"
  obtain acts se' sh' where r: "session_message demo_deps (demo_env 5) [] ?m ?se demo_shared = (acts, se', sh')"
    by (metis prod.collapse)
  then have se': "se' = Some (?se\<lparr>se_sink := None\<rparr>)" and tab: "sh_tcp_punch sh' (V4 (Ipv4 9 9 9 9) 7) = Some (TcpSink 1)"
    by (auto simp: session_message_def handle_tcp_def open_session_def park_sink_def get_in_memory_def demo_shared_def
        try_into_v4_def push_tx_def)
  have w: "demo_waiting = ?s1\<lparr>sys_sessions := [1 \<mapsto> ?se\<lparr>se_sink := None\<rparr>], sys_shared := sh'\<rparr>"
    unfolding demo_waiting_def Let_def r by (simp add: se' demo_system_def)
  have "server_step demo_deps (\<lambda>_. []) [] demo_system ?s1"
    using server_step.accept [of 1 demo_system demo_deps "\<lambda>_. []" "[]" "V4 (Ipv4 9 9 9 9) 7" False None None]
    by (simp add: demo_system_def)
  moreover have "server_step demo_deps (\<lambda>_. []) [] ?s1 demo_waiting"
    using server_step.message [of ?s1 1 ?se demo_deps "demo_env 5" "[]" ?m acts se' sh' "\<lambda>_. []"] r
    unfolding w by (simp add: se' demo_system_def)
  ultimately have reach: "reachable demo_deps (\<lambda>_. []) [] demo_system demo_waiting"
    unfolding reachable_def by (meson converse_rtranclp_into_rtranclp r_into_rtranclp)
  have "\<exists>se. sys_sessions demo_waiting (sink_id (TcpSink 1)) = Some se \<and> se_sink se = None \<and>
      try_into_v4 (se_addr se) = V4 (Ipv4 9 9 9 9) 7"
    by (rule waiting_sinks_live [OF reach]) (simp_all add: demo_system_def demo_shared_def w tab)
  with reach show ?thesis by simp
qed

section \<open>Relay server lists\<close>

definition valid_list :: "Deps \<Rightarrow> string list \<Rightarrow> bool" where
  "valid_list d xs \<longleftrightarrow> (\<forall>x \<in> set xs. x \<noteq> [] \<and> test_if_valid_server d x)"

definition conf_valid :: "Deps \<Rightarrow> LocalConf \<Rightarrow> bool" where
  "conf_valid d lc \<longleftrightarrow> valid_list d (rs_relay_servers lc) \<and> valid_list d (rs_relay_servers0 lc)"

definition tx_valid :: "Deps \<Rightarrow> ChanData list \<Rightarrow> bool" where
  "tx_valid d q \<longleftrightarrow> (\<forall>rs. DRelayServers rs \<in> set q \<longrightarrow> valid_list d rs)"

definition relays_valid :: "Deps \<Rightarrow> System \<Rightarrow> bool" where
  "relays_valid d s \<longleftrightarrow>
     conf_valid d (sys_conf s) \<and> (\<forall>n se. sys_sessions s n = Some se \<longrightarrow> conf_valid d (se_conf se)) \<and>
     (\<forall>(lc, a) \<in> set (sys_admin s). conf_valid d lc) \<and> (\<forall>c \<in> set (sys_checks s). valid_list d c) \<and>
     tx_valid d (sh_tx (sys_shared s))"

lemma valid_sublist: "valid_list d c \<Longrightarrow> mset up \<subseteq># mset c \<Longrightarrow> valid_list d up"
  using set_mset_mono [of "mset up" "mset c"] by (auto simp: valid_list_def)

lemma valid_get_servers: "valid_list d (get_servers d x)"
  by (simp add: valid_list_def get_servers_def)

lemma conf_valid_parse: "conf_valid d (parse_relay_servers d x lc)"
  by (simp add: conf_valid_def parse_relay_servers_def Let_def valid_get_servers)

lemma conf_valid_recv:
  assumes "conf_valid d lc" and "tx_valid d (x # q)"
  shows "conf_valid d (snd (recv_data d x lc))"
  using assms
proof (cases x)
  case (DRelayServers0 r)
  then show ?thesis by (simp add: recv_data_def conf_valid_parse)
qed (auto simp: recv_data_def tx_valid_def conf_valid_def)

lemma conf_valid_udp: "conf_valid d lc \<Longrightarrow> conf_valid d (fst (snd (handle_udp d e key a m lc sh)))"
  by (simp add: handle_udp_def conf_valid_def Let_def case_prod_unfold split: option.split RendezvousMessage.split)

lemma tx_valid_push:
  "tx_valid d (q @ [x]) \<longleftrightarrow> tx_valid d q \<and> (\<forall>rs. x = DRelayServers rs \<longrightarrow> valid_list d rs)"
  by (auto simp: tx_valid_def)

lemma update_addr_tx [simp]: "sh_tx (snd (update_addr e i a sh)) = sh_tx sh"
  by (simp add: update_addr_def Let_def split: option.split)

lemma register_pk_tx [simp]: "sh_tx (snd (register_pk d e a rk sh)) = sh_tx sh"
  by (auto simp: register_pk_def Let_def case_prod_unfold split: option.split)

lemma hole_sent_tx [simp]: "sh_tx (snd (handle_hole_sent d e lc phs a udp sh)) = sh_tx sh"
  by (simp add: handle_hole_sent_def Let_def case_prod_unfold)

lemma local_addr_tx [simp]: "sh_tx (snd (handle_local_addr d e lc la a udp sh)) = sh_tx sh"
  by (simp add: handle_local_addr_def Let_def case_prod_unfold)

lemma udp_tx [simp]: "sh_tx (snd (snd (handle_udp d e key a m lc sh))) = sh_tx sh"
  by (simp add: handle_udp_def Let_def case_prod_unfold split: option.split RendezvousMessage.split)

lemma punch_hole_request_tx [simp]:
  "sh_tx (snd (handle_punch_hole_request d e lc a ph key ws sh)) = sh_tx sh"
  by (auto simp: handle_punch_hole_request_def Let_def case_prod_unfold split: option.split)

lemma tx_valid_tcp_punch:
  "tx_valid d (sh_tx sh) \<Longrightarrow> tx_valid d (sh_tx (snd (handle_tcp_punch_hole_request d e lc a ph key ws sh)))"
  using punch_hole_request_tx [of d e lc a ph key ws sh]
  by (auto simp: handle_tcp_punch_hole_request_def send_to_tcp_sync_eq case_prod_unfold tx_valid_push
      split: option.split)

lemma tx_valid_tcp:
  "tx_valid d (sh_tx sh) \<Longrightarrow> tx_valid d (sh_tx (snd (snd (snd (handle_tcp d e lc m sink a key ws sh)))))"
  by (auto simp: handle_tcp_def Let_def case_prod_unfold send_to_tcp_sync_eq tx_valid_push tx_valid_tcp_punch
      split: option.split RendezvousMessage.split)

lemma tx_valid_message:
  assumes "tx_valid d (sh_tx sh)" and "session_message d e key m se sh = (acts, se', sh')"
  shows "tx_valid d (sh_tx sh')"
proof -
  from assms(2) have "sh' = snd (snd (session_message d e key m se sh))" by simp
  with session_message_shared [of d e key m se sh] tx_valid_tcp [OF assms(1)] show ?thesis
    by (auto simp: Let_def)
qed

lemma tx_valid_admin:
  "tx_valid d (sh_tx sh) \<Longrightarrow> tx_valid d (sh_tx (snd (listener2_cmd r e lc a cmd sh)))"
  by (auto simp: listener2_cmd_def check_cmd_def cmd_relay_servers_def cmd_ip_blocker_def cmd_ip_changes_def
      cmd_punch_requests_def cmd_always_use_relay_def cmd_test_geo_def Let_def case_prod_unfold tx_valid_push
      split: option.split list.split)

lemma session_message_conf:
  "session_message d e key m se sh = (acts, Some se', sh') \<Longrightarrow> se_conf se' = se_conf se"
  by (cases "handle_tcp d e (se_conf se) m (se_sink se) (se_addr se) key (se_ws se) sh")
    (auto simp: session_message_def split: bool.splits)

lemma relays_valid_step:
  assumes "server_step d r key s s'" and inv: "relays_valid d s"
  shows "relays_valid d s'"
proof -
  have conf: "conf_valid d (sys_conf s)" and sess: "\<And>n se. sys_sessions s n = Some se \<Longrightarrow> conf_valid d (se_conf se)"
    and adm: "\<forall>(lc, a) \<in> set (sys_admin s). conf_valid d lc" and chk: "\<forall>c \<in> set (sys_checks s). valid_list d c"
    and tx: "tx_valid d (sh_tx (sys_shared s))"
    using inv unfolding relays_valid_def by blast+
  show ?thesis
    using assms(1)
  proof cases
    case tick
    with inv conf show ?thesis by (auto simp: relays_valid_def conf_valid_def)
  next
    case (checked c up)
    then have "valid_list d up" using chk valid_sublist by blast
    with checked inv show ?thesis
      by (auto simp: relays_valid_def check_relay_servers_def tx_valid_push dest: notin_set_remove1)
  next
    case (recv x q)
    with conf_valid_recv [OF conf, of x q] tx inv show ?thesis
      by (auto simp: relays_valid_def tx_valid_def)
  next
    case (udp e addr m acts lc' sh')
    with conf_valid_udp [OF conf, of e key addr m "sys_shared s"] udp_tx [of d e key addr m "sys_conf s" "sys_shared s"] inv
    show ?thesis by (auto simp: relays_valid_def)
  next
    case (accept n addr ws h1 h2)
    with inv conf show ?thesis by (auto simp: relays_valid_def open_session_def)
  next
    case (message n se e m acts se' sh')
    have "conf_valid d (se_conf x)" if "se' = Some x" for x
      using session_message_conf message(3) sess [OF message(2)] that by simp
    moreover have "tx_valid d (sh_tx sh')" by (rule tx_valid_message [OF tx message(3)])
    ultimately show ?thesis using inv unfolding message(1) relays_valid_def by simp
  next
    case (hangup n se)
    with inv show ?thesis by (auto simp: relays_valid_def)
  next
    case (accept2 addr)
    with inv conf show ?thesis by (auto simp: relays_valid_def)
  next
    case (admin lc addr e cmd res sh')
    with tx_valid_admin [OF tx, of r e lc addr cmd] inv show ?thesis
      by (auto simp: relays_valid_def dest: notin_set_remove1)
  qed
qed

interpretation vetted: step_system "server_step d r key" "relays_valid d" "\<lambda>_ _. True" for d r key
  by unfold_locales (auto intro: relays_valid_step)



section \<open>The command \<open>always-use-relay\<close>\<close>

text \<open>
  C26: The admin command that turns on \<open>ALWAYS_USE_RELAY\<close> also queues its argument as a new relay
  server list: once the main loop has received it, the configured relay servers are replaced by the
  servers named \<open>Y\<close> that resolve, so there are none left unless a host of that name exists.
\<close>

theorem always_use_relay_clobbers:
  assumes "\<not> dep_resolve d ''Y:0''" and "sh_tx sh = []"
  shows "\<exists>sh'. check_cmd r now lc ''always-use-relay Y'' sh = ([], sh') \<and> sh_always_use_relay sh' \<and>
     sh_tx sh' = [DRelayServers0 ''Y''] \<and>
     rs_relay_servers (snd (recv_data d (hd (sh_tx sh')) lc0)) = [] \<and>
     rs_relay_servers0 (snd (recv_data d (hd (sh_tx sh')) lc0)) = []"
  using assms
  by (simp add: check_cmd_def trim_def is_space_def cmd_always_use_relay_def push_tx_def recv_data_def
      parse_relay_servers_def get_servers_def test_if_valid_server_def contains_char_def)

theorem always_use_relay_clobbers_witness:
  "rs_relay_servers (snd (recv_data (demo_deps\<lparr>dep_resolve := \<lambda>_. False\<rparr>) (hd (sh_tx (snd
      (check_cmd (\<lambda>_. []) 5 demo_conf ''always-use-relay Y'' demo_shared)))) demo_conf)) = []"
proof -
  have "\<not> dep_resolve (demo_deps\<lparr>dep_resolve := \<lambda>_. False\<rparr>) ''Y:0''" "sh_tx demo_shared = []"
    by (simp_all add: demo_shared_def)
  from always_use_relay_clobbers [OF this, of "\<lambda>_. []" 5 demo_conf demo_conf] show ?thesis by auto
qed

end
