(* ===== verification/Floats.thy ===== *)
theory Floats
  imports Prelude Complex_Main "HOL-Library.Log_Nat"
begin

text \<open>
  IEEE 754 arithmetic in round-to-nearest, ties to even.  A finite floating-point number is the
  rational it denotes; an operation of the code is the exact operation followed by \<open>fround p emin\<close>,
  with \<open>p\<close> significant bits and least exponent \<open>emin\<close>: \<open>f32\<close> has 24 and -149, \<open>f64\<close> has 53 and -1074.
  The developments that use it stay far from overflow, so infinities and NaN do not occur.
\<close>

section \<open>Rounding\<close>

text \<open>The nearest integer, the even one of two.\<close>

definition rne :: "rat \<Rightarrow> int" where
  "rne z =
     (let f = \<lfloor>z\<rfloor>; d = z - of_int f in
      if d < 1 / 2 then f else if d > 1 / 2 then f + 1 else if even f then f else f + 1)"

text \<open>\<open>\<lfloor>log 2 x\<rfloor>\<close> of a positive rational.\<close>

definition ilog2 :: "rat \<Rightarrow> int" where
  "ilog2 x =
     (let (n, d) = quotient_of x; k = bitlen n - bitlen d in
      if 2 powi k \<le> x then k else k - 1)"

definition fexp :: "nat \<Rightarrow> int \<Rightarrow> rat \<Rightarrow> int" where
  "fexp p emin x = max emin (ilog2 \<bar>x\<bar> - int p + 1)"

definition fround :: "nat \<Rightarrow> int \<Rightarrow> rat \<Rightarrow> rat" where
  "fround p emin x =
     (if x = 0 then 0 else of_int (rne (x / 2 powi fexp p emin x)) * 2 powi fexp p emin x)"

definition f32 :: "rat \<Rightarrow> rat" where
  "f32 = fround 24 (-149)"

definition f64 :: "rat \<Rightarrow> rat" where
  "f64 = fround 53 (-1074)"

text \<open>\<open>as u32\<close> and \<open>as usize\<close> of a finite float: towards zero, saturating.\<close>

definition as_uint :: "nat \<Rightarrow> rat \<Rightarrow> nat" where
  "as_uint mx x = (if x \<le> 0 then 0 else min mx (nat \<lfloor>x\<rfloor>))"

section \<open>Lemmas\<close>

lemma rne_of_int [simp]: "rne (of_int n) = n"
  by (simp add: rne_def)

lemma rne_bounds: "\<lfloor>z\<rfloor> \<le> rne z" "rne z \<le> \<lfloor>z\<rfloor> + 1"
  by (simp_all add: rne_def Let_def)

lemma rne_mono:
  assumes "x \<le> y"
  shows "rne x \<le> rne y"
proof (cases "\<lfloor>x\<rfloor> = \<lfloor>y\<rfloor>")
  case True
  with assms show ?thesis by (auto simp: rne_def Let_def)
next
  case False
  with assms have "\<lfloor>x\<rfloor> + 1 \<le> \<lfloor>y\<rfloor>" using floor_mono [of x y] by linarith
  then show ?thesis using rne_bounds(2) [of x] rne_bounds(1) [of y] by linarith
qed

lemma rne_le_int: "z \<le> of_int n \<Longrightarrow> rne z \<le> n"
  using rne_mono [of z "of_int n"] by simp

lemma rne_ge_int: "of_int n \<le> z \<Longrightarrow> n \<le> rne z"
  using rne_mono [of "of_int n" z] by simp

lemma bitlen_powi:
  assumes "n > 0"
  shows "2 powi (bitlen n - 1) \<le> (of_int n :: rat)" and "of_int n < (2 :: rat) powi bitlen n"
proof -
  have b: "bitlen n > 0"
    using bitlen_bounds [OF assms] assms by (cases "bitlen n > 0") auto
  have "2 ^ nat (bitlen n - 1) \<le> n \<and> n < 2 ^ nat (bitlen n)"
    using bitlen_bounds [OF assms] .
  then have "of_int (2 ^ nat (bitlen n - 1)) \<le> (of_int n :: rat)" "of_int n < (of_int (2 ^ nat (bitlen n)) :: rat)"
    by (simp_all only: of_int_le_iff of_int_less_iff)
  then show "2 powi (bitlen n - 1) \<le> (of_int n :: rat)" and "of_int n < (2 :: rat) powi bitlen n"
    using b by (simp_all add: power_int_def)
qed

lemma ilog2_bounds:
  assumes "x > 0"
  shows "2 powi ilog2 x \<le> x" and "x < 2 powi (ilog2 x + 1)"
proof -
  obtain n d where q: "quotient_of x = (n, d)" by (cases "quotient_of x")
  have d: "d > 0" using quotient_of_denom_pos [OF q] .
  have x: "x = of_int n / of_int d" using quotient_of_div [OF q] .
  with assms d have n: "n > 0" by (simp add: zero_less_divide_iff)
  have D: "(of_int d :: rat) > 0" using d by simp
  let ?k = "bitlen n - bitlen d"
  have "x < 2 powi bitlen n / 2 powi (bitlen d - 1)"
    unfolding x using bitlen_powi [OF n] bitlen_powi [OF d] D
    by (intro frac_less) (use n in \<open>auto simp: less_imp_le\<close>)
  also have "\<dots> = 2 powi (?k + 1)"
    by (simp add: power_int_diff [symmetric] algebra_simps)
  finally have up: "x < 2 powi (?k + 1)" .
  have "2 powi (bitlen n - 1) / 2 powi bitlen d \<le> x"
    unfolding x using bitlen_powi [OF n] bitlen_powi [OF d] D
    by (intro frac_le) (use n in \<open>auto simp: less_imp_le\<close>)
  also have "2 powi (bitlen n - 1) / 2 powi bitlen d = (2 :: rat) powi (?k - 1)"
    by (simp add: power_int_diff [symmetric] algebra_simps)
  finally have lo: "2 powi (?k - 1) \<le> x" .
  show "2 powi ilog2 x \<le> x" and "x < 2 powi (ilog2 x + 1)"
    using up lo by (auto simp: ilog2_def q Let_def)
qed

lemma powi_mono2: "i \<le> j \<Longrightarrow> (2 :: rat) powi i \<le> 2 powi j"
  by (intro power_int_increasing) auto

lemma powi_less_iff: "(2 :: rat) powi i < 2 powi j \<longleftrightarrow> i < j"
  by (meson linorder_not_less power_int_strict_increasing powi_mono2 one_less_numeral_iff semiring_norm(76))

lemma ilog2_mono:
  assumes "0 < x" and "x \<le> y"
  shows "ilog2 x \<le> ilog2 y"
proof -
  have "(2 :: rat) powi ilog2 x < 2 powi (ilog2 y + 1)"
    using ilog2_bounds(1) [of x] ilog2_bounds(2) [of y] assms by linarith
  then show ?thesis by (simp add: powi_less_iff)
qed

lemma fround_pos_def: "x > 0 \<Longrightarrow> fround p emin x = of_int (rne (x / 2 powi fexp p emin x)) * 2 powi fexp p emin x"
  by (simp add: fround_def)

lemma powi_nat_int: "0 \<le> i \<Longrightarrow> (2 :: rat) powi i = of_int (2 ^ nat i)"
  by (simp add: power_int_def)

lemma round_grid_le:
  assumes "e \<le> j" and "x \<le> 2 powi j"
  shows "of_int (rne (x / 2 powi e)) * 2 powi e \<le> (2 :: rat) powi j"
proof -
  have "x / 2 powi e \<le> 2 powi (j - e)"
    using assms by (simp add: power_int_diff divide_right_mono)
  then have "rne (x / 2 powi e) \<le> 2 ^ nat (j - e)"
    using assms(1) by (intro rne_le_int) (simp add: powi_nat_int)
  then have "(of_int (rne (x / 2 powi e)) :: rat) \<le> 2 powi (j - e)"
    using assms(1) by (metis diff_ge_0_iff_ge of_int_le_iff powi_nat_int)
  then have "of_int (rne (x / 2 powi e)) * 2 powi e \<le> (2 :: rat) powi (j - e) * 2 powi e"
    by (intro mult_right_mono) simp_all
  also have "\<dots> = 2 powi j" by (simp add: power_int_add [symmetric])
  finally show ?thesis .
qed

lemma round_grid_ge:
  assumes "e \<le> j" and "2 powi j \<le> x"
  shows "(2 :: rat) powi j \<le> of_int (rne (x / 2 powi e)) * 2 powi e"
proof -
  have "2 powi (j - e) \<le> x / 2 powi e"
    using assms by (simp add: power_int_diff divide_right_mono)
  then have "2 ^ nat (j - e) \<le> rne (x / 2 powi e)"
    using assms(1) by (intro rne_ge_int) (simp add: powi_nat_int)
  then have "(2 :: rat) powi (j - e) \<le> of_int (rne (x / 2 powi e))"
    using assms(1) by (metis diff_ge_0_iff_ge of_int_le_iff powi_nat_int)
  then have "(2 :: rat) powi (j - e) * 2 powi e \<le> of_int (rne (x / 2 powi e)) * 2 powi e"
    by (intro mult_right_mono) simp_all
  moreover have "(2 :: rat) powi (j - e) * 2 powi e = 2 powi j" by (simp add: power_int_add [symmetric])
  ultimately show ?thesis by simp
qed

text \<open>Rounding is monotone, and exact on the numbers of the format.\<close>

lemma fround_mono_pos:
  assumes "0 < x" and "x \<le> y" and "p > 0"
  shows "fround p emin x \<le> fround p emin y"
proof (cases "fexp p emin x = fexp p emin y")
  case True
  have "x / 2 powi fexp p emin y \<le> y / 2 powi fexp p emin y"
    using assms by (simp add: divide_right_mono)
  then have "rne (x / 2 powi fexp p emin y) \<le> rne (y / 2 powi fexp p emin y)"
    by (rule rne_mono)
  with True assms show ?thesis by (simp add: fround_pos_def mult_right_mono)
next
  case False
  let ?j = "ilog2 y"
  have less: "ilog2 x < ?j" and ey: "fexp p emin y \<le> ?j" and ex: "fexp p emin x \<le> ?j"
    using False ilog2_mono [OF assms(1,2)] assms by (auto simp: fexp_def)
  have "x \<le> 2 powi ?j"
    using ilog2_bounds(2) [OF assms(1)] powi_mono2 [of "ilog2 x + 1" ?j] less by linarith
  from round_grid_le [OF ex this] round_grid_ge [OF ey ilog2_bounds(1) [of y]] assms
  show ?thesis by (simp add: fround_pos_def)
qed

lemma fround_nonneg: "0 \<le> x \<Longrightarrow> 0 \<le> fround p emin x"
  using rne_ge_int [of 0 "x / 2 powi fexp p emin x"] by (simp add: fround_def)

lemma fround_mono: "0 \<le> x \<Longrightarrow> x \<le> y \<Longrightarrow> p > 0 \<Longrightarrow> fround p emin x \<le> fround p emin y"
  using fround_mono_pos [of x y p emin] fround_nonneg [of y p emin] by (cases "x = 0") (auto simp: fround_def)

lemma fround_exact:
  assumes "0 < m" and "m < 2 ^ p" and "emin \<le> e"
  shows "fround p emin (of_int m * 2 powi e) = of_int m * 2 powi e"
proof -
  let ?x = "of_int m * 2 powi e :: rat"
  have pos: "?x > 0" using assms by simp
  have "(of_int m :: rat) < of_int (2 ^ p)" using assms(2) by (simp only: of_int_less_iff)
  then have "?x < 2 powi (int p) * 2 powi e"
    by (intro mult_strict_right_mono) (simp_all add: power_int_def)
  also have "\<dots> = 2 powi (int p + e)" by (simp add: power_int_add)
  finally have "2 powi ilog2 ?x < (2 :: rat) powi (int p + e)"
    using ilog2_bounds(1) [OF pos] by linarith
  then have le: "fexp p emin ?x \<le> e" using assms(3) pos by (simp add: powi_less_iff fexp_def)
  let ?f = "fexp p emin ?x"
  have "?x / 2 powi ?f = of_int m * 2 powi (e - ?f)"
    by (simp add: power_int_diff)
  also have "\<dots> = of_int (m * 2 ^ nat (e - ?f))" using le by (simp add: powi_nat_int)
  finally have "rne (?x / 2 powi ?f) = m * 2 ^ nat (e - ?f)" by (simp only: rne_of_int)
  then have "fround p emin ?x = of_int m * (2 powi (e - ?f) * 2 powi ?f)"
    using le pos by (simp add: fround_pos_def powi_nat_int)
  then show ?thesis by (simp add: power_int_add [symmetric])
qed

lemma f32_mono: "0 \<le> x \<Longrightarrow> x \<le> y \<Longrightarrow> f32 x \<le> f32 y"
  by (simp add: f32_def fround_mono)

lemma f32_nonneg: "0 \<le> x \<Longrightarrow> 0 \<le> f32 x"
  by (simp add: f32_def fround_nonneg)

lemma f32_of_nat: "n < 2 ^ 24 \<Longrightarrow> f32 (of_nat n) = of_nat n"
  using fround_exact [of "int n" 24 "-149" 0] by (cases "n = 0") (auto simp: f32_def fround_def)

lemma f64_mono: "0 \<le> x \<Longrightarrow> x \<le> y \<Longrightarrow> f64 x \<le> f64 y"
  by (simp add: f64_def fround_mono)

lemma f64_nonneg: "0 \<le> x \<Longrightarrow> 0 \<le> f64 x"
  by (simp add: f64_def fround_nonneg)

lemma as_uint_le: "as_uint mx x \<le> mx"
  by (simp add: as_uint_def)

end
