(* ===== verification/Video_QoS.thy ===== *)
theory Video_QoS
  imports Floats
begin

text \<open>
  The adaptive quality controller of the controlled side (\<open>src/server/video_qos.rs\<close>): frame rate and
  bitrate ratio from the network delay of every viewer.

  \<open>f32\<close> values are rationals rounded by \<open>f32\<close>; a \<open>u32\<close> is a \<open>nat\<close> with the wrap-around of release
  builds written out where a sum can exceed it.  \<open>HashMap\<close>s are association lists in iteration order.
  An operation yields \<open>None\<close> where the code would panic (\<open>clamp\<close> with bounds in the wrong order).
\<close>

section \<open>Constants\<close>

definition FPS :: nat where "FPS = 30"
definition MIN_FPS :: nat where "MIN_FPS = 1"
definition MAX_FPS :: nat where "MAX_FPS = 120"
definition INIT_FPS :: nat where "INIT_FPS = 15"

definition BR_MAX :: rat where "BR_MAX = f32 40"
definition BR_MIN :: rat where "BR_MIN = f32 (1 / 5)"
definition BR_MIN_HIGH_RESOLUTION :: rat where "BR_MIN_HIGH_RESOLUTION = f32 (1 / 10)"
definition MAX_BR_MULTIPLE :: rat where "MAX_BR_MULTIPLE = f32 1"

definition HISTORY_DELAY_LEN :: nat where "HISTORY_DELAY_LEN = 2"
definition ADJUST_RATIO_INTERVAL :: nat where "ADJUST_RATIO_INTERVAL = 3"
definition DYNAMIC_SCREEN_THRESHOLD :: nat where "DYNAMIC_SCREEN_THRESHOLD = 2"
definition DELAY_THRESHOLD_150MS :: nat where "DELAY_THRESHOLD_150MS = 150"

definition BR_BEST :: rat where "BR_BEST = f32 (3 / 2)"
definition BR_BALANCED :: rat where "BR_BALANCED = f32 (67 / 100)"
definition BR_SPEED :: rat where "BR_SPEED = f32 (1 / 2)"

datatype Quality = QBest | QBalanced | QLow | QCustom rat

fun quality_ratio :: "Quality \<Rightarrow> rat" where
  "quality_ratio QBest = BR_BEST"
| "quality_ratio QBalanced = BR_BALANCED"
| "quality_ratio QLow = BR_SPEED"
| "quality_ratio (QCustom v) = v"

definition u32_max :: nat where
  "u32_max = 2 ^ 32 - 1"

definition u32_wrap :: "nat \<Rightarrow> nat" where
  "u32_wrap n = n mod 2 ^ 32"

definition u32_to_f32 :: "nat \<Rightarrow> rat" where
  "u32_to_f32 n = f32 (of_nat n)"

definition f32_to_u32 :: "rat \<Rightarrow> nat" where
  "f32_to_u32 x = as_uint u32_max x"

text \<open>\<open>clamp\<close> of \<open>Ord\<close> and of \<open>f32\<close> panics when the bounds are out of order.\<close>

definition clamp :: "'a :: linorder \<Rightarrow> 'a \<Rightarrow> 'a \<Rightarrow> 'a option" where
  "clamp v lo hi = (if lo \<le> hi then Some (if v < lo then lo else if v > hi then hi else v) else None)"

section \<open>Round-trip time\<close>

record RttCalculator =
  rtt_min :: "nat option"
  rtt_window_min :: "nat option"
  rtt_smoothed :: "nat option"
  rtt_samples :: "nat list"

definition RttCalculator_default :: RttCalculator where
  "RttCalculator_default = \<lparr>rtt_min = None, rtt_window_min = None, rtt_smoothed = None, rtt_samples = []\<rparr>"

definition WINDOW_SAMPLES :: nat where "WINDOW_SAMPLES = 60"
definition MIN_SAMPLES :: nat where "MIN_SAMPLES = 10"
definition ALPHA :: rat where "ALPHA = f32 (1 / 2)"

text \<open>\<open>Iterator::min\<close> and \<open>Iterator::max\<close>.\<close>

definition list_min :: "nat list \<Rightarrow> nat option" where
  "list_min xs = (case xs of [] \<Rightarrow> None | x # xs' \<Rightarrow> Some (foldl min x xs'))"

definition list_max :: "nat list \<Rightarrow> nat option" where
  "list_max xs = (case xs of [] \<Rightarrow> None | x # xs' \<Rightarrow> Some (foldl max x xs'))"

definition rtt_update :: "nat \<Rightarrow> RttCalculator \<Rightarrow> RttCalculator" where
  "rtt_update delay c =
     (let mn = (case rtt_min c of
                  Some m \<Rightarrow> if delay < m then Some delay else Some m
                | None \<Rightarrow> Some delay);
          kept = (if length (rtt_samples c) \<ge> WINDOW_SAMPLES then tl (rtt_samples c) else rtt_samples c);
          samples = kept @ [delay];
          window_min = list_min samples;
          smoothed =
            (if length samples \<ge> WINDOW_SAMPLES then
               (case (mn, window_min) of
                  (Some m, Some w) \<Rightarrow>
                    Some (f32_to_u32 (f32 (f32 (f32 (1 - ALPHA) * u32_to_f32 m) + f32 (ALPHA * u32_to_f32 w))))
                | _ \<Rightarrow> rtt_smoothed c)
             else rtt_smoothed c) in
      \<lparr>rtt_min = mn, rtt_window_min = window_min, rtt_smoothed = smoothed, rtt_samples = samples\<rparr>)"

definition get_rtt :: "RttCalculator \<Rightarrow> nat option" where
  "get_rtt c =
     (case rtt_smoothed c of
        Some rtt \<Rightarrow> Some rtt
      | None \<Rightarrow> if length (rtt_samples c) \<ge> MIN_SAMPLES then rtt_min c else None)"

section \<open>Users, displays and the controller\<close>

record UserDelay =
  ud_response_delayed :: bool
  ud_delay_history :: "nat list"
  ud_fps :: "nat option"
  ud_rtt :: RttCalculator
  ud_quick_increase_fps_count :: nat
  ud_increase_fps_count :: nat

definition UserDelay_default :: UserDelay where
  "UserDelay_default = \<lparr>ud_response_delayed = False, ud_delay_history = [], ud_fps = None,
     ud_rtt = RttCalculator_default, ud_quick_increase_fps_count = 0, ud_increase_fps_count = 0\<rparr>"

definition add_delay :: "nat \<Rightarrow> UserDelay \<Rightarrow> UserDelay" where
  "add_delay delay u =
     (let h = (if length (ud_delay_history u) > HISTORY_DELAY_LEN then tl (ud_delay_history u) else ud_delay_history u) in
      u\<lparr>ud_rtt := rtt_update delay (ud_rtt u), ud_delay_history := h @ [delay]\<rparr>)"

definition avg_delay :: "UserDelay \<Rightarrow> nat" where
  "avg_delay u =
     (let len = length (ud_delay_history u) in
      if len > 0 then
        let avg = u32_wrap (sum_list (ud_delay_history u)) div len in
        (case get_rtt (ud_rtt u) of
           Some rtt \<Rightarrow> if avg > rtt then avg - rtt else avg
         | None \<Rightarrow> avg)
      else DELAY_THRESHOLD_150MS)"

record UserData =
  us_auto_adjust_fps :: "nat option"
  us_custom_fps :: "nat option"
  us_quality :: "(int \<times> Quality) option"
  us_delay :: UserDelay
  us_record :: bool

definition UserData_default :: UserData where
  "UserData_default = \<lparr>us_auto_adjust_fps = None, us_custom_fps = None, us_quality = None,
     us_delay = UserDelay_default, us_record = False\<rparr>"

record DisplayData =
  dd_send_counter :: nat
  dd_support_changing_quality :: bool

definition DisplayData_default :: DisplayData where
  "DisplayData_default = \<lparr>dd_send_counter = 0, dd_support_changing_quality = False\<rparr>"

record VideoQoS =
  q_fps :: nat
  q_ratio :: rat
  q_users :: "(int \<times> UserData) list"
  q_displays :: "(string \<times> DisplayData) list"
  q_bitrate_store :: nat
  q_adjust_ratio_instant :: instant
  q_abr_config :: bool
  q_new_user_instant :: instant

definition VideoQoS_default :: "instant \<Rightarrow> VideoQoS" where
  "VideoQoS_default now = \<lparr>q_fps = FPS, q_ratio = BR_BALANCED, q_users = [], q_displays = [],
     q_bitrate_store = 0, q_adjust_ratio_instant = now, q_abr_config = True, q_new_user_instant = now\<rparr>"

section \<open>Basic functions\<close>

definition qos_fps :: "VideoQoS \<Rightarrow> nat" where
  "qos_fps q = (if q_fps q \<ge> MIN_FPS \<and> q_fps q \<le> MAX_FPS then q_fps q else FPS)"

definition store_bitrate :: "nat \<Rightarrow> VideoQoS \<Rightarrow> VideoQoS" where
  "store_bitrate bitrate q = q\<lparr>q_bitrate_store := bitrate\<rparr>"

definition qos_ratio :: "VideoQoS \<Rightarrow> rat \<times> VideoQoS" where
  "qos_ratio q =
     (let q' = (if q_ratio q < BR_MIN_HIGH_RESOLUTION \<or> q_ratio q > BR_MAX then q\<lparr>q_ratio := BR_BALANCED\<rparr> else q) in
      (q_ratio q', q'))"

definition qos_record :: "VideoQoS \<Rightarrow> bool" where
  "qos_record q = list_ex (\<lambda>(_, u). us_record u) (q_users q)"

definition set_support_changing_quality :: "string \<Rightarrow> bool \<Rightarrow> VideoQoS \<Rightarrow> VideoQoS" where
  "set_support_changing_quality name support q =
     q\<lparr>q_displays := alist_modify name (\<lambda>x. x\<lparr>dd_support_changing_quality := support\<rparr>) (q_displays q)\<rparr>"

definition in_vbr_state :: "VideoQoS \<Rightarrow> bool" where
  "in_vbr_state q \<longleftrightarrow> q_abr_config q \<and> list_all (\<lambda>(_, x). dd_support_changing_quality x) (q_displays q)"

section \<open>Adjustment\<close>

definition user_fps :: "UserData \<Rightarrow> nat" where
  "user_fps u =
     (let fps = (case us_custom_fps u of Some f \<Rightarrow> f | None \<Rightarrow> FPS) in
      case us_auto_adjust_fps u of
        Some a \<Rightarrow> if fps = 0 \<or> a < fps then a else fps
      | None \<Rightarrow> fps)"

definition highest_fps :: "VideoQoS \<Rightarrow> nat option" where
  "highest_fps q =
     (let fps = (case list_min (filter (\<lambda>f. f \<ge> MIN_FPS) (map (\<lambda>(_, u). user_fps u) (q_users q))) of
                   Some f \<Rightarrow> f | None \<Rightarrow> FPS) in
      clamp fps MIN_FPS MAX_FPS)"

text \<open>\<open>max_by\<close> on the time: of several greatest elements the last.\<close>

fun latest_of :: "(int \<times> Quality) list \<Rightarrow> (int \<times> Quality) option" where
  "latest_of [] = None"
| "latest_of [x] = Some x"
| "latest_of (x # y # xs) = latest_of ((if fst x > fst y then x else y) # xs)"

definition latest_quality :: "VideoQoS \<Rightarrow> Quality" where
  "latest_quality q =
     (case latest_of (List.map_filter (\<lambda>(_, u). us_quality u) (q_users q)) of
        Some (_, x) \<Rightarrow> x
      | None \<Rightarrow> QBalanced)"

definition adjust_fps :: "instant \<Rightarrow> VideoQoS \<Rightarrow> VideoQoS option" where
  "adjust_fps now q =
     Option.bind (highest_fps q) (\<lambda>highest.
       let fps0 = (case list_min (map (\<lambda>(_, u). case ud_fps (us_delay u) of Some f \<Rightarrow> f | None \<Rightarrow> INIT_FPS) (q_users q)) of
                     Some f \<Rightarrow> f | None \<Rightarrow> INIT_FPS);
           fps1 = (if list_ex (\<lambda>(_, u). ud_response_delayed (us_delay u)) (q_users q) \<and> fps0 > MIN_FPS + 1
                   then MIN_FPS + 1 else fps0);
           fps2 = (if as_secs (elapsed now (q_new_user_instant q)) < 1 \<and> fps1 > INIT_FPS then INIT_FPS else fps1) in
       map_option (\<lambda>f. q\<lparr>q_fps := f\<rparr>) (clamp fps2 MIN_FPS highest))"

definition ratio_min :: "Quality \<Rightarrow> rat option \<Rightarrow> rat" where
  "ratio_min target_quality ratio_1mbps =
     (case target_quality of
        QBest \<Rightarrow>
          let m = f32 (BR_BEST / f32 (5 / 2));
              m' = (case ratio_1mbps of Some r \<Rightarrow> if m > r then r else m | None \<Rightarrow> m) in
          max m' BR_MIN
      | QBalanced \<Rightarrow>
          let m = min (f32 (BR_BALANCED / f32 2)) (f32 (2 / 5));
              m' = (case ratio_1mbps of Some r \<Rightarrow> if m > r then r else m | None \<Rightarrow> m) in
          max m' BR_MIN_HIGH_RESOLUTION
      | QLow \<Rightarrow> BR_MIN_HIGH_RESOLUTION
      | QCustom _ \<Rightarrow> BR_MIN_HIGH_RESOLUTION)"

definition ratio_step :: "nat \<Rightarrow> bool \<Rightarrow> rat \<Rightarrow> rat" where
  "ratio_step max_delay dynamic_screen current_ratio =
     (if max_delay < 50 then (if dynamic_screen then f32 (current_ratio * f32 (115 / 100)) else current_ratio)
      else if max_delay < 100 then (if dynamic_screen then f32 (current_ratio * f32 (11 / 10)) else current_ratio)
      else if max_delay < DELAY_THRESHOLD_150MS then
        (if dynamic_screen then f32 (current_ratio * f32 (105 / 100)) else current_ratio)
      else if max_delay < 200 then f32 (current_ratio * f32 (95 / 100))
      else if max_delay < 300 then f32 (current_ratio * f32 (9 / 10))
      else if max_delay < 500 then f32 (current_ratio * f32 (85 / 100))
      else f32 (current_ratio * f32 (8 / 10)))"

definition adjust_ratio :: "instant \<Rightarrow> bool \<Rightarrow> VideoQoS \<Rightarrow> VideoQoS option" where
  "adjust_ratio now dynamic_screen q =
     (if \<not> in_vbr_state q then Some q
      else
        case list_max (map (\<lambda>(_, u). avg_delay (us_delay u)) (q_users q)) of
          None \<Rightarrow> Some q
        | Some max_delay \<Rightarrow>
            let target_quality = latest_quality q;
                target_ratio = quality_ratio (latest_quality q);
                current_ratio = q_ratio q;
                current_bitrate = q_bitrate_store q;
                ratio_1mbps =
                  (if current_bitrate > 0
                   then Some (max (f32 (f32 (current_ratio * f32 1000) / u32_to_f32 current_bitrate)) BR_MIN_HIGH_RESOLUTION)
                   else None);
                ratio_add_150kbps =
                  (if current_bitrate > 0
                   then Some (f32 (f32 (u32_to_f32 (u32_wrap (current_bitrate + 150)) * current_ratio) / u32_to_f32 current_bitrate))
                   else None);
                mn = ratio_min target_quality ratio_1mbps;
                mx = f32 (target_ratio * MAX_BR_MULTIPLE);
                v = ratio_step max_delay dynamic_screen current_ratio;
                v' = (case ratio_add_150kbps of
                        Some r \<Rightarrow> if v > r \<and> r > current_ratio \<and> current_ratio \<ge> BR_SPEED then r else v
                      | None \<Rightarrow> v) in
            map_option (\<lambda>r. q\<lparr>q_ratio := r, q_adjust_ratio_instant := now\<rparr>) (clamp v' mn mx))"

section \<open>User sessions\<close>

definition on_connection_open :: "instant \<Rightarrow> bool \<Rightarrow> int \<Rightarrow> VideoQoS \<Rightarrow> VideoQoS" where
  "on_connection_open now enable_abr uid q =
     q\<lparr>q_users := alist_insert uid UserData_default (q_users q), q_abr_config := enable_abr, q_new_user_instant := now\<rparr>"

definition on_connection_close :: "instant \<Rightarrow> int \<Rightarrow> VideoQoS \<Rightarrow> VideoQoS" where
  "on_connection_close now uid q =
     (let users = alist_remove uid (q_users q) in
      if users = [] then VideoQoS_default now else q\<lparr>q_users := users\<rparr>)"

definition user_custom_fps :: "int \<Rightarrow> nat \<Rightarrow> VideoQoS \<Rightarrow> VideoQoS" where
  "user_custom_fps uid fps q =
     (if fps < MIN_FPS \<or> fps > MAX_FPS then q
      else q\<lparr>q_users := alist_modify uid (\<lambda>u. u\<lparr>us_custom_fps := Some fps\<rparr>) (q_users q)\<rparr>)"

definition user_auto_adjust_fps :: "int \<Rightarrow> nat \<Rightarrow> VideoQoS \<Rightarrow> VideoQoS" where
  "user_auto_adjust_fps uid fps q =
     (if fps < MIN_FPS \<or> fps > MAX_FPS then q
      else q\<lparr>q_users := alist_modify uid (\<lambda>u. u\<lparr>us_auto_adjust_fps := Some fps\<rparr>) (q_users q)\<rparr>)"

text \<open>The \<open>i32\<close> of the message: one of the presets, or a custom quality in bits 8 to 19.\<close>

definition convert_quality :: "int \<Rightarrow> Quality option" where
  "convert_quality x =
     (if x = 3 then Some QBalanced else if x = 2 then Some QLow else if x = 4 then Some QBest
      else map_option QCustom (clamp (f32 (f32 (of_int ((x div 2 ^ 8) mod 2 ^ 12 * 2)) / f32 100)) BR_MIN BR_MAX))"

definition user_image_quality :: "int \<Rightarrow> int \<Rightarrow> int \<Rightarrow> VideoQoS \<Rightarrow> VideoQoS option" where
  "user_image_quality time uid image_quality q =
     map_option (\<lambda>quality.
         (case map_of (q_users q) uid of
            Some _ \<Rightarrow>
              let q' = q\<lparr>q_users := alist_modify uid (\<lambda>u. u\<lparr>us_quality := Some (time, quality)\<rparr>) (q_users q)\<rparr> in
              q'\<lparr>q_ratio := quality_ratio (latest_quality q')\<rparr>
          | None \<Rightarrow> q))
       (convert_quality image_quality)"

definition user_record :: "int \<Rightarrow> bool \<Rightarrow> VideoQoS \<Rightarrow> VideoQoS" where
  "user_record uid v q = q\<lparr>q_users := alist_modify uid (\<lambda>u. u\<lparr>us_record := v\<rparr>) (q_users q)\<rparr>"

text \<open>The frame rate a new delay sample leads to, before the final clamp, with the user's counters.\<close>

definition delay_fps :: "nat \<Rightarrow> nat \<Rightarrow> nat \<Rightarrow> nat \<Rightarrow> nat \<Rightarrow> UserDelay \<Rightarrow> nat \<times> UserDelay" where
  "delay_fps min_fps normal_fps old_avg avg fps0 u =
     (let dividend_ms = DELAY_THRESHOLD_150MS * min_fps;
          (fps, u1) =
            (if avg < 50 then
               let c = ud_quick_increase_fps_count u + 1;
                   step = (if fps0 < normal_fps then 1 else 0) in
               if c \<ge> 3 then (max min_fps (fps0 + 5), u\<lparr>ud_quick_increase_fps_count := 0\<rparr>)
               else (max min_fps (fps0 + step), u\<lparr>ud_quick_increase_fps_count := c\<rparr>)
             else if avg < 100 then
               let step = (if avg < old_avg then (if fps0 < normal_fps then 1 else 0) else 0) in
               (max min_fps (fps0 + step), u)
             else if avg < DELAY_THRESHOLD_150MS then (max min_fps fps0, u)
             else
               let devide_fps = f32_to_u32 (of_int \<lceil>f32 (u32_to_f32 fps0 /
                     f32 (u32_to_f32 avg / u32_to_f32 DELAY_THRESHOLD_150MS))\<rceil>) in
               (if avg < 200 then max min_fps devide_fps
                else if avg < 300 then min min_fps devide_fps
                else if avg < 600 then dividend_ms div avg
                else min (dividend_ms div avg) devide_fps, u));
          inc = (if avg < DELAY_THRESHOLD_150MS then ud_increase_fps_count u1 + 1 else 0);
          (fps', inc') = (if inc \<ge> 3 then (fps + 1, 0) else (fps, inc));
          quick = (if avg > 50 then 0 else ud_quick_increase_fps_count u1) in
      (fps', u1\<lparr>ud_increase_fps_count := inc', ud_quick_increase_fps_count := quick\<rparr>))"

definition user_network_delay :: "bool \<Rightarrow> instant \<Rightarrow> int \<Rightarrow> nat \<Rightarrow> VideoQoS \<Rightarrow> VideoQoS option" where
  "user_network_delay linux now uid delay q =
     Option.bind (highest_fps q) (\<lambda>highest.
       let target_ratio = quality_ratio (latest_quality q);
           (min_fps, normal_fps) =
             (if target_ratio \<ge> BR_BEST then (8, 16) else if target_ratio \<ge> BR_BALANCED then (10, 20) else (12, 24)) in
       case map_of (q_users q) uid of
         Some u \<Rightarrow>
           let d = max delay 10;
               old_avg = avg_delay (us_delay u);
               ud1 = add_delay d (us_delay u);
               avg = max (avg_delay ud1) 10;
               (fps, ud2) = delay_fps min_fps normal_fps old_avg avg (q_fps q) ud1 in
           Option.bind (clamp fps MIN_FPS highest) (\<lambda>fps'.
             let first = (ud_fps ud2 = None);
                 q1 = q\<lparr>q_users := alist_modify uid (\<lambda>u. u\<lparr>us_delay := ud2\<lparr>ud_fps := Some fps'\<rparr>\<rparr>) (q_users q)\<rparr> in
             Option.bind (adjust_fps now q1) (\<lambda>q2.
               if first \<and> \<not> linux then adjust_ratio now False q2 else Some q2))
       | None \<Rightarrow> adjust_fps now q)"

definition user_delay_response_elapsed :: "instant \<Rightarrow> int \<Rightarrow> nat \<Rightarrow> VideoQoS \<Rightarrow> VideoQoS option" where
  "user_delay_response_elapsed now uid el q =
     (case map_of (q_users q) uid of
        Some u \<Rightarrow>
          let ud1 = (us_delay u)\<lparr>ud_response_delayed := (el > 2000)\<rparr> in
          if el > 2000 then
            adjust_fps now (q\<lparr>q_users := alist_modify uid (\<lambda>u. u\<lparr>us_delay := add_delay (u32_wrap el) ud1\<rparr>) (q_users q)\<rparr>)
          else Some (q\<lparr>q_users := alist_modify uid (\<lambda>u. u\<lparr>us_delay := ud1\<rparr>) (q_users q)\<rparr>)
      | None \<Rightarrow> Some q)"

section \<open>Displays\<close>

definition new_display :: "string \<Rightarrow> VideoQoS \<Rightarrow> VideoQoS" where
  "new_display name q = q\<lparr>q_displays := alist_insert name DisplayData_default (q_displays q)\<rparr>"

definition remove_display :: "string \<Rightarrow> VideoQoS \<Rightarrow> VideoQoS" where
  "remove_display name q = q\<lparr>q_displays := alist_remove name (q_displays q)\<rparr>"

definition update_display_data :: "instant \<Rightarrow> string \<Rightarrow> nat \<Rightarrow> VideoQoS \<Rightarrow> VideoQoS option" where
  "update_display_data now name send_counter q =
     (let q1 = q\<lparr>q_displays := alist_modify name (\<lambda>x. x\<lparr>dd_send_counter := dd_send_counter x + send_counter\<rparr>) (q_displays q)\<rparr> in
      Option.bind (adjust_fps now q1) (\<lambda>q2.
        if in_vbr_state q2 then
          (if as_secs (elapsed now (q_adjust_ratio_instant q2)) \<ge> ADJUST_RATIO_INTERVAL then
             let dynamic_screen =
                   list_ex (\<lambda>(_, x). dd_send_counter x \<ge> ADJUST_RATIO_INTERVAL * DYNAMIC_SCREEN_THRESHOLD) (q_displays q2);
                 q3 = q2\<lparr>q_displays := map (\<lambda>(n, x). (n, x\<lparr>dd_send_counter := 0\<rparr>)) (q_displays q2)\<rparr> in
             adjust_ratio now dynamic_screen q3
           else Some q2)
        else Some (q2\<lparr>q_ratio := quality_ratio (latest_quality q2)\<rparr>)))"

section \<open>All operations\<close>

datatype qos_op =
    OpOpen bool int | OpClose int | OpCustomFps int nat | OpAutoFps int nat | OpImageQuality int int int
  | OpRecord int bool | OpNetworkDelay int nat | OpResponseElapsed int nat | OpNewDisplay string
  | OpRemoveDisplay string | OpUpdateDisplay string nat | OpStoreBitrate nat | OpSupport string bool | OpRatio

fun qos_apply :: "bool \<Rightarrow> instant \<Rightarrow> qos_op \<Rightarrow> VideoQoS \<Rightarrow> VideoQoS option" where
  "qos_apply linux now (OpOpen abr uid) q = Some (on_connection_open now abr uid q)"
| "qos_apply linux now (OpClose uid) q = Some (on_connection_close now uid q)"
| "qos_apply linux now (OpCustomFps uid f) q = Some (user_custom_fps uid f q)"
| "qos_apply linux now (OpAutoFps uid f) q = Some (user_auto_adjust_fps uid f q)"
| "qos_apply linux now (OpImageQuality time uid x) q = user_image_quality time uid x q"
| "qos_apply linux now (OpRecord uid v) q = Some (user_record uid v q)"
| "qos_apply linux now (OpNetworkDelay uid dl) q = user_network_delay linux now uid dl q"
| "qos_apply linux now (OpResponseElapsed uid el) q = user_delay_response_elapsed now uid el q"
| "qos_apply linux now (OpNewDisplay name) q = Some (new_display name q)"
| "qos_apply linux now (OpRemoveDisplay name) q = Some (remove_display name q)"
| "qos_apply linux now (OpUpdateDisplay name n) q = update_display_data now name n q"
| "qos_apply linux now (OpStoreBitrate b) q = Some (store_bitrate b q)"
| "qos_apply linux now (OpSupport name b) q = Some (set_support_changing_quality name b q)"
| "qos_apply linux now OpRatio q = Some (snd (qos_ratio q))"

fun qos_run :: "bool \<Rightarrow> (instant \<times> qos_op) list \<Rightarrow> VideoQoS \<Rightarrow> VideoQoS option" where
  "qos_run linux [] q = Some q"
| "qos_run linux ((now, x) # ops) q = Option.bind (qos_apply linux now x q) (qos_run linux ops)"

section \<open>The invariant\<close>

lemma f32_values: "f32 1 = 1" "f32 2 = 2" "f32 40 = 40" "f32 (1 / 2) = 1 / 2" "f32 (3 / 2) = 3 / 2" "f32 (5 / 2) = 5 / 2"
    "f32 (1 / 8) = 1 / 8"
  using fround_exact [of 1 24 "-149" 0] fround_exact [of 2 24 "-149" 0] fround_exact [of 40 24 "-149" 0]
    fround_exact [of 1 24 "-149" "-1"] fround_exact [of 3 24 "-149" "-1"] fround_exact [of 5 24 "-149" "-1"]
    fround_exact [of 1 24 "-149" "-3"]
  by (simp_all add: f32_def power_int_minus)

lemma br_order:
  "BR_MIN_HIGH_RESOLUTION \<le> BR_MIN" "BR_MIN_HIGH_RESOLUTION \<le> 1 / 8" "1 / 8 \<le> BR_MIN" "BR_MIN \<le> 1 / 2" "BR_SPEED = 1 / 2"
  "1 / 2 \<le> BR_BALANCED" "BR_BALANCED \<le> 1" "BR_BEST = 3 / 2" "BR_MAX = 40" "BR_MIN_HIGH_RESOLUTION \<ge> 0"
  using f32_mono [of "1 / 10" "1 / 5"] f32_mono [of "1 / 10" "1 / 8"] f32_mono [of "1 / 8" "1 / 5"]
    f32_mono [of "1 / 5" "1 / 2"] f32_mono [of "1 / 2" "67 / 100"] f32_mono [of "67 / 100" 1] f32_nonneg [of "1 / 10"]
  by (simp_all add: BR_MIN_HIGH_RESOLUTION_def BR_MIN_def BR_SPEED_def BR_BALANCED_def BR_BEST_def BR_MAX_def f32_values)

fun quality_ok :: "Quality \<Rightarrow> bool" where
  "quality_ok (QCustom v) \<longleftrightarrow> BR_MIN \<le> v \<and> v \<le> BR_MAX"
| "quality_ok _ \<longleftrightarrow> True"

lemma quality_ratio_bounds:
  "quality_ok x \<Longrightarrow> BR_MIN \<le> quality_ratio x \<and> quality_ratio x \<le> BR_MAX"
  using br_order by (cases x) auto

lemma clamp_Some: "lo \<le> hi \<Longrightarrow> \<exists>v'. clamp v lo hi = Some v' \<and> lo \<le> v' \<and> v' \<le> hi"
  by (auto simp: clamp_def)

lemma convert_quality_ok: "\<exists>x. convert_quality n = Some x \<and> quality_ok x"
proof -
  have "BR_MIN \<le> BR_MAX" using br_order by simp
  from clamp_Some [OF this] show ?thesis
    by (fastforce simp: convert_quality_def)
qed

definition user_ok :: "UserData \<Rightarrow> bool" where
  "user_ok u \<longleftrightarrow> (case us_quality u of Some (_, x) \<Rightarrow> quality_ok x | None \<Rightarrow> True)"

definition qos_ok :: "VideoQoS \<Rightarrow> bool" where
  "qos_ok q \<longleftrightarrow>
     MIN_FPS \<le> q_fps q \<and> q_fps q \<le> MAX_FPS \<and> BR_MIN_HIGH_RESOLUTION \<le> q_ratio q \<and> q_ratio q \<le> BR_MAX \<and>
     (\<forall>(_, u) \<in> set (q_users q). user_ok u)"

lemma latest_of_mem: "latest_of xs = Some x \<Longrightarrow> x \<in> set xs"
  by (induction xs rule: latest_of.induct) (auto split: if_splits)

lemma latest_quality_ok:
  assumes "qos_ok q"
  shows "quality_ok (latest_quality q)"
proof (cases "latest_of (List.map_filter (\<lambda>(_, u). us_quality u) (q_users q))")
  case (Some x)
  from latest_of_mem [OF this] obtain i u where "(i, u) \<in> set (q_users q)" "us_quality u = Some x"
    by (auto simp: map_filter_def)
  with assms have "quality_ok (snd x)" by (fastforce simp: qos_ok_def user_ok_def)
  with Some show ?thesis by (simp add: latest_quality_def case_prod_unfold)
qed (simp add: latest_quality_def)

lemma highest_fps_bounds: "\<exists>h. highest_fps q = Some h \<and> MIN_FPS \<le> h \<and> h \<le> MAX_FPS"
  using clamp_Some [of MIN_FPS MAX_FPS] by (simp add: highest_fps_def Let_def MIN_FPS_def MAX_FPS_def)

lemma adjust_fps_ok:
  assumes "qos_ok q"
  shows "\<exists>q'. adjust_fps now q = Some q' \<and> qos_ok q' \<and> q' = q\<lparr>q_fps := q_fps q'\<rparr>"
proof -
  obtain h where h: "highest_fps q = Some h" "MIN_FPS \<le> h" "h \<le> MAX_FPS" using highest_fps_bounds by blast
  let ?P = "\<lambda>f. \<exists>f'. clamp f MIN_FPS h = Some f' \<and> MIN_FPS \<le> f' \<and> f' \<le> h"
  have "?P f" for f using clamp_Some [OF h(2)] .
  then show ?thesis
    using assms h by (fastforce simp: adjust_fps_def Let_def qos_ok_def)
qed

lemma ratio_min_bounds:
  assumes "quality_ok x"
  shows "BR_MIN_HIGH_RESOLUTION \<le> ratio_min x r" and "ratio_min x r \<le> f32 (quality_ratio x * MAX_BR_MULTIPLE)"
proof -
  have one: "MAX_BR_MULTIPLE = 1" by (simp add: MAX_BR_MULTIPLE_def f32_values)
  show "BR_MIN_HIGH_RESOLUTION \<le> ratio_min x r"
    using br_order by (auto simp: ratio_min_def Let_def split: Quality.split)
  have low: "BR_MIN_HIGH_RESOLUTION \<le> f32 (quality_ratio x)"
    using f32_mono [of "1 / 8" "quality_ratio x"] quality_ratio_bounds [OF assms] br_order by (simp add: f32_values)
  show "ratio_min x r \<le> f32 (quality_ratio x * MAX_BR_MULTIPLE)"
  proof (cases x)
    case QBest
    have "f32 (BR_BEST / f32 (5 / 2)) \<le> f32 (3 / 2)"
      by (rule f32_mono) (simp_all add: br_order f32_values)
    then show ?thesis
      using QBest br_order(4) by (auto simp: ratio_min_def Let_def one f32_values br_order(8) split: option.split)
  next
    case QBalanced
    have "f32 (BR_BALANCED / f32 2) \<le> f32 BR_BALANCED"
      using br_order by (intro f32_mono) (simp_all add: f32_values)
    then show ?thesis
      using QBalanced low by (auto simp: ratio_min_def Let_def one split: option.split)
  qed (use low in \<open>simp_all add: ratio_min_def one\<close>)
qed

lemma ratio_max_bound: "quality_ok x \<Longrightarrow> f32 (quality_ratio x * MAX_BR_MULTIPLE) \<le> BR_MAX"
  using f32_mono [of "quality_ratio x" 40] quality_ratio_bounds [of x] br_order(3)
  by (simp add: MAX_BR_MULTIPLE_def f32_values br_order(9))

lemma adjust_ratio_ok:
  assumes "qos_ok q"
  shows "\<exists>q'. adjust_ratio now dyn q = Some q' \<and> qos_ok q'"
proof -
  note lq = latest_quality_ok [OF assms]
  have "\<exists>v'. clamp v (ratio_min (latest_quality q) r) (f32 (quality_ratio (latest_quality q) * MAX_BR_MULTIPLE)) = Some v' \<and>
      BR_MIN_HIGH_RESOLUTION \<le> v' \<and> v' \<le> BR_MAX" for v r
    using clamp_Some [OF ratio_min_bounds(2) [OF lq], of v r] ratio_min_bounds(1) [OF lq, of r] ratio_max_bound [OF lq]
    by (meson order_trans)
  then show ?thesis
    using assms by (fastforce simp: adjust_ratio_def Let_def qos_ok_def split: option.split)
qed

lemma users_ok_modify:
  assumes "\<forall>(_, u) \<in> set us. user_ok u" and "\<And>u. user_ok u \<Longrightarrow> user_ok (f u)"
  shows "\<forall>(_, u) \<in> set (alist_modify uid f us). user_ok u"
  using assms by (auto simp: alist_modify_def)

lemma set_alist_insert_sub: "set (alist_insert k v m) \<subseteq> insert (k, v) (set m)"
  by (induction k v m rule: alist_insert.induct) auto

lemma qos_ok_users:
  "qos_ok q \<Longrightarrow> (\<And>u. user_ok u \<Longrightarrow> user_ok (f u)) \<Longrightarrow> qos_ok (q\<lparr>q_users := alist_modify uid f (q_users q)\<rparr>)"
  using users_ok_modify [of "q_users q" f uid] by (simp add: qos_ok_def)

lemma qos_ok_displays [simp]: "qos_ok (q\<lparr>q_displays := x\<rparr>) = qos_ok q"
  by (simp add: qos_ok_def)

lemma qos_ok_ratio:
  assumes "qos_ok q"
  shows "qos_ok (q\<lparr>q_ratio := quality_ratio (latest_quality q)\<rparr>)"
proof -
  have "BR_MIN_HIGH_RESOLUTION \<le> quality_ratio (latest_quality q) \<and> quality_ratio (latest_quality q) \<le> BR_MAX"
    using quality_ratio_bounds [OF latest_quality_ok [OF assms]] br_order(1) by linarith
  with assms show ?thesis by (simp add: qos_ok_def)
qed

lemma user_image_quality_ok:
  assumes "qos_ok q"
  shows "\<exists>q'. user_image_quality time uid n q = Some q' \<and> qos_ok q'"
proof -
  obtain x where x: "convert_quality n = Some x" "quality_ok x" using convert_quality_ok by blast
  have "qos_ok (q\<lparr>q_users := alist_modify uid (\<lambda>u. u\<lparr>us_quality := Some (time, x)\<rparr>) (q_users q)\<rparr>)"
    using assms x(2) by (intro qos_ok_users) (simp_all add: user_ok_def)
  from qos_ok_ratio [OF this] assms x(1) show ?thesis
    by (simp add: user_image_quality_def Let_def split: option.split)
qed

lemma user_network_delay_ok:
  assumes "qos_ok q"
  shows "\<exists>q'. user_network_delay linux now uid dl q = Some q' \<and> qos_ok q'"
proof -
  obtain h where h: "highest_fps q = Some h" "MIN_FPS \<le> h" using highest_fps_bounds by blast
  have adj: "\<exists>q'. Option.bind (adjust_fps now (q\<lparr>q_users := alist_modify uid (\<lambda>u. u\<lparr>us_delay := ud\<rparr>) (q_users q)\<rparr>))
      (\<lambda>q2. if b then adjust_ratio now False q2 else Some q2) = Some q' \<and> qos_ok q'" for ud b
  proof -
    have "qos_ok (q\<lparr>q_users := alist_modify uid (\<lambda>u. u\<lparr>us_delay := ud\<rparr>) (q_users q)\<rparr>)"
      using assms by (intro qos_ok_users) (simp_all add: user_ok_def)
    from adjust_fps_ok [OF this, of now] obtain q2 where "adjust_fps now (q\<lparr>q_users :=
        alist_modify uid (\<lambda>u. u\<lparr>us_delay := ud\<rparr>) (q_users q)\<rparr>) = Some q2" "qos_ok q2" by blast
    with adjust_ratio_ok [of q2 now False] show ?thesis by (cases b) auto
  qed
  show ?thesis
  proof (cases "map_of (q_users q) uid")
    case None
    with adjust_fps_ok [OF assms, of now] h show ?thesis
      by (auto simp: user_network_delay_def Let_def)
  next
    case (Some u)
    obtain mn nm where mn: "(if quality_ratio (latest_quality q) \<ge> BR_BEST then (8, 16)
        else if quality_ratio (latest_quality q) \<ge> BR_BALANCED then (10, 20) else (12 :: nat, 24 :: nat)) = (mn, nm)"
      by (metis surj_pair)
    define r where "r = delay_fps mn nm (avg_delay (us_delay u)) (max (avg_delay (add_delay (max dl 10) (us_delay u))) 10)
        (q_fps q) (add_delay (max dl 10) (us_delay u))"
    obtain f' where f': "clamp (fst r) MIN_FPS h = Some f'" using clamp_Some [OF h(2)] by blast
    have "user_network_delay linux now uid dl q =
        Option.bind (adjust_fps now (q\<lparr>q_users := alist_modify uid (\<lambda>u. u\<lparr>us_delay := (snd r)\<lparr>ud_fps := Some f'\<rparr>\<rparr>) (q_users q)\<rparr>))
          (\<lambda>q2. if ud_fps (snd r) = None \<and> \<not> linux then adjust_ratio now False q2 else Some q2)"
      using f' unfolding user_network_delay_def Let_def mn by (simp add: h(1) Some r_def case_prod_unfold)
    with adj show ?thesis by simp
  qed
qed

lemma user_delay_response_elapsed_ok:
  assumes "qos_ok q"
  shows "\<exists>q'. user_delay_response_elapsed now uid el q = Some q' \<and> qos_ok q'"
proof -
  have "qos_ok (q\<lparr>q_users := alist_modify uid (\<lambda>u. u\<lparr>us_delay := ud\<rparr>) (q_users q)\<rparr>)" for ud
    using assms by (intro qos_ok_users) (simp_all add: user_ok_def)
  with adjust_fps_ok assms show ?thesis
    by (simp add: user_delay_response_elapsed_def Let_def split: option.split) blast
qed

lemma update_display_data_ok:
  assumes "qos_ok q"
  shows "\<exists>q'. update_display_data now name n q = Some q' \<and> qos_ok q'"
proof -
  let ?q1 = "q\<lparr>q_displays := alist_modify name (\<lambda>x. x\<lparr>dd_send_counter := dd_send_counter x + n\<rparr>) (q_displays q)\<rparr>"
  have "qos_ok ?q1" using assms by simp
  from adjust_fps_ok [OF this, of now] obtain q2 where q2: "adjust_fps now ?q1 = Some q2" "qos_ok q2" by blast
  show ?thesis
    using q2 qos_ok_ratio [OF q2(2)] adjust_ratio_ok [of "q2\<lparr>q_displays := x\<rparr>" now for x]
    by (simp add: update_display_data_def Let_def)
qed

lemma qos_apply_ok:
  assumes "qos_ok q"
  shows "\<exists>q'. qos_apply linux now x q = Some q' \<and> qos_ok q'"
proof (cases x)
  case (OpOpen abr uid)
  have "user_ok UserData_default" by (simp add: user_ok_def UserData_default_def)
  with OpOpen assms set_alist_insert_sub [of uid UserData_default "q_users q"] show ?thesis
    by (auto simp: on_connection_open_def qos_ok_def)
next
  case (OpClose uid)
  have "qos_ok (VideoQoS_default now)"
    using br_order by (simp add: qos_ok_def VideoQoS_default_def FPS_def MIN_FPS_def MAX_FPS_def)
  with OpClose assms show ?thesis by (auto simp: on_connection_close_def Let_def qos_ok_def)
next
  case (OpImageQuality time uid n)
  with user_image_quality_ok [OF assms] show ?thesis by simp
next
  case (OpNetworkDelay uid dl)
  with user_network_delay_ok [OF assms] show ?thesis by simp
next
  case (OpResponseElapsed uid el)
  with user_delay_response_elapsed_ok [OF assms] show ?thesis by simp
next
  case (OpUpdateDisplay name n)
  with update_display_data_ok [OF assms] show ?thesis by simp
next
  case OpRatio
  with assms show ?thesis by (simp add: qos_ratio_def qos_ok_def Let_def)
qed (use assms in \<open>auto simp: user_custom_fps_def user_auto_adjust_fps_def user_record_def new_display_def remove_display_def
    store_bitrate_def set_support_changing_quality_def user_ok_def intro!: qos_ok_users, auto simp: qos_ok_def\<close>)

section \<open>Properties\<close>

text \<open>
  C13: Whatever viewers connect, configure and report, in whatever order and at whatever times, the
  quality controller never panics (every \<open>clamp\<close> gets its bounds in order), the frame rate stays
  within 1 and 120, and the bitrate ratio within its global limits, so the fallbacks of \<open>fps()\<close> and
  \<open>ratio()\<close> never apply.
\<close>

theorem qos_run_safe:
  "\<exists>q. qos_run linux ops (VideoQoS_default t0) = Some q \<and>
     MIN_FPS \<le> q_fps q \<and> q_fps q \<le> MAX_FPS \<and> qos_fps q = q_fps q \<and>
     BR_MIN_HIGH_RESOLUTION \<le> q_ratio q \<and> q_ratio q \<le> BR_MAX \<and> qos_ratio q = (q_ratio q, q)"
proof -
  have "\<exists>q'. qos_run linux ops q = Some q' \<and> qos_ok q'" if "qos_ok q" for q
    using that
  proof (induction ops arbitrary: q)
    case (Cons y ops)
    obtain now x where y: "y = (now, x)" by (cases y)
    from qos_apply_ok [OF Cons.prems, of linux now x] Cons.IH y show ?case by auto
  qed simp
  moreover have "qos_ok (VideoQoS_default t0)"
    using br_order by (simp add: qos_ok_def VideoQoS_default_def FPS_def MIN_FPS_def MAX_FPS_def)
  ultimately obtain q where "qos_run linux ops (VideoQoS_default t0) = Some q" "qos_ok q" by blast
  then show ?thesis by (auto simp: qos_ok_def qos_fps_def qos_ratio_def Let_def)
qed

section \<open>The frame rate follows the slowest viewer\<close>

lemma foldl_min: "foldl min (x :: nat) xs = Min (insert x (set xs))"
proof (induction xs arbitrary: x)
  case (Cons y ys)
  have "Min (insert (min x y) (set ys)) = Min (insert x (insert y (set ys)))"
    by (cases "ys = []") (simp_all add: min.assoc)
  with Cons show ?case by simp
qed simp

lemma list_min_eq: "list_min xs = (if xs = [] then None else Some (Min (set xs)))"
  by (cases xs) (simp_all add: list_min_def foldl_min)

lemma list_min_le: "list_min xs = Some m \<Longrightarrow> x \<in> set xs \<Longrightarrow> m \<le> x"
  by (auto simp: list_min_eq split: if_splits)

lemma highest_fps_le:
  assumes "highest_fps q = Some h" and "(i, u) \<in> set (q_users q)" and "user_fps u \<ge> MIN_FPS"
  shows "h \<le> user_fps u"
proof -
  let ?xs = "filter (\<lambda>f. f \<ge> MIN_FPS) (map (\<lambda>(_, u). user_fps u) (q_users q))"
  have mem: "user_fps u \<in> set ?xs" using assms(2,3) by force
  then obtain m where m: "list_min ?xs = Some m" by (cases ?xs) (auto simp: list_min_eq)
  from list_min_le [OF m mem] assms(1,3) m show ?thesis
    by (auto simp: highest_fps_def Let_def clamp_def split: if_splits)
qed

text \<open>
  After every adjustment the frame rate respects each viewer: it is at most the rate any
  viewer asked for and, from one on, at most the rate that viewer's network delay allows; while some
  viewer's reply is overdue it is at most 2, and within one second of a new viewer at most 15.
\<close>

theorem adjust_fps_respects_users:
  assumes "adjust_fps now q = Some q'" and "(i, u) \<in> set (q_users q)"
  shows "(user_fps u \<ge> MIN_FPS \<longrightarrow> q_fps q' \<le> user_fps u) \<and>
     (\<forall>f. ud_fps (us_delay u) = Some f \<longrightarrow> q_fps q' \<le> max f MIN_FPS) \<and>
     (ud_response_delayed (us_delay u) \<longrightarrow> q_fps q' \<le> MIN_FPS + 1) \<and>
     (as_secs (elapsed now (q_new_user_instant q)) < 1 \<longrightarrow> q_fps q' \<le> INIT_FPS)"
proof -
  obtain h where h: "highest_fps q = Some h" "MIN_FPS \<le> h" using highest_fps_bounds by blast
  let ?fs = "map (\<lambda>(_, u). case ud_fps (us_delay u) of Some f \<Rightarrow> f | None \<Rightarrow> INIT_FPS) (q_users q)"
  define fps0 where "fps0 = (case list_min ?fs of Some f \<Rightarrow> f | None \<Rightarrow> INIT_FPS)"
  have "q_users q \<noteq> []" using assms(2) by auto
  then have "list_min ?fs = Some fps0" by (simp add: fps0_def list_min_eq)
  with assms(2) have le0: "fps0 \<le> (case ud_fps (us_delay u) of Some f \<Rightarrow> f | None \<Rightarrow> INIT_FPS)"
    by (intro list_min_le) force+
  have ex: "ud_response_delayed (us_delay u) \<Longrightarrow> list_ex (\<lambda>(_, u). ud_response_delayed (us_delay u)) (q_users q)"
    using assms(2) by (auto simp: list_ex_iff)
  define fps1 where "fps1 = (if list_ex (\<lambda>(_, u). ud_response_delayed (us_delay u)) (q_users q) \<and> fps0 > MIN_FPS + 1
      then MIN_FPS + 1 else fps0)"
  define fps2 where "fps2 = (if as_secs (elapsed now (q_new_user_instant q)) < 1 \<and> fps1 > INIT_FPS then INIT_FPS else fps1)"
  have "clamp fps2 MIN_FPS h = Some (q_fps q')"
    using assms(1) by (auto simp: adjust_fps_def Let_def h(1) fps0_def fps1_def fps2_def)
  then have "q_fps q' \<le> h" "q_fps q' \<le> max fps2 MIN_FPS"
    by (auto simp: clamp_def split: if_splits)
  moreover have "fps2 \<le> fps0" "ud_response_delayed (us_delay u) \<Longrightarrow> fps2 \<le> MIN_FPS + 1"
      "as_secs (elapsed now (q_new_user_instant q)) < 1 \<Longrightarrow> fps2 \<le> INIT_FPS"
    using ex by (auto simp: fps1_def fps2_def MIN_FPS_def INIT_FPS_def)
  moreover have "MIN_FPS \<le> INIT_FPS" by (simp add: MIN_FPS_def INIT_FPS_def)
  moreover have "user_fps u \<ge> MIN_FPS \<Longrightarrow> h \<le> user_fps u" by (rule highest_fps_le [OF h(1) assms(2)])
  ultimately show ?thesis using le0 by (auto split: option.splits)
qed

definition demo_user :: UserData where
  "demo_user = UserData_default\<lparr>us_custom_fps := Some 20, us_delay := UserDelay_default\<lparr>ud_fps := Some 5\<rparr>\<rparr>"

theorem adjust_fps_respects_users_witness:
  "\<exists>q'. adjust_fps 5000000000 ((VideoQoS_default 0)\<lparr>q_users := [(7, demo_user)]\<rparr>) = Some q' \<and> q_fps q' \<le> 5 \<and> q_fps q' \<le> 20"
proof -
  let ?q = "(VideoQoS_default 0)\<lparr>q_users := [(7, demo_user)]\<rparr>"
  have "\<exists>q'. adjust_fps 5000000000 ?q = Some q'"
    using highest_fps_bounds [of ?q] clamp_Some [of MIN_FPS] by (fastforce simp: adjust_fps_def Let_def)
  then obtain q' where q': "adjust_fps 5000000000 ?q = Some q'" by blast
  have "(7, demo_user) \<in> set (q_users ?q)" by simp
  from adjust_fps_respects_users [OF q' this] q' show ?thesis
    by (auto simp: demo_user_def user_fps_def UserData_default_def UserDelay_default_def MIN_FPS_def)
qed

section \<open>Round-trip time estimation\<close>

lemma list_min_snoc: "list_min (xs @ [d]) = (case list_min xs of Some m \<Rightarrow> Some (min m d) | None \<Rightarrow> Some d)"
  by (cases xs) (simp_all add: list_min_def)

text \<open>The estimate is a weighted mean, computed in \<open>f32\<close> and truncated.\<close>

definition srtt :: "nat \<Rightarrow> nat \<Rightarrow> nat" where
  "srtt m w = f32_to_u32 (f32 (f32 (f32 (1 - ALPHA) * u32_to_f32 m) + f32 (ALPHA * u32_to_f32 w)))"

lemma f32_half:
  assumes "n < 2 ^ 24"
  shows "f32 (1 / 2 * of_nat n) = 1 / 2 * of_nat n"
  using fround_exact [of "int n" 24 "-149" "-1"] assms
  by (cases "n = 0") (auto simp: f32_def fround_def power_int_minus mult.commute)

lemma srtt_between:
  assumes "m \<le> w" and "w < 2 ^ 24"
  shows "m \<le> srtt m w" and "srtt m w \<le> w"
proof -
  have m: "m < 2 ^ 24" using assms by simp
  have half: "ALPHA = 1 / 2" "f32 (1 - 1 / 2) = 1 / 2" by (simp_all add: ALPHA_def f32_values)
  define x where "x = f32 (1 / 2 * of_nat m + 1 / 2 * of_nat w)"
  have s: "srtt m w = f32_to_u32 x"
    unfolding srtt_def half u32_to_f32_def f32_of_nat [OF m] f32_of_nat [OF assms(2)]
      f32_half [OF m] f32_half [OF assms(2)] x_def ..
  have "f32 (of_nat m) \<le> x" "x \<le> f32 (of_nat w)"
    unfolding x_def using assms(1) by (intro f32_mono; simp)+
  then have lo: "of_nat m \<le> x" and hi: "x \<le> of_nat w"
    by (simp_all add: f32_of_nat [OF m] f32_of_nat [OF assms(2)])
  have "int m \<le> \<lfloor>x\<rfloor>" "\<lfloor>x\<rfloor> \<le> int w"
    using lo hi by (simp_all add: le_floor_iff floor_le_iff)
  then show "m \<le> srtt m w" and "srtt m w \<le> w"
    using lo m assms(2) by (auto simp: s f32_to_u32_def as_uint_def u32_max_def)
qed

lemma rtt_run:
  "fold rtt_update ds RttCalculator_default =
     \<lparr>rtt_min = list_min ds, rtt_window_min = list_min (drop (length ds - 60) ds),
      rtt_smoothed = (if length ds \<ge> 60 then Some (srtt (Min (set ds)) (Min (set (drop (length ds - 60) ds)))) else None),
      rtt_samples = drop (length ds - 60) ds\<rparr>"
proof (induction ds rule: rev_induct)
  case Nil
  then show ?case by (simp add: RttCalculator_default_def list_min_def)
next
  case (snoc d ds)
  let ?w = "drop (length ds - 60) ds"
  let ?kept = "if length ?w \<ge> 60 then tl ?w else ?w"
  have win: "?kept @ [d] = drop (length (ds @ [d]) - 60) (ds @ [d])"
  proof (cases "length ds \<ge> 60")
    case True
    then have "length (ds @ [d]) - 60 = Suc (length ds - 60)" by simp
    with True show ?thesis by (simp add: drop_Suc tl_drop del: length_append)
  qed simp
  have mn: "(case list_min ds of Some m \<Rightarrow> if d < m then Some d else Some m | None \<Rightarrow> Some d) = list_min (ds @ [d])"
    by (simp add: list_min_snoc min_def split: option.split)
  have len: "length (drop (length (ds @ [d]) - 60) (ds @ [d])) \<ge> 60 \<longleftrightarrow> length (ds @ [d]) \<ge> 60" by auto
  have "drop (length (ds @ [d]) - 60) (ds @ [d]) \<noteq> []" by simp
  then show ?case
    unfolding fold_append comp_apply snoc.IH fold.simps id_apply
    by (simp only: rtt_update_def Let_def WINDOW_SAMPLES_def RttCalculator.select_convs mn win len srtt_def [symmetric])
      (simp add: list_min_eq)
qed

text \<open>
  The round-trip estimate: none before ten samples; afterwards it always lies between the
  smallest delay ever seen and the smallest of the last sixty, so subtracting it never removes more
  than the least recent delay (for delays below \<open>2\<^sup>2\<^sup>4\<close> ms, where \<open>f32\<close> is exact).
\<close>

theorem rtt_estimate_bounds:
  assumes "\<forall>d \<in> set ds. d < 2 ^ 24"
  shows "(get_rtt (fold rtt_update ds RttCalculator_default) = None \<longleftrightarrow> length ds < 10) \<and>
     (\<forall>r. get_rtt (fold rtt_update ds RttCalculator_default) = Some r \<longrightarrow>
        Min (set ds) \<le> r \<and> r \<le> Min (set (drop (length ds - 60) ds)))"
proof (cases "length ds \<ge> 60")
  case True
  let ?w = "drop (length ds - 60) ds"
  have ne: "?w \<noteq> []" and sub: "set ?w \<subseteq> set ds" using True by (auto dest: in_set_dropD)
  have "Min (set ?w) \<in> set ds" using Min_in [of "set ?w"] ne sub by auto
  with assms have "Min (set ?w) < 2 ^ 24" by blast
  moreover have "Min (set ds) \<le> Min (set ?w)" using ne sub by (intro Min_antimono) auto
  ultimately have "Min (set ?w) < 2 ^ 24" "Min (set ds) \<le> Min (set ?w)" .
  from srtt_between [OF this(2,1)] True show ?thesis
    by (simp add: rtt_run get_rtt_def)
next
  case False
  then show ?thesis
    by (auto simp: rtt_run get_rtt_def MIN_SAMPLES_def list_min_eq)
qed

theorem rtt_estimate_bounds_witness:
  "\<exists>r. get_rtt (fold rtt_update (replicate 12 80) RttCalculator_default) = Some r \<and> 80 \<le> r \<and> r \<le> 80"
proof -
  have "\<forall>d \<in> set (replicate 12 (80 :: nat)). d < 2 ^ 24" by simp
  from rtt_estimate_bounds [OF this] show ?thesis by fastforce
qed

end
