(* ===== verification/Relay.thy ===== *)
theory Relay
  imports Rendezvous_Loop Floats
begin

text \<open>
  The relay server (\<open>server/src/relay_server.rs\<close>): its parameters and admin commands, the pairing of
  two connections by the uuid they present, and the loop that forwards bytes between them, accounts
  for them and decides about throttling.

  A connection is a number.  Speed limiters are third-party code: charging one is an action.  Parsing
  and printing of \<open>f64\<close> values is the record \<open>F64Fmt\<close>, on finite numbers.
\<close>

section \<open>State and parameters\<close>

record F64Fmt =
  parse_f64 :: "string \<Rightarrow> rat option"
  show_f64 :: "rat \<Rightarrow> string"
  show_f64_2 :: "rat \<Rightarrow> string"

type_synonym Usage = "nat \<times> nat \<times> nat \<times> nat"

record RelayState =
  rl_peers :: "string \<rightharpoonup> nat \<times> bool"
  rl_usage :: "(string \<times> Usage) list"
  rl_blacklist :: "string list"
  rl_blocklist :: "string list"
  rl_downgrade_threshold_100 :: nat
  rl_downgrade_start_check :: nat
  rl_limit_speed :: nat
  rl_total_bandwidth :: nat
  rl_single_bandwidth :: nat
  rl_limiter :: nat

definition RelayState_default :: RelayState where
  "RelayState_default =
     \<lparr>rl_peers = Map.empty, rl_usage = [], rl_blacklist = [], rl_blocklist = [],
      rl_downgrade_threshold_100 = 66, rl_downgrade_start_check = 1800000, rl_limit_speed = 32 * 1024 * 1024,
      rl_total_bandwidth = 1024 * 1024 * 1024, rl_single_bandwidth = 128 * 1024 * 1024,
      rl_limiter = 1024 * 1024 * 1024\<rparr>"

definition usize_wrap :: "nat \<Rightarrow> nat" where
  "usize_wrap n = n mod 2 ^ 64"

text \<open>\<open>(v * 100.) as usize\<close>, \<open>(v * 1024. * 1024.) as usize\<close>, and back for display.\<close>

definition percent_of :: "rat \<Rightarrow> nat" where
  "percent_of v = as_uint usize_max (f64 (v * 100))"

definition mega_of :: "rat \<Rightarrow> nat" where
  "mega_of v = as_uint usize_max (f64 (f64 (v * 1024) * 1024))"

definition show_percent :: "F64Fmt \<Rightarrow> nat \<Rightarrow> string" where
  "show_percent f n = show_f64 f (f64 (f64 (of_nat n) / 100))"

definition show_mega :: "F64Fmt \<Rightarrow> nat \<Rightarrow> string" where
  "show_mega f n = show_f64 f (f64 (f64 (f64 (of_nat n) / 1024) / 1024))"

text \<open>Loading a list file: the first field of every line.\<close>

definition set_insert :: "string \<Rightarrow> string list \<Rightarrow> string list" where
  "set_insert x xs = (if x \<in> set xs then xs else x # xs)"

definition load_list :: "string \<Rightarrow> string list \<Rightarrow> string list" where
  "load_list contents xs =
     foldl (\<lambda>acc x. set_insert (hd (split_char (CHR '' '') (trim x))) acc) xs (split_char (CHR 0x0A) contents)"

text \<open>\<open>check_params\<close>: the environment gives the value of each variable, if set.\<close>

definition env_f64 :: "F64Fmt \<Rightarrow> (string \<rightharpoonup> string) \<Rightarrow> string \<Rightarrow> rat" where
  "env_f64 f env name =
     (case env name of Some x \<Rightarrow> (case parse_f64 f x of Some v \<Rightarrow> v | None \<Rightarrow> 0) | None \<Rightarrow> 0)"

definition env_usize :: "(string \<rightharpoonup> string) \<Rightarrow> string \<Rightarrow> nat" where
  "env_usize env name =
     (case env name of Some x \<Rightarrow> (case parse_unsigned usize_max x of Some v \<Rightarrow> v | None \<Rightarrow> 0) | None \<Rightarrow> 0)"

definition check_params :: "F64Fmt \<Rightarrow> (string \<rightharpoonup> string) \<Rightarrow> RelayState \<Rightarrow> RelayState" where
  "check_params f env st =
     (let t1 = env_f64 f env ''DOWNGRADE_THRESHOLD'';
          st1 = (if t1 > 0 then st\<lparr>rl_downgrade_threshold_100 := percent_of t1\<rparr> else st);
          t2 = env_usize env ''DOWNGRADE_START_CHECK'';
          st2 = (if t2 > 0 then st1\<lparr>rl_downgrade_start_check := usize_wrap (t2 * 1000)\<rparr> else st1);
          t3 = env_f64 f env ''LIMIT_SPEED'';
          st3 = (if t3 > 0 then st2\<lparr>rl_limit_speed := mega_of t3\<rparr> else st2);
          t4 = env_f64 f env ''TOTAL_BANDWIDTH'';
          st4 = (if t4 > 0 then st3\<lparr>rl_total_bandwidth := mega_of t4\<rparr> else st3);
          t5 = env_f64 f env ''SINGLE_BANDWIDTH'' in
      if t5 > 0 then st4\<lparr>rl_single_bandwidth := mega_of t5\<rparr> else st4)"

section \<open>Admin commands\<close>

definition relay_help :: string where
  "relay_help = concat (map writeln
     [''blacklist-add(ba) <ip>'', ''blacklist-remove(br) <ip>'', ''blacklist(b) <ip>'', ''blocklist-add(Ba) <ip>'',
      ''blocklist-remove(Br) <ip>'', ''blocklist(B) <ip>'', ''downgrade-threshold(dt) [value]'',
      ''downgrade-start-check(t) [value(second)]'', ''limit-speed(ls) [value(Mb/s)]'',
      ''total-bandwidth(tb) [value(Mb/s)]'', ''single-bandwidth(sb) [value(Mb/s)]'', ''usage(u)''])"

definition list_add :: "string list \<Rightarrow> string list \<Rightarrow> string list" where
  "list_add args xs =
     (case next_arg args of
        Some ip \<Rightarrow> foldl (\<lambda>acc x. set_insert x acc) xs (split_char (CHR ''|'') ip)
      | None \<Rightarrow> xs)"

definition list_remove :: "string list \<Rightarrow> string list \<Rightarrow> string list" where
  "list_remove args xs =
     (case next_arg args of
        Some ip \<Rightarrow> if ip = ''all'' then [] else foldl (\<lambda>acc x. filter (\<lambda>y. y \<noteq> x) acc) xs (split_char (CHR ''|'') ip)
      | None \<Rightarrow> xs)"

definition list_show :: "string list \<Rightarrow> string list \<Rightarrow> string" where
  "list_show args xs =
     (case next_arg args of
        Some ip \<Rightarrow> writeln (if ip \<in> set xs then ''true'' else ''false'')
      | None \<Rightarrow> concat (map writeln xs))"

text \<open>A numeric parameter: set when the argument parses and is positive, shown when it is absent.\<close>

definition num_cmd :: "F64Fmt \<Rightarrow> string list \<Rightarrow> (rat \<Rightarrow> RelayState \<Rightarrow> RelayState) \<Rightarrow> string \<Rightarrow> RelayState \<Rightarrow> string \<times> RelayState" where
  "num_cmd f args upd shown st =
     (case next_arg args of
        Some v \<Rightarrow> (case parse_f64 f v of Some x \<Rightarrow> ([], if x > 0 then upd x st else st) | None \<Rightarrow> ([], st))
      | None \<Rightarrow> (shown, st))"

definition start_check_cmd :: "string list \<Rightarrow> RelayState \<Rightarrow> string \<times> RelayState" where
  "start_check_cmd args st =
     (case next_arg args of
        Some v \<Rightarrow>
          (case parse_unsigned usize_max v of
             Some x \<Rightarrow> ([], if x > 0 then st\<lparr>rl_downgrade_start_check := usize_wrap (x * 1000)\<rparr> else st)
           | None \<Rightarrow> ([], st))
      | None \<Rightarrow> (writeln (nat_to_string (rl_downgrade_start_check st div 1000) @ ''s''), st))"

definition usage_line :: "F64Fmt \<Rightarrow> string \<times> Usage \<Rightarrow> string" where
  "usage_line f x =
     (case x of (ip, (el, tot, highest, speed)) \<Rightarrow>
        if el = 0 then []
        else writeln (ip @ '': '' @ nat_to_string (el div 1000) @ ''s '' @
               show_f64_2 f (f64 (f64 (f64 (f64 (of_nat tot) / 1024) / 1024) / 8)) @ ''MB '' @ nat_to_string highest @
               ''kb/s '' @ nat_to_string (tot div el) @ ''kb/s '' @ nat_to_string speed @ ''kb/s''))"

definition usage_cmd :: "F64Fmt \<Rightarrow> RelayState \<Rightarrow> string" where
  "usage_cmd f st =
     concat (map (usage_line f) (sort_key (\<lambda>(_, (_, tot, _, _)). - int tot) (rl_usage st)))"

definition relay_check_cmd :: "F64Fmt \<Rightarrow> string \<Rightarrow> RelayState \<Rightarrow> string \<times> RelayState" where
  "relay_check_cmd f cmd st =
     (let fds = split_char (CHR '' '') (trim cmd);
          c = hd fds;
          args = tl fds in
      if c = ''h'' then (relay_help, st)
      else if c = ''blacklist-add'' \<or> c = ''ba'' then ([], st\<lparr>rl_blacklist := list_add args (rl_blacklist st)\<rparr>)
      else if c = ''blacklist-remove'' \<or> c = ''br'' then ([], st\<lparr>rl_blacklist := list_remove args (rl_blacklist st)\<rparr>)
      else if c = ''blacklist'' \<or> c = ''b'' then (list_show args (rl_blacklist st), st)
      else if c = ''blocklist-add'' \<or> c = ''Ba'' then ([], st\<lparr>rl_blocklist := list_add args (rl_blocklist st)\<rparr>)
      else if c = ''blocklist-remove'' \<or> c = ''Br'' then ([], st\<lparr>rl_blocklist := list_remove args (rl_blocklist st)\<rparr>)
      else if c = ''blocklist'' \<or> c = ''B'' then (list_show args (rl_blocklist st), st)
      else if c = ''downgrade-threshold'' \<or> c = ''dt'' then
        num_cmd f args (\<lambda>v s. s\<lparr>rl_downgrade_threshold_100 := percent_of v\<rparr>)
          (writeln (show_percent f (rl_downgrade_threshold_100 st))) st
      else if c = ''downgrade-start-check'' \<or> c = ''t'' then start_check_cmd args st
      else if c = ''limit-speed'' \<or> c = ''ls'' then
        num_cmd f args (\<lambda>v s. s\<lparr>rl_limit_speed := mega_of v\<rparr>) (writeln (show_mega f (rl_limit_speed st) @ ''Mb/s'')) st
      else if c = ''total-bandwidth'' \<or> c = ''tb'' then
        num_cmd f args (\<lambda>v s. s\<lparr>rl_total_bandwidth := mega_of v, rl_limiter := mega_of v\<rparr>)
          (writeln (show_mega f (rl_total_bandwidth st) @ ''Mb/s'')) st
      else if c = ''single-bandwidth'' \<or> c = ''sb'' then
        num_cmd f args (\<lambda>v s. s\<lparr>rl_single_bandwidth := mega_of v\<rparr>)
          (writeln (show_mega f (rl_single_bandwidth st) @ ''Mb/s'')) st
      else if c = ''usage'' \<or> c = ''u'' then (usage_cmd f st, st)
      else ([], st))"

section \<open>Connections and pairing\<close>

datatype accept_kind = AcceptCmd | AcceptBlocked | AcceptPair

definition handle_connection :: "SocketAddr \<Rightarrow> bool \<Rightarrow> RelayState \<Rightarrow> accept_kind" where
  "handle_connection addr ws st =
     (let ip = addr_ip (try_into_v4 addr) in
      if \<not> ws \<and> is_loopback ip then AcceptCmd
      else if ip_to_string ip \<in> set (rl_blocklist st) then AcceptBlocked
      else AcceptPair)"

text \<open>The fate of the first message of a connection.\<close>

datatype pair_result = PairDropped | PairWaits string | PairedWith nat string bool

definition usage_id :: "SocketAddr \<Rightarrow> string" where
  "usage_id addr = ip_to_string (addr_ip addr) @ '':'' @ nat_to_string (unat (addr_port addr))"

text \<open>\<open>make_pair_\<close> up to the relay loop or the wait; the last flag says that both streams go raw.\<close>

definition make_pair ::
  "string \<Rightarrow> nat \<Rightarrow> bool \<Rightarrow> SocketAddr \<Rightarrow> RendezvousMessage option \<Rightarrow> RelayState \<Rightarrow> pair_result \<times> RelayState" where
  "make_pair key conn ws addr msg st =
     (case msg of
        Some (MRequestRelay rf) \<Rightarrow>
          if key \<noteq> [] \<and> rf_licence_key rf \<noteq> key then (PairDropped, st)
          else if rf_uuid rf = [] then (PairDropped, st)
          else
            (case rl_peers st (rf_uuid rf) of
               Some (peer, peer_ws) \<Rightarrow>
                 (PairedWith peer (usage_id addr) (\<not> ws \<and> \<not> peer_ws),
                  st\<lparr>rl_peers := (rl_peers st)(rf_uuid rf := None),
                     rl_usage := alist_insert (usage_id addr) (0, 0, 0, 0) (rl_usage st)\<rparr>)
             | None \<Rightarrow> (PairWaits (rf_uuid rf), st\<lparr>rl_peers := (rl_peers st)(rf_uuid rf \<mapsto> (conn, ws))\<rparr>))
      | _ \<Rightarrow> (PairDropped, st))"

text \<open>After 30 seconds of waiting, and when a relay closes.\<close>

definition wait_over :: "string \<Rightarrow> RelayState \<Rightarrow> RelayState" where
  "wait_over uuid st = st\<lparr>rl_peers := (rl_peers st)(uuid := None)\<rparr>"

definition relay_closed :: "string \<Rightarrow> RelayState \<Rightarrow> RelayState" where
  "relay_closed uid st = st\<lparr>rl_usage := alist_remove uid (rl_usage st)\<rparr>"

section \<open>The relay loop\<close>

datatype limiter = SingleLimiter | BlacklistLimiter | TotalLimiter

datatype relay_action = Consume limiter nat | ToStream bytes | ToPeer bytes

datatype relay_event = FromPeer bytes | FromStream bytes | RelayEof | RelayTick

datatype relay_end = RelayClosed | RelayTimeout | RelayBlocked

record RelayLoop =
  lp_tm :: instant
  lp_elapsed :: nat
  lp_total :: nat
  lp_total_s :: nat
  lp_highest_s :: nat
  lp_downgrade :: bool
  lp_blacked :: bool
  lp_last_recv :: instant

definition relay_start :: "instant \<Rightarrow> RelayLoop" where
  "relay_start now = \<lparr>lp_tm = now, lp_elapsed = 0, lp_total = 0, lp_total_s = 0, lp_highest_s = 0,
     lp_downgrade = False, lp_blacked = False, lp_last_recv = now\<rparr>"

definition downgrade_threshold :: "RelayState \<Rightarrow> nat" where
  "downgrade_threshold st =
     (let sb = f64 (of_nat (rl_single_bandwidth st)) in
      as_uint usize_max (f64 (f64 (f64 (sb * f64 (of_nat (rl_downgrade_threshold_100 st))) / 100) / 1000)))"

definition relay_recv :: "instant \<Rightarrow> bool \<Rightarrow> bytes \<Rightarrow> RelayLoop \<Rightarrow> relay_action list \<times> RelayLoop" where
  "relay_recv now to_stream bs lp =
     (let nb = length bs * 8 in
      ([Consume (if lp_blacked lp \<or> lp_downgrade lp then BlacklistLimiter else SingleLimiter) nb, Consume TotalLimiter nb] @
         (if bs \<noteq> [] then [if to_stream then ToStream bs else ToPeer bs] else []),
       lp\<lparr>lp_last_recv := now, lp_total := lp_total lp + nb, lp_total_s := lp_total_s lp + nb\<rparr>))"

text \<open>
  The bookkeeping after every event, at most once a second.  \<open>ip\<close> and \<open>uid\<close> name the connection;
  \<open>threshold\<close> was computed when the relay started.
\<close>

definition relay_account ::
  "instant \<Rightarrow> string \<Rightarrow> string \<Rightarrow> nat \<Rightarrow> RelayLoop \<Rightarrow> RelayState \<Rightarrow> RelayLoop option \<times> RelayState" where
  "relay_account now ip uid threshold lp st =
     (let n = as_millis (elapsed now (lp_tm lp)) in
      if n \<ge> 1000 then
        (if ip \<in> set (rl_blocklist st) then (None, st)
         else
           let speed = lp_total_s lp div n;
               highest = (if speed > lp_highest_s lp then speed else lp_highest_s lp);
               el = lp_elapsed lp + n;
               down = (lp_downgrade lp \<or>
                       el > rl_downgrade_start_check st \<and> lp_total lp > el * threshold) in
           (Some (lp\<lparr>lp_blacked := (ip \<in> set (rl_blacklist st)), lp_tm := now, lp_highest_s := highest,
                     lp_elapsed := el, lp_total_s := 0, lp_downgrade := down\<rparr>),
            st\<lparr>rl_usage := alist_insert uid (el, lp_total lp, highest, speed) (rl_usage st)\<rparr>))
      else (Some lp, st))"

text \<open>One turn of the loop: the actions, and either the end or the state to go on with.\<close>

definition relay_step ::
  "string \<Rightarrow> string \<Rightarrow> nat \<Rightarrow> instant \<Rightarrow> relay_event \<Rightarrow> RelayLoop \<Rightarrow> RelayState \<Rightarrow>
   relay_action list \<times> (relay_end + RelayLoop) \<times> RelayState" where
  "relay_step ip uid threshold now ev lp st =
     (let go = (\<lambda>acts lp'. case relay_account now ip uid threshold lp' st of
                   (Some lp'', st') \<Rightarrow> (acts, Inr lp'', st')
                 | (None, st') \<Rightarrow> (acts, Inl RelayBlocked, st')) in
      case ev of
        FromPeer bs \<Rightarrow> (case relay_recv now True bs lp of (acts, lp') \<Rightarrow> go acts lp')
      | FromStream bs \<Rightarrow> (case relay_recv now False bs lp of (acts, lp') \<Rightarrow> go acts lp')
      | RelayEof \<Rightarrow> ([], Inl RelayClosed, st)
      | RelayTick \<Rightarrow>
          if as_secs (elapsed now (lp_last_recv lp)) > 30 then ([], Inl RelayTimeout, st) else go [] lp)"

fun relay_loop ::
  "string \<Rightarrow> string \<Rightarrow> nat \<Rightarrow> (instant \<times> relay_event) list \<Rightarrow> RelayLoop \<Rightarrow> RelayState \<Rightarrow>
   relay_action list \<times> (relay_end + RelayLoop) \<times> RelayState" where
  "relay_loop ip uid threshold [] lp st = ([], Inr lp, st)"
| "relay_loop ip uid threshold ((now, ev) # evs) lp st =
     (case relay_step ip uid threshold now ev lp st of
        (acts, Inl r, st') \<Rightarrow> (acts, Inl r, st')
      | (acts, Inr lp', st') \<Rightarrow>
          (case relay_loop ip uid threshold evs lp' st' of (acts', r) \<Rightarrow> (acts @ acts', r)))"

text \<open>\<open>relay\<close> for the connection at \<open>addr\<close>.\<close>

definition relay ::
  "SocketAddr \<Rightarrow> string \<Rightarrow> instant \<Rightarrow> (instant \<times> relay_event) list \<Rightarrow> RelayState \<Rightarrow>
   relay_action list \<times> (relay_end + RelayLoop) \<times> RelayState" where
  "relay addr uid now evs st =
     relay_loop (ip_to_string (addr_ip addr)) uid (downgrade_threshold st) evs (relay_start now) st"

section \<open>The relay forwards every byte\<close>

fun to_stream :: "relay_action list \<Rightarrow> bytes" where
  "to_stream [] = []"
| "to_stream (ToStream b # xs) = b @ to_stream xs"
| "to_stream (_ # xs) = to_stream xs"

fun to_peer :: "relay_action list \<Rightarrow> bytes" where
  "to_peer [] = []"
| "to_peer (ToPeer b # xs) = b @ to_peer xs"
| "to_peer (_ # xs) = to_peer xs"

fun from_peer :: "(instant \<times> relay_event) list \<Rightarrow> bytes" where
  "from_peer [] = []"
| "from_peer ((_, FromPeer b) # xs) = b @ from_peer xs"
| "from_peer (_ # xs) = from_peer xs"

fun from_stream :: "(instant \<times> relay_event) list \<Rightarrow> bytes" where
  "from_stream [] = []"
| "from_stream ((_, FromStream b) # xs) = b @ from_stream xs"
| "from_stream (_ # xs) = from_stream xs"

text \<open>Bits charged to the total limiter, and to the limiters of this connection.\<close>

fun charged :: "limiter \<Rightarrow> relay_action list \<Rightarrow> nat" where
  "charged l [] = 0"
| "charged l (Consume l' n # xs) = (if l' = l then n else 0) + charged l xs"
| "charged l (_ # xs) = charged l xs"

lemma to_stream_append [simp]: "to_stream (xs @ ys) = to_stream xs @ to_stream ys"
  by (induction xs rule: to_stream.induct) auto

lemma to_peer_append [simp]: "to_peer (xs @ ys) = to_peer xs @ to_peer ys"
  by (induction xs rule: to_peer.induct) auto

lemma charged_append [simp]: "charged l (xs @ ys) = charged l xs + charged l ys"
  by (induction l xs rule: charged.induct) auto

lemma relay_recv_eqs:
  "to_stream (fst (relay_recv now ts b lp)) = (if ts then b else [])"
  "to_peer (fst (relay_recv now ts b lp)) = (if ts then [] else b)"
  "charged TotalLimiter (fst (relay_recv now ts b lp)) = 8 * length b"
  "charged SingleLimiter (fst (relay_recv now ts b lp)) = (if lp_blacked lp \<or> lp_downgrade lp then 0 else 8 * length b)"
  "lp_total (snd (relay_recv now ts b lp)) = lp_total lp + 8 * length b"
  "lp_downgrade (snd (relay_recv now ts b lp)) = lp_downgrade lp"
  by (simp_all add: relay_recv_def Let_def)

lemma relay_account_loop:
  assumes "relay_account now ip uid t lp st = (Some lp', st')"
  shows "lp_total lp' = lp_total lp" and "lp_downgrade lp \<Longrightarrow> lp_downgrade lp'"
  using assms by (auto simp: relay_account_def Let_def split: if_splits)

text \<open>What one turn forwards and charges.\<close>

definition step_recv :: "instant \<Rightarrow> relay_event \<Rightarrow> RelayLoop \<Rightarrow> relay_action list \<times> RelayLoop" where
  "step_recv now ev lp =
     (case ev of FromPeer b \<Rightarrow> relay_recv now True b lp | FromStream b \<Rightarrow> relay_recv now False b lp | _ \<Rightarrow> ([], lp))"

lemma step_recv_eqs:
  "to_stream (fst (step_recv now ev lp)) = from_peer [(now, ev)]"
  "to_peer (fst (step_recv now ev lp)) = from_stream [(now, ev)]"
  "charged TotalLimiter (fst (step_recv now ev lp)) = 8 * length (from_peer [(now, ev)]) + 8 * length (from_stream [(now, ev)])"
  "lp_downgrade lp \<Longrightarrow> charged SingleLimiter (fst (step_recv now ev lp)) = 0"
  "lp_total (snd (step_recv now ev lp)) = lp_total lp + charged TotalLimiter (fst (step_recv now ev lp))"
  "lp_downgrade (snd (step_recv now ev lp)) = lp_downgrade lp"
  by (cases ev; simp add: step_recv_def relay_recv_eqs)+

lemma relay_step_acts: "fst (relay_step ip uid t now ev lp st) = fst (step_recv now ev lp)"
  by (cases ev) (simp_all add: relay_step_def step_recv_def Let_def case_prod_unfold split: option.split)

lemma relay_step_continue:
  "fst (snd (relay_step ip uid t now ev lp st)) = Inr lp' \<Longrightarrow>
   fst (relay_account now ip uid t (snd (step_recv now ev lp)) st) = Some lp'"
  by (cases ev) (auto simp: relay_step_def step_recv_def Let_def case_prod_unfold split: option.splits if_splits)

lemma relay_step_forward:
  assumes "relay_step ip uid t now ev lp st = (acts, r, st')"
  shows "to_stream acts = from_peer [(now, ev)]" and "to_peer acts = from_stream [(now, ev)]"
    and "charged TotalLimiter acts = 8 * length (to_stream acts) + 8 * length (to_peer acts)"
    and "lp_downgrade lp \<Longrightarrow> charged SingleLimiter acts = 0"
    and "r = Inr lp' \<Longrightarrow> lp_total lp' = lp_total lp + charged TotalLimiter acts \<and> (lp_downgrade lp \<longrightarrow> lp_downgrade lp')"
proof -
  have acts: "acts = fst (step_recv now ev lp)"
    using relay_step_acts [of ip uid t now ev lp st] assms by simp
  show "to_stream acts = from_peer [(now, ev)]" and "to_peer acts = from_stream [(now, ev)]"
    and "charged TotalLimiter acts = 8 * length (to_stream acts) + 8 * length (to_peer acts)"
    and "lp_downgrade lp \<Longrightarrow> charged SingleLimiter acts = 0"
    by (simp_all only: acts step_recv_eqs)
  assume "r = Inr lp'"
  then obtain st1 where "relay_account now ip uid t (snd (step_recv now ev lp)) st = (Some lp', st1)"
    using relay_step_continue [of ip uid t now ev lp st lp'] assms by (metis fst_conv prod.collapse snd_conv)
  from relay_account_loop [OF this]
  show "lp_total lp' = lp_total lp + charged TotalLimiter acts \<and> (lp_downgrade lp \<longrightarrow> lp_downgrade lp')"
    by (simp only: acts step_recv_eqs(5,6)) blast
qed

lemma from_peer_Cons: "from_peer (x # xs) = from_peer [x] @ from_peer xs"
  by (cases x rule: prod.exhaust; cases "snd x") auto

lemma from_stream_Cons: "from_stream (x # xs) = from_stream [x] @ from_stream xs"
  by (cases x rule: prod.exhaust; cases "snd x") auto

lemma relay_loop_forward:
  assumes "relay_loop ip uid t evs lp st = (acts, r, st')"
  shows "prefix (to_stream acts) (from_peer evs) \<and> prefix (to_peer acts) (from_stream evs) \<and>
     charged TotalLimiter acts = 8 * length (to_stream acts) + 8 * length (to_peer acts) \<and>
     (lp_downgrade lp \<longrightarrow> charged SingleLimiter acts = 0) \<and>
     (\<forall>lp'. r = Inr lp' \<longrightarrow> to_stream acts = from_peer evs \<and> to_peer acts = from_stream evs \<and>
        lp_total lp' = lp_total lp + charged TotalLimiter acts \<and> (lp_downgrade lp \<longrightarrow> lp_downgrade lp'))"
  using assms
proof (induction evs arbitrary: lp st acts r st')
  case (Cons x evs)
  obtain now ev where x: "x = (now, ev)" by (cases x)
  obtain acts1 r1 st1 where s: "relay_step ip uid t now ev lp st = (acts1, r1, st1)" by (metis surj_pair)
  note step = relay_step_forward [OF s]
  show ?case
  proof (cases r1)
    case (Inl e)
    with Cons.prems s x have "acts = acts1" "r = Inl e" by auto
    with step(1-4) show ?thesis
      by (simp add: x from_peer_Cons [of "(now, ev)" evs] from_stream_Cons [of "(now, ev)" evs])
  next
    case (Inr lp1)
    obtain acts2 where rest: "relay_loop ip uid t evs lp1 st1 = (acts2, r, st')" "acts = acts1 @ acts2"
      using Cons.prems s x Inr by (auto split: prod.splits)
    note ih = Cons.IH [OF rest(1)]
    have down: "lp_downgrade lp \<longrightarrow> lp_downgrade lp1" and tot: "lp_total lp1 = lp_total lp + charged TotalLimiter acts1"
      using step(5) [OF Inr] by blast+
    have ih1: "prefix (to_stream acts2) (from_peer evs)" "prefix (to_peer acts2) (from_stream evs)"
        "charged TotalLimiter acts2 = 8 * length (to_stream acts2) + 8 * length (to_peer acts2)"
        "lp_downgrade lp1 \<longrightarrow> charged SingleLimiter acts2 = 0"
      using ih by blast+
    have "prefix (to_stream acts) (from_peer (x # evs))" "prefix (to_peer acts) (from_stream (x # evs))"
      using ih1(1,2) by (simp_all add: x rest(2) from_peer_Cons [of "(now, ev)" evs] from_stream_Cons [of "(now, ev)" evs]
          step(1,2))
    moreover have "charged TotalLimiter acts = 8 * length (to_stream acts) + 8 * length (to_peer acts)"
      using ih1(3) step(3) by (simp add: rest(2))
    moreover have "lp_downgrade lp \<longrightarrow> charged SingleLimiter acts = 0"
      using ih1(4) down step(4) by (simp add: rest(2))
    moreover have "to_stream acts = from_peer (x # evs) \<and> to_peer acts = from_stream (x # evs) \<and>
        lp_total lp' = lp_total lp + charged TotalLimiter acts \<and> (lp_downgrade lp \<longrightarrow> lp_downgrade lp')"
      if "r = Inr lp'" for lp'
    proof -
      have "to_stream acts2 = from_peer evs" "to_peer acts2 = from_stream evs"
        "lp_total lp' = lp_total lp1 + charged TotalLimiter acts2" "lp_downgrade lp1 \<longrightarrow> lp_downgrade lp'"
        using ih that by blast+
      with down tot show ?thesis
        by (simp add: x rest(2) from_peer_Cons [of "(now, ev)" evs] from_stream_Cons [of "(now, ev)" evs] step(1,2))
    qed
    ultimately show ?thesis by blast
  qed
qed simp



section \<open>Pairing\<close>

text \<open>
  The connections of the relay as a transition system: what each connection sent first, the tasks
  that wait 30 seconds, and the pairs that were joined (newcomer, waiting connection, uuid).
\<close>

record RelaySys =
  ry_state :: RelayState
  ry_seen :: "nat \<rightharpoonup> RendezvousMessage option"
  ry_waits :: "(nat \<times> string) list"
  ry_pairs :: "(nat \<times> nat \<times> string) list"

definition pair_log :: "nat \<Rightarrow> RendezvousMessage option \<Rightarrow> pair_result \<Rightarrow> RelaySys \<Rightarrow> RelaySys" where
  "pair_log conn msg res s =
     (case res of
        PairDropped \<Rightarrow> s
      | PairWaits u \<Rightarrow> s\<lparr>ry_waits := (conn, u) # ry_waits s\<rparr>
      | PairedWith p _ _ \<Rightarrow>
          s\<lparr>ry_pairs := (conn, p, case msg of Some (MRequestRelay rf) \<Rightarrow> rf_uuid rf | _ \<Rightarrow> []) # ry_pairs s\<rparr>)"

inductive relay_sys_step :: "string \<Rightarrow> F64Fmt \<Rightarrow> RelaySys \<Rightarrow> RelaySys \<Rightarrow> bool" for key f where
  first: "conn \<notin> dom (ry_seen s) \<Longrightarrow> make_pair key conn ws addr msg (ry_state s) = (res, st') \<Longrightarrow>
    relay_sys_step key f s (pair_log conn msg res (s\<lparr>ry_state := st', ry_seen := (ry_seen s)(conn \<mapsto> msg)\<rparr>))"
| expire: "(conn, u) \<in> set (ry_waits s) \<Longrightarrow>
    relay_sys_step key f s (s\<lparr>ry_state := wait_over u (ry_state s), ry_waits := remove1 (conn, u) (ry_waits s)\<rparr>)"
| account: "relay_account now ip uid t lp (ry_state s) = (lp', st') \<Longrightarrow>
    relay_sys_step key f s (s\<lparr>ry_state := st'\<rparr>)"
| closed: "relay_sys_step key f s (s\<lparr>ry_state := relay_closed uid (ry_state s)\<rparr>)"
| command: "relay_check_cmd f cmd (ry_state s) = (out, st') \<Longrightarrow> relay_sys_step key f s (s\<lparr>ry_state := st'\<rparr>)"

definition presented :: "string \<Rightarrow> string \<Rightarrow> RendezvousMessage option \<Rightarrow> bool" where
  "presented key u msg \<longleftrightarrow>
     u \<noteq> [] \<and> (\<exists>rf. msg = Some (MRequestRelay rf) \<and> rf_uuid rf = u \<and> (key = [] \<or> rf_licence_key rf = key))"

definition pair_conns :: "(nat \<times> nat \<times> string) list \<Rightarrow> nat list" where
  "pair_conns ps = concat (map (\<lambda>(a, b, _). [a, b]) ps)"

definition entitled :: "string \<Rightarrow> RelaySys \<Rightarrow> string \<Rightarrow> nat \<Rightarrow> bool" where
  "entitled key s u c \<longleftrightarrow> (\<exists>m. ry_seen s c = Some m \<and> presented key u m)"

definition pairing_ok :: "string \<Rightarrow> RelaySys \<Rightarrow> bool" where
  "pairing_ok key s \<longleftrightarrow>
     (\<forall>u c w. rl_peers (ry_state s) u = Some (c, w) \<longrightarrow> entitled key s u c \<and> c \<notin> set (pair_conns (ry_pairs s))) \<and>
     (\<forall>(a, b, u) \<in> set (ry_pairs s). entitled key s u a \<and> entitled key s u b) \<and>
     distinct (pair_conns (ry_pairs s))"

lemma entitled_seen: "entitled key s u c \<Longrightarrow> c \<in> dom (ry_seen s)"
  by (auto simp: entitled_def)

lemma entitled_unique: "entitled key s u c \<Longrightarrow> entitled key s u' c \<Longrightarrow> u = u'"
  by (auto simp: entitled_def presented_def)

lemma entitled_cong: "ry_seen s = ry_seen s' \<Longrightarrow> entitled key s = entitled key s'"
  by (simp add: entitled_def fun_eq_iff)

lemma entitled_extend:
  assumes "ry_seen s' = (ry_seen s)(conn \<mapsto> m)" and "conn \<notin> dom (ry_seen s)" and "entitled key s u c"
  shows "entitled key s' u c"
  using assms by (auto simp: entitled_def)

lemma make_pair_cases:
  assumes "make_pair key conn ws addr msg st = (res, st')"
  obtains (dropped) "res = PairDropped" "st' = st"
  | (waits) u where "res = PairWaits u" "presented key u msg" "rl_peers st' = (rl_peers st)(u \<mapsto> (conn, ws))"
  | (paired) rf p w raw where "res = PairedWith p (usage_id addr) raw" "msg = Some (MRequestRelay rf)" "presented key (rf_uuid rf) msg"
      "rl_peers st (rf_uuid rf) = Some (p, w)" "rl_peers st' = (rl_peers st)(rf_uuid rf := None)"
proof (cases "\<exists>rf. msg = Some (MRequestRelay rf) \<and> rf_uuid rf \<noteq> [] \<and> (key = [] \<or> rf_licence_key rf = key)")
  case True
  then obtain rf where m: "msg = Some (MRequestRelay rf)" "rf_uuid rf \<noteq> []" "key = [] \<or> rf_licence_key rf = key"
    by blast
  then have pr: "presented key (rf_uuid rf) msg" by (simp add: presented_def)
  show thesis
  proof (cases "rl_peers st (rf_uuid rf)")
    case None
    with waits [OF _ pr] m assms show thesis by (auto simp: make_pair_def)
  next
    case (Some x)
    obtain p w where "x = (p, w)" by (cases x)
    with paired [OF _ m(1) pr] Some m assms show thesis by (auto simp: make_pair_def)
  qed
next
  case False
  with assms dropped show thesis
    by (auto simp: make_pair_def split: option.splits RendezvousMessage.splits if_splits)
qed

lemma pairing_peers:
  assumes "pairing_ok key s" and "rl_peers (ry_state s) u = Some (c, w)"
  shows "entitled key s u c" and "c \<notin> set (pair_conns (ry_pairs s))"
  using assms unfolding pairing_ok_def by blast+

lemma pairing_pairs:
  assumes "pairing_ok key s" and "(a, b, u) \<in> set (ry_pairs s)"
  shows "entitled key s u a" and "entitled key s u b"
  using assms unfolding pairing_ok_def by blast+

lemma pair_conns_seen:
  assumes "pairing_ok key s" and "c \<in> set (pair_conns (ry_pairs s))"
  shows "c \<in> dom (ry_seen s)"
proof -
  from assms(2) obtain a b u where "(a, b, u) \<in> set (ry_pairs s)" "c = a \<or> c = b"
    by (auto simp: pair_conns_def)
  with pairing_pairs [OF assms(1)] entitled_seen show ?thesis by metis
qed

text \<open>A step that only forgets waiting connections keeps the invariant.\<close>

lemma pairing_forget:
  assumes ok: "pairing_ok key s" and le: "rl_peers (ry_state s') \<subseteq>\<^sub>m rl_peers (ry_state s)"
    and same: "ry_seen s' = ry_seen s" "ry_pairs s' = ry_pairs s"
  shows "pairing_ok key s'"
proof -
  have "entitled key s' u c \<and> c \<notin> set (pair_conns (ry_pairs s'))" if "rl_peers (ry_state s') u = Some (c, w)" for u c w
    using pairing_peers [OF ok map_le_Some [OF le that]] same entitled_cong [OF same(1)] by simp
  with ok same entitled_cong [OF same(1)] show ?thesis unfolding pairing_ok_def by simp
qed

lemma pairing_first:
  assumes ok: "pairing_ok key s" and new: "conn \<notin> dom (ry_seen s)"
    and mp: "make_pair key conn ws addr msg (ry_state s) = (res, st')"
  shows "pairing_ok key (pair_log conn msg res (s\<lparr>ry_state := st', ry_seen := (ry_seen s)(conn \<mapsto> msg)\<rparr>))"
    (is "pairing_ok key ?s'")
proof -
  have seen: "ry_seen ?s' = (ry_seen s)(conn \<mapsto> msg)"
    by (simp add: pair_log_def split: pair_result.split)
  note ext = entitled_extend [OF seen new]
  have fresh: "conn \<notin> set (pair_conns (ry_pairs s))" using pair_conns_seen [OF ok] new by blast
  have old: "\<forall>(a, b, u) \<in> set (ry_pairs s). entitled key ?s' u a \<and> entitled key ?s' u b"
    using pairing_pairs [OF ok] ext by blast
  have dist: "distinct (pair_conns (ry_pairs s))" using ok by (simp add: pairing_ok_def)
  show ?thesis
  proof (cases rule: make_pair_cases [OF mp])
    case 1
    then have eq: "ry_pairs ?s' = ry_pairs s" "ry_state ?s' = ry_state s" by (simp_all add: pair_log_def)
    have "entitled key ?s' v c \<and> c \<notin> set (pair_conns (ry_pairs s))" if "rl_peers (ry_state ?s') v = Some (c, w)" for v c w
      using pairing_peers [OF ok that [unfolded eq(2)]] ext by blast
    with old dist show ?thesis unfolding pairing_ok_def eq(1) by blast
  next
    case (2 u)
    then have eq: "ry_pairs ?s' = ry_pairs s" "rl_peers (ry_state ?s') = (rl_peers (ry_state s))(u \<mapsto> (conn, ws))"
      by (simp_all add: pair_log_def)
    have "entitled key ?s' u conn" using 2(2) seen by (simp add: entitled_def)
    have "entitled key ?s' v c \<and> c \<notin> set (pair_conns (ry_pairs s))" if "rl_peers (ry_state ?s') v = Some (c, w)" for v c w
    proof (cases "v = u")
      case True
      with that fresh \<open>entitled key ?s' u conn\<close> show ?thesis by (simp add: eq(2))
    next
      case False
      with that have "rl_peers (ry_state s) v = Some (c, w)" by (simp add: eq(2))
      from pairing_peers [OF ok this] ext show ?thesis by blast
    qed
    with old dist show ?thesis unfolding pairing_ok_def eq(1) by blast
  next
    case (3 rf p w raw)
    let ?u = "rf_uuid rf"
    have eq: "ry_pairs ?s' = (conn, p, ?u) # ry_pairs s" "rl_peers (ry_state ?s') = (rl_peers (ry_state s))(?u := None)"
      using 3 by (simp_all add: pair_log_def)
    note p = pairing_peers [OF ok 3(4)]
    have "p \<noteq> conn" using entitled_seen [OF p(1)] new by blast
    have "entitled key ?s' ?u conn" using 3(3) seen by (simp add: entitled_def)
    with old ext [OF p(1)] have pairs: "\<forall>(a, b, u) \<in> set (ry_pairs ?s'). entitled key ?s' u a \<and> entitled key ?s' u b"
      unfolding eq(1) by simp
    have conns: "pair_conns (ry_pairs ?s') = conn # p # pair_conns (ry_pairs s)"
      unfolding eq(1) by (simp add: pair_conns_def)
    have "entitled key ?s' v c \<and> c \<notin> set (pair_conns (ry_pairs ?s'))" if c: "rl_peers (ry_state ?s') v = Some (c, w')" for v c w'
    proof -
      from c have v: "v \<noteq> ?u" "rl_peers (ry_state s) v = Some (c, w')" by (auto simp: eq(2) split: if_splits)
      note c' = pairing_peers [OF ok v(2)]
      have "c \<noteq> p" using entitled_unique [OF p(1)] c'(1) v(1) by blast
      moreover have "c \<noteq> conn" using entitled_seen [OF c'(1)] new by blast
      ultimately show ?thesis using ext [OF c'(1)] c'(2) by (simp add: conns)
    qed
    moreover have "distinct (pair_conns (ry_pairs ?s'))" using dist fresh p(2) \<open>p \<noteq> conn\<close> by (simp add: conns)
    ultimately show ?thesis using pairs unfolding pairing_ok_def by blast
  qed
qed

lemma cmd_peers: "relay_check_cmd f cmd st = (out, st') \<Longrightarrow> rl_peers st' = rl_peers st"
  by (auto simp: relay_check_cmd_def num_cmd_def start_check_cmd_def Let_def split: if_splits option.splits)

lemma account_peers: "relay_account now ip uid t lp st = (lp', st') \<Longrightarrow> rl_peers st' = rl_peers st"
  by (auto simp: relay_account_def Let_def split: if_splits)

lemma pairing_step:
  assumes "relay_sys_step key f s s'" and ok: "pairing_ok key s"
  shows "pairing_ok key s'"
  using assms(1)
proof cases
  case (first conn ws addr msg res st')
  with pairing_first [OF ok first(2,3)] show ?thesis by simp
next
  case (account now ip uid t lp lp' st')
  with pairing_forget [OF ok, of s'] account_peers [OF account(2)] show ?thesis by simp
next
  case (command cmd out st')
  with pairing_forget [OF ok, of s'] cmd_peers [OF command(2)] show ?thesis by simp
qed (auto intro!: pairing_forget [OF ok] simp: wait_over_def relay_closed_def map_le_def)

interpretation pairing: step_system "relay_sys_step key f" "pairing_ok key" "\<lambda>_ _. True" for key f
  by unfold_locales (auto intro: pairing_step)

definition relay_init :: "RelayState \<Rightarrow> RelaySys" where
  "relay_init st = \<lparr>ry_state = st\<lparr>rl_peers := Map.empty\<rparr>, ry_seen = Map.empty, ry_waits = [], ry_pairs = []\<rparr>"

text \<open>
  C14: The relay only joins connections that belong together: in every reachable state, the two
  connections of a pair presented the same non-empty uuid, each with the required key, and no
  connection is ever part of two pairs or paired with itself.
\<close>

theorem relay_pairs_sound:
  assumes "(relay_sys_step key f)\<^sup>*\<^sup>* (relay_init st) s" and "(a, b, u) \<in> set (ry_pairs s)"
  shows "(\<exists>m. ry_seen s a = Some m \<and> presented key u m) \<and> (\<exists>m. ry_seen s b = Some m \<and> presented key u m) \<and>
     a \<noteq> b \<and> distinct (pair_conns (ry_pairs s))"
proof -
  have "pairing_ok key (relay_init st)" by (simp add: pairing_ok_def relay_init_def pair_conns_def)
  with assms(1) have ok: "pairing_ok key s" by (rule pairing.run_inv)
  then have dist: "distinct (pair_conns (ry_pairs s))" by (simp add: pairing_ok_def)
  obtain xs ys where "ry_pairs s = xs @ (a, b, u) # ys" using split_list [OF assms(2)] by blast
  with dist have "a \<noteq> b" by (simp add: pair_conns_def)
  with dist pairing_pairs [OF ok assms(2)] show ?thesis by (simp add: entitled_def)
qed

definition demo_relay :: "string \<Rightarrow> RendezvousMessage option" where
  "demo_relay u = Some (MRequestRelay
     \<lparr>rf_id = [], rf_uuid = u, rf_socket_addr = [], rf_relay_server = [], rf_secure = False, rf_licence_key = ''k'',
      rf_conn_type = 0, rf_token = [], rf_control_permissions = None, rf_controlled_context = None\<rparr>)"

definition demo_fmt :: F64Fmt where
  "demo_fmt = \<lparr>parse_f64 = (\<lambda>_. None), show_f64 = (\<lambda>_. []), show_f64_2 = (\<lambda>_. [])\<rparr>"

theorem relay_pairs_sound_witness:
  "\<exists>s. (relay_sys_step ''k'' demo_fmt)\<^sup>*\<^sup>* (relay_init RelayState_default) s \<and> ry_pairs s = [(2, 1, ''u'')] \<and> (2 :: nat) \<noteq> 1"
proof -
  let ?a = "V4 (Ipv4 1 1 1 1) 1"
  define s1 where "s1 = pair_log 1 (demo_relay ''u'') (PairWaits ''u'') ((relay_init RelayState_default)
      \<lparr>ry_state := RelayState_default\<lparr>rl_peers := [''u'' \<mapsto> (1, False)]\<rparr>, ry_seen := [1 \<mapsto> demo_relay ''u'']\<rparr>)"
  define r2 where "r2 = make_pair ''k'' 2 False ?a (demo_relay ''u'') (ry_state s1)"
  define s2 where "s2 = pair_log 2 (demo_relay ''u'') (fst r2) (s1\<lparr>ry_state := snd r2, ry_seen := (ry_seen s1)(2 \<mapsto> demo_relay ''u'')\<rparr>)"
  have "relay_sys_step ''k'' demo_fmt (relay_init RelayState_default) s1"
    using relay_sys_step.first [of 1 "relay_init RelayState_default" "''k''" False ?a "demo_relay ''u''" "PairWaits ''u''"
        "RelayState_default\<lparr>rl_peers := [''u'' \<mapsto> (1, False)]\<rparr>" demo_fmt]
    by (simp add: s1_def relay_init_def make_pair_def demo_relay_def)
  moreover have "relay_sys_step ''k'' demo_fmt s1 s2"
    unfolding s2_def by (rule relay_sys_step.first [where ws = False and addr = ?a])
      (simp_all add: s1_def pair_log_def relay_init_def r2_def)
  ultimately have reach: "(relay_sys_step ''k'' demo_fmt)\<^sup>*\<^sup>* (relay_init RelayState_default) s2" by simp
  have pairs: "ry_pairs s2 = [(2, 1, ''u'')]"
    by (simp add: s2_def r2_def s1_def pair_log_def relay_init_def make_pair_def demo_relay_def)
  with relay_pairs_sound [OF reach, of 2 1 "''u''"] reach show ?thesis by auto
qed

text \<open>
  The clean-up of a waiting connection is not tied to that connection.  When a connection
  waits for a uuid, is paired, and a third connection presents the same uuid and starts to wait, the
  timer of the first one removes the third, however short it has been waiting.
\<close>

theorem relay_stale_timer:
  assumes "u \<noteq> []" and "key = [] \<or> rf_licence_key rf = key" and "rf_uuid rf = u" and "rl_peers st u = None"
  shows "\<exists>st1 st2 st3 raw.
     make_pair key c1 w1 a1 (Some (MRequestRelay rf)) st = (PairWaits u, st1) \<and>
     make_pair key c2 w2 a2 (Some (MRequestRelay rf)) st1 = (PairedWith c1 (usage_id a2) raw, st2) \<and>
     make_pair key c3 w3 a3 (Some (MRequestRelay rf)) st2 = (PairWaits u, st3) \<and>
     rl_peers st3 u = Some (c3, w3) \<and> rl_peers (wait_over u st3) u = None"
  using assms by (auto simp: make_pair_def wait_over_def)

theorem relay_stale_timer_witness:
  "\<exists>st1 st2 st3 raw rf.
     make_pair [] 1 False (V4 (Ipv4 1 1 1 1) 1) (Some (MRequestRelay rf)) RelayState_default = (PairWaits ''u'', st1) \<and>
     make_pair [] 2 False (V4 (Ipv4 1 1 1 2) 2) (Some (MRequestRelay rf)) st1 = (PairedWith 1 (usage_id (V4 (Ipv4 1 1 1 2) 2)) raw, st2) \<and>
     make_pair [] 3 False (V4 (Ipv4 1 1 1 3) 3) (Some (MRequestRelay rf)) st2 = (PairWaits ''u'', st3) \<and>
     rl_peers (wait_over ''u'' st3) ''u'' = None"
proof -
  obtain rf where "demo_relay ''u'' = Some (MRequestRelay rf)" "rf_uuid rf = ''u''" by (simp add: demo_relay_def)
  moreover have "rl_peers RelayState_default ''u'' = None" by (simp add: RelayState_default_def)
  ultimately show ?thesis
    using relay_stale_timer [of "''u''" "[]" rf RelayState_default 1 False "V4 (Ipv4 1 1 1 1) 1" 2 False
        "V4 (Ipv4 1 1 1 2) 2" 3 False "V4 (Ipv4 1 1 1 3) 3"] by blast
qed

section \<open>Black and block lists\<close>


lemma digit_char_not_colon: "d < 10 \<Longrightarrow> digit_char d \<noteq> CHR '':''"
proof
  assume "d < 10" "digit_char d = CHR '':''"
  then have "of_char (char_of (48 + d) :: char) = (of_char (CHR '':'') :: nat)" by (simp add: digit_char_def)
  with \<open>d < 10\<close> show False by simp
qed

lemma nat_to_base_10_not_colon: "CHR '':'' \<notin> set (nat_to_base 10 n)"
proof (induction n rule: less_induct)
  case (less n)
  then show ?case
    by (cases "n < 10") (simp_all add: nat_to_base.simps [of 10 n] digit_char_not_colon [THEN not_sym])
qed

lemma colon_not_in_v4: "CHR '':'' \<notin> set (ipv4_to_string a)"
  by (cases a) (simp add: nat_to_string_def nat_to_base_10_not_colon)

lemma colon_in_intercalate: "length xs \<ge> 2 \<Longrightarrow> CHR '':'' \<in> set (intercalate '':'' xs)"
  by (induction "'':''" xs rule: intercalate.induct) auto

lemma length_pair_up: "length (pair_up bs) = length bs div 2"
  by (induction bs rule: pair_up.induct) auto

lemma colon_in_v6: "CHR '':'' \<in> set (ipv6_to_string v)"
proof -
  have l: "length (segments v) = 8" by (simp add: segments_def length_pair_up octets6_def)
  obtain b s where z: "zero_scan 0 (0, 0) (0, 0) (segments v) = (b, s)" by fastforce
  have "length (drop 12 (octets6 v)) = 4" by (simp add: octets6_def)
  moreover have "\<exists>p q r t. xs = [p, q, r, t]" if "length xs = 4" for xs :: bytes
    using that by (auto simp: length_Suc_conv numeral_eq_Suc)
  ultimately obtain p q r t where d: "drop 12 (octets6 v) = [p, q, r, t]" by blast
  have c: "CHR '':'' \<in> set (intercalate '':'' (map (nat_to_base 16) (segments v)))"
    by (rule colon_in_intercalate) (simp add: l)
  show ?thesis
    by (simp add: ipv6_to_string_def Let_def fmt_subslice_def z d c)
qed

text \<open>
  C25: Black and block lists do not reach the relay of an IPv4 client.  The listening socket is
  dual-stack, so such a client has an IPv4-mapped address: the check at connection time translates
  it, but the relay itself compares the untranslated text, so a list of IPv4 addresses never throttles
  or stops a relay in progress, although the same address is refused when it connects.
\<close>

theorem relay_lists_miss_mapped:
  assumes "to_ipv4 v = Some a" and "v \<noteq> 1"
    and "set (rl_blacklist st) \<subseteq> range ipv4_to_string" and "set (rl_blocklist st) \<subseteq> range ipv4_to_string"
    and "ipv4_to_string a \<in> set (rl_blocklist st)"
  shows "handle_connection (V6 v port fl sc) True st = AcceptBlocked \<and>
     (\<forall>now uid t lp. \<exists>lp'. fst (relay_account now (ip_to_string (addr_ip (V6 v port fl sc))) uid t lp st) = Some lp' \<and>
        (lp_blacked lp' \<longrightarrow> lp' = lp))"
proof -
  have "CHR '':'' \<in> set (ip_to_string (IpV6 v))" using colon_in_v6 by simp
  then have "ip_to_string (IpV6 v) \<notin> range ipv4_to_string" using colon_not_in_v4 by auto
  then have "ip_to_string (IpV6 v) \<notin> set (rl_blacklist st)" "ip_to_string (IpV6 v) \<notin> set (rl_blocklist st)"
    using assms(3,4) by blast+
  then show ?thesis
    using assms by (simp add: handle_connection_def relay_account_def try_into_v4_def Let_def)
qed

theorem relay_lists_miss_mapped_witness:
  "handle_connection (V6 0xFFFF01020304 5 0 0) True (RelayState_default\<lparr>rl_blocklist := [ipv4_to_string (Ipv4 1 2 3 4)]\<rparr>) = AcceptBlocked \<and>
   (\<exists>lp'. fst (relay_account 9000000000 (ip_to_string (addr_ip (V6 0xFFFF01020304 5 0 0))) ''x'' 5 (relay_start 0)
      (RelayState_default\<lparr>rl_blocklist := [ipv4_to_string (Ipv4 1 2 3 4)]\<rparr>)) = Some lp')"
proof -
  let ?st = "RelayState_default\<lparr>rl_blocklist := [ipv4_to_string (Ipv4 1 2 3 4)]\<rparr>"
  have v: "to_ipv4 0xFFFF01020304 = Some (Ipv4 1 2 3 4)"
    by (simp add: to_ipv4_def octets6_def to_le_numeral)
  have n: "(0xFFFF01020304 :: u128) \<noteq> 1" by simp
  have b: "set (rl_blacklist ?st) \<subseteq> range ipv4_to_string" by (simp add: RelayState_default_def)
  have c: "set (rl_blocklist ?st) \<subseteq> range ipv4_to_string" by (simp del: ipv4_to_string.simps)
  have m: "ipv4_to_string (Ipv4 1 2 3 4) \<in> set (rl_blocklist ?st)" by (simp del: ipv4_to_string.simps)
  show ?thesis using relay_lists_miss_mapped [OF v n b c m, of 5 0 0] by blast
qed

end
