(* ===== verification/Login_Guard.thy ===== *)
theory Login_Guard
  imports Addr_Parse
begin

text \<open>
  The brute-force guard of the controlled side.  \<open>src/src/server/login_failure_check.rs\<close>: the
  exponential back-off for logins with operating-system credentials.  \<open>src/src/server/connection.rs\<close>: the
  failure counters of password and two-factor logins (\<open>LOGIN_FAILURES\<close>), kept per address and, for IPv6, per
  /64, /56 and /48 prefix, with \<open>check_failure_with_scope\<close> before and \<open>update_failure_with_scope\<close> after
  each attempt.  Times are milliseconds since the epoch (\<open>get_time()\<close>, an \<open>i64\<close>) and arguments.
\<close>

section \<open>Back-off for operating-system credentials\<close>

definition OS_CREDENTIAL_LOGIN_TOTAL_IDLE_RESET_MS :: int where
  "OS_CREDENTIAL_LOGIN_TOTAL_IDLE_RESET_MS = 120 * 60 * 1000"

definition OS_CREDENTIAL_LOGIN_BACKOFF_BASE_SECONDS :: int where
  "OS_CREDENTIAL_LOGIN_BACKOFF_BASE_SECONDS = 15"

definition OS_CREDENTIAL_LOGIN_BACKOFF_MAX_SECONDS :: int where
  "OS_CREDENTIAL_LOGIN_BACKOFF_MAX_SECONDS = 30 * 60"

datatype FailureScope = ScopeDefault | TerminalOsLogin

datatype AlarmAuditType =
    IpWhitelist | ExceedThirtyAttempts | SixAttemptsWithinOneMinute | ExceedIPv6PrefixAttempts
  | TerminalOsLoginBackoff | TerminalOsLoginConcurrency | SessionScopeViolation

record OsCredentialPolicyDecision =
  dc_allowed :: bool
  dc_login_error :: "string option"
  dc_audit :: "AlarmAuditType option"

record OsCredentialFailureState =
  oc_total_failures :: int
  oc_backoff_until_ms :: "int option"
  oc_last_failure_ms :: "int option"

definition OsCredentialFailureState_default :: OsCredentialFailureState where
  "OsCredentialFailureState_default =
     \<lparr>oc_total_failures = 0, oc_backoff_until_ms = None, oc_last_failure_ms = None\<rparr>"

definition is_os_credential_scope :: "FailureScope \<Rightarrow> bool" where
  "is_os_credential_scope scope \<longleftrightarrow> scope = TerminalOsLogin"

fun backoff_audit_type_for_scope :: "FailureScope \<Rightarrow> AlarmAuditType option" where
  "backoff_audit_type_for_scope TerminalOsLogin = Some TerminalOsLoginBackoff"
| "backoff_audit_type_for_scope ScopeDefault = None"

definition os_credential_login_backoff_seconds :: "int \<Rightarrow> int" where
  "os_credential_login_backoff_seconds total_failures =
     (if total_failures \<le> 2 then 0
      else let exp = min (total_failures - 3) 7;
               seconds = OS_CREDENTIAL_LOGIN_BACKOFF_BASE_SECONDS * 2 ^ nat exp in
           min seconds OS_CREDENTIAL_LOGIN_BACKOFF_MAX_SECONDS)"

definition normalize_backoff :: "int \<Rightarrow> OsCredentialFailureState \<Rightarrow> OsCredentialFailureState" where
  "normalize_backoff now_ms st =
     (case oc_backoff_until_ms st of
        Some until_ms \<Rightarrow> if until_ms \<le> now_ms then st\<lparr>oc_backoff_until_ms := None\<rparr> else st
      | None \<Rightarrow> st)"

definition reset_totals_on_idle :: "int \<Rightarrow> OsCredentialFailureState \<Rightarrow> OsCredentialFailureState" where
  "reset_totals_on_idle now_ms st =
     (case oc_last_failure_ms st of
        Some last_ms \<Rightarrow>
          if saturating_sub_i64 now_ms last_ms \<ge> OS_CREDENTIAL_LOGIN_TOTAL_IDLE_RESET_MS
          then st\<lparr>oc_total_failures := 0, oc_backoff_until_ms := None, oc_last_failure_ms := None\<rparr>
          else st
      | None \<Rightarrow> st)"

definition allow_decision :: OsCredentialPolicyDecision where
  "allow_decision = \<lparr>dc_allowed = True, dc_login_error = None, dc_audit = None\<rparr>"

definition block_decision :: "string \<Rightarrow> AlarmAuditType option \<Rightarrow> OsCredentialPolicyDecision" where
  "block_decision login_error alarm_type =
     \<lparr>dc_allowed = False, dc_login_error = Some login_error, dc_audit = alarm_type\<rparr>"

definition evaluate_os_credential_policy ::
  "FailureScope \<Rightarrow> int \<Rightarrow> OsCredentialFailureState \<Rightarrow> OsCredentialPolicyDecision \<times> OsCredentialFailureState" where
  "evaluate_os_credential_policy scope now_ms st0 =
     (if \<not> is_os_credential_scope scope then (allow_decision, st0)
      else
        let st = normalize_backoff now_ms (reset_totals_on_idle now_ms st0) in
        case oc_backoff_until_ms st of
          Some until_ms \<Rightarrow>
            let remaining_ms = max (until_ms - now_ms) 0;
                remaining_seconds = max ((remaining_ms + 999) div 1000) 1;
                seconds_label = (if remaining_seconds = 1 then ''second'' else ''seconds'') in
            (block_decision (''Please try again in '' @ nat_to_string (nat remaining_seconds) @ '' '' @ seconds_label @ ''.'')
               (backoff_audit_type_for_scope scope), st)
        | None \<Rightarrow> (allow_decision, st))"

definition record_os_credential_failure ::
  "FailureScope \<Rightarrow> int \<Rightarrow> OsCredentialFailureState \<Rightarrow> OsCredentialFailureState" where
  "record_os_credential_failure scope now_ms st0 =
     (if \<not> is_os_credential_scope scope then st0
      else
        let st1 = normalize_backoff now_ms (reset_totals_on_idle now_ms st0);
            st2 = st1\<lparr>oc_total_failures := saturating_add_i32 (oc_total_failures st1) 1, oc_last_failure_ms := Some now_ms\<rparr>;
            backoff_seconds = os_credential_login_backoff_seconds (oc_total_failures st2) in
        if backoff_seconds > 0 then st2\<lparr>oc_backoff_until_ms := Some (now_ms + backoff_seconds * 1000)\<rparr> else st2)"

section \<open>Failure counters per address and prefix\<close>

text \<open>The minute of the last failure, the failures in that minute, and all failures.\<close>

type_synonym failure_entry = "int \<times> int \<times> int"

record Guard =
  gd_failures :: "nat \<Rightarrow> string \<rightharpoonup> failure_entry"
  gd_os :: OsCredentialFailureState

definition Guard_default :: Guard where
  "Guard_default = \<lparr>gd_failures = (\<lambda>_. Map.empty), gd_os = OsCredentialFailureState_default\<rparr>"

datatype guard_event = LoginError string | Alarm AlarmAuditType

definition mask_u128 :: "u128 \<Rightarrow> nat \<Rightarrow> u128" where
  "mask_u128 addr prefix =
     (let mask = (if prefix = 0 \<or> prefix > 128 then 0 else push_bit (128 - prefix) (NOT 0)) in addr AND mask)"

definition get_ipv6_prefixes :: "string \<Rightarrow> (string \<times> string \<times> string) option" where
  "get_ipv6_prefixes self_ip =
     (let ip_only = trim (hd (split_char (CHR ''%'') self_ip)) in
      case parse_all (read_ipv6 ip_only) of
        None \<Rightarrow> None
      | Some ip \<Rightarrow>
          Some (ipv6_to_string (mask_u128 ip 64) @ ''/64'',
                ipv6_to_string (mask_u128 ip 56) @ ''/56'',
                ipv6_to_string (mask_u128 ip 48) @ ''/48''))"

definition bump_failure_entry :: "failure_entry \<Rightarrow> int \<Rightarrow> failure_entry" where
  "bump_failure_entry cur time =
     (case cur of (c0, c1, c2) \<Rightarrow> if c0 = time then (c0, c1 + 1, c2 + 1) else (time, 1, c2 + 1))"

definition entry_or_zero :: "(string \<rightharpoonup> failure_entry) \<Rightarrow> string \<Rightarrow> failure_entry" where
  "entry_or_zero m key = (case m key of Some e \<Rightarrow> e | None \<Rightarrow> (0, 0, 0))"

definition bump_key :: "int \<Rightarrow> string \<Rightarrow> (string \<rightharpoonup> failure_entry) \<Rightarrow> string \<rightharpoonup> failure_entry" where
  "bump_key time key m = m(key \<mapsto> bump_failure_entry (entry_or_zero m key) time)"

definition update_failure_with_scope ::
  "string \<Rightarrow> failure_entry \<times> int \<Rightarrow> bool \<Rightarrow> nat \<Rightarrow> FailureScope \<Rightarrow> int \<Rightarrow> Guard \<Rightarrow> Guard" where
  "update_failure_with_scope self_ip ft remove i scope now_ms g =
     (case ft of (failure, time) \<Rightarrow>
      if scope = TerminalOsLogin then
        (if \<not> remove then g\<lparr>gd_os := record_os_credential_failure scope now_ms (gd_os g)\<rparr> else g)
      else
        let m = gd_failures g i;
            m' = (if remove then
                    (if fst failure \<noteq> 0 then
                       (case get_ipv6_prefixes self_ip of
                          Some (p64, p56, p48) \<Rightarrow> m(p64 := None, p56 := None, p48 := None, self_ip := None)
                        | None \<Rightarrow> m(self_ip := None))
                     else m)
                  else
                    (case get_ipv6_prefixes self_ip of
                       Some (p64, p56, p48) \<Rightarrow> bump_key time self_ip (fold (bump_key time) [p64, p56, p48] m)
                     | None \<Rightarrow> bump_key time self_ip m)) in
        g\<lparr>gd_failures := (gd_failures g)(i := m')\<rparr>)"

definition update_failure :: "string \<Rightarrow> failure_entry \<times> int \<Rightarrow> bool \<Rightarrow> nat \<Rightarrow> int \<Rightarrow> Guard \<Rightarrow> Guard" where
  "update_failure self_ip ft remove i now_ms g = update_failure_with_scope self_ip ft remove i ScopeDefault now_ms g"

definition check_failure_ipv6_prefix ::
  "nat \<Rightarrow> int \<Rightarrow> string \<Rightarrow> nat \<Rightarrow> int \<Rightarrow> Guard \<Rightarrow> ((failure_entry \<times> int) \<times> guard_event list) option" where
  "check_failure_ipv6_prefix i time prefix prefix_num thresh g =
     (let failure_prefix = entry_or_zero (gd_failures g i) prefix in
      if snd (snd failure_prefix) > thresh then
        Some ((failure_prefix, time),
          [LoginError (''Too many wrong attempts for IPv6 prefix /'' @ nat_to_string prefix_num), Alarm ExceedIPv6PrefixAttempts])
      else None)"

definition minute_of :: "int \<Rightarrow> int" where
  "minute_of now_ms = wrap_i32 (now_ms div 60000)"

definition check_failure_with_scope ::
  "string \<Rightarrow> nat \<Rightarrow> FailureScope \<Rightarrow> int \<Rightarrow> Guard \<Rightarrow> ((failure_entry \<times> int) \<times> bool) \<times> guard_event list \<times> Guard" where
  "check_failure_with_scope self_ip i scope now_ms g =
     (let time = minute_of now_ms in
      if scope = TerminalOsLogin then
        let (decision, os) = evaluate_os_credential_policy scope now_ms (gd_os g) in
        ((((0, 0, 0), time), dc_allowed decision),
         (if dc_allowed decision then []
          else (case dc_login_error decision of Some e \<Rightarrow> [LoginError e] | None \<Rightarrow> []) @
               (case dc_audit decision of Some a \<Rightarrow> [Alarm a] | None \<Rightarrow> [])),
         g\<lparr>gd_os := os\<rparr>)
      else
        case (case get_ipv6_prefixes self_ip of
                Some (p64, p56, p48) \<Rightarrow>
                  (case check_failure_ipv6_prefix i time p64 64 60 g of
                     Some r \<Rightarrow> Some r
                   | None \<Rightarrow>
                       (case check_failure_ipv6_prefix i time p56 56 80 g of
                          Some r \<Rightarrow> Some r
                        | None \<Rightarrow> check_failure_ipv6_prefix i time p48 48 100 g))
              | None \<Rightarrow> None) of
          Some (ft, evs) \<Rightarrow> ((ft, False), evs, g)
        | None \<Rightarrow>
            (let failure = entry_or_zero (gd_failures g i) self_ip in
             case failure of (f0, f1, f2) \<Rightarrow>
               if f2 > 30 then
                 (((failure, time), False), [LoginError ''Too many wrong attempts'', Alarm ExceedThirtyAttempts], g)
               else if time = f0 \<and> f1 > 6 then
                 (((failure, time), False), [LoginError ''Please try 1 minute later'', Alarm SixAttemptsWithinOneMinute], g)
               else (((failure, time), True), [], g)))"

definition check_failure :: "string \<Rightarrow> nat \<Rightarrow> int \<Rightarrow> Guard \<Rightarrow> ((failure_entry \<times> int) \<times> bool) \<times> guard_event list \<times> Guard" where
  "check_failure self_ip i now_ms g = check_failure_with_scope self_ip i ScopeDefault now_ms g"

section \<open>The back-off policy against its specification\<close>

text \<open>
  A history of evaluations and failed logins, oldest first.  \<open>os_run\<close> executes it; \<open>os_spec\<close> only remembers
  the number of failures since the last idle period and the time of the last one.
\<close>

datatype os_event = OsEvaluate | OsFail

fun os_step :: "int \<times> os_event \<Rightarrow> OsCredentialFailureState \<Rightarrow> OsCredentialFailureState" where
  "os_step (now_ms, OsEvaluate) st = snd (evaluate_os_credential_policy TerminalOsLogin now_ms st)"
| "os_step (now_ms, OsFail) st = record_os_credential_failure TerminalOsLogin now_ms st"

definition os_run :: "(int \<times> os_event) list \<Rightarrow> OsCredentialFailureState" where
  "os_run evs = fold os_step evs OsCredentialFailureState_default"

fun os_spec_step :: "int \<times> os_event \<Rightarrow> nat \<times> int option \<Rightarrow> nat \<times> int option" where
  "os_spec_step (now_ms, OsEvaluate) s = s"
| "os_spec_step (now_ms, OsFail) (n, l) =
     ((case l of Some last_ms \<Rightarrow> if now_ms - last_ms \<ge> 7200000 then 1 else Suc n | None \<Rightarrow> 1), Some now_ms)"

definition os_spec :: "(int \<times> os_event) list \<Rightarrow> nat \<times> int option" where
  "os_spec evs = fold os_spec_step evs (0, None)"

definition os_wait :: "nat \<Rightarrow> int" where
  "os_wait n = (if n < 3 then 0 else min 1800000 (15000 * 2 ^ (n - 3)))"

lemma backoff_seconds_wait:
  assumes "t = min i32_max (int n)"
  shows "os_credential_login_backoff_seconds t * 1000 = os_wait n"
proof (cases "n \<le> 10")
  case True
  then have t: "t = int n" using assms by (simp add: i32_max_def)
  from True have "n \<in> {0, 1, 2, 3, 4, 5, 6, 7, 8, 9, 10}" by (simp; presburger)
  then show ?thesis
    unfolding t os_credential_login_backoff_seconds_def os_wait_def OS_CREDENTIAL_LOGIN_BACKOFF_BASE_SECONDS_def
      OS_CREDENTIAL_LOGIN_BACKOFF_MAX_SECONDS_def by (elim insertE) simp_all
next
  case False
  then have "t \<ge> 10" using assms by (simp add: i32_max_def)
  moreover have "(2 :: int) ^ 7 \<le> 2 ^ (n - 3)" using False by (intro power_increasing) auto
  ultimately show ?thesis
    using False by (simp add: os_credential_login_backoff_seconds_def os_wait_def min_def
        OS_CREDENTIAL_LOGIN_BACKOFF_BASE_SECONDS_def OS_CREDENTIAL_LOGIN_BACKOFF_MAX_SECONDS_def)
qed

lemma os_wait_bounds: "0 \<le> os_wait n" "os_wait n \<le> 1800000"
  by (auto simp: os_wait_def)

text \<open>How the state of the code relates to the specification at a time not before the last event.\<close>

definition os_rel :: "int \<Rightarrow> OsCredentialFailureState \<Rightarrow> nat \<times> int option \<Rightarrow> bool" where
  "os_rel now st s =
     (case s of
        (n, None) \<Rightarrow> st = OsCredentialFailureState_default
      | (n, Some l) \<Rightarrow> 0 \<le> l \<and> l \<le> now \<and>
          (st = OsCredentialFailureState_default \<and> now - l \<ge> 7200000 \<or>
           oc_total_failures st = min i32_max (int n) \<and> oc_last_failure_ms st = Some l \<and>
           (oc_backoff_until_ms st = Some (l + os_wait n) \<and> os_wait n > 0 \<or>
            oc_backoff_until_ms st = None \<and> l + os_wait n \<le> now)))"

lemma os_rel_mono: "os_rel now st s \<Longrightarrow> now \<le> now' \<Longrightarrow> os_rel now' st s"
  by (auto simp: os_rel_def split: prod.splits option.splits)

lemma saturating_sub_small:
  "0 \<le> a \<Longrightarrow> a < 2 ^ 62 \<Longrightarrow> 0 \<le> b \<Longrightarrow> b < 2 ^ 62 \<Longrightarrow> saturating_sub_i64 a b = a - b"
  by (simp add: saturating_sub_i64_def i64_max_def i64_min_def)

text \<open>What remains after the two clean-up steps that start both operations.\<close>

lemma os_cleaned:
  assumes r: "os_rel now st s" and t: "0 \<le> now" "now < 2 ^ 62"
  defines "st' \<equiv> normalize_backoff now (reset_totals_on_idle now st)"
  shows "os_rel now st' s"
    and "oc_backoff_until_ms st' = (case s of (n, Some l) \<Rightarrow> if l + os_wait n \<le> now then None else Some (l + os_wait n) | _ \<Rightarrow> None)"
    and "oc_total_failures st' = (case s of (n, Some l) \<Rightarrow> if now - l \<ge> 7200000 then 0 else min i32_max (int n) | _ \<Rightarrow> 0)"
proof -
  obtain n l where s: "s = (n, l)" by (cases s)
  have "os_rel now st' s \<and>
    oc_backoff_until_ms st' = (case s of (n, Some l) \<Rightarrow> if l + os_wait n \<le> now then None else Some (l + os_wait n) | _ \<Rightarrow> None) \<and>
    oc_total_failures st' = (case s of (n, Some l) \<Rightarrow> if now - l \<ge> 7200000 then 0 else min i32_max (int n) | _ \<Rightarrow> 0)"
  proof (cases l)
    case None
    then show ?thesis
      using r by (simp add: s st'_def os_rel_def OsCredentialFailureState_default_def reset_totals_on_idle_def normalize_backoff_def)
  next
    case (Some x)
    then have x: "0 \<le> x" "x \<le> now" "saturating_sub_i64 now x = now - x"
      using r t by (auto simp: s os_rel_def intro!: saturating_sub_small)
    show ?thesis
      using r x os_wait_bounds [of n]
      by (cases st) (auto simp: s Some st'_def os_rel_def OsCredentialFailureState_default_def reset_totals_on_idle_def
          normalize_backoff_def OS_CREDENTIAL_LOGIN_TOTAL_IDLE_RESET_MS_def)
  qed
  then show "os_rel now st' s"
    and "oc_backoff_until_ms st' = (case s of (n, Some l) \<Rightarrow> if l + os_wait n \<le> now then None else Some (l + os_wait n) | _ \<Rightarrow> None)"
    and "oc_total_failures st' = (case s of (n, Some l) \<Rightarrow> if now - l \<ge> 7200000 then 0 else min i32_max (int n) | _ \<Rightarrow> 0)"
    by blast+
qed

lemma os_rel_step:
  assumes r: "os_rel now st s" and t: "0 \<le> now" "now < 2 ^ 62"
  shows "os_rel now (os_step (now, e) st) (os_spec_step (now, e) s)"
proof (cases e)
  case OsEvaluate
  then show ?thesis
    using os_cleaned(1) [OF r t]
    by (simp add: evaluate_os_credential_policy_def is_os_credential_scope_def Let_def split: option.split)
next
  case OsFail
  obtain n l where s: "s = (n, l)" by (cases s)
  let ?st = "normalize_backoff now (reset_totals_on_idle now st)"
  let ?n = "(case l of Some last_ms \<Rightarrow> if now - last_ms \<ge> 7200000 then 1 else Suc n | None \<Rightarrow> 1)"
  have tot: "saturating_add_i32 (oc_total_failures ?st) 1 = min i32_max (int ?n)"
    using os_cleaned(3) [OF r t] by (auto simp: s saturating_add_i32_def i32_max_def split: option.split)
  note w = backoff_seconds_wait [OF tot]
  have b: "oc_backoff_until_ms ?st = Some u \<Longrightarrow> os_wait ?n > 0" for u
    using os_cleaned(2) [OF r t] os_wait_bounds(2) [of n] r
    by (auto simp: s os_wait_def os_rel_def split: option.splits if_splits)
  have b2: "os_wait ?n \<le> 0 \<Longrightarrow> oc_backoff_until_ms ?st = None"
    using b by (cases "oc_backoff_until_ms ?st") (auto simp: not_le)
  show ?thesis
    using w b2 t os_wait_bounds(1) [of ?n]
    by (auto simp: OsFail s record_os_credential_failure_def is_os_credential_scope_def Let_def os_rel_def tot)
qed

text \<open>
  C28: The back-off for operating-system credentials implements its specification: whatever history of checks
  and failed logins, an attempt is allowed exactly when the waiting time of the current run of failures has
  passed since the last one: nothing for the first two, 15 seconds after the third, doubling with each
  further failure up to 30 minutes; a run of failures ends after two idle hours.
\<close>

theorem os_credential_backoff_spec:
  assumes "sorted (map fst evs @ [now])" and "\<forall>ev \<in> set evs. 0 \<le> fst ev" and "0 \<le> now" and "now < 2 ^ 62"
  shows "dc_allowed (fst (evaluate_os_credential_policy TerminalOsLogin now (os_run evs))) \<longleftrightarrow>
     (case os_spec evs of (n, None) \<Rightarrow> True | (n, Some l) \<Rightarrow> l + os_wait n \<le> now)"
proof -
  have "os_rel now (os_run evs) (os_spec evs)"
    using assms
  proof (induction evs arbitrary: now rule: rev_induct)
    case Nil
    then show ?case by (simp add: os_run_def os_spec_def os_rel_def)
  next
    case (snoc ev evs)
    obtain t e where ev: "ev = (t, e)" by (cases ev)
    have "os_rel t (os_run evs) (os_spec evs)"
      using snoc.prems ev by (intro snoc.IH) (auto simp: sorted_append)
    then have "os_rel t (os_step (t, e) (os_run evs)) (os_spec_step (t, e) (os_spec evs))"
      using snoc.prems ev by (intro os_rel_step) (auto simp: sorted_append)
    then have "os_rel t (os_run (evs @ [ev])) (os_spec (evs @ [ev]))"
      by (simp add: os_run_def os_spec_def ev)
    then show ?case
      using snoc.prems ev by (elim os_rel_mono) (auto simp: sorted_append)
  qed
  from os_cleaned(2) [OF this assms(3,4)] show ?thesis
    by (auto simp: evaluate_os_credential_policy_def is_os_credential_scope_def Let_def allow_decision_def
        block_decision_def split: option.splits prod.splits)
qed

theorem os_credential_backoff_spec_witness:
  "dc_allowed (fst (evaluate_os_credential_policy TerminalOsLogin 2000 (os_run [(1000, OsFail), (1500, OsFail)]))) \<and>
   \<not> dc_allowed (fst (evaluate_os_credential_policy TerminalOsLogin 16999 (os_run [(1000, OsFail), (1500, OsFail), (2000, OsFail)])))"
  using os_credential_backoff_spec [of "[(1000, OsFail), (1500, OsFail)]" 2000]
    os_credential_backoff_spec [of "[(1000, OsFail), (1500, OsFail), (2000, OsFail)]" 16999]
  by (simp add: os_spec_def os_wait_def)

section \<open>Interleaved login attempts\<close>

text \<open>
  The keys under which the attempts of an address are counted, with the limit the check applies to each, and
  the limit that belongs to a key by its form.
\<close>

definition keys_lim :: "string \<Rightarrow> (string \<times> int) list" where
  "keys_lim ip =
     (ip, 30) # (case get_ipv6_prefixes ip of
        Some (p64, p56, p48) \<Rightarrow> [(p64, 60), (p56, 80), (p48, 100)]
      | None \<Rightarrow> [])"

definition guard_keys :: "string \<Rightarrow> string list" where
  "guard_keys ip = map fst (keys_lim ip)"

lemma guard_keys_eq:
  "guard_keys ip = ip # (case get_ipv6_prefixes ip of Some (p64, p56, p48) \<Rightarrow> [p64, p56, p48] | None \<Rightarrow> [])"
  by (simp add: guard_keys_def keys_lim_def split: option.split prod.split)

definition key_limit :: "string \<Rightarrow> int" where
  "key_limit k =
     (case rev k of
        CHR ''4'' # CHR ''6'' # CHR ''/'' # _ \<Rightarrow> 60
      | CHR ''6'' # CHR ''5'' # CHR ''/'' # _ \<Rightarrow> 80
      | CHR ''8'' # CHR ''4'' # CHR ''/'' # _ \<Rightarrow> 100
      | _ \<Rightarrow> 30)"

definition total_of :: "(string \<rightharpoonup> failure_entry) \<Rightarrow> string \<Rightarrow> int" where
  "total_of m k = snd (snd (entry_or_zero m k))"

lemma key_limit_ge: "30 \<le> key_limit k"
  by (auto simp: key_limit_def split: list.split char.split bool.split)

lemma keys_lim_le_key_limit: "(k, L) \<in> set (keys_lim ip) \<Longrightarrow> L \<le> key_limit k"
  using key_limit_ge [of k]
  by (auto simp: keys_lim_def get_ipv6_prefixes_def Let_def key_limit_def split: option.splits)

lemma check_failure_guard: "snd (snd (check_failure ip i now g)) = g"
  by (auto simp: check_failure_def check_failure_with_scope_def Let_def split: option.split prod.split)

lemma check_failure_ok:
  assumes "snd (fst (check_failure ip i now g))" and "(k, L) \<in> set (keys_lim ip)"
  shows "total_of (gd_failures g i) k \<le> L"
  using assms
  by (auto simp: check_failure_def check_failure_with_scope_def check_failure_ipv6_prefix_def keys_lim_def total_of_def
      Let_def split: option.splits prod.splits if_splits)

lemma total_bump: "total_of (bump_key time k' m) k = (if k = k' then total_of m k + 1 else total_of m k)"
  by (auto simp: total_of_def bump_key_def bump_failure_entry_def entry_or_zero_def split: prod.split)

lemma update_fail_total:
  "total_of (gd_failures (update_failure ip ft False i now g) i) k \<ge>
     total_of (gd_failures g i) k + (if k \<in> set (guard_keys ip) then 1 else 0)"
  by (auto simp: update_failure_def update_failure_with_scope_def guard_keys_eq total_bump Let_def
      split: prod.split option.split)

lemma update_success_total:
  "k \<notin> set (guard_keys ip) \<Longrightarrow>
     total_of (gd_failures (update_failure ip ft True i now g) i) k = total_of (gd_failures g i) k"
  by (auto simp: update_failure_def update_failure_with_scope_def guard_keys_eq total_of_def
      entry_or_zero_def Let_def split: prod.split option.split)

text \<open>
  An attempt begins with the check and, when it passes, is pending until the password or code has been
  verified; several connections may have attempts pending at the same time.
\<close>

datatype attempt_event = AttemptBegin string int | AttemptEnd nat bool int

record Attempts =
  at_guard :: Guard
  at_pending :: "(string \<times> failure_entry \<times> int) list"
  at_failed :: "string list"
  at_succeeded :: "string list"

definition Attempts_start :: Attempts where
  "Attempts_start = \<lparr>at_guard = Guard_default, at_pending = [], at_failed = [], at_succeeded = []\<rparr>"

fun attempt_step :: "nat \<Rightarrow> Attempts \<Rightarrow> attempt_event \<Rightarrow> Attempts" where
  "attempt_step i s (AttemptBegin ip now) =
     (case check_failure ip i now (at_guard s) of
        ((ft, ok), _, g) \<Rightarrow>
          if ok then s\<lparr>at_guard := g, at_pending := (ip, ft) # at_pending s\<rparr> else s\<lparr>at_guard := g\<rparr>)"
| "attempt_step i s (AttemptEnd k ok now) =
     (if k < length (at_pending s) then
        (case at_pending s ! k of (ip, ft) \<Rightarrow>
           s\<lparr>at_guard := update_failure ip ft ok i now (at_guard s),
             at_pending := take k (at_pending s) @ drop (Suc k) (at_pending s),
             at_failed := (if ok then at_failed s else ip # at_failed s),
             at_succeeded := (if ok then ip # at_succeeded s else at_succeeded s)\<rparr>)
      else s)"

fun attempt_run :: "nat \<Rightarrow> nat \<Rightarrow> Attempts \<Rightarrow> attempt_event list \<Rightarrow> Attempts option" where
  "attempt_run i K s [] = (if length (at_pending s) \<le> K then Some s else None)"
| "attempt_run i K s (e # es) =
     (if length (at_pending s) \<le> K then attempt_run i K (attempt_step i s e) es else None)"

definition counts_in :: "string \<Rightarrow> string list \<Rightarrow> nat" where
  "counts_in k ips = length (filter (\<lambda>ip. k \<in> set (guard_keys ip)) ips)"

lemma counts_in_simps [simp]:
  "counts_in k [] = 0"
  "counts_in k (ip # ips) = (if k \<in> set (guard_keys ip) then 1 else 0) + counts_in k ips"
  by (simp_all add: counts_in_def)

lemma counts_in_le: "counts_in k ips \<le> length ips"
  by (simp add: counts_in_def)

lemma counts_in_remove:
  "j < length ips \<Longrightarrow>
     counts_in k ips = counts_in k (take j ips @ drop (Suc j) ips) + (if k \<in> set (guard_keys (ips ! j)) then 1 else 0)"
  by (subst id_take_nth_drop [of j ips]) (auto simp: counts_in_def)

definition attempts_ok :: "nat \<Rightarrow> nat \<Rightarrow> string \<Rightarrow> Attempts \<Rightarrow> bool" where
  "attempts_ok i K k s \<longleftrightarrow>
     int (counts_in k (at_failed s)) \<le> total_of (gd_failures (at_guard s) i) k \<and>
     int (counts_in k (at_failed s) + counts_in k (map fst (at_pending s))) \<le> key_limit k + int K"

lemma attempts_ok_begin:
  assumes ok: "attempts_ok i K k s" and b: "length (at_pending (attempt_step i s (AttemptBegin ip now))) \<le> K"
  shows "attempts_ok i K k (attempt_step i s (AttemptBegin ip now))"
proof -
  obtain ft r evs g where c: "check_failure ip i now (at_guard s) = ((ft, r), evs, g)" by (metis prod.exhaust)
  have g: "g = at_guard s" using check_failure_guard [of ip i now "at_guard s"] c by simp
  show ?thesis
  proof (cases "r \<and> k \<in> set (guard_keys ip)")
    case True
    then obtain L where L: "(k, L) \<in> set (keys_lim ip)" by (auto simp: guard_keys_def)
    have "total_of (gd_failures (at_guard s) i) k \<le> key_limit k"
      using check_failure_ok [of ip i now "at_guard s" k L] keys_lim_le_key_limit [OF L] L c True by simp
    moreover have "counts_in k (ip # map fst (at_pending s)) \<le> K"
      using b c True counts_in_le [of k "ip # map fst (at_pending s)"] by simp
    ultimately show ?thesis
      using ok True c g by (simp add: attempts_ok_def)
  next
    case False
    then show ?thesis using ok c g by (auto simp: attempts_ok_def)
  qed
qed

lemma attempts_ok_end:
  assumes ok: "attempts_ok i K k s"
    and fresh: "\<forall>ip \<in> set (at_succeeded (attempt_step i s (AttemptEnd j r now))). k \<notin> set (guard_keys ip)"
  shows "attempts_ok i K k (attempt_step i s (AttemptEnd j r now))"
proof (cases "j < length (at_pending s)")
  case True
  obtain ip ft where p: "at_pending s ! j = (ip, ft)" by (cases "at_pending s ! j")
  have c: "counts_in k (map fst (at_pending s)) =
      counts_in k (map fst (take j (at_pending s) @ drop (Suc j) (at_pending s))) + (if k \<in> set (guard_keys ip) then 1 else 0)"
    using counts_in_remove [of j "map fst (at_pending s)" k] True p by (simp add: take_map drop_map)
  show ?thesis
  proof (cases r)
    case True
    with fresh p \<open>j < length (at_pending s)\<close> have "k \<notin> set (guard_keys ip)" by simp
    then show ?thesis
      using ok c p \<open>j < length (at_pending s)\<close> True by (simp add: attempts_ok_def update_success_total)
  next
    case False
    then show ?thesis
      using ok c p \<open>j < length (at_pending s)\<close> update_fail_total [where g = "at_guard s" and i = i and k = k and ip = ip and ft = ft and now = now]
      by (simp add: attempts_ok_def split: if_splits)
  qed
qed (use ok in simp)

lemma attempt_step_succeeded: "set (at_succeeded s) \<subseteq> set (at_succeeded (attempt_step i s e))"
  by (cases e) (auto split: prod.split)

lemma attempt_run_succeeded: "attempt_run i K s es = Some s' \<Longrightarrow> set (at_succeeded s) \<subseteq> set (at_succeeded s')"
proof (induction es arbitrary: s)
  case (Cons e es)
  then show ?case using attempt_step_succeeded [of s i e] by (fastforce split: if_splits)
qed (simp split: if_splits)

lemma attempt_run_pending: "attempt_run i K s es = Some s' \<Longrightarrow> length (at_pending s) \<le> K"
  by (cases es) (auto split: if_splits)

lemma attempt_run_ok:
  assumes "attempt_run i K s es = Some s'" and "attempts_ok i K k s"
    and "\<forall>ip \<in> set (at_succeeded s'). k \<notin> set (guard_keys ip)"
  shows "attempts_ok i K k s'"
  using assms
proof (induction es arbitrary: s)
  case (Cons e es)
  from Cons.prems(1) have r: "attempt_run i K (attempt_step i s e) es = Some s'" by (simp split: if_splits)
  have fresh: "\<forall>ip \<in> set (at_succeeded (attempt_step i s e)). k \<notin> set (guard_keys ip)"
    using attempt_run_succeeded [OF r] Cons.prems(3) by blast
  have "attempts_ok i K k (attempt_step i s e)"
    using Cons.prems(2) attempt_run_pending [OF r] fresh attempts_ok_begin attempts_ok_end by (cases e) blast+
  then show ?case using Cons.IH [OF r] Cons.prems(3) by blast
qed (simp split: if_splits)

text \<open>
  C27: Guessing passwords or codes is bounded.  However attempts from any number of connections interleave, with
  at most \<open>K\<close> of them between check and result at any time, the failed attempts from one address number at most
  \<open>30 + K\<close> until one from that address succeeds; those from one IPv6 /64, /56 or /48 prefix at most \<open>60 + K\<close>,
  \<open>80 + K\<close> and \<open>100 + K\<close>.
\<close>

theorem login_attempts_bounded:
  assumes "attempt_run i K Attempts_start es = Some s"
    and "\<forall>ip \<in> set (at_succeeded s). k \<notin> set (guard_keys ip)"
  shows "int (counts_in k (at_failed s)) \<le> key_limit k + int K"
proof -
  have "attempts_ok i K k Attempts_start"
    using key_limit_ge [of k]
    by (simp add: attempts_ok_def Attempts_start_def Guard_default_def total_of_def entry_or_zero_def)
  from attempt_run_ok [OF assms(1) this assms(2)] show ?thesis
    by (simp add: attempts_ok_def)
qed

theorem login_attempts_bounded_witness:
  "\<exists>s. attempt_run 0 2 Attempts_start
       [AttemptBegin ''1.2.3.4'' 60000, AttemptBegin ''1.2.3.4'' 60000, AttemptEnd 1 False 60001, AttemptEnd 0 False 60002] = Some s \<and>
     counts_in ''1.2.3.4'' (at_failed s) = 2 \<and> int (counts_in ''1.2.3.4'' (at_failed s)) \<le> key_limit ''1.2.3.4'' + int 2"
proof -
  let ?es = "[AttemptBegin ''1.2.3.4'' 60000, AttemptBegin ''1.2.3.4'' 60000, AttemptEnd 1 False 60001, AttemptEnd 0 False 60002]"
  have p: "get_ipv6_prefixes ''1.2.3.4'' = None" by code_simp
  obtain s where s: "attempt_run 0 2 Attempts_start ?es = Some s"
    and f: "at_failed s = [''1.2.3.4'', ''1.2.3.4'']" and t: "at_succeeded s = []"
    by (simp add: Attempts_start_def Guard_default_def check_failure_def check_failure_with_scope_def p
        entry_or_zero_def minute_of_def wrap_i32_def)
  have "int (counts_in ''1.2.3.4'' (at_failed s)) \<le> key_limit ''1.2.3.4'' + int 2"
    by (rule login_attempts_bounded [OF s]) (simp add: t)
  moreover have "counts_in ''1.2.3.4'' (at_failed s) = 2" by (simp add: f guard_keys_eq)
  ultimately show ?thesis using s by blast
qed

end
