(* ===== verification/Password.thy ===== *)
theory Password
  imports Prelude
begin

text \<open>
  Passwords at rest and in the login exchange.  \<open>libs/hbb_common/src/password_security.rs\<close>: verification
  method, approval mode, and the versioned encryption of configuration values under the machine's uuid.
  \<open>libs/hbb_common/src/config/permanent_password.rs\<close> and \<open>config.rs\<close>: the storage of the permanent password as
  an encrypted salted hash, its migration, loading, storing and synchronisation, and the trusted devices.
  \<open>src/src/server/connection.rs\<close>: validation of a login against the temporary and the permanent password.
  \<open>src/src/client.rs\<close>: the answer the controlling side computes from the challenge.

  SHA-256, base64, the secret box and the JSON serialiser are third-party code: fields of \<open>PwDeps\<close>.  A Rust
  string is the list of its UTF-8 bytes as characters.
\<close>

section \<open>Third-party primitives and strings\<close>

record TrustedDevice =
  td_hwid :: bytes
  td_time :: int
  td_id :: string
  td_name :: string
  td_platform :: string

record PwDeps =
  sha256 :: "bytes \<Rightarrow> bytes"
  b64_encode :: "bytes \<Rightarrow> string"
  b64_decode :: "bytes \<Rightarrow> bytes option"
  sb_seal :: "bytes \<Rightarrow> bytes \<Rightarrow> bytes \<Rightarrow> bytes"
  sb_open :: "bytes \<Rightarrow> bytes \<Rightarrow> bytes \<Rightarrow> bytes option"
  devices_to_json :: "TrustedDevice list \<Rightarrow> string"
  devices_from_json :: "string \<Rightarrow> TrustedDevice list option"

definition str_bytes :: "string \<Rightarrow> bytes" where
  "str_bytes s = map (\<lambda>c. word_of_nat (of_char c)) s"

definition bytes_str :: "bytes \<Rightarrow> string" where
  "bytes_str bs = map (\<lambda>b. char_of (unat b)) bs"

definition char_byte :: "char \<Rightarrow> nat" where
  "char_byte c = of_char c"

definition utf8_cont :: "char \<Rightarrow> bool" where
  "utf8_cont c \<longleftrightarrow> 0x80 \<le> char_byte c \<and> char_byte c \<le> 0xBF"

definition utf8_width :: "char \<Rightarrow> nat" where
  "utf8_width c =
     (let b = char_byte c in
      if b < 0x80 then 1 else if 0xC2 \<le> b \<and> b \<le> 0xDF then 2 else if 0xE0 \<le> b \<and> b \<le> 0xEF then 3
      else if 0xF0 \<le> b \<and> b \<le> 0xF4 then 4 else 0)"

definition utf8_second :: "char \<Rightarrow> char \<Rightarrow> bool" where
  "utf8_second c d =
     (let b = char_byte c; x = char_byte d in
      if b = 0xE0 then 0xA0 \<le> x \<and> x \<le> 0xBF
      else if b = 0xED then 0x80 \<le> x \<and> x \<le> 0x9F
      else if b = 0xF0 then 0x90 \<le> x \<and> x \<le> 0xBF
      else if b = 0xF4 then 0x80 \<le> x \<and> x \<le> 0x8F
      else utf8_cont d)"

definition replacement_char :: string where
  "replacement_char = [CHR 0xEF, CHR 0xBF, CHR 0xBD]"

text \<open>\<open>String::from_utf8_lossy\<close>: every maximal broken sequence becomes one replacement character.\<close>

fun utf8_lossy :: "string \<Rightarrow> string" where
  "utf8_lossy [] = []"
| "utf8_lossy (c # cs) =
     (let w = utf8_width c in
      if w = 1 then c # utf8_lossy cs
      else if w = 0 then replacement_char @ utf8_lossy cs
      else case cs of
        [] \<Rightarrow> replacement_char
      | c2 # cs2 \<Rightarrow>
          if \<not> utf8_second c c2 then replacement_char @ utf8_lossy cs
          else if w = 2 then c # c2 # utf8_lossy cs2
          else (case cs2 of
            [] \<Rightarrow> replacement_char
          | c3 # cs3 \<Rightarrow>
              if \<not> utf8_cont c3 then replacement_char @ utf8_lossy cs2
              else if w = 3 then c # c2 # c3 # utf8_lossy cs3
              else (case cs3 of
                [] \<Rightarrow> replacement_char
              | c4 # cs4 \<Rightarrow>
                  if \<not> utf8_cont c4 then replacement_char @ utf8_lossy cs3
                  else c # c2 # c3 # c4 # utf8_lossy cs4)))"

text \<open>Well-formed strings, and \<open>s.chars().count()\<close> on them.\<close>

definition is_utf8 :: "string \<Rightarrow> bool" where
  "is_utf8 s \<longleftrightarrow> utf8_lossy s = s"

definition chars_count :: "string \<Rightarrow> nat" where
  "chars_count s = length (filter (\<lambda>c. \<not> utf8_cont c) s)"

definition starts_with :: "string \<Rightarrow> string \<Rightarrow> bool" where
  "starts_with p s \<longleftrightarrow> take (length p) s = p"

section \<open>Options\<close>

text \<open>\<open>opt\<close> is \<open>Config::get_option\<close>, the empty string for an option that is not set.\<close>

type_synonym options = "string \<Rightarrow> string"

datatype VerificationMethod = OnlyUseTemporaryPassword | OnlyUsePermanentPassword | UseBothPasswords

datatype ApproveMode = ApproveBoth | ApprovePassword | ApproveClick

definition option2bool :: "string \<Rightarrow> string \<Rightarrow> bool" where
  "option2bool opt_name value =
     (if starts_with ''enable-'' opt_name then value \<noteq> ''N''
      else if starts_with ''allow-'' opt_name \<or> opt_name = ''stop-service'' \<or> opt_name = ''direct-server'' \<or>
              opt_name = ''force-always-relay'' then value = ''Y''
      else value \<noteq> ''N'')"

definition get_bool_option :: "options \<Rightarrow> string \<Rightarrow> bool" where
  "get_bool_option opt k = option2bool k (opt k)"

definition verification_method :: "options \<Rightarrow> VerificationMethod" where
  "verification_method opt =
     (let method = opt ''verification-method'' in
      if method = ''use-temporary-password'' then OnlyUseTemporaryPassword
      else if method = ''use-permanent-password'' then OnlyUsePermanentPassword
      else UseBothPasswords)"

definition temporary_password_length :: "options \<Rightarrow> nat" where
  "temporary_password_length opt =
     (let len = opt ''temporary-password-length'' in
      if len = ''8'' then 8 else if len = ''10'' then 10 else 6)"

definition temporary_enabled :: "options \<Rightarrow> bool" where
  "temporary_enabled opt \<longleftrightarrow> verification_method opt \<noteq> OnlyUsePermanentPassword"

definition permanent_enabled :: "options \<Rightarrow> bool" where
  "permanent_enabled opt \<longleftrightarrow> verification_method opt \<noteq> OnlyUseTemporaryPassword"

definition approve_mode :: "options \<Rightarrow> ApproveMode" where
  "approve_mode opt =
     (let mode = opt ''approve-mode'' in
      if mode = ''password'' then ApprovePassword
      else if mode = ''click'' then ApproveClick
      else ApproveBoth)"

definition hide_cm :: "options \<Rightarrow> bool" where
  "hide_cm opt \<longleftrightarrow>
     approve_mode opt = ApprovePassword \<and> verification_method opt = OnlyUsePermanentPassword \<and>
     option2bool ''allow-hide-cm'' (opt ''allow-hide-cm'')"

text \<open>Random passwords; \<open>rng\<close> are the values drawn from the generator.\<close>

definition NUM_CHARS :: string where
  "NUM_CHARS = ''0123456789''"

definition CHARS :: string where
  "CHARS = ''23456789abcdefghijkmnpqrstuvwxyz''"

definition get_auto_password_with_chars :: "(nat \<Rightarrow> nat) \<Rightarrow> nat \<Rightarrow> string \<Rightarrow> string" where
  "get_auto_password_with_chars rng len chars = map (\<lambda>i. chars ! (rng i mod length chars)) [0..<len]"

definition get_auto_password :: "(nat \<Rightarrow> nat) \<Rightarrow> nat \<Rightarrow> string" where
  "get_auto_password rng len = get_auto_password_with_chars rng len CHARS"

definition get_auto_numeric_password :: "(nat \<Rightarrow> nat) \<Rightarrow> nat \<Rightarrow> string" where
  "get_auto_numeric_password rng len = get_auto_password_with_chars rng len NUM_CHARS"

definition new_temporary_password :: "options \<Rightarrow> (nat \<Rightarrow> nat) \<Rightarrow> string" where
  "new_temporary_password opt rng =
     (let len = temporary_password_length opt in
      if get_bool_option opt ''allow-numeric-one-time-password'' then get_auto_numeric_password rng len
      else get_auto_password rng len)"

section \<open>Encryption of configuration values\<close>

text \<open>
  \<open>pe_uuid\<close> is the machine's uuid, \<open>pe_pk\<close> the public key of the existing key pair.  The nonce drawn by an
  encryption is an argument.
\<close>

record PwEnv =
  pe_uuid :: bytes
  pe_pk :: "bytes option"

definition KEYBYTES :: nat where
  "KEYBYTES = 32"

definition MACBYTES :: nat where
  "MACBYTES = 16"

definition SB_NONCEBYTES :: nat where
  "SB_NONCEBYTES = 24"

definition VERSION_LEN :: nat where
  "VERSION_LEN = 2"

definition FORMAT_V1 :: u8 where
  "FORMAT_V1 = 1"

definition resize_bytes :: "nat \<Rightarrow> bytes \<Rightarrow> bytes" where
  "resize_bytes n bs = take n bs @ replicate (n - length bs) 0"

definition open_secretbox_payload :: "PwDeps \<Rightarrow> bytes \<Rightarrow> bytes \<Rightarrow> bytes option" where
  "open_secretbox_payload d data key =
     (let v1 = (if data \<noteq> [] \<and> hd data = FORMAT_V1 \<and> length data \<ge> 1 + SB_NONCEBYTES + MACBYTES
                then sb_open d (drop (1 + SB_NONCEBYTES) data) (take SB_NONCEBYTES (drop 1 data)) key
                else None) in
      case v1 of
        Some decrypted \<Rightarrow> Some decrypted
      | None \<Rightarrow> sb_open d data (replicate SB_NONCEBYTES 0) key)"

definition symmetric_crypt_enc :: "PwDeps \<Rightarrow> PwEnv \<Rightarrow> bytes \<Rightarrow> bytes \<Rightarrow> bytes" where
  "symmetric_crypt_enc d e nonce data =
     [FORMAT_V1] @ nonce @ sb_seal d data nonce (resize_bytes KEYBYTES (pe_uuid e))"

definition symmetric_crypt_dec :: "PwDeps \<Rightarrow> PwEnv \<Rightarrow> bytes \<Rightarrow> bytes option" where
  "symmetric_crypt_dec d e data =
     (case open_secretbox_payload d data (resize_bytes KEYBYTES (pe_uuid e)) of
        Some v \<Rightarrow> Some v
      | None \<Rightarrow>
          (case pe_pk e of
             Some pk \<Rightarrow> if pk \<noteq> pe_uuid e then open_secretbox_payload d data (resize_bytes KEYBYTES pk) else None
           | None \<Rightarrow> None))"

definition pw_encrypt :: "PwDeps \<Rightarrow> PwEnv \<Rightarrow> bytes \<Rightarrow> bytes \<Rightarrow> string option" where
  "pw_encrypt d e nonce v = (if v \<noteq> [] then Some (b64_encode d (symmetric_crypt_enc d e nonce v)) else None)"

definition pw_decrypt :: "PwDeps \<Rightarrow> PwEnv \<Rightarrow> bytes \<Rightarrow> bytes option" where
  "pw_decrypt d e v =
     (if v \<noteq> [] then (case b64_decode d v of Some x \<Rightarrow> symmetric_crypt_dec d e x | None \<Rightarrow> None) else None)"

definition is_encrypted :: "PwDeps \<Rightarrow> bytes \<Rightarrow> bool" where
  "is_encrypted d v =
     (if length v \<le> VERSION_LEN \<or> take 2 v \<noteq> str_bytes ''00'' then False
      else case b64_decode d (drop VERSION_LEN v) of
             Some decoded \<Rightarrow> length decoded \<ge> MACBYTES
           | None \<Rightarrow> False)"

definition encrypt_str_or_original :: "PwDeps \<Rightarrow> PwEnv \<Rightarrow> bytes \<Rightarrow> string \<Rightarrow> string \<Rightarrow> nat \<Rightarrow> string" where
  "encrypt_str_or_original d e nonce s version max_len =
     (if is_encrypted d (str_bytes s) then s
      else if chars_count s > max_len then []
      else if version = ''00'' then
        (case pw_encrypt d e nonce (str_bytes s) of Some x \<Rightarrow> version @ x | None \<Rightarrow> s)
      else s)"

definition decrypt_str_or_original :: "PwDeps \<Rightarrow> PwEnv \<Rightarrow> string \<Rightarrow> string \<Rightarrow> string \<times> bool \<times> bool" where
  "decrypt_str_or_original d e s current_version =
     (case (if length s > VERSION_LEN \<and> starts_with ''00'' s then pw_decrypt d e (str_bytes (drop VERSION_LEN s)) else None) of
        Some v \<Rightarrow> (utf8_lossy (bytes_str v), True, ''00'' \<noteq> current_version)
      | None \<Rightarrow> (s, False, s \<noteq> [] \<and> \<not> is_encrypted d (str_bytes s)))"

definition encrypt_vec_or_original :: "PwDeps \<Rightarrow> PwEnv \<Rightarrow> bytes \<Rightarrow> bytes \<Rightarrow> string \<Rightarrow> nat \<Rightarrow> bytes" where
  "encrypt_vec_or_original d e nonce v version max_len =
     (if is_encrypted d v then v
      else if length v > max_len then []
      else if version = ''00'' then
        (case pw_encrypt d e nonce v of Some x \<Rightarrow> str_bytes version @ str_bytes x | None \<Rightarrow> v)
      else v)"

definition decrypt_vec_or_original :: "PwDeps \<Rightarrow> PwEnv \<Rightarrow> bytes \<Rightarrow> string \<Rightarrow> bytes \<times> bool \<times> bool" where
  "decrypt_vec_or_original d e v current_version =
     (case (if length v > VERSION_LEN \<and> take 2 v = str_bytes ''00'' then pw_decrypt d e (drop VERSION_LEN v) else None) of
        Some x \<Rightarrow> (x, True, ''00'' \<noteq> current_version)
      | None \<Rightarrow> (v, False, v \<noteq> [] \<and> \<not> is_encrypted d v))"

section \<open>Storage of the permanent password\<close>

definition PASSWORD_ENC_VERSION :: string where
  "PASSWORD_ENC_VERSION = ''00''"

definition PERMANENT_PASSWORD_ENC_VERSION :: string where
  "PERMANENT_PASSWORD_ENC_VERSION = ''01''"

definition PERMANENT_PASSWORD_HASH_PREFIX :: string where
  "PERMANENT_PASSWORD_HASH_PREFIX = ''00''"

definition HBBS_PRESET_PASSWORD_HASH_PREFIX :: string where
  "HBBS_PRESET_PASSWORD_HASH_PREFIX = ''00''"

definition PERMANENT_PASSWORD_H1_LEN :: nat where
  "PERMANENT_PASSWORD_H1_LEN = 32"

definition DEFAULT_SALT_LEN :: nat where
  "DEFAULT_SALT_LEN = 32"

definition ENCRYPT_MAX_LEN :: nat where
  "ENCRYPT_MAX_LEN = 128"

definition compute_permanent_password_h1 :: "PwDeps \<Rightarrow> string \<Rightarrow> string \<Rightarrow> bytes" where
  "compute_permanent_password_h1 d password salt =
     take PERMANENT_PASSWORD_H1_LEN (sha256 d (str_bytes password @ str_bytes salt))"

definition encode_permanent_password_storage_from_h1 :: "PwDeps \<Rightarrow> bytes \<Rightarrow> string" where
  "encode_permanent_password_storage_from_h1 d h1 = PERMANENT_PASSWORD_HASH_PREFIX @ b64_encode d h1"

definition encrypt_permanent_password_storage :: "PwDeps \<Rightarrow> PwEnv \<Rightarrow> bytes \<Rightarrow> string \<Rightarrow> string option" where
  "encrypt_permanent_password_storage d e nonce storage =
     (if chars_count storage > ENCRYPT_MAX_LEN then None
      else Some (PERMANENT_PASSWORD_ENC_VERSION @ b64_encode d (symmetric_crypt_enc d e nonce (str_bytes storage))))"

definition encode_permanent_password_encrypted_storage_from_h1 ::
  "PwDeps \<Rightarrow> PwEnv \<Rightarrow> bytes \<Rightarrow> bytes \<Rightarrow> string option" where
  "encode_permanent_password_encrypted_storage_from_h1 d e nonce h1 =
     encrypt_permanent_password_storage d e nonce (encode_permanent_password_storage_from_h1 d h1)"

definition decode_password_h1_after_prefix :: "PwDeps \<Rightarrow> string \<Rightarrow> string \<Rightarrow> bytes option" where
  "decode_password_h1_after_prefix d storage prefix =
     (if \<not> starts_with prefix storage then None
      else case b64_decode d (str_bytes (drop (length prefix) storage)) of
             None \<Rightarrow> None
           | Some v \<Rightarrow> if length v \<noteq> PERMANENT_PASSWORD_H1_LEN then None else Some v)"

definition decode_permanent_password_h1_from_hashed_storage :: "PwDeps \<Rightarrow> string \<Rightarrow> bytes option" where
  "decode_permanent_password_h1_from_hashed_storage d storage =
     decode_password_h1_after_prefix d storage PERMANENT_PASSWORD_HASH_PREFIX"

definition decode_preset_password_h1_from_storage :: "PwDeps \<Rightarrow> string \<Rightarrow> bytes option" where
  "decode_preset_password_h1_from_storage d storage =
     decode_password_h1_after_prefix d storage HBBS_PRESET_PASSWORD_HASH_PREFIX"

definition decrypt_permanent_password_str_or_original :: "PwDeps \<Rightarrow> PwEnv \<Rightarrow> string \<Rightarrow> string \<times> bool \<times> bool" where
  "decrypt_permanent_password_str_or_original d e storage =
     (case (if length storage > VERSION_LEN \<and> starts_with PERMANENT_PASSWORD_ENC_VERSION storage then
              (case b64_decode d (drop VERSION_LEN (str_bytes storage)) of
                 Some decoded \<Rightarrow> symmetric_crypt_dec d e decoded
               | None \<Rightarrow> None)
            else None) of
        Some v \<Rightarrow> (utf8_lossy (bytes_str v), True, False)
      | None \<Rightarrow> (storage, False, storage \<noteq> []))"

definition decode_permanent_password_h1_from_storage :: "PwDeps \<Rightarrow> PwEnv \<Rightarrow> string \<Rightarrow> bytes option" where
  "decode_permanent_password_h1_from_storage d e storage =
     (if starts_with PERMANENT_PASSWORD_ENC_VERSION storage then
        (case decrypt_permanent_password_str_or_original d e storage of
           (hashed_storage, decrypted, _) \<Rightarrow>
             if \<not> decrypted then None else decode_permanent_password_h1_from_hashed_storage d hashed_storage)
      else None)"

definition local_permanent_password_storage_is_usable_for_auth :: "PwDeps \<Rightarrow> PwEnv \<Rightarrow> string \<Rightarrow> string \<Rightarrow> bool" where
  "local_permanent_password_storage_is_usable_for_auth d e storage salt =
     (if storage = [] then False
      else if decode_permanent_password_h1_from_storage d e storage \<noteq> None then salt \<noteq> []
      else if starts_with PERMANENT_PASSWORD_ENC_VERSION storage \<and>
              fst (snd (decrypt_permanent_password_str_or_original d e storage)) then False
      else (case decrypt_str_or_original d e storage PASSWORD_ENC_VERSION of
              (_, decrypted, looks_like_plaintext) \<Rightarrow>
                \<not> (starts_with PASSWORD_ENC_VERSION storage \<and> \<not> decrypted \<and> \<not> looks_like_plaintext)))"

definition preset_permanent_password_storage_is_usable_for_auth :: "PwDeps \<Rightarrow> string \<Rightarrow> string \<Rightarrow> bool" where
  "preset_permanent_password_storage_is_usable_for_auth d storage salt =
     (if storage = [] then False
      else if salt = [] then True
      else decode_preset_password_h1_from_storage d storage \<noteq> None)"

definition preset_permanent_password_storage_matches_plain :: "PwDeps \<Rightarrow> string \<Rightarrow> string \<Rightarrow> string \<Rightarrow> bool" where
  "preset_permanent_password_storage_matches_plain d storage salt input =
     (if storage = [] \<or> input = [] then False
      else if salt = [] then storage = input
      else case decode_preset_password_h1_from_storage d storage of
             None \<Rightarrow> False
           | Some stored_h1 \<Rightarrow> compute_permanent_password_h1 d input salt = stored_h1)"

definition password_is_empty_or_not_hashed :: "PwDeps \<Rightarrow> PwEnv \<Rightarrow> string \<Rightarrow> bool" where
  "password_is_empty_or_not_hashed d e storage =
     (if storage = [] then True
      else if decode_permanent_password_h1_from_storage d e storage \<noteq> None then False
      else if starts_with PERMANENT_PASSWORD_ENC_VERSION storage then False
      else (case decrypt_str_or_original d e storage PASSWORD_ENC_VERSION of
              (_, decrypted, looks_like_plaintext) \<Rightarrow> decrypted \<or> looks_like_plaintext))"

section \<open>The configuration file\<close>

text \<open>The fields of \<open>Config\<close> that passwords and identity depend on.\<close>

record Config =
  cf_id :: string
  cf_enc_id :: string
  cf_password :: string
  cf_salt :: string

text \<open>
  The configuration in memory (\<open>CONFIG\<close>) and on disk, the encrypted list of trusted devices in \<open>CONFIG2\<close>, and
  its decoded copy with the flag that it has been read.
\<close>

record PwStore =
  ps_config :: Config
  ps_file :: Config
  ps_trusted :: string
  ps_devices :: "TrustedDevice list \<times> bool"

definition ensure_permanent_password_hash_salt :: "Config \<Rightarrow> bool" where
  "ensure_permanent_password_hash_salt c \<longleftrightarrow> cf_salt c \<noteq> []"

definition ensure_permanent_password_salt :: "(nat \<Rightarrow> nat) \<Rightarrow> Config \<Rightarrow> Config" where
  "ensure_permanent_password_salt rng c =
     (if cf_salt c = [] then c\<lparr>cf_salt := get_auto_password rng DEFAULT_SALT_LEN\<rparr> else c)"

definition validate_or_decrypt_permanent_password_storage :: "PwDeps \<Rightarrow> PwEnv \<Rightarrow> Config \<Rightarrow> string + Config" where
  "validate_or_decrypt_permanent_password_storage d e c =
     (if cf_password c = [] then Inr c
      else if starts_with PASSWORD_ENC_VERSION (cf_password c) then
        (case decrypt_str_or_original d e (cf_password c) PASSWORD_ENC_VERSION of
           (plain, decrypted, should_store) \<Rightarrow>
             if decrypted then Inr (c\<lparr>cf_password := plain\<rparr>)
             else if \<not> should_store then Inl ''Invalid permanent password encrypted hash storage''
             else Inr c)
      else
        (case decrypt_permanent_password_str_or_original d e (cf_password c) of
           (decrypted_storage, decrypted, _) \<Rightarrow>
             if decrypted then
               (if \<not> ensure_permanent_password_hash_salt c then Inl ''Permanent password hash storage requires a non-empty salt''
                else if decode_permanent_password_h1_from_hashed_storage d decrypted_storage \<noteq> None then Inr c
                else Inl ''Invalid permanent password encrypted hash storage'')
             else Inr c))"

definition prepare_config_for_store :: "PwDeps \<Rightarrow> PwEnv \<Rightarrow> Config \<Rightarrow> Config" where
  "prepare_config_for_store d e c =
     (case validate_or_decrypt_permanent_password_storage d e c of
        Inr c' \<Rightarrow> c'
      | Inl _ \<Rightarrow> c\<lparr>cf_password := [], cf_salt := []\<rparr>)"

definition keep_encrypted_storage_if_plaintext_unchanged :: "PwDeps \<Rightarrow> PwEnv \<Rightarrow> bytes \<Rightarrow> string \<Rightarrow> string \<Rightarrow> string" where
  "keep_encrypted_storage_if_plaintext_unchanged d e nonce plain stored =
     (case decrypt_str_or_original d e stored PASSWORD_ENC_VERSION of
        (stored_plain, encrypted, _) \<Rightarrow>
          if encrypted \<and> stored_plain = plain then stored
          else encrypt_str_or_original d e nonce plain PASSWORD_ENC_VERSION ENCRYPT_MAX_LEN)"

definition config_store :: "PwDeps \<Rightarrow> PwEnv \<Rightarrow> bytes \<Rightarrow> bytes \<Rightarrow> Config \<Rightarrow> Config \<Rightarrow> Config" where
  "config_store d e n1 n2 self file =
     (let c1 = prepare_config_for_store d e self;
          c2 = (if cf_password c1 \<noteq> [] \<and> decode_permanent_password_h1_from_storage d e (cf_password c1) = None
                then c1\<lparr>cf_password := keep_encrypted_storage_if_plaintext_unchanged d e n1 (cf_password c1) (cf_password file)\<rparr>
                else c1);
          (stored_id, encrypted, _) = decrypt_str_or_original d e (cf_enc_id c2) PASSWORD_ENC_VERSION;
          c3 = (if \<not> encrypted \<or> stored_id \<noteq> cf_id c2
                then c2\<lparr>cf_enc_id := encrypt_str_or_original d e n2 (cf_id c2) PASSWORD_ENC_VERSION ENCRYPT_MAX_LEN\<rparr>
                else c2) in
      c3\<lparr>cf_id := []\<rparr>)"

fun first_some :: "'a option list \<Rightarrow> 'a option" where
  "first_some [] = None"
| "first_some (x # xs) = (case x of Some y \<Rightarrow> Some y | None \<Rightarrow> first_some xs)"

text \<open>\<open>Config::load\<close>; \<open>gen\<close> are the results of the attempts to generate an id.\<close>

definition config_load ::
  "PwDeps \<Rightarrow> PwEnv \<Rightarrow> string option list \<Rightarrow> bytes \<Rightarrow> bytes \<Rightarrow> Config \<Rightarrow> Config \<times> Config" where
  "config_load d e gen n1 n2 file =
     (let c1 = (case validate_or_decrypt_permanent_password_storage d e file of Inr c \<Rightarrow> c | Inl _ \<Rightarrow> file);
          (id', encrypted, store2) = decrypt_str_or_original d e (cf_enc_id c1) PASSWORD_ENC_VERSION;
          (c2, id_valid, store) =
            (if encrypted then (c1\<lparr>cf_id := id'\<rparr>, True, store2)
             else if cf_id c1 \<noteq> [] \<and> cf_enc_id c1 = [] \<and>
                     \<not> fst (snd (decrypt_str_or_original d e (cf_id c1) PASSWORD_ENC_VERSION))
             then (c1, True, True)
             else (c1, False, False));
          (c3, store') =
            (if \<not> id_valid then
               (case first_some (take 3 gen) of Some new_id \<Rightarrow> (c2\<lparr>cf_id := new_id\<rparr>, True) | None \<Rightarrow> (c2, store))
             else (c2, store)) in
      (c3, if store' then config_store d e n1 n2 c3 file else file))"

section \<open>Trusted devices\<close>

definition outdate :: "int \<Rightarrow> TrustedDevice \<Rightarrow> bool" where
  "outdate now_ms td \<longleftrightarrow> td_time td + 90 * 24 * 60 * 60 * 1000 < now_ms"

definition set_trusted_devices :: "PwDeps \<Rightarrow> PwEnv \<Rightarrow> int \<Rightarrow> bytes \<Rightarrow> TrustedDevice list \<Rightarrow> PwStore \<Rightarrow> PwStore" where
  "set_trusted_devices d e now_ms nonce devices0 w =
     (let devices1 = filter (\<lambda>td. \<not> outdate now_ms td) devices0;
          json = devices_to_json d devices1;
          max_len = 1024 * 1024 in
      if length json > max_len then w
      else w\<lparr>ps_trusted := encrypt_str_or_original d e nonce json PASSWORD_ENC_VERSION max_len,
             ps_devices := (devices1, True)\<rparr>)"

definition get_trusted_devices :: "PwDeps \<Rightarrow> PwEnv \<Rightarrow> int \<Rightarrow> bytes \<Rightarrow> PwStore \<Rightarrow> TrustedDevice list \<times> PwStore" where
  "get_trusted_devices d e now_ms nonce w =
     (if snd (ps_devices w) then (fst (ps_devices w), w)
      else
        (case decrypt_str_or_original d e (ps_trusted w) PASSWORD_ENC_VERSION of
           (json, succ, store) \<Rightarrow>
             if succ then
               let devices0 = (case devices_from_json d json of Some l \<Rightarrow> l | None \<Rightarrow> []);
                   devices1 = filter (\<lambda>td. \<not> outdate now_ms td) devices0;
                   w1 = (if store \<or> length devices1 \<noteq> length devices0 then set_trusted_devices d e now_ms nonce devices1 w else w) in
               (devices1, w1\<lparr>ps_devices := (devices1, True)\<rparr>)
             else ([], w)))"

definition add_trusted_device :: "PwDeps \<Rightarrow> PwEnv \<Rightarrow> int \<Rightarrow> bytes \<Rightarrow> bytes \<Rightarrow> TrustedDevice \<Rightarrow> PwStore \<Rightarrow> PwStore" where
  "add_trusted_device d e now_ms n1 n2 device w =
     (let (devices, w1) = get_trusted_devices d e now_ms n1 w in
      set_trusted_devices d e now_ms n2 (filter (\<lambda>td. td_hwid td \<noteq> td_hwid device) devices @ [device]) w1)"

definition remove_trusted_devices :: "PwDeps \<Rightarrow> PwEnv \<Rightarrow> int \<Rightarrow> bytes \<Rightarrow> bytes \<Rightarrow> bytes list \<Rightarrow> PwStore \<Rightarrow> PwStore" where
  "remove_trusted_devices d e now_ms n1 n2 hwids w =
     (let (devices, w1) = get_trusted_devices d e now_ms n1 w in
      set_trusted_devices d e now_ms n2 (filter (\<lambda>td. td_hwid td \<notin> set hwids) devices) w1)"

definition clear_trusted_devices :: "PwDeps \<Rightarrow> PwEnv \<Rightarrow> int \<Rightarrow> bytes \<Rightarrow> PwStore \<Rightarrow> PwStore" where
  "clear_trusted_devices d e now_ms nonce w = set_trusted_devices d e now_ms nonce [] w"

section \<open>Changing the permanent password\<close>

text \<open>\<open>hard\<close> and \<open>builtin\<close> are the settings fixed by the build (\<open>HARD_SETTINGS\<close>, \<open>BUILTIN_SETTINGS\<close>).\<close>

type_synonym settings = "string \<rightharpoonup> string"

definition get_preset_password_storage_and_salt :: "settings \<Rightarrow> string \<times> string" where
  "get_preset_password_storage_and_salt hard =
     (case hard ''password'' of Some x \<Rightarrow> x | None \<Rightarrow> [], case hard ''salt'' of Some x \<Rightarrow> x | None \<Rightarrow> [])"

definition is_disable_change_permanent_password :: "settings \<Rightarrow> bool" where
  "is_disable_change_permanent_password builtin \<longleftrightarrow> builtin ''disable-change-permanent-password'' = Some ''Y''"

text \<open>The nonces of the encryptions one operation may perform, and the values it may draw.\<close>

record Fresh =
  fr_storage :: bytes
  fr_password :: bytes
  fr_id :: bytes
  fr_devices :: bytes
  fr_rng :: "nat \<Rightarrow> nat"

definition store_config :: "PwDeps \<Rightarrow> PwEnv \<Rightarrow> Fresh \<Rightarrow> PwStore \<Rightarrow> PwStore" where
  "store_config d e fr w = w\<lparr>ps_file := config_store d e (fr_password fr) (fr_id fr) (ps_config w) (ps_file w)\<rparr>"

definition compute_permanent_password_storage_for_update ::
  "PwDeps \<Rightarrow> PwEnv \<Rightarrow> Fresh \<Rightarrow> Config \<Rightarrow> string \<Rightarrow> string option \<times> Config" where
  "compute_permanent_password_storage_for_update d e fr c password =
     (let c' = ensure_permanent_password_salt (fr_rng fr) c;
          h1 = compute_permanent_password_h1 d password (cf_salt c') in
      (encode_permanent_password_encrypted_storage_from_h1 d e (fr_storage fr) h1, c'))"

definition set_permanent_password ::
  "PwDeps \<Rightarrow> PwEnv \<Rightarrow> settings \<Rightarrow> settings \<Rightarrow> int \<Rightarrow> Fresh \<Rightarrow> string \<Rightarrow> PwStore \<Rightarrow> bool \<times> PwStore" where
  "set_permanent_password d e hard builtin now_ms fr password w =
     (if is_disable_change_permanent_password builtin then (False, w)
      else
        let (preset_storage, preset_salt) = get_preset_password_storage_and_salt hard in
        if preset_permanent_password_storage_matches_plain d preset_storage preset_salt password \<and>
           cf_password (ps_config w) = [] then (True, w)
        else
          let (stored, c) = (if password = [] then (Some [], ps_config w)
                             else compute_permanent_password_storage_for_update d e fr (ps_config w) password);
              w1 = w\<lparr>ps_config := c\<rparr> in
          case stored of
            None \<Rightarrow> (False, w1)
          | Some st \<Rightarrow>
              if st = cf_password c then (True, w1)
              else (True, clear_trusted_devices d e now_ms (fr_devices fr)
                            (store_config d e fr (w1\<lparr>ps_config := c\<lparr>cf_password := st\<rparr>\<rparr>))))"

definition apply_permanent_password_storage_for_sync ::
  "PwDeps \<Rightarrow> PwEnv \<Rightarrow> Config \<Rightarrow> string \<Rightarrow> string \<Rightarrow> string + bool \<times> Config" where
  "apply_permanent_password_storage_for_sync d e c storage salt =
     (if storage = [] then
        (if cf_password c = [] \<and> (salt = [] \<or> cf_salt c = salt) then Inr (False, c)
         else Inr (True, if salt \<noteq> [] then c\<lparr>cf_password := [], cf_salt := salt\<rparr> else c\<lparr>cf_password := []\<rparr>))
      else if salt = [] then Inl ''Refusing to persist permanent password storage without salt''
      else if decode_permanent_password_h1_from_storage d e storage = None then
        Inl ''Invalid permanent password storage sync payload''
      else if cf_password c = storage \<and> cf_salt c = salt then Inr (False, c)
      else Inr (True, c\<lparr>cf_password := storage, cf_salt := salt\<rparr>))"

definition set_permanent_password_storage_for_sync ::
  "PwDeps \<Rightarrow> PwEnv \<Rightarrow> int \<Rightarrow> Fresh \<Rightarrow> string \<Rightarrow> string \<Rightarrow> PwStore \<Rightarrow> (string + bool) \<times> PwStore" where
  "set_permanent_password_storage_for_sync d e now_ms fr storage salt w =
     (case apply_permanent_password_storage_for_sync d e (ps_config w) storage salt of
        Inl err \<Rightarrow> (Inl err, w)
      | Inr (changed, c) \<Rightarrow>
          if \<not> changed then (Inr False, w)
          else (Inr True, clear_trusted_devices d e now_ms (fr_devices fr) (store_config d e fr (w\<lparr>ps_config := c\<rparr>))))"

definition set_salt :: "PwDeps \<Rightarrow> PwEnv \<Rightarrow> Fresh \<Rightarrow> string \<Rightarrow> PwStore \<Rightarrow> PwStore" where
  "set_salt d e fr salt w =
     (if salt = cf_salt (ps_config w) then w
      else if \<not> password_is_empty_or_not_hashed d e (cf_password (ps_config w)) \<and> cf_salt (ps_config w) \<noteq> [] then w
      else store_config d e fr (w\<lparr>ps_config := (ps_config w)\<lparr>cf_salt := salt\<rparr>\<rparr>))"

definition get_salt :: "PwDeps \<Rightarrow> PwEnv \<Rightarrow> Fresh \<Rightarrow> PwStore \<Rightarrow> string \<times> PwStore" where
  "get_salt d e fr w =
     (if cf_salt (ps_config w) = [] then
        let salt = get_auto_password (fr_rng fr) DEFAULT_SALT_LEN in (salt, set_salt d e fr salt w)
      else (cf_salt (ps_config w), w))"

definition has_usable_preset_password :: "PwDeps \<Rightarrow> settings \<Rightarrow> bool" where
  "has_usable_preset_password d hard =
     (let (preset_storage, preset_salt) = get_preset_password_storage_and_salt hard in
      preset_permanent_password_storage_is_usable_for_auth d preset_storage preset_salt)"

definition has_permanent_password :: "PwDeps \<Rightarrow> PwEnv \<Rightarrow> settings \<Rightarrow> PwStore \<Rightarrow> bool" where
  "has_permanent_password d e hard w =
     (if cf_password (ps_config w) \<noteq> []
      then local_permanent_password_storage_is_usable_for_auth d e (cf_password (ps_config w)) (cf_salt (ps_config w))
      else has_usable_preset_password d hard)"

definition get_effective_permanent_password_salt ::
  "PwDeps \<Rightarrow> PwEnv \<Rightarrow> settings \<Rightarrow> Fresh \<Rightarrow> PwStore \<Rightarrow> string \<times> PwStore" where
  "get_effective_permanent_password_salt d e hard fr w =
     (if cf_password (ps_config w) \<noteq> [] then
        (if local_permanent_password_storage_is_usable_for_auth d e (cf_password (ps_config w)) (cf_salt (ps_config w))
         then get_salt d e fr w else ([], w))
      else
        let (preset_storage, preset_salt) = get_preset_password_storage_and_salt hard in
        if preset_salt \<noteq> [] then
          (if preset_permanent_password_storage_is_usable_for_auth d preset_storage preset_salt then (preset_salt, w) else ([], w))
        else get_salt d e fr w)"

definition has_valid_password :: "PwDeps \<Rightarrow> PwEnv \<Rightarrow> options \<Rightarrow> settings \<Rightarrow> string \<Rightarrow> PwStore \<Rightarrow> bool" where
  "has_valid_password d e opt hard temporary w \<longleftrightarrow>
     temporary_enabled opt \<and> temporary \<noteq> [] \<or> permanent_enabled opt \<and> has_permanent_password d e hard w"

section \<open>Validation of a login\<close>

record Hash =
  hs_salt :: string
  hs_challenge :: string

fun xor_or :: "u8 \<Rightarrow> bytes \<Rightarrow> bytes \<Rightarrow> u8" where
  "xor_or x (a # as) (b # bs) = xor_or (x OR (a XOR b)) as bs"
| "xor_or x _ _ = x"

definition constant_time_eq :: "bytes \<Rightarrow> bytes \<Rightarrow> bool" where
  "constant_time_eq a b = (if length a \<noteq> length b then False else xor_or 0 a b = 0)"

definition verify_h1 :: "PwDeps \<Rightarrow> Hash \<Rightarrow> bytes \<Rightarrow> bytes \<Rightarrow> bool" where
  "verify_h1 d hash lr_password h1 = constant_time_eq (sha256 d (h1 @ str_bytes (hs_challenge hash))) lr_password"

definition validate_password_plain :: "PwDeps \<Rightarrow> Hash \<Rightarrow> bytes \<Rightarrow> string \<Rightarrow> bool" where
  "validate_password_plain d hash lr_password password =
     (if password = [] then False
      else verify_h1 d hash lr_password (sha256 d (str_bytes password @ str_bytes (hs_salt hash))))"

definition validate_password_storage :: "PwDeps \<Rightarrow> PwEnv \<Rightarrow> Hash \<Rightarrow> bytes \<Rightarrow> string \<Rightarrow> bool" where
  "validate_password_storage d e hash lr_password storage =
     (if storage = [] then False
      else case decode_permanent_password_h1_from_storage d e storage of
             Some h1 \<Rightarrow> verify_h1 d hash lr_password h1
           | None \<Rightarrow> validate_password_plain d hash lr_password storage)"

definition validate_preset_password_storage :: "PwDeps \<Rightarrow> Hash \<Rightarrow> bytes \<Rightarrow> string \<Rightarrow> string \<Rightarrow> bool" where
  "validate_preset_password_storage d hash lr_password storage salt =
     (if salt = [] then validate_password_plain d hash lr_password storage
      else case decode_preset_password_h1_from_storage d storage of
             None \<Rightarrow> False
           | Some h1 \<Rightarrow> verify_h1 d hash lr_password h1)"

text \<open>The temporary password, and the wrong attempts counted for its current value.\<close>

record TempPassword =
  tp_password :: string
  tp_state_password :: string
  tp_failures :: int

definition MAX_CONSECUTIVE_FAILURES :: int where
  "MAX_CONSECUTIVE_FAILURES = 10"

definition check_update_temporary_password :: "options \<Rightarrow> (nat \<Rightarrow> nat) \<Rightarrow> bool \<Rightarrow> TempPassword \<Rightarrow> TempPassword" where
  "check_update_temporary_password opt rng temporary_password_success tp =
     (if \<not> temporary_enabled opt then tp
      else if tp_password tp = [] then tp
      else
        let tp1 = (if tp_state_password tp \<noteq> tp_password tp
                   then tp\<lparr>tp_state_password := tp_password tp, tp_failures := 0\<rparr> else tp) in
        if temporary_password_success then tp1\<lparr>tp_failures := 0\<rparr>
        else
          let tp2 = tp1\<lparr>tp_failures := tp_failures tp1 + 1\<rparr> in
          if tp_failures tp2 < MAX_CONSECUTIVE_FAILURES then tp2
          else
            let new_password = new_temporary_password opt rng in
            tp2\<lparr>tp_password := new_password, tp_state_password := new_password, tp_failures := 0\<rparr>)"

text \<open>\<open>validate_password\<close>: which password matched.\<close>

datatype PwMatch = MatchTemporary | MatchPermanent

definition validate_password ::
  "PwDeps \<Rightarrow> PwEnv \<Rightarrow> options \<Rightarrow> settings \<Rightarrow> Hash \<Rightarrow> bytes \<Rightarrow> string \<Rightarrow> PwStore \<Rightarrow> bool \<Rightarrow> PwMatch option" where
  "validate_password d e opt hard hash lr_password temporary w allow_permanent_password =
     (if temporary_enabled opt \<and> validate_password_plain d hash lr_password temporary then Some MatchTemporary
      else if permanent_enabled opt \<or> allow_permanent_password then
        let local_storage = cf_password (ps_config w); local_salt = cf_salt (ps_config w) in
        if local_storage \<noteq> [] then
          (if local_permanent_password_storage_is_usable_for_auth d e local_storage local_salt \<and>
              validate_password_storage d e hash lr_password local_storage then Some MatchPermanent else None)
        else
          let (preset, salt) = get_preset_password_storage_and_salt hard in
          (if preset_permanent_password_storage_is_usable_for_auth d preset salt \<and>
              validate_preset_password_storage d hash lr_password preset salt then Some MatchPermanent else None)
      else None)"

section \<open>The controlling side\<close>

datatype PasswordSource = PersonalAb bytes | SharedAb string | SourceUndefined

record AbEntry =
  ab_name :: string
  ab_peers :: "(string \<times> string) list"

record LoginConfigHandler =
  lc_id :: string
  lc_terminal :: bool
  lc_terminal_admin :: bool
  lc_hash :: Hash
  lc_password :: bytes
  lc_remember :: bool
  lc_config_password :: bytes
  lc_options :: options
  lc_switch_uuid :: "string option"
  lc_switch_back_allowed :: bool
  lc_password_source :: PasswordSource
  lc_shared_password :: "string option"

datatype client_action =
    SendLogin string string bytes
  | SendSwitchLogin string
  | Msgbox string

definition ab_personal :: "AbEntry \<Rightarrow> bool" where
  "ab_personal ab \<longleftrightarrow> ab_name ab = ''My address book'' \<or> ab_name ab = ''Legacy address book''"

text \<open>\<open>token\<close> is the stored access token, \<open>ab\<close> the saved address book with its own token.\<close>

definition try_get_password_from_personal_ab ::
  "PwDeps \<Rightarrow> string \<Rightarrow> string \<times> AbEntry list \<Rightarrow> LoginConfigHandler \<Rightarrow> bytes \<times> LoginConfigHandler" where
  "try_get_password_from_personal_ab d token ab lc =
     (if token \<noteq> [] \<and> token = fst ab then
        (case find ab_personal (snd ab) of
           Some entry \<Rightarrow>
             (case map_of (ab_peers entry) (lc_id lc) of
                Some h \<Rightarrow>
                  (case b64_decode d (str_bytes h) of
                     Some hash_password \<Rightarrow>
                       if hash_password \<noteq> [] then (hash_password, lc\<lparr>lc_password_source := PersonalAb hash_password\<rparr>)
                       else ([], lc)
                   | None \<Rightarrow> ([], lc))
              | None \<Rightarrow> ([], lc))
         | None \<Rightarrow> ([], lc))
      else ([], lc))"

definition salted :: "PwDeps \<Rightarrow> string \<Rightarrow> Hash \<Rightarrow> bytes" where
  "salted d password hash = sha256 d (str_bytes password @ str_bytes (hs_salt hash))"

definition answer :: "PwDeps \<Rightarrow> bytes \<Rightarrow> Hash \<Rightarrow> bytes" where
  "answer d h1 hash = sha256 d (h1 @ str_bytes (hs_challenge hash))"

text \<open>
  \<open>handle_hash\<close>: the password to use, by priority, and what is sent.  \<open>uuid_ok\<close> parses the uuid of a switch of
  sides and asks the local service whether it issued it.
\<close>

definition handle_hash ::
  "PwDeps \<Rightarrow> (string \<Rightarrow> string \<Rightarrow> bool) \<Rightarrow> string \<Rightarrow> string \<times> AbEntry list \<Rightarrow> string \<Rightarrow> string \<Rightarrow> Hash \<Rightarrow>
   LoginConfigHandler \<Rightarrow> client_action list \<times> LoginConfigHandler" where
  "handle_hash d uuid_ok token ab default_password password_preset hash lc0 =
     (let lc1 = lc0\<lparr>lc_hash := hash, lc_switch_uuid := None\<rparr> in
      case (case lc_switch_uuid lc0 of Some uuid \<Rightarrow> if uuid_ok (lc_id lc0) uuid then Some uuid else None | None \<Rightarrow> None) of
        Some uuid \<Rightarrow> ([SendSwitchLogin uuid], lc1\<lparr>lc_switch_back_allowed := True, lc_password_source := SourceUndefined\<rparr>)
      | None \<Rightarrow>
          let (p2, lc2) = (if lc_password lc1 = [] \<and> password_preset \<noteq> []
                           then (salted d password_preset hash, lc1\<lparr>lc_password_source := SourceUndefined\<rparr>)
                           else (lc_password lc1, lc1));
              lc3 = lc2\<lparr>lc_shared_password := None\<rparr>;
              (p3, lc4) = (case lc_shared_password lc2 of
                             Some sp \<Rightarrow> if sp \<noteq> [] then (salted d sp hash, lc3\<lparr>lc_password_source := SharedAb sp\<rparr>) else (p2, lc3)
                           | None \<Rightarrow> (p2, lc3));
              (p4, lc5) = (if p3 = [] then
                             (lc_config_password lc4,
                              if lc_config_password lc4 \<noteq> [] then lc4\<lparr>lc_password_source := SourceUndefined\<rparr> else lc4)
                           else (p3, lc4));
              (p5, lc6) = (if p4 = [] then try_get_password_from_personal_ab d token ab lc5 else (p4, lc5));
              (p6, lc7) = (if p5 = [] \<and> default_password \<noteq> []
                           then (salted d default_password hash, lc6\<lparr>lc_password_source := SharedAb default_password\<rparr>)
                           else (p5, lc6));
              lc8 = lc7\<lparr>lc_password := p6\<rparr> in
          if lc_terminal lc8 \<and> lc_terminal_admin lc8 then
            ([Msgbox (if p6 = [] then ''terminal-admin-login-password'' else ''terminal-admin-login'')], lc8)
          else
            ((if p6 = [] then [Msgbox ''input-password''] else []) @
             [SendLogin (if lc_terminal lc8 then [] else lc_options lc8 ''os-username'')
                        (if lc_terminal lc8 then [] else lc_options lc8 ''os-password'')
                        (if p6 = [] then [] else answer d p6 hash)], lc8))"

definition handle_login_from_ui ::
  "PwDeps \<Rightarrow> string \<Rightarrow> string \<Rightarrow> string \<Rightarrow> bool \<Rightarrow> LoginConfigHandler \<Rightarrow> client_action \<times> LoginConfigHandler" where
  "handle_login_from_ui d os_username os_password password remember lc0 =
     (let (p, lc1) =
            (if password = [] then
               (if lc_password lc0 = [] then
                  (lc_config_password lc0,
                   if lc_config_password lc0 \<noteq> [] then lc0\<lparr>lc_password_source := SourceUndefined\<rparr> else lc0)
                else (lc_password lc0, lc0))
             else (salted d password (lc_hash lc0), lc0\<lparr>lc_password_source := SourceUndefined, lc_remember := remember\<rparr>));
          lc2 = lc1\<lparr>lc_password := p\<rparr> in
      (SendLogin os_username os_password (answer d p (lc_hash lc2)), lc2))"

section \<open>Strings and primitives: lemmas\<close>

lemma bytes_str_str_bytes [simp]: "bytes_str (str_bytes s) = s"
proof -
  have "(of_char c :: nat) < 256" for c :: char by (rule nat_of_char_less_256)
  then show ?thesis
    by (simp add: bytes_str_def str_bytes_def comp_def unat_of_nat)
qed

lemma length_str_bytes [simp]: "length (str_bytes s) = length s"
  by (simp add: str_bytes_def)

lemma str_bytes_Nil [simp]: "str_bytes [] = []"
  by (simp add: str_bytes_def)

lemma str_bytes_append: "str_bytes (s @ t) = str_bytes s @ str_bytes t"
  by (simp add: str_bytes_def)

lemma str_bytes_drop: "str_bytes (drop n s) = drop n (str_bytes s)"
  by (simp add: str_bytes_def drop_map)

lemma str_bytes_take: "str_bytes (take n s) = take n (str_bytes s)"
  by (simp add: str_bytes_def take_map)

lemma str_bytes_eq_Nil [simp]: "str_bytes s = [] \<longleftrightarrow> s = []"
  by (simp add: str_bytes_def)

lemma utf8_ascii: "\<forall>c \<in> set s. char_byte c < 128 \<Longrightarrow> utf8_lossy s = s"
  by (induction s) (auto simp: utf8_width_def)

lemma chars_count_le: "chars_count s \<le> length s"
  by (simp add: chars_count_def)

lemma starts_with_append: "starts_with p (p @ s)"
  by (simp add: starts_with_def)

lemma xor_or_zero: "length a = length b \<Longrightarrow> xor_or x a b = 0 \<longleftrightarrow> x = 0 \<and> a = b"
proof (induction x a b rule: xor_or.induct)
  case (1 x a as b bs)
  have "x OR (a XOR b) = 0 \<longleftrightarrow> x = 0 \<and> a = b"
    by (auto simp: bit_eq_iff bit_simps)
  with 1 show ?case by simp
qed auto

lemma constant_time_eq_iff: "constant_time_eq a b \<longleftrightarrow> a = b"
  by (auto simp: constant_time_eq_def xor_or_zero)

text \<open>What is used of the primitives.\<close>

definition pw_deps_ok :: "PwDeps \<Rightarrow> bool" where
  "pw_deps_ok d \<longleftrightarrow>
     (\<forall>x. length (sha256 d x) = 32) \<and>
     (\<forall>x. b64_decode d (str_bytes (b64_encode d x)) = Some x) \<and>
     b64_encode d [] = [] \<and>
     (\<forall>x. \<forall>c \<in> set (b64_encode d x). char_byte c < 128) \<and>
     (\<forall>x. length (b64_encode d x) \<le> 2 * length x + 2) \<and>
     (\<forall>m n k. sb_open d (sb_seal d m n k) n k = Some m) \<and>
     (\<forall>m n k. length (sb_seal d m n k) = length m + MACBYTES)"

lemma pw_deps_okD:
  assumes "pw_deps_ok d"
  shows "length (sha256 d x) = 32" "b64_decode d (str_bytes (b64_encode d x)) = Some x"
    "\<forall>c \<in> set (b64_encode d x). char_byte c < 128" "length (b64_encode d x) \<le> 2 * length x + 2"
    "sb_open d (sb_seal d m n k) n k = Some m" "length (sb_seal d m n k) = length m + MACBYTES"
  using assms by (simp_all add: pw_deps_ok_def)

lemma b64_encode_not_Nil:
  assumes "pw_deps_ok d" and "x \<noteq> []"
  shows "b64_encode d x \<noteq> []"
proof
  assume "b64_encode d x = []"
  then have "b64_encode d x = b64_encode d []" using assms(1) by (simp add: pw_deps_ok_def)
  with pw_deps_okD(2) [OF assms(1), of x] pw_deps_okD(2) [OF assms(1), of "[]"] assms(2) show False by simp
qed

lemma symmetric_crypt_roundtrip:
  assumes "pw_deps_ok d" and "length nonce = SB_NONCEBYTES"
  shows "symmetric_crypt_dec d e (symmetric_crypt_enc d e nonce v) = Some v"
  using assms pw_deps_okD(5,6) [OF assms(1)]
  by (simp add: symmetric_crypt_dec_def symmetric_crypt_enc_def open_secretbox_payload_def Let_def MACBYTES_def
      SB_NONCEBYTES_def)

lemma length_symmetric_crypt_enc:
  "pw_deps_ok d \<Longrightarrow> length (symmetric_crypt_enc d e nonce v) = 1 + length nonce + length v + MACBYTES"
  using pw_deps_okD(6) by (simp add: symmetric_crypt_enc_def)

section \<open>Encrypted values can be read back\<close>

lemma is_encrypted_encrypt:
  assumes "pw_deps_ok d" and "b64_encode d x \<noteq> []" and "MACBYTES \<le> length x"
  shows "is_encrypted d (str_bytes (''00'' @ b64_encode d x))"
proof -
  have "drop 2 (str_bytes (''00'' @ b64_encode d x)) = str_bytes (b64_encode d x)"
    "take 2 (str_bytes (''00'' @ b64_encode d x)) = str_bytes ''00''"
    by (simp_all add: str_bytes_append, simp_all add: str_bytes_def)
  then show ?thesis
    using assms pw_deps_okD(2) [OF assms(1)] by (simp add: is_encrypted_def VERSION_LEN_def)
qed

text \<open>
  C31: Configuration values survive encryption.  A non-empty well-formed string within the length limit that does
  not itself look encrypted is stored under version \<open>00\<close> as a value that looks encrypted, reads back as exactly
  that string with the flags "decrypted" and "nothing to re-store", and is not encrypted a second time.
\<close>

theorem config_value_roundtrip:
  assumes "pw_deps_ok d"
    and "length nonce = SB_NONCEBYTES" and "s \<noteq> []" and "is_utf8 s" and "chars_count s \<le> max_len"
    and "\<not> is_encrypted d (str_bytes s)"
  shows "decrypt_str_or_original d e (encrypt_str_or_original d e nonce s ''00'' max_len) ''00'' = (s, True, False) \<and>
     is_encrypted d (str_bytes (encrypt_str_or_original d e nonce s ''00'' max_len)) \<and>
     encrypt_str_or_original d e nonce' (encrypt_str_or_original d e nonce s ''00'' max_len) ''00'' max_len =
       encrypt_str_or_original d e nonce s ''00'' max_len"
proof -
  let ?x = "symmetric_crypt_enc d e nonce (str_bytes s)"
  have ne: "b64_encode d ?x \<noteq> []" by (rule b64_encode_not_Nil [OF assms(1)]) (simp add: symmetric_crypt_enc_def)
  have enc: "encrypt_str_or_original d e nonce s ''00'' max_len = ''00'' @ b64_encode d ?x"
    using assms by (simp add: encrypt_str_or_original_def pw_encrypt_def)
  have "is_encrypted d (str_bytes (''00'' @ b64_encode d ?x))"
    using length_symmetric_crypt_enc [OF assms(1)] by (intro is_encrypted_encrypt [OF assms(1) ne]) simp
  moreover have "decrypt_str_or_original d e (''00'' @ b64_encode d ?x) ''00'' = (s, True, False)"
    using ne assms symmetric_crypt_roundtrip [OF assms(1,2)] pw_deps_okD(2) [OF assms(1)]
    by (simp add: decrypt_str_or_original_def pw_decrypt_def VERSION_LEN_def starts_with_def is_utf8_def)
  ultimately show ?thesis
    unfolding enc by (simp add: encrypt_str_or_original_def)
qed

text \<open>A concrete instance of the primitives: nibbles for base64, an unkeyed box, zero-padding for the hash.\<close>

definition nibbles :: "bytes \<Rightarrow> string" where
  "nibbles bs = concat (map (\<lambda>b. [char_of (97 + unat b div 16), char_of (97 + unat b mod 16)]) bs)"

fun unnibbles :: "string \<Rightarrow> bytes option" where
  "unnibbles [] = Some []"
| "unnibbles [x] = None"
| "unnibbles (x # y # zs) = map_option (\<lambda>r. word_of_nat ((of_char x - 97) * 16 + (of_char y - 97)) # r) (unnibbles zs)"

definition demo_pw_deps :: PwDeps where
  "demo_pw_deps =
     \<lparr>sha256 = (\<lambda>x. take 32 (x @ replicate 32 0)), b64_encode = nibbles, b64_decode = (\<lambda>x. unnibbles (bytes_str x)),
      sb_seal = (\<lambda>m n k. m @ replicate 16 0),
      sb_open = (\<lambda>c n k. if length c < 16 then None else Some (take (length c - 16) c)),
      devices_to_json = (\<lambda>l. ''[]''), devices_from_json = (\<lambda>j. Some [])\<rparr>"

lemma nibble_less: "unat (b :: u8) div 16 < 16"
  using unat_word8_less [of b] by (simp only: less_mult_imp_div_less)

lemma nibble_chars:
  "of_char (char_of (97 + unat (b :: u8) div 16) :: char) = 97 + unat b div 16"
  "of_char (char_of (97 + unat b mod 16) :: char) = 97 + unat b mod 16"
  using nibble_less [of b] by (simp_all add: of_char_of mod_less)

lemma unnibbles_nibbles: "unnibbles (nibbles bs) = Some bs"
proof (induction bs)
  case (Cons b bs)
  have "(word_of_nat (unat b div 16 * 16 + unat b mod 16) :: u8) = b"
    by (subst div_mult_mod_eq) simp
  then show ?case
    using Cons nibble_chars [of b] by (simp add: nibbles_def)
qed (simp add: nibbles_def)

lemma demo_pw_deps_ok: "pw_deps_ok demo_pw_deps"
proof -
  have "char_byte c < 128" if c: "c \<in> set (nibbles x)" for c x
  proof -
    from c obtain b where "c = char_of (97 + unat (b :: u8) div 16) \<or> c = char_of (97 + unat b mod 16)"
      by (auto simp: nibbles_def)
    then have "char_byte c \<le> 97 + 15"
      using nibble_less [of b] nibble_chars [of b] by (auto simp: char_byte_def)
    then show ?thesis by simp
  qed
  moreover have "length (nibbles x) = 2 * length x" for x
    by (induction x) (auto simp: nibbles_def)
  ultimately show ?thesis
    by (simp add: pw_deps_ok_def demo_pw_deps_def unnibbles_nibbles MACBYTES_def min_def)
      (simp add: nibbles_def)
qed

definition demo_pw_env :: PwEnv where
  "demo_pw_env = \<lparr>pe_uuid = [1, 2, 3], pe_pk = None\<rparr>"

theorem config_value_roundtrip_witness:
  "decrypt_str_or_original demo_pw_deps demo_pw_env
     (encrypt_str_or_original demo_pw_deps demo_pw_env (replicate 24 7) ''secret'' ''00'' 128) ''00'' = (''secret'', True, False)"
  using config_value_roundtrip [OF demo_pw_deps_ok, of "replicate 24 7" "''secret''" 128 demo_pw_env "[]"]
  by (simp add: SB_NONCEBYTES_def is_utf8_def utf8_width_def char_byte_def chars_count_def utf8_cont_def is_encrypted_def
      str_bytes_def VERSION_LEN_def)

section \<open>Which answers are accepted\<close>

text \<open>The hashes whose answer to the challenge is accepted.\<close>

definition accepted_h1 ::
  "PwDeps \<Rightarrow> PwEnv \<Rightarrow> options \<Rightarrow> settings \<Rightarrow> Hash \<Rightarrow> string \<Rightarrow> PwStore \<Rightarrow> bool \<Rightarrow> bytes set" where
  "accepted_h1 d e opt hard hash temporary w allow =
     (if temporary_enabled opt \<and> temporary \<noteq> [] then {salted d temporary hash} else {}) \<union>
     (if permanent_enabled opt \<or> allow then
        (let storage = cf_password (ps_config w); salt = cf_salt (ps_config w); (preset, preset_salt) = get_preset_password_storage_and_salt hard in
         if storage \<noteq> [] then
           (if local_permanent_password_storage_is_usable_for_auth d e storage salt then
              (case decode_permanent_password_h1_from_storage d e storage of Some h1 \<Rightarrow> {h1} | None \<Rightarrow> {salted d storage hash})
            else {})
         else if preset = [] then {}
         else if preset_salt = [] then {salted d preset hash}
         else (case decode_preset_password_h1_from_storage d preset of Some h1 \<Rightarrow> {h1} | None \<Rightarrow> {}))
      else {})"

lemma verify_h1_iff: "verify_h1 d hash p h1 \<longleftrightarrow> p = answer d h1 hash"
  by (auto simp: verify_h1_def constant_time_eq_iff answer_def)

lemma validate_password_plain_iff: "validate_password_plain d hash p pw \<longleftrightarrow> pw \<noteq> [] \<and> p = answer d (salted d pw hash) hash"
  by (simp add: validate_password_plain_def verify_h1_iff salted_def)

lemma validate_password_iff:
  "validate_password d e opt hard hash p temporary w allow \<noteq> None \<longleftrightarrow>
     (\<exists>h1 \<in> accepted_h1 d e opt hard hash temporary w allow. p = answer d h1 hash)"
  unfolding validate_password_def accepted_h1_def
  by (auto simp: validate_password_plain_iff validate_password_storage_def validate_preset_password_storage_def verify_h1_iff
      preset_permanent_password_storage_is_usable_for_auth_def Let_def split: prod.splits option.splits if_splits)


section \<open>A password that was set can be used\<close>

definition hashed_config :: "PwDeps \<Rightarrow> PwEnv \<Rightarrow> bytes \<Rightarrow> Config \<Rightarrow> bool" where
  "hashed_config d e h1 c \<longleftrightarrow> cf_salt c \<noteq> [] \<and> decode_permanent_password_h1_from_storage d e (cf_password c) = Some h1"

lemma starts_with_01: "starts_with ''01'' s \<Longrightarrow> \<not> starts_with ''00'' s"
  by (auto simp: starts_with_def)

lemma decode_permanent_someD:
  assumes "decode_permanent_password_h1_from_storage d e storage = Some h1"
  shows "storage \<noteq> []" and "starts_with ''01'' storage"
    and "fst (snd (decrypt_permanent_password_str_or_original d e storage))"
    and "decode_permanent_password_h1_from_hashed_storage d (fst (decrypt_permanent_password_str_or_original d e storage)) = Some h1"
  using assms
  by (auto simp: decode_permanent_password_h1_from_storage_def PERMANENT_PASSWORD_ENC_VERSION_def starts_with_def
      split: if_splits prod.splits)

lemma hashed_validate:
  assumes "hashed_config d e h1 c"
  shows "validate_or_decrypt_permanent_password_storage d e c = Inr c"
proof -
  note h = decode_permanent_someD [of d e "cf_password c" h1]
  show ?thesis
    using assms h starts_with_01 [of "cf_password c"]
    by (auto simp: hashed_config_def validate_or_decrypt_permanent_password_storage_def PASSWORD_ENC_VERSION_def
        ensure_permanent_password_hash_salt_def split: prod.split)
qed

lemma hashed_store:
  "hashed_config d e h1 c \<Longrightarrow> hashed_config d e h1 (config_store d e n1 n2 c file) \<and> cf_salt (config_store d e n1 n2 c file) = cf_salt c"
  by (auto simp: config_store_def prepare_config_for_store_def hashed_validate Let_def hashed_config_def split: prod.split)

lemma hashed_load:
  "hashed_config d e h1 file \<Longrightarrow>
     hashed_config d e h1 (fst (config_load d e gen n1 n2 file)) \<and> cf_salt (fst (config_load d e gen n1 n2 file)) = cf_salt file"
  by (auto simp: config_load_def hashed_validate hashed_config_def Let_def split: prod.splits option.splits)

lemma hashed_usable:
  assumes "hashed_config d e h1 (ps_config w)"
  shows "fst (get_effective_permanent_password_salt d e hard fr w) = cf_salt (ps_config w)"
    and "permanent_enabled opt \<Longrightarrow> h1 \<in> accepted_h1 d e opt hard hash temporary w allow"
  using assms decode_permanent_someD [of d e "cf_password (ps_config w)" h1]
  by (auto simp: hashed_config_def get_effective_permanent_password_salt_def get_salt_def accepted_h1_def
      local_permanent_password_storage_is_usable_for_auth_def split: prod.split)

lemma h1_storage_decodes:
  assumes ok: "pw_deps_ok d" and n: "length nonce = SB_NONCEBYTES" and l: "length h1 = 32"
    and st: "encode_permanent_password_encrypted_storage_from_h1 d e nonce h1 = Some st"
  shows "decode_permanent_password_h1_from_storage d e st = Some h1"
proof -
  let ?inner = "''00'' @ b64_encode d h1"
  have st': "st = ''01'' @ b64_encode d (symmetric_crypt_enc d e nonce (str_bytes ?inner))"
    using st by (auto simp: encode_permanent_password_encrypted_storage_from_h1_def encrypt_permanent_password_storage_def
        encode_permanent_password_storage_from_h1_def PERMANENT_PASSWORD_HASH_PREFIX_def PERMANENT_PASSWORD_ENC_VERSION_def
        split: if_splits)
  have ne: "b64_encode d (symmetric_crypt_enc d e nonce (str_bytes ?inner)) \<noteq> []"
    by (rule b64_encode_not_Nil [OF ok]) (simp add: symmetric_crypt_enc_def)
  have "utf8_lossy ?inner = ?inner"
    using pw_deps_okD(3) [OF ok] by (intro utf8_ascii) (auto simp: char_byte_def)
  then have "decrypt_permanent_password_str_or_original d e st = (?inner, True, False)"
    using ne pw_deps_okD(2) [OF ok] symmetric_crypt_roundtrip [OF ok n]
    by (simp add: decrypt_permanent_password_str_or_original_def st' VERSION_LEN_def PERMANENT_PASSWORD_ENC_VERSION_def
        starts_with_def flip: str_bytes_drop)
  then show ?thesis
    using pw_deps_okD(2) [OF ok] l
    by (simp add: decode_permanent_password_h1_from_storage_def decode_permanent_password_h1_from_hashed_storage_def
        decode_password_h1_after_prefix_def st' PERMANENT_PASSWORD_ENC_VERSION_def PERMANENT_PASSWORD_HASH_PREFIX_def
        PERMANENT_PASSWORD_H1_LEN_def starts_with_def)
qed

lemma length_h1: "pw_deps_ok d \<Longrightarrow> length (compute_permanent_password_h1 d password salt) = 32"
  using pw_deps_okD(1) by (simp add: compute_permanent_password_h1_def PERMANENT_PASSWORD_H1_LEN_def)

lemma encode_h1_some:
  assumes "pw_deps_ok d" and "length h1 = 32"
  shows "\<exists>st. encode_permanent_password_encrypted_storage_from_h1 d e nonce h1 = Some st \<and> st \<noteq> []"
proof -
  have "chars_count (''00'' @ b64_encode d h1) \<le> ENCRYPT_MAX_LEN"
    using chars_count_le [of "''00'' @ b64_encode d h1"] pw_deps_okD(4) [OF assms(1), of h1] assms(2)
    by (simp add: ENCRYPT_MAX_LEN_def)
  then show ?thesis
    by (simp add: encode_permanent_password_encrypted_storage_from_h1_def encrypt_permanent_password_storage_def
        encode_permanent_password_storage_from_h1_def PERMANENT_PASSWORD_HASH_PREFIX_def PERMANENT_PASSWORD_ENC_VERSION_def)
qed

lemma set_permanent_password_hashed:
  assumes ok: "pw_deps_ok d" and n: "length (fr_storage fr) = SB_NONCEBYTES" and pw: "password \<noteq> []"
    and set: "set_permanent_password d e hard builtin now_ms fr password w = (True, w')"
    and changed: "cf_password (ps_config w') \<noteq> cf_password (ps_config w)"
  shows "hashed_config d e (compute_permanent_password_h1 d password (cf_salt (ps_config w'))) (ps_config w') \<and>
     hashed_config d e (compute_permanent_password_h1 d password (cf_salt (ps_config w'))) (ps_file w') \<and>
     cf_salt (ps_file w') = cf_salt (ps_config w')"
proof -
  let ?c = "ensure_permanent_password_salt (fr_rng fr) (ps_config w)"
  let ?h1 = "compute_permanent_password_h1 d password (cf_salt ?c)"
  have pc: "cf_password ?c = cf_password (ps_config w)" and salt: "cf_salt ?c \<noteq> []"
    by (simp_all add: ensure_permanent_password_salt_def get_auto_password_def get_auto_password_with_chars_def DEFAULT_SALT_LEN_def)
  have dev: "ps_config (clear_trusted_devices d e now_ms nn x) = ps_config x"
    "ps_file (clear_trusted_devices d e now_ms nn x) = ps_file x" for nn x
    by (simp_all add: clear_trusted_devices_def set_trusted_devices_def Let_def)
  have res: "set_permanent_password d e hard builtin now_ms fr password w =
     (case encode_permanent_password_encrypted_storage_from_h1 d e (fr_storage fr) ?h1 of
        None \<Rightarrow> (False, w\<lparr>ps_config := ?c\<rparr>)
      | Some st \<Rightarrow>
          if st = cf_password ?c then (True, w\<lparr>ps_config := ?c\<rparr>)
          else (True, clear_trusted_devices d e now_ms (fr_devices fr) (store_config d e fr (w\<lparr>ps_config := ?c, ps_config := ?c\<lparr>cf_password := st\<rparr>\<rparr>))))"
    using set changed pw
    by (cases "get_preset_password_storage_and_salt hard")
      (simp add: set_permanent_password_def compute_permanent_password_storage_for_update_def Let_def split: if_splits)
  obtain st where st: "encode_permanent_password_encrypted_storage_from_h1 d e (fr_storage fr) ?h1 = Some st"
    using res set by (cases "encode_permanent_password_encrypted_storage_from_h1 d e (fr_storage fr) ?h1") simp_all
  have "st \<noteq> cf_password ?c"
  proof
    assume "st = cf_password ?c"
    then have "w' = w\<lparr>ps_config := ?c\<rparr>" using res set st by simp
    with changed pc show False by simp
  qed
  then have w': "w' = clear_trusted_devices d e now_ms (fr_devices fr) (store_config d e fr (w\<lparr>ps_config := ?c\<lparr>cf_password := st\<rparr>\<rparr>))"
    using res set st by simp
  have c: "ps_config w' = ?c\<lparr>cf_password := st\<rparr>"
    and f: "ps_file w' = config_store d e (fr_password fr) (fr_id fr) (?c\<lparr>cf_password := st\<rparr>) (ps_file w)"
    by (simp_all add: w' dev store_config_def)
  from h1_storage_decodes [OF ok n length_h1 [OF ok] st] salt
  have "hashed_config d e ?h1 (?c\<lparr>cf_password := st\<rparr>)" by (simp add: hashed_config_def)
  then show ?thesis using hashed_store c f by fastforce
qed

text \<open>
  C29: A permanent password that was set can be used, also after a restart.  After \<open>set_permanent_password\<close> has
  accepted and changed a password, the configuration is written to disk, the program restarted and the
  configuration loaded again, a controlling side that is asked with the salt of the loaded configuration and any
  challenge and types that password sends an answer that is accepted.
\<close>

theorem set_password_then_login:
  assumes "pw_deps_ok d" and "length (fr_storage fr) = SB_NONCEBYTES" and "password \<noteq> []" and "permanent_enabled opt"
    and "set_permanent_password d e hard builtin now_ms fr password w = (True, w')"
    and "cf_password (ps_config w') \<noteq> cf_password (ps_config w)"
    and "w'' = w'\<lparr>ps_config := fst (config_load d e gen n1 n2 (ps_file w')), ps_file := snd (config_load d e gen n1 n2 (ps_file w'))\<rparr>"
    and "lc_hash lc = \<lparr>hs_salt = fst (get_effective_permanent_password_salt d e hard fr' w''), hs_challenge = challenge\<rparr>"
    and "fst (handle_login_from_ui d os_username os_password password remember lc) = SendLogin os_username os_password p"
  shows "validate_password d e opt hard (lc_hash lc) p temporary w'' allow \<noteq> None"
proof -
  let ?h1 = "compute_permanent_password_h1 d password (cf_salt (ps_config w'))"
  have h: "hashed_config d e ?h1 (ps_file w')" and s: "cf_salt (ps_file w') = cf_salt (ps_config w')"
    using set_permanent_password_hashed [OF assms(1,2,3,5,6)] by blast+
  have w'': "hashed_config d e ?h1 (ps_config w'')" "cf_salt (ps_config w'') = cf_salt (ps_config w')"
    using hashed_load [OF h] s assms(7) by simp_all
  have salt: "hs_salt (lc_hash lc) = cf_salt (ps_config w')"
    using hashed_usable(1) [OF w''(1)] w''(2) assms(8) by simp
  have "salted d password (lc_hash lc) = ?h1"
    using pw_deps_okD(1) [OF assms(1)]
    by (simp add: salted_def salt compute_permanent_password_h1_def PERMANENT_PASSWORD_H1_LEN_def)
  then have "p = answer d ?h1 (lc_hash lc)"
    using assms(3,9) by (auto simp: handle_login_from_ui_def Let_def)
  then show ?thesis
    unfolding validate_password_iff using hashed_usable(2) [OF w''(1) assms(4)] by blast
qed

definition demo_fresh :: Fresh where
  "demo_fresh = \<lparr>fr_storage = replicate 24 7, fr_password = replicate 24 8, fr_id = replicate 24 9,
     fr_devices = replicate 24 10, fr_rng = (\<lambda>i. i)\<rparr>"

definition demo_pw_store :: PwStore where
  "demo_pw_store =
     (let c = \<lparr>cf_id = [], cf_enc_id = [], cf_password = [], cf_salt = ''salt''\<rparr> in
      \<lparr>ps_config = c, ps_file = c, ps_trusted = [], ps_devices = ([], True)\<rparr>)"

definition demo_lc :: "Hash \<Rightarrow> LoginConfigHandler" where
  "demo_lc hash =
     \<lparr>lc_id = ''123'', lc_terminal = False, lc_terminal_admin = False, lc_hash = hash, lc_password = [], lc_remember = False,
      lc_config_password = [], lc_options = (\<lambda>_. []), lc_switch_uuid = None, lc_switch_back_allowed = False,
      lc_password_source = SourceUndefined, lc_shared_password = None\<rparr>"

definition demo_set :: "bool \<times> PwStore" where
  "demo_set = set_permanent_password demo_pw_deps demo_pw_env Map.empty Map.empty 0 demo_fresh ''pw'' demo_pw_store"

theorem set_password_then_login_witness:
  "let w' = snd demo_set;
       w'' = w'\<lparr>ps_config := fst (config_load demo_pw_deps demo_pw_env [] [] [] (ps_file w')),
               ps_file := snd (config_load demo_pw_deps demo_pw_env [] [] [] (ps_file w'))\<rparr>;
       hash = \<lparr>hs_salt = fst (get_effective_permanent_password_salt demo_pw_deps demo_pw_env Map.empty demo_fresh w''), hs_challenge = ''abc''\<rparr> in
   validate_password demo_pw_deps demo_pw_env (\<lambda>_. []) Map.empty hash
     (answer demo_pw_deps (salted demo_pw_deps ''pw'' hash) hash) [] w'' False \<noteq> None"
proof -
  let ?d = demo_pw_deps
  let ?e = demo_pw_env
  let ?w' = "snd demo_set"
  let ?w'' = "?w'\<lparr>ps_config := fst (config_load ?d ?e [] [] [] (ps_file ?w')), ps_file := snd (config_load ?d ?e [] [] [] (ps_file ?w'))\<rparr>"
  let ?hash = "\<lparr>hs_salt = fst (get_effective_permanent_password_salt ?d ?e Map.empty demo_fresh ?w''), hs_challenge = ''abc''\<rparr>"
  obtain st where st: "encode_permanent_password_encrypted_storage_from_h1 ?d ?e (fr_storage demo_fresh)
      (compute_permanent_password_h1 ?d ''pw'' ''salt'') = Some st" and "st \<noteq> []"
    using encode_h1_some [OF demo_pw_deps_ok length_h1 [OF demo_pw_deps_ok]] by blast
  then have "fst demo_set \<and> cf_password (ps_config (snd demo_set)) \<noteq> cf_password (ps_config demo_pw_store)"
    by (simp add: demo_set_def demo_pw_store_def set_permanent_password_def is_disable_change_permanent_password_def
        get_preset_password_storage_and_salt_def preset_permanent_password_storage_matches_plain_def
        compute_permanent_password_storage_for_update_def ensure_permanent_password_salt_def store_config_def
        clear_trusted_devices_def set_trusted_devices_def Let_def)
  then have s: "set_permanent_password ?d ?e Map.empty Map.empty 0 demo_fresh ''pw'' demo_pw_store = (True, ?w')"
    and c: "cf_password (ps_config ?w') \<noteq> cf_password (ps_config demo_pw_store)"
    by (simp_all add: demo_set_def prod_eq_iff)
  have n: "length (fr_storage demo_fresh) = SB_NONCEBYTES" by (simp add: demo_fresh_def SB_NONCEBYTES_def)
  have o: "permanent_enabled (\<lambda>_. [])" by (simp add: permanent_enabled_def verification_method_def)
  have h: "lc_hash (demo_lc ?hash) = ?hash" by (simp add: demo_lc_def)
  have p: "fst (handle_login_from_ui ?d [] [] ''pw'' False (demo_lc ?hash)) =
      SendLogin [] [] (answer ?d (salted ?d ''pw'' ?hash) ?hash)"
    by (simp add: handle_login_from_ui_def demo_lc_def Let_def)
  show ?thesis
    using set_password_then_login [OF demo_pw_deps_ok n _ o s c refl h p] h by (simp add: Let_def)
qed

section \<open>Storage that cannot be decrypted\<close>

text \<open>
  C32: A stored permanent password under version \<open>01\<close> that can no longer be decrypted (the machine's uuid has
  changed, or the file was copied) is used as a legacy plain-text password: it counts as usable, and whoever sends
  the stored text itself as the password is let in, while the owner's password is refused unless its salted hash
  equals that of the stored text.
\<close>

theorem locked_storage_is_a_password:
  assumes "starts_with ''01'' (cf_password (ps_config w))"
    and "\<not> fst (snd (decrypt_permanent_password_str_or_original d e (cf_password (ps_config w))))"
    and "verification_method opt = OnlyUsePermanentPassword"
  shows "local_permanent_password_storage_is_usable_for_auth d e (cf_password (ps_config w)) (cf_salt (ps_config w)) \<and>
     (validate_password d e opt hard hash p temporary w allow \<noteq> None \<longleftrightarrow>
        p = answer d (salted d (cf_password (ps_config w)) hash) hash)"
proof -
  let ?st = "cf_password (ps_config w)"
  have ne: "?st \<noteq> []" using assms(1) by (auto simp: starts_with_def)
  have dec: "decode_permanent_password_h1_from_storage d e ?st = None"
    using assms(2) by (auto simp: decode_permanent_password_h1_from_storage_def split: prod.split)
  have use: "local_permanent_password_storage_is_usable_for_auth d e ?st (cf_salt (ps_config w))"
    using ne dec assms(2) starts_with_01 [OF assms(1)]
    by (simp add: local_permanent_password_storage_is_usable_for_auth_def PASSWORD_ENC_VERSION_def split: prod.split)
  have "accepted_h1 d e opt hard hash temporary w allow = {salted d ?st hash}"
    using ne dec use assms(3) by (simp add: accepted_h1_def temporary_enabled_def permanent_enabled_def split: prod.split)
  then show ?thesis using use unfolding validate_password_iff by simp
qed

theorem locked_storage_is_a_password_witness:
  "let w = demo_pw_store\<lparr>ps_config := (ps_config demo_pw_store)\<lparr>cf_password := ''01ab''\<rparr>\<rparr>;
       opt = (\<lambda>k. if k = ''verification-method'' then ''use-permanent-password'' else []);
       hash = \<lparr>hs_salt = ''salt'', hs_challenge = ''abc''\<rparr> in
   validate_password demo_pw_deps demo_pw_env opt Map.empty hash
     (answer demo_pw_deps (salted demo_pw_deps ''01ab'' hash) hash) [] w False \<noteq> None"
proof -
  let ?w = "demo_pw_store\<lparr>ps_config := (ps_config demo_pw_store)\<lparr>cf_password := ''01ab''\<rparr>\<rparr>"
  let ?opt = "\<lambda>k. if k = ''verification-method'' then ''use-permanent-password'' else []"
  have s: "starts_with ''01'' (cf_password (ps_config ?w))" by (simp add: starts_with_def)
  have d: "\<not> fst (snd (decrypt_permanent_password_str_or_original demo_pw_deps demo_pw_env (cf_password (ps_config ?w))))"
    by (simp add: decrypt_permanent_password_str_or_original_def VERSION_LEN_def PERMANENT_PASSWORD_ENC_VERSION_def
        starts_with_def demo_pw_deps_def demo_pw_env_def symmetric_crypt_dec_def open_secretbox_payload_def Let_def
        FORMAT_V1_def SB_NONCEBYTES_def MACBYTES_def flip: str_bytes_drop)
  have v: "verification_method ?opt = OnlyUsePermanentPassword" by (simp add: verification_method_def)
  show ?thesis
    using locked_storage_is_a_password [OF s d v, of Map.empty "\<lparr>hs_salt = ''salt'', hs_challenge = ''abc''\<rparr>"
        "answer demo_pw_deps (salted demo_pw_deps ''01ab'' \<lparr>hs_salt = ''salt'', hs_challenge = ''abc''\<rparr>) \<lparr>hs_salt = ''salt'', hs_challenge = ''abc''\<rparr>" "[]" False]
    by (simp add: Let_def)
qed

section \<open>Rotation of the temporary password\<close>

text \<open>
  A sequence of wrong passwords; after each, whether the temporary password was replaced is read off the
  counter, which is positive otherwise.
\<close>

fun temp_run :: "options \<Rightarrow> (nat \<Rightarrow> nat) list \<Rightarrow> TempPassword \<Rightarrow> nat \<times> TempPassword" where
  "temp_run opt [] tp = (0, tp)"
| "temp_run opt (rng # rngs) tp =
     (let tp' = check_update_temporary_password opt rng False tp; (n, tp'') = temp_run opt rngs tp' in
      (if tp_failures tp' = 0 then Suc n else n, tp''))"

definition tp_tries :: "TempPassword \<Rightarrow> int" where
  "tp_tries tp = (if tp_state_password tp = tp_password tp then tp_failures tp else 0)"

lemma new_temporary_password_not_Nil: "new_temporary_password opt rng \<noteq> []"
  by (simp add: new_temporary_password_def temporary_password_length_def get_auto_numeric_password_def get_auto_password_def
      get_auto_password_with_chars_def Let_def)

lemma check_update_temporary_password_wrong:
  fixes rng :: "nat \<Rightarrow> nat"
  assumes "temporary_enabled opt" and "tp_password tp \<noteq> []" and "0 \<le> tp_tries tp"
  defines "tp' \<equiv> check_update_temporary_password opt rng False tp"
  shows "tp_password tp' = (if tp_tries tp < 9 then tp_password tp else new_temporary_password opt rng)"
    and "tp_failures tp' = (if tp_tries tp < 9 then tp_tries tp + 1 else 0)"
    and "tp_state_password tp' = tp_password tp'"
  using assms by (simp_all add: check_update_temporary_password_def tp_tries_def Let_def MAX_CONSECUTIVE_FAILURES_def)

text \<open>
  No temporary password withstands more than ten wrong guesses in a row: of any sequence of wrong passwords,
  every tenth one since the password was last issued or matched replaces it by a new random one, which is not
  empty, so that the number of replacements is exactly the number of guesses, with those already counted, divided
  by ten.
\<close>

theorem temporary_password_rotation:
  assumes "temporary_enabled opt" and "tp_password tp \<noteq> []" and "0 \<le> tp_tries tp" and "tp_tries tp < 10"
  shows "fst (temp_run opt rngs tp) = (nat (tp_tries tp) + length rngs) div 10 \<and>
     tp_password (snd (temp_run opt rngs tp)) \<noteq> []"
  using assms
proof (induction rngs arbitrary: tp)
  case (Cons rng rngs)
  let ?tp = "check_update_temporary_password opt rng False tp"
  note c = check_update_temporary_password_wrong [OF Cons.prems(1,2,3), of rng]
  have t: "tp_tries ?tp = (if tp_tries tp < 9 then tp_tries tp + 1 else 0)" by (simp add: tp_tries_def c)
  have "fst (temp_run opt rngs ?tp) = (nat (tp_tries ?tp) + length rngs) div 10 \<and> tp_password (snd (temp_run opt rngs ?tp)) \<noteq> []"
    using Cons.prems c(1) t new_temporary_password_not_Nil by (intro Cons.IH) auto
  moreover have "nat (tp_tries tp) = 9" if "\<not> tp_tries tp < 9" using that Cons.prems by linarith
  ultimately show ?case
    using t c(2) Cons.prems(3) div_add_self1 [of 10 "length rngs"]
    by (simp add: Let_def case_prod_unfold nat_add_distrib)
qed simp

theorem temporary_password_rotation_witness:
  "fst (temp_run (\<lambda>_. []) (replicate 25 (\<lambda>i. i)) \<lparr>tp_password = ''abc'', tp_state_password = [], tp_failures = 0\<rparr>) = 2"
  using temporary_password_rotation [of "\<lambda>_. []" "\<lparr>tp_password = ''abc'', tp_state_password = [], tp_failures = 0\<rparr>" "replicate 25 (\<lambda>i. i)"]
  by (simp add: temporary_enabled_def verification_method_def tp_tries_def)

end
