(* ===== verification/Paths.thy ===== *)
theory Paths
  imports Prelude
begin

text \<open>
  Unix paths as \<open>std::path\<close> reads them: a path is its text, and two paths are equal when their components are.  Used by
  the log of removed files (\<open>src/src/server/connection.rs\<close>) and by file transfers
  (\<open>src/libs/hbb_common/src/fs.rs\<close>).
\<close>

section \<open>Splitting\<close>

lemma split_char_nonempty [simp]: "split_char c s \<noteq> []"
  by (induction s) (auto split: list.split)

lemma split_char_sep: "split_char c (xs @ c # ys) = split_char c xs @ split_char c ys"
  by (induction xs) (auto split: list.split)

lemma split_char_none: "c \<notin> set xs \<Longrightarrow> split_char c xs = [xs]"
  by (induction xs) auto

lemma split_char_append:
  assumes "c \<notin> set ys"
  shows "split_char c (xs @ ys) = butlast (split_char c xs) @ [last (split_char c xs) @ ys]"
proof (induction xs)
  case Nil
  then show ?case using split_char_none [OF assms] by simp
next
  case (Cons x xs)
  obtain f fs where s: "split_char c xs = f # fs" by (cases "split_char c xs") auto
  then show ?case using Cons by (cases fs) auto
qed

section \<open>Components\<close>

datatype component = RootDir | CurDir | ParentDir | Normal string

definition piece :: "string \<Rightarrow> component list" where
  "piece s = (if s = [] \<or> s = ''.'' then [] else if s = ''..'' then [ParentDir] else [Normal s])"

definition pieces :: "string list \<Rightarrow> component list" where
  "pieces ss = concat (map piece ss)"

text \<open>A dot only counts at the very beginning of a relative path.\<close>

definition components :: "string \<Rightarrow> component list" where
  "components p =
     (let ss = split_char (CHR ''/'') p in
      (if take 1 p = ''/'' then [RootDir] else if hd ss = ''.'' then [CurDir] else []) @ pieces ss)"

definition path_eq :: "string \<Rightarrow> string \<Rightarrow> bool" where
  "path_eq p q \<longleftrightarrow> components p = components q"

definition parent :: "component list \<Rightarrow> component list option" where
  "parent cs = (if cs = [] \<or> last cs = RootDir then None else Some (butlast cs))"

fun component_text :: "component \<Rightarrow> string" where
  "component_text RootDir = []"
| "component_text CurDir = ''.''"
| "component_text ParentDir = ''..''"
| "component_text (Normal s) = s"

text \<open>A text with the given components.\<close>

fun path_text :: "component list \<Rightarrow> string" where
  "path_text [] = []"
| "path_text [c] = (if c = RootDir then ''/'' else component_text c)"
| "path_text (c # cs) = component_text c @ ''/'' @ path_text cs"

text \<open>\<open>PathBuf::join\<close>.\<close>

definition path_join :: "string \<Rightarrow> string \<Rightarrow> string" where
  "path_join p q =
     (if take 1 q = ''/'' then q
      else if p = [] \<or> last p = CHR ''/'' then p @ q
      else p @ ''/'' @ q)"

lemma pieces_append [simp]: "pieces (xs @ ys) = pieces xs @ pieces ys"
  by (simp add: pieces_def)

lemma pieces_simps [simp]: "pieces [] = []" "pieces (x # xs) = piece x @ pieces xs"
  by (simp_all add: pieces_def)

lemma components_empty [simp]: "components [] = []"
  by (simp add: components_def piece_def)

text \<open>Joining a relative path that does not start with a dot appends its components.\<close>

lemma hd_split_append: "hd (split_char c (xs @ c # ys)) = hd (split_char c xs)"
  by (simp add: split_char_sep)

lemma components_slash:
  assumes "p \<noteq> []"
  shows "components (p @ CHR ''/'' # q) = components p @ pieces (split_char (CHR ''/'') q)"
proof -
  have "take 1 (p @ CHR ''/'' # q) = take 1 p" using assms by (cases p) simp_all
  then show ?thesis unfolding components_def Let_def split_char_sep by simp
qed

lemma components_join:
  assumes "take 1 q \<noteq> ''/''" "p \<noteq> []"
  shows "components (path_join p q) = components p @ pieces (split_char (CHR ''/'') q)"
proof (cases "last p = CHR ''/''")
  case False
  then show ?thesis using assms components_slash [OF assms(2), of q] by (simp add: path_join_def)
next
  case True
  then obtain r where p: "p = r @ ''/''" using assms(2) by (metis append_butlast_last_id)
  have q: "path_join p q = r @ CHR ''/'' # q" using assms True p by (simp add: path_join_def)
  show ?thesis
  proof (cases "r = []")
    case True
    then show ?thesis using p q by (simp add: components_def piece_def Let_def)
  next
    case False
    have "components p = components r" using components_slash [OF False, of "[]"] p by (simp add: piece_def)
    then show ?thesis using components_slash [OF False, of q] q by simp
  qed
qed

end
