(* ===== verification/File_Log.thy ===== *)
theory File_Log
  imports Paths
begin

text \<open>
  The log of removed files and directories of a file transfer session (\<open>FileRemoveLogControl\<close> of
  \<open>src/src/server/connection.rs\<close>): removals are collected and handed to the connection manager once no removal came
  in for a second.
\<close>

section \<open>Model\<close>

record FileRemoveFile =
  rf_file_id :: int
  rf_file_path :: string
  rf_file_num :: int

record FileRemoveDir =
  rd_dir_id :: int
  rd_dir_path :: string
  rd_recursive :: bool

record FileActionLog =
  fal_id :: int
  fal_conn_id :: int
  fal_path :: string
  fal_dir :: bool

record FileRemoveLogControl =
  rc_conn_id :: int
  rc_instant :: nat
  rc_removed_files :: "FileRemoveFile list"
  rc_removed_dirs :: "FileRemoveDir list"

definition FileRemoveLogControl_new :: "nat \<Rightarrow> int \<Rightarrow> FileRemoveLogControl" where
  "FileRemoveLogControl_new now conn_id =
     \<lparr>rc_conn_id = conn_id, rc_instant = now, rc_removed_files = [], rc_removed_dirs = []\<rparr>"

definition file_log :: "int \<Rightarrow> FileRemoveFile \<Rightarrow> FileActionLog" where
  "file_log conn_id f = \<lparr>fal_id = rf_file_id f, fal_conn_id = conn_id, fal_path = rf_file_path f, fal_dir = False\<rparr>"

definition dir_log :: "int \<Rightarrow> FileRemoveDir \<Rightarrow> FileActionLog" where
  "dir_log conn_id d = \<lparr>fal_id = rd_dir_id d, fal_conn_id = conn_id, fal_path = rd_dir_path d, fal_dir = True\<rparr>"

definition on_remove_file :: "nat \<Rightarrow> FileRemoveFile \<Rightarrow> FileRemoveLogControl \<Rightarrow> FileActionLog \<times> FileRemoveLogControl" where
  "on_remove_file now f rc =
     (file_log (rc_conn_id rc) f, rc\<lparr>rc_instant := now, rc_removed_files := rc_removed_files rc @ [f]\<rparr>)"

definition direct_child :: "string \<Rightarrow> string \<Rightarrow> bool" where
  "direct_child par child \<longleftrightarrow> parent (components child) = Some (components par)"

definition on_remove_dir :: "nat \<Rightarrow> FileRemoveDir \<Rightarrow> FileRemoveLogControl \<Rightarrow> FileActionLog \<times> FileRemoveLogControl" where
  "on_remove_dir now d rc =
     (let files = filter (\<lambda>f. \<not> direct_child (rf_file_path f) (rd_dir_path d)) (rc_removed_files rc);
          dirs = filter (\<lambda>x. \<not> direct_child (rd_dir_path d) (rd_dir_path x)) (rc_removed_dirs rc);
          dirs = (if \<not> list_ex (\<lambda>x. direct_child (rd_dir_path x) (rd_dir_path d)) dirs then dirs @ [d] else dirs) in
      (dir_log (rc_conn_id rc) d, rc\<lparr>rc_instant := now, rc_removed_files := files, rc_removed_dirs := dirs\<rparr>))"

definition on_timer :: "nat \<Rightarrow> FileRemoveLogControl \<Rightarrow> FileActionLog list \<times> FileRemoveLogControl" where
  "on_timer now rc =
     (if (now - rc_instant rc) div 1000000000 < 1 then ([], rc)
      else (map (file_log (rc_conn_id rc)) (rc_removed_files rc) @ map (dir_log (rc_conn_id rc)) (rc_removed_dirs rc),
            rc\<lparr>rc_removed_files := [], rc_removed_dirs := []\<rparr>))"

section \<open>What is logged\<close>

datatype removal = RmFile FileRemoveFile | RmDir FileRemoveDir

fun removals :: "(nat \<times> removal) list \<Rightarrow> FileRemoveLogControl \<Rightarrow> FileRemoveLogControl" where
  "removals [] rc = rc"
| "removals ((now, RmFile f) # ops) rc = removals ops (snd (on_remove_file now f rc))"
| "removals ((now, RmDir d) # ops) rc = removals ops (snd (on_remove_dir now d rc))"

fun files_of :: "(nat \<times> removal) list \<Rightarrow> FileRemoveFile list" where
  "files_of [] = []"
| "files_of ((_, RmFile f) # ops) = f # files_of ops"
| "files_of ((_, RmDir _) # ops) = files_of ops"

fun dirs_of :: "(nat \<times> removal) list \<Rightarrow> FileRemoveDir list" where
  "dirs_of [] = []"
| "dirs_of ((_, RmFile _) # ops) = dirs_of ops"
| "dirs_of ((_, RmDir d) # ops) = d # dirs_of ops"

definition covered :: "FileRemoveDir set \<Rightarrow> FileRemoveDir list \<Rightarrow> bool" where
  "covered D ds \<longleftrightarrow> set ds \<subseteq> D \<and>
     (\<forall>d. d \<in> D \<longrightarrow> d \<in> set ds \<or> (\<exists>d'. d' \<in> D \<and> direct_child (rd_dir_path d') (rd_dir_path d)))"

lemma covered_remove_dir:
  assumes "covered D (rc_removed_dirs rc)"
  shows "covered (insert d D) (rc_removed_dirs (snd (on_remove_dir now d rc)))"
  using assms unfolding covered_def on_remove_dir_def Let_def by (auto simp: list_ex_iff)

lemma removals_dirs:
  "covered D (rc_removed_dirs rc) \<Longrightarrow> covered (D \<union> set (dirs_of ops)) (rc_removed_dirs (removals ops rc))"
proof (induction ops rc arbitrary: D rule: removals.induct)
  case (3 now d ops rc)
  from "3.IH" [OF covered_remove_dir [OF "3.prems"]] show ?case by simp
qed (simp_all add: on_remove_file_def)

lemma removals_files:
  assumes "list_all (\<lambda>f. list_all (\<lambda>d. \<not> direct_child (rf_file_path f) (rd_dir_path d)) (dirs_of ops)) (rc_removed_files rc @ files_of ops)"
  shows "rc_removed_files (removals ops rc) = rc_removed_files rc @ files_of ops"
  using assms
proof (induction ops rc rule: removals.induct)
  case (2 now f ops rc)
  then show ?case by (simp add: on_remove_file_def)
next
  case (3 now d ops rc)
  have "filter (\<lambda>f. \<not> direct_child (rf_file_path f) (rd_dir_path d)) (rc_removed_files rc) = rc_removed_files rc"
    using "3.prems" by (auto simp: list_all_iff intro!: filter_True)
  then show ?case using 3 by (simp add: on_remove_dir_def Let_def list_all_iff)
qed simp

lemma removals_frame [simp]:
  "rc_conn_id (removals ops rc) = rc_conn_id rc"
  "rc_instant (removals ops rc) = (if ops = [] then rc_instant rc else fst (last ops))"
  by (induction ops rc rule: removals.induct) (auto simp: on_remove_file_def on_remove_dir_def Let_def)


definition demo_removals :: "(nat \<times> removal) list" where
  "demo_removals =
     [(1, RmFile \<lparr>rf_file_id = 1, rf_file_path = ''/tmp/d/a'', rf_file_num = 0\<rparr>),
      (2, RmDir \<lparr>rd_dir_id = 2, rd_dir_path = ''/tmp/d'', rd_recursive = False\<rparr>)]"


end
