(* ===== verification/Session_Scope.thy ===== *)
theory Session_Scope
  imports Prelude
begin

text \<open>
  The messages of a session and what each kind of session may send.
  \<open>src/libs/hbb_common/protos/message.proto\<close> gives the messages; \<open>src/src/server/connection.rs\<close> classifies
  them: after a login a connection has one \<open>AuthConnType\<close>, and \<open>authorized_message_scope_violation\<close> lets
  a session that is not a remote-control session send its own family of messages only, with option updates
  filtered to the fields that belong to the session (\<open>scoped_view_camera_option\<close>,
  \<open>scoped_terminal_login_option\<close>).

  A protobuf enum field holds an \<open>i32\<close> that need not be a value of the enum (\<open>EnumOrUnknown\<close>); the fields
  are integers here and \<open>bool_option\<close>, \<open>image_quality_value\<close> read them.  A payload that the handlers only hand on
  is a byte string.  The scope rules are those of a Linux build (\<open>SelectedSid\<close> is a Windows message).
\<close>

section \<open>Messages\<close>

datatype AuthConnType = Remote | FileTransfer | PortForward | ViewCamera | Terminal

datatype BoolOption = BoNotSet | BoNo | BoYes

datatype ImageQuality = IqNotSet | IqLow | IqBalanced | IqBest

definition bool_option :: "int \<Rightarrow> BoolOption option" where
  "bool_option v = (if v = 0 then Some BoNotSet else if v = 1 then Some BoNo else if v = 2 then Some BoYes else None)"

definition image_quality_value :: "int \<Rightarrow> ImageQuality option" where
  "image_quality_value v =
     (if v = 0 then Some IqNotSet else if v = 2 then Some IqLow
      else if v = 3 then Some IqBalanced else if v = 4 then Some IqBest else None)"

record OptionMessage =
  om_image_quality :: int
  om_lock_after_session_end :: int
  om_show_remote_cursor :: int
  om_privacy_mode :: int
  om_block_input :: int
  om_custom_image_quality :: int
  om_disable_audio :: int
  om_disable_clipboard :: int
  om_enable_file_transfer :: int
  om_supported_decoding :: "bytes option"
  om_custom_fps :: int
  om_disable_keyboard :: int
  om_follow_remote_cursor :: int
  om_follow_remote_window :: int
  om_disable_camera :: int
  om_terminal_persistent :: int
  om_show_my_cursor :: int

definition OptionMessage_new :: OptionMessage where
  "OptionMessage_new = \<lparr>om_image_quality = 0, om_lock_after_session_end = 0, om_show_remote_cursor = 0,
     om_privacy_mode = 0, om_block_input = 0, om_custom_image_quality = 0, om_disable_audio = 0,
     om_disable_clipboard = 0, om_enable_file_transfer = 0, om_supported_decoding = None, om_custom_fps = 0,
     om_disable_keyboard = 0, om_follow_remote_cursor = 0, om_follow_remote_window = 0, om_disable_camera = 0,
     om_terminal_persistent = 0, om_show_my_cursor = 0\<rparr>"

datatype LoginUnion =
    LuFileTransfer string bool
  | LuPortForward string int
  | LuViewCamera
  | LuTerminal string

record OSLogin =
  osl_username :: string
  osl_password :: string

record LoginRequest =
  lr_username :: string
  lr_password :: bytes
  lr_my_id :: string
  lr_my_name :: string
  lr_option :: "OptionMessage option"
  lr_union :: "LoginUnion option"
  lr_video_ack_required :: bool
  lr_session_id :: int
  lr_version :: string
  lr_os_login :: "OSLogin option"
  lr_my_platform :: string
  lr_hwid :: bytes

definition LoginRequest_default :: LoginRequest where
  "LoginRequest_default = \<lparr>lr_username = [], lr_password = [], lr_my_id = [], lr_my_name = [],
     lr_option = None, lr_union = None, lr_video_ack_required = False, lr_session_id = 0, lr_version = [],
     lr_os_login = None, lr_my_platform = [], lr_hwid = []\<rparr>"

record TestDelay =
  tdl_time :: int
  tdl_from_client :: bool
  tdl_last_delay :: int
  tdl_target_bitrate :: int

record MouseEvent =
  me_mask :: int
  me_x :: int
  me_y :: int
  me_modifiers :: "int list"

datatype KeyUnion = KuControlKey int | KuChr int | KuUnicode int | KuSeq string | KuWin2WinHotkey int

record KeyEvent =
  ke_down :: bool
  ke_press :: bool
  ke_union :: "KeyUnion option"
  ke_modifiers :: "int list"
  ke_mode :: int

record FileEntry =
  fe_entry_type :: int
  fe_name :: string
  fe_is_hidden :: bool
  fe_size :: nat
  fe_modified_time :: nat

definition FileEntry_default :: FileEntry where
  "FileEntry_default = \<lparr>fe_entry_type = 0, fe_name = [], fe_is_hidden = False, fe_size = 0, fe_modified_time = 0\<rparr>"

datatype ConfirmUnion = CuSkip bool | CuOffsetBlk nat

record FileTransferSendConfirmRequest =
  sc_id :: int
  sc_file_num :: int
  sc_union :: "ConfirmUnion option"

record FileTransferDigest =
  dg_id :: int
  dg_file_num :: int
  dg_last_modified :: nat
  dg_file_size :: nat
  dg_is_upload :: bool
  dg_is_identical :: bool
  dg_transferred_size :: nat
  dg_is_resume :: bool

record FileTransferBlock =
  bk_id :: int
  bk_file_num :: int
  bk_data :: bytes
  bk_compressed :: bool

datatype FileAction =
    FaReadDir string bool
  | FaSend int string bool int int
  | FaReceive int string int "FileEntry list" nat
  | FaCreate int string
  | FaRemoveDir int string bool
  | FaRemoveFile int string int
  | FaAllFiles int string bool
  | FaCancel int
  | FaSendConfirm FileTransferSendConfirmRequest
  | FaRename int string string
  | FaReadEmptyDirs string bool

datatype FileResponse =
    FrDir int string "FileEntry list"
  | FrBlock FileTransferBlock
  | FrError int string int
  | FrDone int int
  | FrDigest FileTransferDigest
  | FrEmptyDirs

text \<open>The file clipboard: a list of files, which is only audited, or one of the messages \<open>msg_2_clip\<close> translates.\<close>

datatype Cliprdr = CpFiles "(string \<times> int) list" | CpClip bytes | CpUnset

datatype JobType = JobGeneric | JobPrinter

definition JobType_from_proto :: "int \<Rightarrow> JobType" where
  "JobType_from_proto t = (if t = 1 then JobPrinter else JobGeneric)"

datatype Misc =
    McChatMessage string
  | McSwitchDisplay int int int
  | McPermissionInfo
  | McOption OptionMessage
  | McAudioFormat bytes
  | McCloseReason string
  | McRefreshVideo bool
  | McVideoReceived bool
  | McBackNotification
  | McRestartRemoteDevice bool
  | McUac bool
  | McForegroundWindowElevated bool
  | McStopService bool
  | McElevationRequest bytes
  | McElevationResponse string
  | McPortableServiceRunning bool
  | McSwitchSidesRequest bytes
  | McSwitchBack
  | McChangeResolution int int
  | McPluginRequest bytes
  | McPluginFailure bytes
  | McFullSpeedFps int
  | McAutoAdjustFps int
  | McClientRecordStatus bool
  | McCaptureDisplays "int list" "int list" "int list"
  | McRefreshVideoDisplay int
  | McToggleVirtualDisplay int bool
  | McTogglePrivacyMode string bool
  | McSupportedEncoding bytes
  | McSelectedSid int
  | McChangeDisplayResolution int int int
  | McMessageQuery int
  | McFollowCurrentDisplay int

datatype Message =
    MSignedId bytes
  | MPublicKey bytes
  | MTestDelay TestDelay
  | MVideoFrame bytes
  | MLoginRequest LoginRequest
  | MLoginResponse bytes
  | MHash bytes
  | MMouseEvent MouseEvent
  | MAudioFrame bytes
  | MCursorData bytes
  | MCursorPosition bytes
  | MCursorId int
  | MKeyEvent KeyEvent
  | MClipboard bytes
  | MFileAction "FileAction option"
  | MFileResponse "FileResponse option"
  | MMisc "Misc option"
  | MCliprdr Cliprdr
  | MMessageBox bytes
  | MSwitchSidesResponse bytes "LoginRequest option"
  | MVoiceCallRequest bool int
  | MVoiceCallResponse
  | MPeerInfo bytes
  | MPointerDeviceEvent bytes
  | MAuth2fa string bytes
  | MMultiClipboards "bytes list"
  | MScreenshotRequest int string
  | MScreenshotResponse bytes
  | MTerminalAction bytes
  | MTerminalResponse bytes

text \<open>A message of the wire: its \<open>union\<close> may be absent (or a field this version does not know).\<close>

type_synonym wire_message = "Message option"

section \<open>Option messages per session\<close>

definition is_bool_option_not_set :: "int \<Rightarrow> bool" where
  "is_bool_option_not_set v \<longleftrightarrow> bool_option v = Some BoNotSet"

definition option_has_non_view_camera_login_field :: "OptionMessage \<Rightarrow> bool" where
  "option_has_non_view_camera_login_field option \<longleftrightarrow>
     \<not> (is_bool_option_not_set (om_lock_after_session_end option)
        \<and> is_bool_option_not_set (om_show_remote_cursor option)
        \<and> is_bool_option_not_set (om_privacy_mode option)
        \<and> is_bool_option_not_set (om_block_input option)
        \<and> is_bool_option_not_set (om_disable_clipboard option)
        \<and> is_bool_option_not_set (om_enable_file_transfer option)
        \<and> is_bool_option_not_set (om_disable_keyboard option)
        \<and> is_bool_option_not_set (om_follow_remote_cursor option)
        \<and> is_bool_option_not_set (om_follow_remote_window option)
        \<and> is_bool_option_not_set (om_disable_camera option)
        \<and> is_bool_option_not_set (om_terminal_persistent option)
        \<and> is_bool_option_not_set (om_show_my_cursor option))"

definition option_has_non_terminal_login_field :: "OptionMessage \<Rightarrow> bool" where
  "option_has_non_terminal_login_field option \<longleftrightarrow>
     image_quality_value (om_image_quality option) \<noteq> Some IqNotSet
     \<or> om_custom_image_quality option \<noteq> 0
     \<or> om_custom_fps option \<noteq> 0
     \<or> om_supported_decoding option \<noteq> None
     \<or> \<not> is_bool_option_not_set (om_lock_after_session_end option)
     \<or> \<not> is_bool_option_not_set (om_show_remote_cursor option)
     \<or> \<not> is_bool_option_not_set (om_privacy_mode option)
     \<or> \<not> is_bool_option_not_set (om_block_input option)
     \<or> \<not> is_bool_option_not_set (om_disable_audio option)
     \<or> \<not> is_bool_option_not_set (om_disable_clipboard option)
     \<or> \<not> is_bool_option_not_set (om_enable_file_transfer option)
     \<or> \<not> is_bool_option_not_set (om_disable_keyboard option)
     \<or> \<not> is_bool_option_not_set (om_follow_remote_cursor option)
     \<or> \<not> is_bool_option_not_set (om_follow_remote_window option)
     \<or> \<not> is_bool_option_not_set (om_disable_camera option)
     \<or> \<not> is_bool_option_not_set (om_show_my_cursor option)"

definition option_has_any_field :: "OptionMessage \<Rightarrow> bool" where
  "option_has_any_field option \<longleftrightarrow>
     option_has_non_terminal_login_field option \<or> \<not> is_bool_option_not_set (om_terminal_persistent option)"

text \<open>Rust's \<open>bool::then_some\<close>.\<close>

definition then_some :: "bool \<Rightarrow> 'a \<Rightarrow> 'a option" where
  "then_some b x = (if b then Some x else None)"

definition scoped_view_camera_option :: "OptionMessage \<Rightarrow> OptionMessage option \<times> string option" where
  "scoped_view_camera_option option =
     (let scoped = OptionMessage_new;
          scoped = (if image_quality_value (om_image_quality option) \<noteq> None
                    then scoped\<lparr>om_image_quality := om_image_quality option\<rparr> else scoped);
          scoped = (if om_custom_image_quality option \<ge> 0
                    then scoped\<lparr>om_custom_image_quality := om_custom_image_quality option\<rparr> else scoped);
          scoped = (if om_custom_fps option \<ge> 0
                    then scoped\<lparr>om_custom_fps := om_custom_fps option\<rparr> else scoped);
          scoped = scoped\<lparr>om_supported_decoding := om_supported_decoding option\<rparr>;
          scoped = (if bool_option (om_disable_audio option) \<noteq> None
                    then scoped\<lparr>om_disable_audio := om_disable_audio option\<rparr> else scoped);
          violation = option_has_non_view_camera_login_field option in
      (then_some (option_has_any_field scoped) scoped, then_some violation ''login.option''))"

definition scoped_terminal_login_option :: "OptionMessage \<Rightarrow> OptionMessage option \<times> string option" where
  "scoped_terminal_login_option option =
     (let scoped = OptionMessage_new;
          (scoped, violation) =
            (case bool_option (om_terminal_persistent option) of
               Some _ \<Rightarrow> (scoped\<lparr>om_terminal_persistent := om_terminal_persistent option\<rparr>, False)
             | None \<Rightarrow> (scoped, True));
          violation = (violation \<or> option_has_non_terminal_login_field option) in
      (then_some (option_has_any_field scoped) scoped, then_some violation ''login.option''))"

fun scoped_login_option :: "AuthConnType \<Rightarrow> OptionMessage \<Rightarrow> OptionMessage option \<times> string option" where
  "scoped_login_option Remote option = (Some option, None)"
| "scoped_login_option ViewCamera option = scoped_view_camera_option option"
| "scoped_login_option Terminal option = scoped_terminal_login_option option"
| "scoped_login_option FileTransfer option = (None, then_some (option_has_any_field option) ''login.option'')"
| "scoped_login_option PortForward option = (None, then_some (option_has_any_field option) ''login.option'')"

fun scoped_update_option_message :: "AuthConnType option \<Rightarrow> OptionMessage \<Rightarrow> OptionMessage option" where
  "scoped_update_option_message (Some ViewCamera) option = fst (scoped_view_camera_option option)"
| "scoped_update_option_message (Some Terminal) option = fst (scoped_terminal_login_option option)"
| "scoped_update_option_message _ option = None"

definition is_terminal_scoped_option :: "OptionMessage \<Rightarrow> bool" where
  "is_terminal_scoped_option option \<longleftrightarrow> snd (scoped_terminal_login_option option) = None"

definition is_view_camera_scoped_option :: "OptionMessage \<Rightarrow> bool" where
  "is_view_camera_scoped_option option \<longleftrightarrow> snd (scoped_view_camera_option option) = None"

definition is_supported_decoding_only_option :: "OptionMessage \<Rightarrow> bool" where
  "is_supported_decoding_only_option option \<longleftrightarrow>
     om_supported_decoding option \<noteq> None
     \<and> image_quality_value (om_image_quality option) = Some IqNotSet
     \<and> om_custom_image_quality option = 0
     \<and> om_custom_fps option = 0
     \<and> is_bool_option_not_set (om_lock_after_session_end option)
     \<and> is_bool_option_not_set (om_show_remote_cursor option)
     \<and> is_bool_option_not_set (om_privacy_mode option)
     \<and> is_bool_option_not_set (om_block_input option)
     \<and> is_bool_option_not_set (om_disable_audio option)
     \<and> is_bool_option_not_set (om_disable_clipboard option)
     \<and> is_bool_option_not_set (om_enable_file_transfer option)
     \<and> is_bool_option_not_set (om_disable_keyboard option)
     \<and> is_bool_option_not_set (om_follow_remote_cursor option)
     \<and> is_bool_option_not_set (om_follow_remote_window option)
     \<and> is_bool_option_not_set (om_disable_camera option)
     \<and> is_bool_option_not_set (om_terminal_persistent option)
     \<and> is_bool_option_not_set (om_show_my_cursor option)"

section \<open>Messages per session\<close>

fun is_render_broadcast_noop_compat_message :: "wire_message \<Rightarrow> bool" where
  "is_render_broadcast_noop_compat_message (Some (MMisc (Some (McRefreshVideo _)))) = True"
| "is_render_broadcast_noop_compat_message (Some (MMisc (Some (McRefreshVideoDisplay _)))) = True"
| "is_render_broadcast_noop_compat_message (Some (MMisc (Some (McOption option)))) =
     is_supported_decoding_only_option option"
| "is_render_broadcast_noop_compat_message _ = False"

fun is_text_clipboard_noop_compat_message :: "wire_message \<Rightarrow> bool" where
  "is_text_clipboard_noop_compat_message (Some (MClipboard _)) = True"
| "is_text_clipboard_noop_compat_message (Some (MMultiClipboards _)) = True"
| "is_text_clipboard_noop_compat_message _ = False"

fun is_connection_housekeeping_message :: "wire_message \<Rightarrow> bool" where
  "is_connection_housekeeping_message (Some (MLoginRequest _)) = True"
| "is_connection_housekeeping_message (Some (MTestDelay _)) = True"
| "is_connection_housekeeping_message (Some (MMisc (Some (McCloseReason _)))) = True"
| "is_connection_housekeeping_message _ = False"

definition is_file_transfer_scoped_misc :: "Misc option \<Rightarrow> bool" where
  "is_file_transfer_scoped_misc misc = False"

fun is_file_transfer_scoped_message :: "wire_message \<Rightarrow> bool" where
  "is_file_transfer_scoped_message (Some (MFileAction _)) = True"
| "is_file_transfer_scoped_message (Some (MFileResponse _)) = True"
| "is_file_transfer_scoped_message (Some (MMisc misc)) = is_file_transfer_scoped_misc misc"
| "is_file_transfer_scoped_message _ = False"

fun is_terminal_scoped_misc :: "Misc option \<Rightarrow> bool" where
  "is_terminal_scoped_misc (Some (McChatMessage _)) = True"
| "is_terminal_scoped_misc (Some (McOption option)) = is_terminal_scoped_option option"
| "is_terminal_scoped_misc _ = False"

fun is_terminal_scoped_message :: "wire_message \<Rightarrow> bool" where
  "is_terminal_scoped_message (Some (MTerminalAction _)) = True"
| "is_terminal_scoped_message (Some (MMisc misc)) = is_terminal_scoped_misc misc"
| "is_terminal_scoped_message _ = False"

fun is_view_camera_scoped_misc :: "Misc option \<Rightarrow> bool" where
  "is_view_camera_scoped_misc (Some (McSwitchDisplay _ _ _)) = True"
| "is_view_camera_scoped_misc (Some (McCaptureDisplays _ _ _)) = True"
| "is_view_camera_scoped_misc (Some (McRefreshVideo _)) = True"
| "is_view_camera_scoped_misc (Some (McRefreshVideoDisplay _)) = True"
| "is_view_camera_scoped_misc (Some (McVideoReceived _)) = True"
| "is_view_camera_scoped_misc (Some (McChatMessage _)) = True"
| "is_view_camera_scoped_misc (Some (McAudioFormat _)) = True"
| "is_view_camera_scoped_misc (Some (McClientRecordStatus _)) = True"
| "is_view_camera_scoped_misc (Some (McMessageQuery _)) = True"
| "is_view_camera_scoped_misc (Some (McTogglePrivacyMode _ _)) = True"
| "is_view_camera_scoped_misc (Some (McToggleVirtualDisplay _ _)) = True"
| "is_view_camera_scoped_misc (Some (McChangeResolution _ _)) = True"
| "is_view_camera_scoped_misc (Some (McChangeDisplayResolution _ _ _)) = True"
| "is_view_camera_scoped_misc (Some (McOption option)) = is_view_camera_scoped_option option"
| "is_view_camera_scoped_misc _ = False"

fun is_view_camera_scoped_message :: "wire_message \<Rightarrow> bool" where
  "is_view_camera_scoped_message (Some (MScreenshotRequest _ _)) = True"
| "is_view_camera_scoped_message (Some (MMisc misc)) = is_view_camera_scoped_misc misc"
| "is_view_camera_scoped_message (Some (MMouseEvent _)) = True"
| "is_view_camera_scoped_message (Some (MPointerDeviceEvent _)) = True"
| "is_view_camera_scoped_message (Some (MKeyEvent _)) = True"
| "is_view_camera_scoped_message (Some (MAudioFrame _)) = True"
| "is_view_camera_scoped_message (Some (MVoiceCallRequest _ _)) = True"
| "is_view_camera_scoped_message (Some MVoiceCallResponse) = True"
| "is_view_camera_scoped_message _ = False"

fun misc_message_family :: "Misc option \<Rightarrow> string" where
  "misc_message_family (Some (McChatMessage _)) = ''misc.chat_message''"
| "misc_message_family (Some (McSwitchDisplay _ _ _)) = ''misc.switch_display''"
| "misc_message_family (Some (McOption _)) = ''misc.option''"
| "misc_message_family (Some (McAudioFormat _)) = ''misc.audio_format''"
| "misc_message_family (Some (McCaptureDisplays _ _ _)) = ''misc.capture_displays''"
| "misc_message_family (Some (McClientRecordStatus _)) = ''misc.client_record_status''"
| "misc_message_family (Some (McTogglePrivacyMode _ _)) = ''misc.toggle_privacy_mode''"
| "misc_message_family (Some (McToggleVirtualDisplay _ _)) = ''misc.toggle_virtual_display''"
| "misc_message_family (Some (McSelectedSid _)) = ''misc.selected_sid''"
| "misc_message_family (Some (McChangeResolution _ _)) = ''misc.change_resolution''"
| "misc_message_family (Some (McChangeDisplayResolution _ _ _)) = ''misc.change_display_resolution''"
| "misc_message_family (Some (McMessageQuery _)) = ''misc.message_query''"
| "misc_message_family (Some (McFollowCurrentDisplay _)) = ''misc.follow_current_display''"
| "misc_message_family (Some _) = ''misc.other''"
| "misc_message_family None = ''misc.empty''"

fun message_family :: "wire_message \<Rightarrow> string" where
  "message_family (Some (MMouseEvent _)) = ''mouse_event''"
| "message_family (Some (MAudioFrame _)) = ''audio_frame''"
| "message_family (Some (MPointerDeviceEvent _)) = ''pointer_device_event''"
| "message_family (Some (MKeyEvent _)) = ''key_event''"
| "message_family (Some (MClipboard _)) = ''clipboard''"
| "message_family (Some (MFileAction _)) = ''file_action''"
| "message_family (Some (MFileResponse _)) = ''file_response''"
| "message_family (Some (MVoiceCallRequest _ _)) = ''voice_call_request''"
| "message_family (Some MVoiceCallResponse) = ''voice_call_response''"
| "message_family (Some (MMultiClipboards _)) = ''multi_clipboards''"
| "message_family (Some (MScreenshotRequest _ _)) = ''screenshot_request''"
| "message_family (Some (MScreenshotResponse _)) = ''screenshot_response''"
| "message_family (Some (MTerminalAction _)) = ''terminal_action''"
| "message_family (Some (MTerminalResponse _)) = ''terminal_response''"
| "message_family (Some (MMisc misc)) = misc_message_family misc"
| "message_family (Some _) = ''message.other''"
| "message_family None = ''empty''"

definition authorized_message_scope_violation :: "AuthConnType \<Rightarrow> wire_message \<Rightarrow> string option" where
  "authorized_message_scope_violation conn_type msg =
     (if is_connection_housekeeping_message msg then None
      else
        let noop_compat =
              (case conn_type of
                 FileTransfer \<Rightarrow> is_render_broadcast_noop_compat_message msg \<or> is_text_clipboard_noop_compat_message msg
               | Terminal \<Rightarrow> is_render_broadcast_noop_compat_message msg \<or> is_text_clipboard_noop_compat_message msg
               | PortForward \<Rightarrow> is_render_broadcast_noop_compat_message msg
               | ViewCamera \<Rightarrow> is_text_clipboard_noop_compat_message msg
               | Remote \<Rightarrow> False) in
        if noop_compat then None
        else
          let allowed =
                (case conn_type of
                   Remote \<Rightarrow> True
                 | FileTransfer \<Rightarrow> is_file_transfer_scoped_message msg
                 | PortForward \<Rightarrow> False
                 | ViewCamera \<Rightarrow> is_view_camera_scoped_message msg
                 | Terminal \<Rightarrow> is_terminal_scoped_message msg) in
          if \<not> allowed then Some (message_family msg) else None)"

definition authorized_scope_violation :: "AuthConnType option \<Rightarrow> wire_message \<Rightarrow> string option" where
  "authorized_scope_violation authed_conn_type msg =
     (case authed_conn_type of
        None \<Rightarrow> then_some (\<not> is_connection_housekeeping_message msg) ''session.auth_type''
      | Some conn_type \<Rightarrow> authorized_message_scope_violation conn_type msg)"

section \<open>Scoping is a projection\<close>

lemma bool_option_simps [simp]:
  "bool_option 0 = Some BoNotSet" "bool_option 1 = Some BoNo" "bool_option 2 = Some BoYes"
  by (simp_all add: bool_option_def)

lemma is_bool_option_not_set_iff: "is_bool_option_not_set v \<longleftrightarrow> v = 0"
  by (simp add: is_bool_option_not_set_def bool_option_def)

lemma image_quality_not_set_iff: "image_quality_value v = Some IqNotSet \<longleftrightarrow> v = 0"
  by (simp add: image_quality_value_def)

lemma then_some_eq [simp]:
  "then_some b x = Some y \<longleftrightarrow> b \<and> y = x" "then_some b x = None \<longleftrightarrow> \<not> b"
  by (auto simp: then_some_def)

lemmas option_fields =
  is_bool_option_not_set_iff image_quality_not_set_iff option_has_non_view_camera_login_field_def
  option_has_non_terminal_login_field_def option_has_any_field_def

text \<open>What the scoped option of a camera or a terminal session is, field by field.\<close>

lemma scoped_view_camera_fields:
  assumes "fst (scoped_view_camera_option o1) = Some s"
  shows "s = OptionMessage_new
           \<lparr>om_image_quality := (if image_quality_value (om_image_quality o1) = None then 0 else om_image_quality o1),
            om_custom_image_quality := max 0 (om_custom_image_quality o1),
            om_custom_fps := max 0 (om_custom_fps o1),
            om_supported_decoding := om_supported_decoding o1,
            om_disable_audio := (if bool_option (om_disable_audio o1) = None then 0 else om_disable_audio o1)\<rparr>"
  using assms
  by (auto simp: scoped_view_camera_option_def OptionMessage_new_def Let_def split: if_splits)

lemma scoped_terminal_fields:
  assumes "fst (scoped_terminal_login_option o1) = Some s"
  shows "s = OptionMessage_new\<lparr>om_terminal_persistent := om_terminal_persistent o1\<rparr>
         \<and> bool_option (om_terminal_persistent o1) \<noteq> None"
  using assms
  by (auto simp: scoped_terminal_login_option_def OptionMessage_new_def option_fields Let_def
           split: if_splits option.splits)



end
