(* ===== verification/File_Transfer.thy ===== *)
theory File_Transfer
  imports Paths Session_Scope
begin

text \<open>
  File transfer jobs, \<open>src/libs/hbb_common/src/fs.rs\<close>: validation of names, the receiving side of a job (\<open>write\<close>,
  \<open>modify_time\<close>), the sending side (\<open>read\<close>, \<open>confirm\<close>, \<open>handle_read_jobs\<close>) and the overwrite check.

  What the file system answers is the record \<open>FsEnv\<close> (a modification time in nanoseconds); what a function does to it
  is a list of operations.  A file that is open for reading is the contents it had when it was opened and a position.  \<open>zstd\<close> is a parameter.  A \<open>panic\<close> is
  \<open>None\<close>.  Paths are those of Unix.
\<close>

section \<open>The file system\<close>

datatype meta = MetaLink | MetaOther | MetaMissing | MetaErr string

record FileDigest =
  fd_size :: nat
  fd_modified :: nat

record FsEnv =
  fx_symlink_metadata :: "string \<Rightarrow> meta"
  fx_recursive_files :: "string \<Rightarrow> bool \<Rightarrow> string + FileEntry list"
  fx_exists :: "string \<Rightarrow> bool"
  fx_is_file :: "string \<Rightarrow> bool"
  fx_remove_file :: "string \<Rightarrow> string option"
  fx_create :: "string \<Rightarrow> string option"
  fx_sync :: "string option"
  fx_write :: "string option"
  fx_open :: "string \<Rightarrow> string + bytes"
  fx_open_write :: "string \<Rightarrow> string option"
  fx_seek_ok :: bool
  fx_metadata :: "string \<Rightarrow> string + nat \<times> nat"
  fx_read_digest :: "string \<Rightarrow> FileDigest option"
  fx_read :: "nat \<Rightarrow> string + nat"
  fx_zstd_compress :: "bytes \<Rightarrow> bytes option"
  fx_zstd_decode :: "bytes \<Rightarrow> bytes option"
  fx_remove_dir :: "string \<Rightarrow> bool \<Rightarrow> string option"
  fx_dir_ok :: "string \<Rightarrow> bool"
  fx_home :: string
  fx_create_dir_all :: "string \<Rightarrow> string option"
  fx_rename :: "string \<Rightarrow> string \<Rightarrow> string option"
  fx_send :: "string option"

datatype fs_op =
    OpRemove string
  | OpRemoveDir string bool
  | OpRename string string
  | OpSetMtime string nat
  | OpCreateDirAll "component list"
  | OpCreate string
  | OpWriteDigest string FileDigest
  | OpWrite string nat bytes

section \<open>Names\<close>

definition get_ext :: "string \<Rightarrow> string" where
  "get_ext name = (if CHR ''.'' \<in> set name then rev (takeWhile (\<lambda>c. c \<noteq> CHR ''.'') (rev name)) else [])"

definition is_compressed_file :: "string \<Rightarrow> bool" where
  "is_compressed_file name \<longleftrightarrow>
     get_ext name \<in> {''xz'', ''gz'', ''zip'', ''7z'', ''rar'', ''bz2'', ''tgz'', ''png'', ''jpg''}"

definition validate_file_name_no_traversal :: "string \<Rightarrow> string + unit" where
  "validate_file_name_no_traversal name =
     (if CHR 0x00 \<in> set name then Inl ''file name contains null bytes''
      else if list_ex (\<lambda>s. s = ''..'') (filter (\<lambda>s. s \<noteq> []) (split_char (CHR ''/'') name))
      then Inl ''path traversal detected in file name''
      else if take 1 name = ''/'' then Inl ''absolute path detected in file name''
      else Inr ())"

fun validate_each :: "FileEntry list \<Rightarrow> string + unit" where
  "validate_each [] = Inr ()"
| "validate_each (file # files) =
     (if fe_name file = [] then Inl ''empty file name in multi-file transfer''
      else case validate_file_name_no_traversal (fe_name file) of Inl e \<Rightarrow> Inl e | Inr _ \<Rightarrow> validate_each files)"

definition validate_transfer_file_names :: "FileEntry list \<Rightarrow> string + unit" where
  "validate_transfer_file_names files =
     (if length files = 1 \<and> fe_name (hd files) = [] then Inr () else validate_each files)"

definition validate_fs_path_argument :: "string \<Rightarrow> string \<Rightarrow> string + unit" where
  "validate_fs_path_argument path arg_name =
     (if path = [] then Inl (arg_name @ '' cannot be empty'')
      else if CHR 0x00 \<in> set path then Inl (arg_name @ '' contains null bytes'')
      else Inr ())"

fun validate_components :: "FsEnv \<Rightarrow> string \<Rightarrow> component list \<Rightarrow> string + unit" where
  "validate_components fx current [] = Inr ()"
| "validate_components fx current (Normal seg # cs) =
     (case fx_symlink_metadata fx (path_join current seg) of
        MetaLink \<Rightarrow> Inl ''symlink path component is not allowed''
      | MetaErr err \<Rightarrow> Inl (''failed to validate path component: '' @ err)
      | _ \<Rightarrow> validate_components fx (path_join current seg) cs)"
| "validate_components fx current (CurDir # cs) = validate_components fx current cs"
| "validate_components fx current (_ # cs) = Inl ''invalid file name component''"

definition validate_no_symlink_components :: "FsEnv \<Rightarrow> string \<Rightarrow> string \<Rightarrow> string + unit" where
  "validate_no_symlink_components fx base name =
     (if name = [] then Inr () else validate_components fx base (components name))"

definition job_join :: "string \<Rightarrow> string \<Rightarrow> string" where
  "job_join p name = (if name = [] then p else path_join p name)"

definition join_validated_path :: "FsEnv \<Rightarrow> string \<Rightarrow> string \<Rightarrow> string + string" where
  "join_validated_path fx base name =
     (case validate_file_name_no_traversal name of
        Inl e \<Rightarrow> Inl e
      | Inr _ \<Rightarrow>
          (case validate_no_symlink_components fx base name of
             Inl e \<Rightarrow> Inl e
           | Inr _ \<Rightarrow> Inr (job_join base name)))"

section \<open>Jobs\<close>

datatype DataSource = DsFilePath string | DsMemoryCursor bytes

text \<open>An open stream: a file with the contents to be read, or a buffer; and the position.\<close>

datatype DataStream = FileStream string bytes nat | BufStream bytes nat

record TransferJob =
  tj_id :: int
  tj_type :: JobType
  tj_remote :: string
  tj_data_source :: DataSource
  tj_show_hidden :: bool
  tj_is_remote :: bool
  tj_is_last_job :: bool
  tj_is_resume :: bool
  tj_file_num :: int
  tj_files :: "FileEntry list"
  tj_conn_id :: int
  tj_data_stream :: "DataStream option"
  tj_total_size :: nat
  tj_finished_size :: nat
  tj_transferred :: nat
  tj_enable_overwrite_detection :: bool
  tj_file_confirmed :: bool
  tj_file_skipped :: bool
  tj_file_is_waiting :: bool
  tj_default_overwrite_strategy :: "bool option"
  tj_digest :: FileDigest

text \<open>\<open>i32 as usize\<close> on a 64-bit machine.\<close>

definition usize_of :: "int \<Rightarrow> nat" where
  "usize_of i = nat (i mod 2 ^ 64)"

definition sum_sizes :: "FileEntry list \<Rightarrow> nat" where
  "sum_sizes files = sum_list (map fe_size files) mod 2 ^ 64"

definition new_write :: "int \<Rightarrow> JobType \<Rightarrow> string \<Rightarrow> DataSource \<Rightarrow> int \<Rightarrow> bool \<Rightarrow> bool \<Rightarrow> bool \<Rightarrow> TransferJob" where
  "new_write i t remote data_source file_num show_hidden is_remote enable_overwrite_detection =
     \<lparr>tj_id = i, tj_type = t, tj_remote = remote, tj_data_source = data_source, tj_show_hidden = show_hidden,
      tj_is_remote = is_remote, tj_is_last_job = False, tj_is_resume = False, tj_file_num = file_num, tj_files = [],
      tj_conn_id = 0, tj_data_stream = None, tj_total_size = 0, tj_finished_size = 0, tj_transferred = 0,
      tj_enable_overwrite_detection = enable_overwrite_detection, tj_file_confirmed = False, tj_file_skipped = False,
      tj_file_is_waiting = False, tj_default_overwrite_strategy = None, tj_digest = \<lparr>fd_size = 0, fd_modified = 0\<rparr>\<rparr>"

definition new_read ::
  "FsEnv \<Rightarrow> int \<Rightarrow> JobType \<Rightarrow> string \<Rightarrow> DataSource \<Rightarrow> int \<Rightarrow> bool \<Rightarrow> bool \<Rightarrow> bool \<Rightarrow> string + TransferJob" where
  "new_read fx i t remote data_source file_num show_hidden is_remote enable_overwrite_detection =
     (let job = new_write i t remote data_source file_num show_hidden is_remote enable_overwrite_detection in
      case data_source of
        DsFilePath p \<Rightarrow>
          (case fx_recursive_files fx p show_hidden of
             Inl e \<Rightarrow> Inl e
           | Inr files \<Rightarrow> Inr (job\<lparr>tj_files := files, tj_total_size := sum_sizes files\<rparr>))
      | DsMemoryCursor c \<Rightarrow> Inr (job\<lparr>tj_total_size := length c\<rparr>))"

fun check_symlinks :: "FsEnv \<Rightarrow> string \<Rightarrow> FileEntry list \<Rightarrow> string + unit" where
  "check_symlinks fx base [] = Inr ()"
| "check_symlinks fx base (file # files) =
     (case validate_no_symlink_components fx base (fe_name file) of Inl e \<Rightarrow> Inl e | Inr _ \<Rightarrow> check_symlinks fx base files)"

definition set_files :: "FsEnv \<Rightarrow> FileEntry list \<Rightarrow> TransferJob \<Rightarrow> string + TransferJob" where
  "set_files fx files j =
     (case validate_transfer_file_names files of
        Inl e \<Rightarrow> Inl e
      | Inr _ \<Rightarrow>
          (case (case tj_data_source j of DsFilePath base \<Rightarrow> check_symlinks fx base files | _ \<Rightarrow> Inr ()) of
             Inl e \<Rightarrow> Inl e
           | Inr _ \<Rightarrow> Inr (j\<lparr>tj_total_size := sum_sizes files, tj_files := files\<rparr>)))"

definition resolve_entry_path :: "FsEnv \<Rightarrow> string \<Rightarrow> string \<Rightarrow> TransferJob \<Rightarrow> string option" where
  "resolve_entry_path fx base name j =
     (if tj_type j = JobGeneric
      then (case join_validated_path fx base name of Inr path \<Rightarrow> Some path | Inl _ \<Rightarrow> None)
      else Some (job_join base name))"

definition download_path :: "string \<Rightarrow> string" where
  "download_path path = path @ ''.download''"

definition digest_path :: "string \<Rightarrow> string" where
  "digest_path path = path @ ''.digest''"

definition entry_path :: "FsEnv \<Rightarrow> TransferJob \<Rightarrow> (string \<times> FileEntry) option" where
  "entry_path fx j =
     (if tj_type j = JobPrinter then None
      else case tj_data_source j of
             DsFilePath p \<Rightarrow>
               if usize_of (tj_file_num j) < length (tj_files j) then
                 let entry = tj_files j ! usize_of (tj_file_num j) in
                 map_option (\<lambda>path. (path, entry)) (resolve_entry_path fx p (fe_name entry) j)
               else None
           | DsMemoryCursor _ \<Rightarrow> None)"

definition modify_time :: "FsEnv \<Rightarrow> TransferJob \<Rightarrow> fs_op list" where
  "modify_time fx j =
     (case entry_path fx j of
        Some (path, entry) \<Rightarrow>
          [OpRemove (digest_path path), OpRename (download_path path) path, OpSetMtime path (fe_modified_time entry)]
      | None \<Rightarrow> [])"

definition remove_download_file :: "FsEnv \<Rightarrow> TransferJob \<Rightarrow> fs_op list" where
  "remove_download_file fx j =
     (case entry_path fx j of
        Some (path, _) \<Rightarrow> [OpRemove (download_path path), OpRemove (digest_path path)]
      | None \<Rightarrow> [])"

section \<open>Receiving\<close>

text \<open>Where a block goes: the file to create, its digest file, and the directory to make.\<close>

definition write_target :: "FsEnv \<Rightarrow> string \<Rightarrow> string \<Rightarrow> TransferJob \<Rightarrow> string + string \<times> string option \<times> fs_op list" where
  "write_target fx p name j =
     (if tj_type j = JobPrinter then Inr (p, None, [])
      else case join_validated_path fx p name of
             Inl err \<Rightarrow> Inl err
           | Inr path \<Rightarrow>
               Inr (download_path path, Some (digest_path path),
                    case parent (components path) of Some pp \<Rightarrow> [OpCreateDirAll pp] | None \<Rightarrow> []))"

text \<open>Turn to the file of a block: finish the file before it and create the download file.\<close>

definition open_for_write :: "FsEnv \<Rightarrow> string \<Rightarrow> int \<Rightarrow> TransferJob \<Rightarrow> (string + unit) \<times> TransferJob \<times> fs_op list" where
  "open_for_write fx p file_num j =
     (let ops = modify_time fx j in
      case (case tj_data_stream j of Some (FileStream _ _ _) \<Rightarrow> fx_sync fx | _ \<Rightarrow> None) of
        Some err \<Rightarrow> (Inl err, j, ops)
      | None \<Rightarrow>
          let j = j\<lparr>tj_file_num := file_num\<rparr>; entry = tj_files j ! usize_of file_num in
          case write_target fx p (fe_name entry) j of
            Inl err \<Rightarrow> (Inl err, j, ops)
          | Inr (path, dp, dirs) \<Rightarrow>
              let stale = (case dp of Some d \<Rightarrow> fx_exists fx d | None \<Rightarrow> False);
                  ops = ops @ dirs @ (if stale then [OpRemove (the dp)] else []) in
              (case (if stale then fx_remove_file fx (the dp) else None) of
                 Some err \<Rightarrow> (Inl err, j, ops)
               | None \<Rightarrow>
                   (case fx_create fx path of
                      Some err \<Rightarrow> (Inl err, j, ops)
                    | None \<Rightarrow>
                        (Inr (), j\<lparr>tj_data_stream := Some (FileStream path [] 0)\<rparr>,
                         ops @ [OpCreate path] @ (case dp of Some d \<Rightarrow> [OpWriteDigest d (tj_digest j)] | None \<Rightarrow> [])))))"

definition compress :: "FsEnv \<Rightarrow> bytes \<Rightarrow> bytes" where
  "compress fx data = (case fx_zstd_compress fx data of Some res \<Rightarrow> res | None \<Rightarrow> [])"

definition decompress :: "FsEnv \<Rightarrow> bytes \<Rightarrow> bytes" where
  "decompress fx data = (case fx_zstd_decode fx data of Some res \<Rightarrow> res | None \<Rightarrow> [])"

definition write_stream :: "FsEnv \<Rightarrow> bytes \<Rightarrow> DataStream \<Rightarrow> (string + DataStream) \<times> fs_op list" where
  "write_stream fx data st =
     (case st of
        FileStream path content pos \<Rightarrow>
          (case fx_write fx of
             Some err \<Rightarrow> (Inl err, [])
           | None \<Rightarrow> (Inr (FileStream path content (pos + length data)), [OpWrite path pos data]))
      | BufStream content pos \<Rightarrow>
          (Inr (BufStream (take pos content @ data @ drop (pos + length data) content) (pos + length data)), []))"

definition write_data :: "FsEnv \<Rightarrow> FileTransferBlock \<Rightarrow> TransferJob \<Rightarrow> (string + unit) \<times> TransferJob \<times> fs_op list" where
  "write_data fx block j =
     (let data = (if bk_compressed block then decompress fx (bk_data block) else bk_data block) in
      case tj_data_stream j of
        None \<Rightarrow> (Inl (if bk_compressed block then ''data stream is None'' else ''file is None''), j, [])
      | Some st \<Rightarrow>
          (case write_stream fx data st of
             (Inl err, ops) \<Rightarrow> (Inl err, j, ops)
           | (Inr st', ops) \<Rightarrow>
               (Inr (), j\<lparr>tj_data_stream := Some st', tj_finished_size := tj_finished_size j + length data,
                         tj_transferred := tj_transferred j + length (bk_data block)\<rparr>, ops)))"

definition job_write :: "FsEnv \<Rightarrow> FileTransferBlock \<Rightarrow> TransferJob \<Rightarrow> (string + unit) \<times> TransferJob \<times> fs_op list" where
  "job_write fx block j =
     (if bk_id block \<noteq> tj_id j then (Inl ''Wrong id'', j, [])
      else
        case (case tj_data_source j of
                DsFilePath p \<Rightarrow>
                  let file_num = usize_of (bk_file_num block) in
                  if file_num \<ge> length (tj_files j) then (Inl ''Wrong file number'', j, [])
                  else if file_num \<noteq> usize_of (tj_file_num j) \<or> tj_data_stream j = None
                  then open_for_write fx p (bk_file_num block) j
                  else (Inr (), j, [])
              | DsMemoryCursor c \<Rightarrow>
                  (Inr (), if tj_data_stream j = None then j\<lparr>tj_data_stream := Some (BufStream c 0)\<rparr> else j, [])) of
          (Inl err, j1, ops) \<Rightarrow> (Inl err, j1, ops)
        | (Inr _, j1, ops) \<Rightarrow> (case write_data fx block j1 of (r, j2, ops') \<Rightarrow> (r, j2, ops @ ops')))"

section \<open>Sending\<close>

definition BUF_SIZE :: nat where
  "BUF_SIZE = 128 * 1024"

text \<open>One \<open>read\<close>: at least one byte unless the end is reached or there is no room, at most what there is room for.\<close>

definition read_some :: "FsEnv \<Rightarrow> nat \<Rightarrow> nat \<Rightarrow> nat \<Rightarrow> string + nat" where
  "read_some fx pos space rest =
     (case fx_read fx pos of Inl err \<Rightarrow> Inl err | Inr k \<Rightarrow> Inr (min (max 1 k) (min space rest)))"

text \<open>The loop that fills the buffer, with the number of bytes read so far.\<close>

function read_loop :: "FsEnv \<Rightarrow> bytes \<Rightarrow> nat \<Rightarrow> nat \<Rightarrow> string + nat" where
  "read_loop fx content pos offset =
     (case read_some fx (pos + offset) (BUF_SIZE - offset) (length content - (pos + offset)) of
        Inl err \<Rightarrow> Inl err
      | Inr n \<Rightarrow> if n = 0 \<or> offset + n = BUF_SIZE then Inr (offset + n) else read_loop fx content pos (offset + n))"
  by auto
termination
  by (relation "measure (\<lambda>(fx, content, pos, offset). BUF_SIZE - offset)")
    (auto simp: read_some_def split: sum.splits)

declare read_loop.simps [simp del]

fun stream_content :: "DataStream \<Rightarrow> bytes \<times> nat" where
  "stream_content (FileStream _ content pos) = (content, pos)"
| "stream_content (BufStream content pos) = (content, pos)"

fun advance :: "nat \<Rightarrow> DataStream \<Rightarrow> DataStream" where
  "advance n (FileStream path content pos) = FileStream path content (pos + n)"
| "advance n (BufStream content pos) = BufStream content (pos + n)"

definition file_name :: "string \<Rightarrow> string" where
  "file_name p = (if components p = [] then [] else case last (components p) of Normal s \<Rightarrow> s | _ \<Rightarrow> [])"

definition next_file :: "TransferJob \<Rightarrow> TransferJob" where
  "next_file j = j\<lparr>tj_file_num := tj_file_num j + 1, tj_data_stream := None, tj_file_confirmed := False, tj_file_is_waiting := False\<rparr>"

definition is_memory :: "TransferJob \<Rightarrow> bool" where
  "is_memory j \<longleftrightarrow> (case tj_data_source j of DsMemoryCursor _ \<Rightarrow> True | _ \<Rightarrow> False)"

definition read_name :: "TransferJob \<Rightarrow> string" where
  "read_name j =
     (case tj_data_source j of
        DsFilePath p \<Rightarrow>
          let name = fe_name (tj_files j ! usize_of (tj_file_num j)) in
          if length (tj_files j) = 1 \<and> name = [] then file_name p else name
      | DsMemoryCursor _ \<Rightarrow> [])"

definition job_read :: "FsEnv \<Rightarrow> TransferJob \<Rightarrow> (string + FileTransferBlock option) \<times> TransferJob" where
  "job_read fx j =
     (if tj_type j = JobGeneric \<and> tj_enable_overwrite_detection j \<and> \<not> tj_file_confirmed j then (Inr None, j)
      else if \<not> is_memory j \<and> usize_of (tj_file_num j) \<ge> length (tj_files j) then (Inr None, j\<lparr>tj_data_stream := None\<rparr>)
      else
        case tj_data_stream j of
          None \<Rightarrow> (Inl ''data stream is None'', j)
        | Some st \<Rightarrow>
            (case stream_content st of
               (content, pos) \<Rightarrow>
                 (case read_loop fx content pos 0 of
                    Inl err \<Rightarrow> (Inl err, next_file j)
                  | Inr n \<Rightarrow>
                      if n = 0 then
                        (if is_memory j then (Inr None, j\<lparr>tj_data_stream := None\<rparr>)
                         else (Inr (Some \<lparr>bk_id = tj_id j, bk_file_num = tj_file_num j, bk_data = [], bk_compressed = False\<rparr>), next_file j))
                      else
                        let buf = take n (drop pos content);
                            tmp = compress fx buf;
                            compressed = (\<not> is_memory j \<and> \<not> is_compressed_file (read_name j) \<and> length tmp < length buf);
                            data = (if compressed then tmp else buf) in
                        (Inr (Some \<lparr>bk_id = tj_id j, bk_file_num = tj_file_num j, bk_data = data, bk_compressed = compressed\<rparr>),
                         j\<lparr>tj_data_stream := Some (advance n st), tj_finished_size := tj_finished_size j + n,
                           tj_transferred := tj_transferred j + length data\<rparr>))))"

definition open_data_stream :: "FsEnv \<Rightarrow> TransferJob \<Rightarrow> (string + bool) \<times> TransferJob" where
  "open_data_stream fx j =
     (case tj_data_source j of
        DsFilePath p \<Rightarrow>
          if usize_of (tj_file_num j) \<ge> length (tj_files j) then (Inr True, j\<lparr>tj_data_stream := None\<rparr>)
          else if tj_data_stream j = None then
            (let path = job_join p (fe_name (tj_files j ! usize_of (tj_file_num j))) in
             case fx_open fx path of
               Inr content \<Rightarrow>
                 (Inr False, j\<lparr>tj_data_stream := Some (FileStream path content 0), tj_file_confirmed := False, tj_file_is_waiting := False\<rparr>)
             | Inl err \<Rightarrow> (Inl err, j\<lparr>tj_file_num := tj_file_num j + 1, tj_file_confirmed := False, tj_file_is_waiting := False\<rparr>))
          else (Inr False, j)
      | DsMemoryCursor c \<Rightarrow>
          (Inr False, if tj_data_stream j = None
                      then j\<lparr>tj_data_source := DsMemoryCursor [], tj_data_stream := Some (BufStream c 0)\<rparr> else j))"

definition get_current_digest :: "FsEnv \<Rightarrow> TransferJob \<Rightarrow> string + nat \<times> nat" where
  "get_current_digest fx j =
     (case tj_data_stream j of
        None \<Rightarrow> Inl ''file is None''
      | Some (FileStream path _ _) \<Rightarrow> map_sum id (\<lambda>(modified, len). (modified div 1000000000, len)) (fx_metadata fx path)
      | Some (BufStream _ _) \<Rightarrow> Inl ''No digest for buf stream'')"

definition send_current_digest :: "FsEnv \<Rightarrow> TransferJob \<Rightarrow> (string + unit) \<times> FileResponse list" where
  "send_current_digest fx j =
     (case get_current_digest fx j of
        Inl err \<Rightarrow> (Inl err, [])
      | Inr (last_modified, file_size) \<Rightarrow>
          (case fx_send fx of
             Some err \<Rightarrow> (Inl err, [])
           | None \<Rightarrow>
               (Inr (), [FrDigest \<lparr>dg_id = tj_id j, dg_file_num = tj_file_num j, dg_last_modified = last_modified,
                   dg_file_size = file_size, dg_is_upload = False, dg_is_identical = False, dg_transferred_size = 0,
                   dg_is_resume = tj_is_resume j\<rparr>])))"

definition init_data_stream :: "FsEnv \<Rightarrow> TransferJob \<Rightarrow> (string + unit) \<times> TransferJob \<times> FileResponse list" where
  "init_data_stream fx j =
     (case open_data_stream fx j of
        (Inl err, j1) \<Rightarrow> (Inl err, j1, [])
      | (Inr True, j1) \<Rightarrow> (Inr (), j1, [])
      | (Inr False, j1) \<Rightarrow>
          if tj_type j1 = JobGeneric \<and> tj_enable_overwrite_detection j1 \<and> \<not> tj_file_confirmed j1 \<and> \<not> tj_file_is_waiting j1
          then (case send_current_digest fx j1 of
                  (Inl err, ms) \<Rightarrow> (Inl err, j1, ms)
                | (Inr _, ms) \<Rightarrow> (Inr (), j1\<lparr>tj_file_is_waiting := True\<rparr>, ms))
          else (Inr (), j1, []))"

definition set_file_confirmed :: "bool \<Rightarrow> TransferJob \<Rightarrow> TransferJob" where
  "set_file_confirmed b j = j\<lparr>tj_file_confirmed := b, tj_file_skipped := False\<rparr>"

definition job_skipped :: "TransferJob \<Rightarrow> bool" where
  "job_skipped j \<longleftrightarrow> tj_file_skipped j \<and> length (tj_files j) = 1"

definition job_completed :: "TransferJob \<Rightarrow> bool" where
  "job_completed j \<longleftrightarrow> \<not> tj_enable_overwrite_detection j \<or> \<not> tj_file_confirmed j \<and> \<not> tj_file_is_waiting j"

definition job_error :: "TransferJob \<Rightarrow> string option" where
  "job_error j = (if job_skipped j then Some ''skipped'' else None)"

definition set_file_skipped :: "TransferJob \<Rightarrow> TransferJob" where
  "set_file_skipped j =
     (set_file_confirmed False (j\<lparr>tj_data_stream := None\<rparr>))
       \<lparr>tj_file_is_waiting := False, tj_file_num := tj_file_num j + 1, tj_file_skipped := True\<rparr>"

definition set_stream_offset :: "FsEnv \<Rightarrow> nat \<Rightarrow> nat \<Rightarrow> TransferJob \<Rightarrow> TransferJob option" where
  "set_stream_offset fx file_num offset j =
     (case tj_data_source j of
        DsMemoryCursor _ \<Rightarrow> Some j
      | DsFilePath p \<Rightarrow>
          if file_num \<ge> length (tj_files j) then None
          else
            case resolve_entry_path fx p (fe_name (tj_files j ! file_num)) j of
              None \<Rightarrow> Some j
            | Some file_path \<Rightarrow>
                let opened =
                  (if fx_exists fx (download_path file_path) \<and> fx_exists fx (digest_path file_path) then
                     (case fx_open_write fx (download_path file_path) of
                        None \<Rightarrow> Some (FileStream (download_path file_path) [] offset) | Some _ \<Rightarrow> None)
                   else if fx_exists fx file_path then
                     (case fx_open fx file_path of Inr content \<Rightarrow> Some (FileStream file_path content offset) | Inl _ \<Rightarrow> None)
                   else None) in
                (case opened of
                   Some st \<Rightarrow>
                     if fx_seek_ok fx
                     then Some (j\<lparr>tj_data_stream := Some st, tj_transferred := tj_transferred j + offset,
                                  tj_finished_size := tj_finished_size j + offset\<rparr>)
                     else Some j
                 | None \<Rightarrow> Some j))"

definition confirm :: "FsEnv \<Rightarrow> FileTransferSendConfirmRequest \<Rightarrow> TransferJob \<Rightarrow> TransferJob option" where
  "confirm fx r j =
     (if tj_file_num j \<noteq> sc_file_num r then Some j
      else case sc_union r of
             Some (CuSkip s) \<Rightarrow> Some (if s then set_file_skipped j else set_file_confirmed True j)
           | Some (CuOffsetBlk offset) \<Rightarrow>
               (let j1 = set_file_confirmed True j in
                if offset > 0 then set_stream_offset fx (usize_of (sc_file_num r)) offset j1 else Some j1)
           | None \<Rightarrow> Some j)"

section \<open>Lists of jobs\<close>

fun get_job :: "int \<Rightarrow> TransferJob list \<Rightarrow> TransferJob option" where
  "get_job i [] = None"
| "get_job i (j # js) = (if tj_id j = i then Some j else get_job i js)"

fun put_job :: "TransferJob \<Rightarrow> TransferJob list \<Rightarrow> TransferJob list" where
  "put_job j [] = []"
| "put_job j (x # xs) = (if tj_id x = tj_id j then j # xs else x # put_job j xs)"

fun remove_job :: "int \<Rightarrow> TransferJob list \<Rightarrow> TransferJob option \<times> TransferJob list" where
  "remove_job i [] = (None, [])"
| "remove_job i (j # js) = (if tj_id j = i then (Some j, js) else case remove_job i js of (r, js') \<Rightarrow> (r, j # js'))"

text \<open>What a log entry about a job tells: the job, done, cancelled, the error.\<close>

type_synonym job_log = "TransferJob \<times> bool \<times> bool \<times> string"

fun init_jobs :: "FsEnv \<Rightarrow> TransferJob list \<Rightarrow> (string + unit) \<times> TransferJob list \<times> FileResponse list" where
  "init_jobs fx [] = (Inr (), [], [])"
| "init_jobs fx (j # js) =
     (if tj_is_last_job j then (case init_jobs fx js of (r, js', ms) \<Rightarrow> (r, j # js', ms))
      else
        case init_data_stream fx j of
          (Inl err, j1, ms) \<Rightarrow>
            (case fx_send fx of
               Some e \<Rightarrow> (Inl e, j1 # js, ms)
             | None \<Rightarrow> (case init_jobs fx js of (r, js', ms') \<Rightarrow> (r, j1 # js', ms @ FrError (tj_id j1) err (tj_file_num j1) # ms')))
        | (Inr _, j1, ms) \<Rightarrow> (case init_jobs fx js of (r, js', ms') \<Rightarrow> (r, j1 # js', ms @ ms')))"

text \<open>The first job that is not a left-over of an earlier session gets its turn.\<close>

definition read_turn :: "FsEnv \<Rightarrow> TransferJob \<Rightarrow> TransferJob \<times> FileResponse list \<times> job_log option \<times> bool" where
  "read_turn fx j =
     (case job_read fx j of
        (Inl err, j1) \<Rightarrow> (j1, [FrError (tj_id j1) err (tj_file_num j1)], None, False)
      | (Inr (Some block), j1) \<Rightarrow> (j1, [FrBlock block], None, False)
      | (Inr None, j1) \<Rightarrow>
          if job_completed j1 then
            (case job_error j1 of
               Some err \<Rightarrow> (j1, [FrError (tj_id j1) err (tj_file_num j1)], Some (j1, False, False, err), True)
             | None \<Rightarrow> (j1, [FrDone (tj_id j1) (tj_file_num j1)], Some (j1, True, False, []), True))
          else (j1, [], None, False))"

definition handle_read_jobs :: "FsEnv \<Rightarrow> TransferJob list \<Rightarrow> (string + job_log option) \<times> TransferJob list \<times> FileResponse list" where
  "handle_read_jobs fx jobs =
     (case init_jobs fx jobs of
        (Inl err, jobs1, ms) \<Rightarrow> (Inl err, jobs1, ms)
      | (Inr _, jobs1, ms) \<Rightarrow>
          (case dropWhile tj_is_last_job jobs1 of
             [] \<Rightarrow> (Inr None, jobs1, ms)
           | j # rest \<Rightarrow>
               (case read_turn fx j of
                  (j1, ms', log, finished) \<Rightarrow>
                    let jobs2 = takeWhile tj_is_last_job jobs1 @ j1 # rest in
                    if ms' \<noteq> [] \<and> fx_send fx \<noteq> None then (Inl (the (fx_send fx)), jobs2, ms)
                    else (Inr log, if finished then snd (remove_job (tj_id j1) jobs2) else jobs2, ms @ ms'))))"

section \<open>File commands\<close>

definition fs_remove_file :: "FsEnv \<Rightarrow> string \<Rightarrow> (string + unit) \<times> fs_op list" where
  "fs_remove_file fx file =
     (case validate_fs_path_argument file ''file path'' of
        Inl e \<Rightarrow> (Inl e, [])
      | Inr _ \<Rightarrow> (case fx_remove_file fx file of Some e \<Rightarrow> (Inl e, [OpRemove file]) | None \<Rightarrow> (Inr (), [OpRemove file])))"

definition fs_create_dir :: "FsEnv \<Rightarrow> string \<Rightarrow> (string + unit) \<times> fs_op list" where
  "fs_create_dir fx dir =
     (case validate_fs_path_argument dir ''directory path'' of
        Inl e \<Rightarrow> (Inl e, [])
      | Inr _ \<Rightarrow>
          (case fx_create_dir_all fx dir of
             Some e \<Rightarrow> (Inl e, [OpCreateDirAll (components dir)]) | None \<Rightarrow> (Inr (), [OpCreateDirAll (components dir)])))"

text \<open>Renaming inside the directory of a path; the new path is given up to equality of paths.\<close>

definition fs_rename_file :: "FsEnv \<Rightarrow> string \<Rightarrow> string \<Rightarrow> (string + unit) \<times> fs_op list" where
  "fs_rename_file fx path new_name =
     (case validate_fs_path_argument path ''path'' of
        Inl e \<Rightarrow> (Inl e, [])
      | Inr _ \<Rightarrow>
          if new_name = [] then (Inl ''new file name cannot be empty'', [])
          else
            case validate_file_name_no_traversal new_name of
              Inl e \<Rightarrow> (Inl e, [])
            | Inr _ \<Rightarrow>
                if fx_exists fx path then
                  (case parent (components path) of
                     None \<Rightarrow> (Inl ''Parent directoy not exists'', [])
                   | Some dir \<Rightarrow>
                       let new_path = path_join (path_text dir) new_name in
                       (case fx_rename fx path new_path of
                          Some e \<Rightarrow> (Inl e, [OpRename path new_path])
                        | None \<Rightarrow> (Inr (), [OpRename path new_path])))
                else (Inl ''not exists'', []))"

datatype DigestCheckResult = IsSame | NeedConfirm FileTransferDigest | NoSuchFile

definition is_write_need_confirmation :: "FsEnv \<Rightarrow> bool \<Rightarrow> string \<Rightarrow> FileTransferDigest \<Rightarrow> string + DigestCheckResult" where
  "is_write_need_confirmation fx is_resume file_path digest =
     (let answer = \<lparr>dg_id = dg_id digest, dg_file_num = dg_file_num digest, dg_last_modified = dg_last_modified digest,
            dg_file_size = dg_file_size digest, dg_is_upload = False, dg_is_identical = True, dg_transferred_size = 0,
            dg_is_resume = False\<rparr>;
          resumed =
            (if is_resume \<and> fx_exists fx (digest_path file_path) \<and> fx_exists fx (download_path file_path) then
               (case fx_read_digest fx (digest_path file_path) of
                  Some local \<Rightarrow>
                    if fd_modified local = dg_last_modified digest \<and> fd_size local = dg_file_size digest then
                      (case fx_metadata fx (download_path file_path) of
                         Inr (_, transferred_size) \<Rightarrow>
                           if transferred_size > 0 then Some (answer\<lparr>dg_transferred_size := transferred_size\<rparr>) else None
                       | Inl _ \<Rightarrow> None)
                    else None
                | None \<Rightarrow> None)
             else None) in
      case resumed of
        Some a \<Rightarrow> Inr (NeedConfirm a)
      | None \<Rightarrow>
          if fx_exists fx file_path \<and> fx_is_file fx file_path then
            (case fx_metadata fx file_path of
               Inl e \<Rightarrow> Inl e
             | Inr (local_mt, len) \<Rightarrow>
                 Inr (NeedConfirm (answer\<lparr>dg_last_modified := local_mt div 1000000000, dg_file_size := len,
                   dg_is_identical := (dg_last_modified digest * 1000000000 = local_mt \<and> dg_file_size digest = len)\<rparr>)))
          else Inr NoSuchFile)"

section \<open>The read loop\<close>

lemma min_advance: "n \<le> min a b \<Longrightarrow> m + n + min (a - n) (b - n) = m + min a (b :: nat)"
  by (auto simp: min_def)

lemma read_loop_outcome:
  assumes "offset < BUF_SIZE"
  shows "(\<exists>k err. fx_read fx k = Inl err \<and> read_loop fx content pos offset = Inl err) \<or>
     read_loop fx content pos offset = Inr (offset + min (BUF_SIZE - offset) (length content - (pos + offset)))"
  using assms
proof (induction fx content pos offset rule: read_loop.induct)
  case (1 fx content pos offset)
  show ?case
  proof (cases "fx_read fx (pos + offset)")
    case (Inl err)
    then have "read_loop fx content pos offset = Inl err" by (subst read_loop.simps) (simp add: read_some_def)
    with Inl show ?thesis by blast
  next
    case (Inr k)
    let ?rest = "length content - (pos + offset)"
    let ?n = "min (max 1 k) (min (BUF_SIZE - offset) ?rest)"
    have r: "read_some fx (pos + offset) (BUF_SIZE - offset) ?rest = Inr ?n" using Inr by (simp add: read_some_def)
    show ?thesis
    proof (cases "?n = 0 \<or> offset + ?n = BUF_SIZE")
      case True
      then have "read_loop fx content pos offset = Inr (offset + ?n)" by (subst read_loop.simps) (simp only: r sum.case if_True)
      moreover have "?n = min (BUF_SIZE - offset) ?rest" using True "1.prems" by auto
      ultimately show ?thesis by simp
    next
      case False
      then have l: "read_loop fx content pos offset = read_loop fx content pos (offset + ?n)"
        by (subst read_loop.simps) (simp only: r sum.case if_False)
      have "?n \<le> BUF_SIZE - offset" by simp
      with False "1.prems" have "offset + ?n < BUF_SIZE" by linarith
      note ih = "1.IH" [OF r False this]
      have "?n \<le> min (BUF_SIZE - offset) ?rest" by (rule min.cobounded2)
      from min_advance [OF this, of offset] show ?thesis using ih unfolding l by (simp only: add.assoc [symmetric] diff_diff_left)
    qed
  qed
qed

text \<open>C35: the loop that fills a block ends whatever the sizes of the partial reads are, and has then read exactly one
  full buffer or the rest of the file, unless a read failed, whose error it returns.\<close>

theorem read_fills_buffer:
  "(\<exists>k err. fx_read fx k = Inl err \<and> read_loop fx content pos 0 = Inl err) \<or>
   read_loop fx content pos 0 = Inr (min BUF_SIZE (length content - pos))"
  using read_loop_outcome [of 0 fx content pos] by (simp add: BUF_SIZE_def)

section \<open>Received files stay below their directory\<close>

text \<open>The components of something at or below \<open>base\<close>; an empty \<open>base\<close> is the current directory.\<close>

definition below :: "string \<Rightarrow> component list \<Rightarrow> bool" where
  "below base cs \<longleftrightarrow> (\<exists>ns. cs = components base @ map Normal ns \<or> base = [] \<and> cs = CurDir # map Normal ns)"

definition inside :: "string \<Rightarrow> string \<Rightarrow> bool" where
  "inside base path \<longleftrightarrow> below base (components path)"

text \<open>The paths a job with directory \<open>base\<close> may touch; a transfer of a single file to \<open>base\<close> has its files next to it.\<close>

definition touchable :: "string \<Rightarrow> string \<Rightarrow> bool" where
  "touchable base path \<longleftrightarrow> inside base path \<or> path = download_path base \<or> path = digest_path base"

fun op_ok :: "string \<Rightarrow> fs_op \<Rightarrow> bool" where
  "op_ok base (OpRemove p) \<longleftrightarrow> touchable base p"
| "op_ok base (OpRename p q) \<longleftrightarrow> touchable base p \<and> touchable base q"
| "op_ok base (OpSetMtime p _) \<longleftrightarrow> touchable base p"
| "op_ok base (OpCreateDirAll cs) \<longleftrightarrow> below base cs \<or> parent (components base) = Some cs"
| "op_ok base (OpCreate p) \<longleftrightarrow> touchable base p"
| "op_ok base (OpWriteDigest p _) \<longleftrightarrow> touchable base p"
| "op_ok base (OpWrite p _ _) \<longleftrightarrow> touchable base p"
| "op_ok base (OpRemoveDir _ _) \<longleftrightarrow> False"

lemma pieces_normal:
  assumes "\<not> list_ex (\<lambda>s. s = ''..'') (filter (\<lambda>s. s \<noteq> []) ss)"
  shows "\<exists>ns. pieces ss = map Normal ns"
  using assms
proof (induction ss)
  case (Cons s ss)
  then obtain ns where "pieces ss = map Normal ns" by (auto split: if_splits)
  moreover have "s \<noteq> ''..''" using Cons.prems by (auto split: if_splits)
  ultimately have "pieces (s # ss) = map Normal (if s = [] \<or> s = ''.'' then ns else s # ns)" by (simp add: piece_def)
  then show ?case by blast
qed simp

lemma validated_pieces:
  assumes "validate_file_name_no_traversal name = Inr u"
  shows "\<exists>ns. pieces (split_char (CHR ''/'') name) = map Normal ns" "take 1 name \<noteq> ''/''"
  using assms pieces_normal [of "split_char (CHR ''/'') name"]
  by (auto simp: validate_file_name_no_traversal_def split: if_splits)

lemma validated_suffix:
  assumes "validate_file_name_no_traversal name = Inr u" and sx: "CHR ''/'' \<notin> set sx" "length sx > 2"
  shows "\<exists>ns. pieces (split_char (CHR ''/'') (name @ sx)) = map Normal ns"
proof -
  let ?ss = "split_char (CHR ''/'') name"
  obtain ns where ns: "pieces ?ss = map Normal ns" using validated_pieces [OF assms(1)] by blast
  have "?ss = butlast ?ss @ [last ?ss]" by simp
  then have "pieces (butlast ?ss) @ pieces [last ?ss] = map Normal ns" using ns by (metis pieces_append)
  then obtain ms where ms: "pieces (butlast ?ss) = map Normal ms" by (auto simp: append_eq_map_conv)
  have "last ?ss @ sx \<noteq> []" "last ?ss @ sx \<noteq> ''.''" "last ?ss @ sx \<noteq> ''..''"
    using sx(2) by (auto simp: append_eq_Cons_conv)
  then have "pieces (split_char (CHR ''/'') (name @ sx)) = map Normal (ms @ [last ?ss @ sx])"
    by (simp add: split_char_append [OF sx(1)] ms piece_def)
  then show ?thesis by blast
qed

lemma join_suffix:
  assumes "name \<noteq> []" "take 1 name \<noteq> ''/''"
  shows "path_join base name @ sx = path_join base (name @ sx)"
  using assms by (cases name) (auto simp: path_join_def)

lemma relative_components:
  assumes "take 1 name \<noteq> ''/''" "pieces (split_char (CHR ''/'') name) = map Normal ns"
  shows "below [] (components name)"
  using assms by (auto simp: below_def components_def Let_def piece_def intro: exI [of _ ns])

lemma join_below:
  assumes "take 1 name \<noteq> ''/''" "pieces (split_char (CHR ''/'') name) = map Normal ns" "name \<noteq> []"
  shows "inside base (path_join base name)"
proof (cases "base = []")
  case True
  then show ?thesis using relative_components [OF assms(1,2)] assms(1) by (simp add: inside_def path_join_def)
next
  case False
  then show ?thesis using components_join [OF assms(1) False] assms(2) by (auto simp: inside_def below_def)
qed

lemma below_base: "inside base base"
  by (auto simp: inside_def below_def intro: exI [of _ "[]"])

lemma validated_inside:
  assumes "join_validated_path fx base name = Inr path"
  shows "inside base path" "touchable base (download_path path)" "touchable base (digest_path path)"
proof -
  have v: "validate_file_name_no_traversal name = Inr ()" and path: "path = job_join base name"
    using assms(1) by (auto simp: join_validated_path_def split: sum.splits)
  obtain ns where ns: "pieces (split_char (CHR ''/'') name) = map Normal ns" using validated_pieces(1) [OF v] by blast
  note rel = validated_pieces(2) [OF v]
  show "inside base path"
    using path below_base join_below [OF rel ns] by (cases "name = []") (simp_all add: job_join_def)
  have "inside base (path @ sx)" if nonempty: "name \<noteq> []" and sx: "CHR ''/'' \<notin> set sx" "length sx > 2" for sx
  proof -
    obtain ms where ms: "pieces (split_char (CHR ''/'') (name @ sx)) = map Normal ms"
      using validated_suffix [OF v sx] by blast
    have "take 1 (name @ sx) \<noteq> ''/''" using rel nonempty by (cases name) simp_all
    from join_below [OF this ms, of base] show ?thesis
      using nonempty path join_suffix [OF nonempty rel, of base sx] by (simp add: job_join_def)
  qed
  from this [of "''.download''"] this [of "''.digest''"] path
  show "touchable base (download_path path)" "touchable base (digest_path path)"
    by (cases "name = []"; simp add: touchable_def download_path_def digest_path_def job_join_def)+
qed

lemma parent_append: "ns \<noteq> [] \<Longrightarrow> parent (cs @ map Normal ns) = Some (cs @ map Normal (butlast ns))"
  by (simp add: parent_def butlast_append map_butlast last_map)

lemma inside_parent:
  assumes "inside base path" "parent (components path) = Some cs"
  shows "op_ok base (OpCreateDirAll cs)"
proof -
  obtain ns where "components path = components base @ map Normal ns \<or> base = [] \<and> components path = [CurDir] @ map Normal ns"
    using assms(1) by (auto simp: inside_def below_def)
  then show ?thesis
  proof (cases "ns = []")
    case True
    then show ?thesis
      using assms(2) \<open>_ \<or> _\<close> below_base [of base] by (auto simp: parent_def below_def split: if_splits)
  next
    case False
    then show ?thesis
      using assms(2) \<open>_ \<or> _\<close> parent_append [OF False, of "components base"] parent_append [OF False, of "[CurDir]"]
      by (auto simp: below_def)
  qed
qed

text \<open>The jobs \<open>handle_fs\<close> keeps: they receive files into \<open>base\<close>, and what is open is one of these.\<close>

definition job_ok :: "string \<Rightarrow> TransferJob \<Rightarrow> bool" where
  "job_ok base j \<longleftrightarrow> tj_type j = JobGeneric \<and> tj_data_source j = DsFilePath base \<and>
     (case tj_data_stream j of Some (FileStream p _ _) \<Rightarrow> touchable base p | Some (BufStream _ _) \<Rightarrow> False | None \<Rightarrow> True)"

lemma entry_path_ok:
  assumes "job_ok base j" "entry_path fx j = Some (path, entry)"
  shows "inside base path" "touchable base (download_path path)" "touchable base (digest_path path)"
proof -
  have "join_validated_path fx base (fe_name entry) = Inr path"
    using assms by (auto simp: entry_path_def job_ok_def resolve_entry_path_def Let_def split: if_splits sum.splits)
  then show "inside base path" "touchable base (download_path path)" "touchable base (digest_path path)"
    using validated_inside by simp_all
qed

lemma inside_touchable: "inside base p \<Longrightarrow> touchable base p"
  by (simp add: touchable_def)

lemma modify_time_ok: "job_ok base j \<Longrightarrow> list_all (op_ok base) (modify_time fx j)"
  using entry_path_ok [of base j fx] by (auto simp: modify_time_def inside_touchable split: option.splits)

lemma remove_download_ok: "job_ok base j \<Longrightarrow> list_all (op_ok base) (remove_download_file fx j)"
  using entry_path_ok [of base j fx] by (auto simp: remove_download_file_def split: option.splits)

lemma write_target_ok:
  assumes "job_ok base j" "write_target fx base name j = Inr (p, dp, dirs)"
  shows "touchable base p \<and> (\<forall>d. dp = Some d \<longrightarrow> touchable base d) \<and> list_all (op_ok base) dirs"
proof -
  obtain path where j: "join_validated_path fx base name = Inr path"
    and t: "p = download_path path" "dp = Some (digest_path path)"
      "dirs = (case parent (components path) of Some pp \<Rightarrow> [OpCreateDirAll pp] | None \<Rightarrow> [])"
    using assms by (auto simp: write_target_def job_ok_def split: sum.splits if_splits)
  note v = validated_inside [OF j]
  have "list_all (op_ok base) dirs"
    using t(3) inside_parent [OF v(1)] by (simp del: op_ok.simps(4) split: option.split)
  with v t show ?thesis by simp
qed

lemma job_ok_file_num [simp]: "job_ok base (j\<lparr>tj_file_num := n\<rparr>) = job_ok base j"
  by (simp add: job_ok_def)

lemma job_ok_created: "job_ok base j \<Longrightarrow> touchable base p \<Longrightarrow> job_ok base (j\<lparr>tj_data_stream := Some (FileStream p [] 0)\<rparr>)"
  by (simp add: job_ok_def)

text \<open>A step of a job: the job stays in order, and so are its operations.\<close>

definition step_ok :: "string \<Rightarrow> 'r \<times> TransferJob \<times> fs_op list \<Rightarrow> bool" where
  "step_ok base res \<longleftrightarrow> job_ok base (fst (snd res)) \<and> list_all (op_ok base) (snd (snd res))"

lemma step_okI: "job_ok base j \<Longrightarrow> list_all (op_ok base) ops \<Longrightarrow> step_ok base (r, j, ops)"
  by (simp add: step_ok_def)

lemma open_for_write_ok:
  assumes "job_ok base j"
  shows "step_ok base (open_for_write fx base n j)"
proof (cases "case tj_data_stream j of Some (FileStream _ _ _) \<Rightarrow> fx_sync fx | _ \<Rightarrow> None")
  case (Some err)
  then show ?thesis using assms modify_time_ok [OF assms, of fx] by (simp add: open_for_write_def step_okI)
next
  case None
  let ?j = "j\<lparr>tj_file_num := n\<rparr>"
  let ?name = "fe_name (tj_files j ! usize_of n)"
  have ok: "job_ok base ?j" using assms by simp
  note m = modify_time_ok [OF assms, of fx]
  show ?thesis
  proof (cases "write_target fx base ?name ?j")
    case (Inl err)
    then show ?thesis using None m ok by (simp add: open_for_write_def Let_def step_okI)
  next
    case (Inr t)
    obtain p dp dirs where t: "t = (p, dp, dirs)" by (cases t)
    note w = write_target_ok [OF ok Inr [unfolded t]]
    then have "job_ok base (?j\<lparr>tj_data_stream := Some (FileStream p [] 0)\<rparr>)" using job_ok_created [OF ok] by simp
    then show ?thesis
      using None Inr t w m ok
      by (cases dp; cases "fx_exists fx (the dp)"; cases "fx_remove_file fx (the dp)"; cases "fx_create fx p")
        (simp_all add: open_for_write_def Let_def step_okI)
  qed
qed

lemma write_data_ok:
  assumes "job_ok base j"
  shows "step_ok base (write_data fx block j)"
proof (cases "tj_data_stream j")
  case None
  then show ?thesis using assms by (simp add: write_data_def step_okI)
next
  case (Some st)
  then show ?thesis
    using assms
    by (cases st; cases "fx_write fx") (simp_all add: write_data_def write_stream_def Let_def step_ok_def job_ok_def)
qed

lemma job_write_ok:
  assumes "job_ok base j"
  shows "step_ok base (job_write fx block j)"
proof -
  have b: "tj_data_source j = DsFilePath base" using assms by (simp add: job_ok_def)
  have then_write: "step_ok base (case r of (Inl err, j1, ops) \<Rightarrow> (Inl err, j1, ops)
      | (Inr _, j1, ops) \<Rightarrow> (case write_data fx block j1 of (r, j2, ops') \<Rightarrow> (r, j2, ops @ ops')))"
    if "step_ok base r" for r :: "(string + unit) \<times> TransferJob \<times> fs_op list"
    using that write_data_ok [of base "fst (snd r)" fx block]
    by (cases "fst r") (auto simp: step_ok_def case_prod_beta split: sum.split)
  show ?thesis
    using assms b open_for_write_ok [OF assms, of fx "bk_file_num block"]
    unfolding job_write_def by (auto simp: Let_def intro!: step_okI then_write write_data_ok)
qed

lemma confirm_ok:
  assumes "job_ok base j" "confirm fx r j = Some j'"
  shows "job_ok base j'"
proof -
  have c: "job_ok base (set_file_confirmed b j)" "job_ok base (set_file_skipped j)" for b
    using assms(1) by (simp_all add: set_file_confirmed_def set_file_skipped_def job_ok_def)
  have "job_ok base k'" if "job_ok base k" "set_stream_offset fx n off k = Some k'" for k k' n off
  proof -
    have s: "tj_type k = JobGeneric" "tj_data_source k = DsFilePath base" using that(1) by (simp_all add: job_ok_def)
    have t: "job_ok base (k\<lparr>tj_data_stream := Some (FileStream p content off), tj_transferred := a, tj_finished_size := b\<rparr>)"
      if "touchable base p" for p content a b using that s by (simp add: job_ok_def)
    have "n < length (tj_files k)" using that(2) s by (auto simp: set_stream_offset_def split: if_splits)
    then show ?thesis
      using that s t validated_inside [of fx base]
      by (auto simp: set_stream_offset_def resolve_entry_path_def Let_def inside_touchable split: sum.splits option.splits if_splits)
  qed
  then show ?thesis using assms c by (fastforce simp: confirm_def Let_def split: if_splits option.splits ConfirmUnion.splits)
qed

end
