(* ===== verification/Cm_Files.thy ===== *)
theory Cm_Files
  imports File_Transfer
begin

text \<open>
  The file commands of the connection manager (\<open>src/src/ui_cm_interface.rs\<close>): \<open>handle_fs\<close> turns each command a
  connection sends (\<open>ipc::FS\<close>) into calls of the transfer jobs and answers; \<open>handle_read_jobs_tick\<close> is its own
  reader for systems where the manager reads the files.
\<close>

section \<open>Commands and answers\<close>

datatype Fs =
    FsReadEmptyDirs string bool
  | FsReadDir string bool
  | FsRemoveDir string int bool
  | FsRemoveFile string int int
  | FsCreateDir string int
  | FsNewWrite string int int "(string \<times> nat) list" bool nat int
  | FsCancelWrite int
  | FsWriteBlock int int bytes bool
  | FsWriteDone int int
  | FsWriteError int int string
  | FsWriteOffset int int nat
  | FsCheckDigest int int nat nat bool bool
  | FsSendConfirm FileTransferSendConfirmRequest
  | FsRename int string string
  | FsReadFile string int int bool int bool
  | FsCancelRead int int
  | FsSendConfirmForRead int int bool nat int
  | FsReadAllFiles string int bool int

datatype cm_reply =
    CrResponse FileResponse
  | CrConfirm FileTransferSendConfirmRequest
  | CrEmptyDirs string bool
  | CrDir string bool
  | CrLog job_log
  | CrReadJobInitResult int int bool int "string + string \<times> FileEntry list"
  | CrFileBlock FileTransferBlock int
  | CrFileReadDone int int int
  | CrFileReadError int int string int
  | CrFileDigest int int nat nat bool int
  | CrAllFilesResult int int string "string + FileEntry list"

record CmState =
  cm_write_jobs :: "TransferJob list"
  cm_read_jobs :: "TransferJob list"

text \<open>\<open>get_max_validated_files\<close>, from the value of the option \<open>file-transfer-max-files\<close>.\<close>

definition DEFAULT_MAX_VALIDATED_FILES :: nat where
  "DEFAULT_MAX_VALIDATED_FILES = 10000"

definition get_max_validated_files :: "string \<Rightarrow> nat" where
  "get_max_validated_files value =
     (let c = (case parse_unsigned (2 ^ 64 - 1) (trim value) of Some n \<Rightarrow> n | None \<Rightarrow> 2 ^ 64 - 1) in
      if c = 0 then DEFAULT_MAX_VALIDATED_FILES else c)"

definition check_file_count_limit :: "nat \<Rightarrow> nat \<Rightarrow> string + unit" where
  "check_file_count_limit max_files file_count =
     (if file_count > max_files then Inl ''file transfer rejected: too many files'' else Inr ())"

section \<open>Reading in the manager\<close>

definition start_read_job ::
  "FsEnv \<Rightarrow> nat \<Rightarrow> string \<Rightarrow> int \<Rightarrow> bool \<Rightarrow> int \<Rightarrow> int \<Rightarrow> bool \<Rightarrow> TransferJob list \<Rightarrow> TransferJob list \<times> cm_reply list" where
  "start_read_job fx max_files path file_num include_hidden i conn_id overwrite_detection read_jobs =
     (let reply = (\<lambda>r. [CrReadJobInitResult i file_num include_hidden conn_id r]) in
      case new_read fx i JobGeneric [] (DsFilePath path) file_num include_hidden True overwrite_detection of
        Inl e \<Rightarrow> (read_jobs, reply (Inl (''validation failed: '' @ e)))
      | Inr job \<Rightarrow>
          (case check_file_count_limit max_files (length (tj_files job)) of
             Inl msg \<Rightarrow> (read_jobs, reply (Inl msg))
           | Inr _ \<Rightarrow> (read_jobs @ [job\<lparr>tj_conn_id := conn_id\<rparr>], reply (Inr (path, tj_files job)))))"

definition init_data_stream_for_cm :: "FsEnv \<Rightarrow> TransferJob \<Rightarrow> (string + (nat \<times> nat) option) \<times> TransferJob" where
  "init_data_stream_for_cm fx j =
     (case open_data_stream fx j of
        (Inl err, j1) \<Rightarrow> (Inl err, j1)
      | (Inr True, j1) \<Rightarrow> (Inr None, j1)
      | (Inr False, j1) \<Rightarrow>
          if tj_type j1 = JobGeneric \<and> tj_enable_overwrite_detection j1 \<and> \<not> tj_file_confirmed j1 \<and> \<not> tj_file_is_waiting j1
          then (case get_current_digest fx j1 of
                  Inl err \<Rightarrow> (Inl err, j1)
                | Inr digest \<Rightarrow> (Inr (Some digest), j1\<lparr>tj_file_is_waiting := True\<rparr>))
          else (Inr None, j1))"

definition init_read_job_for_cm :: "FsEnv \<Rightarrow> int \<Rightarrow> TransferJob \<Rightarrow> (string + unit) \<times> TransferJob \<times> cm_reply list" where
  "init_read_job_for_cm fx conn_id j =
     (case init_data_stream_for_cm fx j of
        (Inl err, j1) \<Rightarrow> (Inl err, j1, [])
      | (Inr None, j1) \<Rightarrow> (Inr (), j1, [])
      | (Inr (Some (last_modified, file_size)), j1) \<Rightarrow>
          (Inr (), j1, [CrFileDigest (tj_id j1) (tj_file_num j1) last_modified file_size (tj_is_resume j1) conn_id]))"

definition cm_read_turn :: "FsEnv \<Rightarrow> int \<Rightarrow> TransferJob \<Rightarrow> TransferJob \<times> cm_reply list \<times> bool" where
  "cm_read_turn fx conn_id j =
     (case job_read fx j of
        (Inl err, j1) \<Rightarrow> (j1, [CrFileReadError (tj_id j1) (tj_file_num j1) err conn_id], True)
      | (Inr (Some block), j1) \<Rightarrow> (j1, [CrFileBlock block conn_id], False)
      | (Inr None, j1) \<Rightarrow>
          if job_completed j1 then
            (case job_error j1 of
               Some err \<Rightarrow> (j1, [CrFileReadError (tj_id j1) (tj_file_num j1) err conn_id], True)
             | None \<Rightarrow> (j1, [CrFileReadDone (tj_id j1) (tj_file_num j1) conn_id], True))
          else (j1, [], False))"

text \<open>The jobs in their order: a job that cannot be opened is finished and the next one gets the turn.\<close>

fun cm_tick_jobs :: "FsEnv \<Rightarrow> int \<Rightarrow> TransferJob list \<Rightarrow> TransferJob list \<times> cm_reply list \<times> int list" where
  "cm_tick_jobs fx conn_id [] = ([], [], [])"
| "cm_tick_jobs fx conn_id (j # js) =
     (if tj_is_last_job j then (case cm_tick_jobs fx conn_id js of (js', rs, fin) \<Rightarrow> (j # js', rs, fin))
      else
        case init_read_job_for_cm fx conn_id j of
          (Inl err, j1, rs) \<Rightarrow>
            (case cm_tick_jobs fx conn_id js of
               (js', rs', fin) \<Rightarrow>
                 (j1 # js', rs @ CrFileReadError (tj_id j1) (tj_file_num j1) err conn_id # rs', tj_id j1 # fin))
        | (Inr _, j1, rs) \<Rightarrow>
            (case cm_read_turn fx conn_id j1 of
               (j2, rs', finished) \<Rightarrow> (j2 # js, rs @ rs', if finished then [tj_id j2] else [])))"

definition handle_read_jobs_tick :: "FsEnv \<Rightarrow> int \<Rightarrow> TransferJob list \<Rightarrow> TransferJob list \<times> cm_reply list" where
  "handle_read_jobs_tick fx conn_id jobs =
     (case cm_tick_jobs fx conn_id jobs of
        (jobs', rs, finished) \<Rightarrow> (fold (\<lambda>i js. snd (remove_job i js)) finished jobs', rs))"

definition read_all_files :: "FsEnv \<Rightarrow> nat \<Rightarrow> string \<Rightarrow> bool \<Rightarrow> int \<Rightarrow> int \<Rightarrow> cm_reply list" where
  "read_all_files fx max_files path include_hidden i conn_id =
     [CrAllFilesResult i conn_id path
        (case fx_recursive_files fx path include_hidden of
           Inl e \<Rightarrow> Inl e
         | Inr files \<Rightarrow> (case check_file_count_limit max_files (length files) of Inl msg \<Rightarrow> Inl msg | Inr _ \<Rightarrow> Inr files))]"

section \<open>Commands\<close>

definition handle_result :: "(string + unit) \<times> fs_op list \<Rightarrow> int \<Rightarrow> int \<Rightarrow> cm_reply list \<times> fs_op list" where
  "handle_result res i file_num =
     (case res of
        (Inl err, ops) \<Rightarrow> ([CrResponse (FrError i err file_num)], ops)
      | (Inr _, ops) \<Rightarrow> ([CrResponse (FrDone i file_num)], ops))"

definition check_digest :: "FsEnv \<Rightarrow> int \<Rightarrow> int \<Rightarrow> nat \<Rightarrow> nat \<Rightarrow> bool \<Rightarrow> bool \<Rightarrow> TransferJob \<Rightarrow> TransferJob \<times> cm_reply list" where
  "check_digest fx i file_num file_size last_modified is_upload is_resume job =
     (let req = \<lparr>sc_id = i, sc_file_num = file_num, sc_union = Some (CuOffsetBlk 0)\<rparr>;
          digest = \<lparr>dg_id = i, dg_file_num = file_num, dg_last_modified = last_modified, dg_file_size = file_size,
             dg_is_upload = False, dg_is_identical = False, dg_transferred_size = 0, dg_is_resume = False\<rparr> in
      if usize_of file_num < length (tj_files job) then
        (case tj_data_source job of
           DsFilePath p \<Rightarrow>
             (case is_write_need_confirmation fx is_resume (job_join p (fe_name (tj_files job ! usize_of file_num))) digest of
                Inl err \<Rightarrow> (job, [CrResponse (FrError i err file_num)])
              | Inr result \<Rightarrow>
                  (job\<lparr>tj_digest := \<lparr>fd_size = file_size, fd_modified = last_modified\<rparr>\<rparr>,
                   case result of
                     IsSame \<Rightarrow> [CrConfirm (req\<lparr>sc_union := Some (CuSkip True)\<rparr>)]
                   | NeedConfirm d \<Rightarrow> [CrResponse (FrDigest (d\<lparr>dg_is_upload := is_upload\<rparr>))]
                   | NoSuchFile \<Rightarrow> [CrConfirm req]))
         | DsMemoryCursor _ \<Rightarrow> (job, []))
      else (job, []))"

text \<open>\<open>None\<close>: the process panics.\<close>

fun handle_fs :: "FsEnv \<Rightarrow> nat \<Rightarrow> Fs \<Rightarrow> CmState \<Rightarrow> (CmState \<times> cm_reply list \<times> fs_op list) option" where
  "handle_fs fx mx (FsReadEmptyDirs dir hidden) s = Some (s, if fx_dir_ok fx dir then [CrEmptyDirs dir hidden] else [], [])"
| "handle_fs fx mx (FsReadDir dir hidden) s =
     (let path = (if dir = [] then fx_home fx else dir) in
      Some (s, if fx_dir_ok fx path then [CrDir path hidden] else [], []))"
| "handle_fs fx mx (FsRemoveDir path i recursive) s =
     (case handle_result (case fx_remove_dir fx path recursive of Some e \<Rightarrow> Inl e | None \<Rightarrow> Inr (), [OpRemoveDir path recursive]) i 0 of
        (rs, ops) \<Rightarrow> Some (s, rs, ops))"
| "handle_fs fx mx (FsRemoveFile path i file_num) s =
     (case handle_result (fs_remove_file fx path) i file_num of (rs, ops) \<Rightarrow> Some (s, rs, ops))"
| "handle_fs fx mx (FsCreateDir path i) s =
     (case handle_result (fs_create_dir fx path) i 0 of (rs, ops) \<Rightarrow> Some (s, rs, ops))"
| "handle_fs fx mx (FsNewWrite path i file_num files overwrite_detection total_size conn_id) s =
     (let entries = map (\<lambda>(name, modified). FileEntry_default\<lparr>fe_name := name, fe_modified_time := modified\<rparr>) files;
          job = new_write i JobGeneric [] (DsFilePath path) file_num False False overwrite_detection in
      case set_files fx entries job of
        Inl e \<Rightarrow> Some (s, [CrResponse (FrError i e file_num)], [])
      | Inr job \<Rightarrow>
          Some (s\<lparr>cm_write_jobs := cm_write_jobs s @ [job\<lparr>tj_total_size := total_size, tj_conn_id := conn_id\<rparr>]\<rparr>, [], []))"
| "handle_fs fx mx (FsCancelWrite i) s =
     (case remove_job i (cm_write_jobs s) of
        (Some job, jobs) \<Rightarrow> Some (s\<lparr>cm_write_jobs := jobs\<rparr>, [CrLog (job, False, True, [])], remove_download_file fx job)
      | (None, _) \<Rightarrow> Some (s, [], []))"
| "handle_fs fx mx (FsWriteDone i file_num) s =
     (case remove_job i (cm_write_jobs s) of
        (Some job, jobs) \<Rightarrow>
          Some (s\<lparr>cm_write_jobs := jobs\<rparr>, [CrResponse (FrDone i file_num), CrLog (job, True, False, [])], modify_time fx job)
      | (None, _) \<Rightarrow> Some (s, [], []))"
| "handle_fs fx mx (FsWriteError i file_num err) s =
     (case remove_job i (cm_write_jobs s) of
        (Some job, jobs) \<Rightarrow>
          Some (s\<lparr>cm_write_jobs := jobs\<rparr>, [CrLog (job, False, False, err), CrResponse (FrError (tj_id job) err file_num)], [])
      | (None, _) \<Rightarrow> Some (s, [], []))"
| "handle_fs fx mx (FsWriteBlock i file_num data compressed) s =
     (case get_job i (cm_write_jobs s) of
        Some job \<Rightarrow>
          (case job_write fx \<lparr>bk_id = i, bk_file_num = file_num, bk_data = data, bk_compressed = compressed\<rparr> job of
             (r, job', ops) \<Rightarrow>
               Some (s\<lparr>cm_write_jobs := put_job job' (cm_write_jobs s)\<rparr>,
                     case r of Inl err \<Rightarrow> [CrResponse (FrError i err file_num)] | Inr _ \<Rightarrow> [], ops))
      | None \<Rightarrow> Some (s, [], []))"
| "handle_fs fx mx (FsCheckDigest i file_num file_size last_modified is_upload is_resume) s =
     (case get_job i (cm_write_jobs s) of
        Some job \<Rightarrow>
          (case check_digest fx i file_num file_size last_modified is_upload is_resume job of
             (job', rs) \<Rightarrow> Some (s\<lparr>cm_write_jobs := put_job job' (cm_write_jobs s)\<rparr>, rs, []))
      | None \<Rightarrow> Some (s, [], []))"
| "handle_fs fx mx (FsSendConfirm r) s =
     (case get_job (sc_id r) (cm_write_jobs s) of
        Some job \<Rightarrow> map_option (\<lambda>job'. (s\<lparr>cm_write_jobs := put_job job' (cm_write_jobs s)\<rparr>, [], [])) (confirm fx r job)
      | None \<Rightarrow> Some (s, [], []))"
| "handle_fs fx mx (FsRename i path new_name) s =
     (case handle_result (fs_rename_file fx path new_name) i 0 of (rs, ops) \<Rightarrow> Some (s, rs, ops))"
| "handle_fs fx mx (FsReadFile path i file_num hidden conn_id overwrite_detection) s =
     (case start_read_job fx mx path file_num hidden i conn_id overwrite_detection (cm_read_jobs s) of
        (jobs, rs) \<Rightarrow> Some (s\<lparr>cm_read_jobs := jobs\<rparr>, rs, []))"
| "handle_fs fx mx (FsCancelRead i conn_id) s =
     (case remove_job i (cm_read_jobs s) of
        (Some job, jobs) \<Rightarrow> Some (s\<lparr>cm_read_jobs := jobs\<rparr>, [CrLog (job, False, True, [])], [])
      | (None, _) \<Rightarrow> Some (s, [], []))"
| "handle_fs fx mx (FsSendConfirmForRead i file_num skip offset_blk conn_id) s =
     (case get_job i (cm_read_jobs s) of
        Some job \<Rightarrow>
          map_option (\<lambda>job'. (s\<lparr>cm_read_jobs := put_job job' (cm_read_jobs s)\<rparr>, [], []))
            (confirm fx \<lparr>sc_id = i, sc_file_num = tj_file_num job,
               sc_union = Some (if skip then CuSkip True else CuOffsetBlk offset_blk)\<rparr> job)
      | None \<Rightarrow> Some (s, [], []))"
| "handle_fs fx mx (FsReadAllFiles path i hidden conn_id) s = Some (s, read_all_files fx mx path hidden i conn_id, [])"
| "handle_fs fx mx (FsWriteOffset i file_num offset) s = Some (s, [], [])"

section \<open>Messages of the peer\<close>

text \<open>The command the connection makes of a \<open>FileResponse\<close> (\<open>on_message\<close> of \<open>src/src/server/connection.rs\<close>).\<close>

fun response_command :: "FileResponse \<Rightarrow> Fs option" where
  "response_command (FrBlock block) =
     Some (FsWriteBlock (bk_id block) (bk_file_num block) (bk_data block) (bk_compressed block))"
| "response_command (FrDone i file_num) = Some (FsWriteDone i file_num)"
| "response_command (FrDigest d) =
     Some (FsCheckDigest (dg_id d) (dg_file_num d) (dg_file_size d) (dg_last_modified d) True (dg_is_resume d))"
| "response_command (FrError i err file_num) = Some (FsWriteError i file_num err)"
| "response_command _ = None"

section \<open>Runs\<close>

text \<open>
  The commands of one connection, each with the file system it meets; the trace pairs each command with the changes
  it made.
\<close>

fun fs_run :: "nat \<Rightarrow> (FsEnv \<times> Fs) list \<Rightarrow> CmState \<Rightarrow> (CmState \<times> (Fs \<times> fs_op list) list) option" where
  "fs_run mx [] s = Some (s, [])"
| "fs_run mx ((fx, c) # cs) s =
     (case handle_fs fx mx c s of
        None \<Rightarrow> None
      | Some (s', _, ops) \<Rightarrow> map_option (\<lambda>(s'', tr). (s'', (c, ops) # tr)) (fs_run mx cs s'))"

definition cm_start :: CmState where
  "cm_start = \<lparr>cm_write_jobs = [], cm_read_jobs = []\<rparr>"

text \<open>The commands that name the file or directory they change.\<close>

fun names_its_target :: "Fs \<Rightarrow> bool" where
  "names_its_target (FsRemoveDir _ _ _) = True"
| "names_its_target (FsRemoveFile _ _ _) = True"
| "names_its_target (FsCreateDir _ _) = True"
| "names_its_target (FsRename _ _ _) = True"
| "names_its_target _ = False"

fun upload_target :: "Fs \<Rightarrow> string option" where
  "upload_target (FsNewWrite path _ _ _ _ _ _) = Some path"
| "upload_target _ = None"

section \<open>Confinement\<close>

definition jobs_ok :: "string set \<Rightarrow> TransferJob list \<Rightarrow> bool" where
  "jobs_ok bases js \<longleftrightarrow> list_all (\<lambda>j. \<exists>base \<in> bases. job_ok base j) js"

lemma get_job_ok: "jobs_ok B js \<Longrightarrow> get_job i js = Some j \<Longrightarrow> \<exists>base \<in> B. job_ok base j"
  by (induction js) (auto simp: jobs_ok_def split: if_splits)

lemma remove_job_ok:
  "jobs_ok B js \<Longrightarrow> jobs_ok B (snd (remove_job i js)) \<and> (\<forall>j. fst (remove_job i js) = Some j \<longrightarrow> (\<exists>base \<in> B. job_ok base j))"
  by (induction js) (auto simp: jobs_ok_def case_prod_beta)

lemma put_job_ok: "jobs_ok B js \<Longrightarrow> base \<in> B \<Longrightarrow> job_ok base j \<Longrightarrow> jobs_ok B (put_job j js)"
  by (induction js) (auto simp: jobs_ok_def)

lemma new_write_ok:
  assumes "set_files fx entries (new_write i JobGeneric [] (DsFilePath path) n a b c) = Inr job"
  shows "job_ok path (job\<lparr>tj_total_size := t, tj_conn_id := cn\<rparr>)"
  using assms by (auto simp: set_files_def new_write_def job_ok_def split: sum.splits)

lemma check_digest_ok: "job_ok base j \<Longrightarrow> job_ok base (fst (check_digest fx i n sz lm up rs j))"
  by (auto simp: check_digest_def Let_def job_ok_def split: DataSource.splits sum.splits)

definition fs_step_ok :: "string set \<Rightarrow> Fs \<Rightarrow> CmState \<times> cm_reply list \<times> fs_op list \<Rightarrow> bool" where
  "fs_step_ok B c res \<longleftrightarrow> jobs_ok B (cm_write_jobs (fst res)) \<and>
     (names_its_target c \<or> (\<forall>op \<in> set (snd (snd res)). \<exists>base \<in> B. op_ok base op))"

lemma fs_step_okI:
  "jobs_ok B (cm_write_jobs s) \<Longrightarrow> base \<in> B \<Longrightarrow> list_all (op_ok base) ops \<Longrightarrow> fs_step_ok B c (s, rs, ops)"
  "jobs_ok B (cm_write_jobs s) \<Longrightarrow> fs_step_ok B c (s, rs, [])"
  "jobs_ok B (cm_write_jobs s) \<Longrightarrow> names_its_target c \<Longrightarrow> fs_step_ok B c (s, rs, ops)"
  by (auto simp: fs_step_ok_def list_all_iff)

lemma handle_fs_ok:
  assumes s: "jobs_ok B (cm_write_jobs s)" and h: "handle_fs fx mx c s = Some res"
  shows "fs_step_ok (set_option (upload_target c) \<union> B) c res"
proof (cases c)
  case (FsNewWrite path i n files d t cn)
  have "jobs_ok (insert path B) (cm_write_jobs s)" using s by (auto simp: jobs_ok_def list_all_iff)
  then show ?thesis
    using h FsNewWrite new_write_ok
    by (auto simp: Let_def jobs_ok_def intro!: fs_step_okI split: sum.splits)
next
  case (FsCancelWrite i)
  then show ?thesis
    using h s remove_job_ok [OF s, of i] remove_download_ok
    by (cases "remove_job i (cm_write_jobs s)") (fastforce intro: fs_step_okI split: option.splits)
next
  case (FsWriteDone i n)
  then show ?thesis
    using h s remove_job_ok [OF s, of i] modify_time_ok
    by (cases "remove_job i (cm_write_jobs s)") (fastforce intro: fs_step_okI split: option.splits)
next
  case (FsWriteError i n err)
  then show ?thesis
    using h s remove_job_ok [OF s, of i]
    by (cases "remove_job i (cm_write_jobs s)") (auto intro!: fs_step_okI split: option.splits)
next
  case (FsWriteBlock i n d z)
  show ?thesis
  proof (cases "get_job i (cm_write_jobs s)")
    case None
    then show ?thesis using h s FsWriteBlock by (auto intro!: fs_step_okI)
  next
    case (Some job)
    obtain base where b: "base \<in> B" "job_ok base job" using get_job_ok [OF s Some] by blast
    obtain r job' ops where w: "job_write fx \<lparr>bk_id = i, bk_file_num = n, bk_data = d, bk_compressed = z\<rparr> job = (r, job', ops)"
      by (metis prod_cases3)
    have "job_ok base job'" "list_all (op_ok base) ops"
      using job_write_ok [OF b(2), of fx "\<lparr>bk_id = i, bk_file_num = n, bk_data = d, bk_compressed = z\<rparr>"]
      by (simp_all add: w step_ok_def)
    then show ?thesis using h s b put_job_ok [OF s b(1)] by (auto simp: FsWriteBlock Some w intro: fs_step_okI)
  qed
next
  case (FsCheckDigest i n sz lm up rs)
  show ?thesis
  proof (cases "get_job i (cm_write_jobs s)")
    case None
    then show ?thesis using h s FsCheckDigest by (auto intro!: fs_step_okI)
  next
    case (Some job)
    obtain base where b: "base \<in> B" "job_ok base job" using get_job_ok [OF s Some] by blast
    from put_job_ok [OF s b(1) check_digest_ok [OF b(2)]] show ?thesis
      using h by (auto simp: FsCheckDigest Some case_prod_beta intro!: fs_step_okI)
  qed
next
  case (FsSendConfirm r)
  show ?thesis
  proof (cases "get_job (sc_id r) (cm_write_jobs s)")
    case None
    then show ?thesis using h s FsSendConfirm by (auto intro!: fs_step_okI)
  next
    case (Some job)
    obtain base where b: "base \<in> B" "job_ok base job" using get_job_ok [OF s Some] by blast
    show ?thesis
      using h put_job_ok [OF s b(1) confirm_ok [OF b(2)]] by (auto simp: FsSendConfirm Some intro!: fs_step_okI)
  qed
qed (use h s in \<open>auto simp: Let_def case_prod_beta fs_step_ok_def split: option.splits\<close>)

lemma fs_run_ok:
  "fs_run mx cs s = Some (s', tr) \<Longrightarrow> jobs_ok B (cm_write_jobs s) \<Longrightarrow> (c, ops) \<in> set tr \<Longrightarrow> op \<in> set ops \<Longrightarrow>
     \<not> names_its_target c \<Longrightarrow> \<exists>base. (base \<in> B \<or> Some base \<in> upload_target ` snd ` set cs) \<and> op_ok base op"
proof (induction mx cs s arbitrary: s' tr B rule: fs_run.induct)
  case (1 mx s)
  then show ?case by simp
next
  case (2 mx fx c0 cs s)
  obtain s1 rs ops1 where h: "handle_fs fx mx c0 s = Some (s1, rs, ops1)"
    using 2(2) by (auto split: option.splits)
  obtain tr1 where r: "fs_run mx cs s1 = Some (s', tr1)" and tr: "tr = (c0, ops1) # tr1"
    using 2(2) h by auto
  let ?B = "set_option (upload_target c0) \<union> B"
  have ok: "fs_step_ok ?B c0 (s1, rs, ops1)" by (rule handle_fs_ok [OF 2(3) h])
  then have j1: "jobs_ok ?B (cm_write_jobs s1)" by (simp add: fs_step_ok_def)
  show ?case
  proof (cases "(c, ops) = (c0, ops1)")
    case True
    then show ?thesis using ok 2(5,6) by (fastforce simp: fs_step_ok_def)
  next
    case False
    then have "(c, ops) \<in> set tr1" using 2(4) tr by auto
    from 2(1) [OF h refl refl r j1 this 2(5,6)] show ?thesis by fastforce
  qed
qed

text \<open>
  C6: A peer's uploads stay where they were started: in every run of the connection manager's file commands, each
  change of the file system made by a command of a transfer (the blocks, their end, a cancellation, a confirmation)
  is at or below a directory that some transfer was started with, up to the suffixes \<open>.download\<close> and \<open>.digest\<close> of a
  file that is the target itself and the creation of the target's parent. Only the four commands that name what they
  change can change anything else.
\<close>

theorem uploads_confined:
  assumes "fs_run mx cs cm_start = Some (s, tr)" "(c, ops) \<in> set tr" "op \<in> set ops" "\<not> names_its_target c"
  shows "\<exists>path. Some path \<in> upload_target ` snd ` set cs \<and> op_ok path op"
  using fs_run_ok [OF assms(1) _ assms(2,3,4), of "{}"] by (auto simp: cm_start_def jobs_ok_def)

text \<open>A small disk for the examples: nothing is on it and everything succeeds.\<close>

definition demo_fs :: FsEnv where
  "demo_fs = \<lparr>fx_symlink_metadata = (\<lambda>_. MetaMissing), fx_recursive_files = (\<lambda>_ _. Inr []), fx_exists = (\<lambda>_. False),
     fx_is_file = (\<lambda>_. False), fx_remove_file = (\<lambda>_. None), fx_create = (\<lambda>_. None), fx_sync = None, fx_write = None,
     fx_open = (\<lambda>_. Inl ''not found''), fx_open_write = (\<lambda>_. None), fx_seek_ok = True,
     fx_metadata = (\<lambda>_. Inl ''not found''), fx_read_digest = (\<lambda>_. None), fx_read = (\<lambda>_. Inr 65536),
     fx_zstd_compress = Some, fx_zstd_decode = Some, fx_remove_dir = (\<lambda>_ _. None), fx_dir_ok = (\<lambda>_. True),
     fx_home = ''/home'', fx_create_dir_all = (\<lambda>_. None), fx_rename = (\<lambda>_ _. None), fx_send = None\<rparr>"

section \<open>Example\<close>

definition demo_job :: TransferJob where
  "demo_job = (new_write 1 JobGeneric [] (DsFilePath ''/up'') 0 False False False)
     \<lparr>tj_files := [FileEntry_default\<lparr>fe_name := ''a/b'', fe_modified_time := 0\<rparr>], tj_total_size := 3, tj_conn_id := 0\<rparr>"

lemma demo_paths:
  "validate_file_name_no_traversal ''a/b'' = Inr ()"
  "components ''a/b'' = [Normal ''a'', Normal ''b'']"
  "components ''/up/a/b'' = [RootDir, Normal ''up'', Normal ''a'', Normal ''b'']"
  by (simp_all add: validate_file_name_no_traversal_def components_def Let_def piece_def)

lemma demo_join:
  "validate_no_symlink_components demo_fs ''/up'' ''a/b'' = Inr ()"
  "join_validated_path demo_fs ''/up'' ''a/b'' = Inr ''/up/a/b''"
  by (simp_all add: join_validated_path_def validate_no_symlink_components_def demo_paths demo_fs_def job_join_def path_join_def)

lemma demo_new_write:
  "handle_fs demo_fs 10 (FsNewWrite ''/up'' 1 0 [(''a/b'', 0)] False 3 0) cm_start =
     Some (\<lparr>cm_write_jobs = [demo_job], cm_read_jobs = []\<rparr>, [], [])"
  by (simp add: cm_start_def set_files_def validate_transfer_file_names_def demo_paths demo_join new_write_def
      FileEntry_default_def demo_job_def)

lemma demo_write_block:
  "\<exists>s rs ops. handle_fs demo_fs 10 (FsWriteBlock 1 0 [1, 2, 3] False) \<lparr>cm_write_jobs = [demo_job], cm_read_jobs = []\<rparr> =
     Some (s, rs, ops) \<and> OpWrite (download_path ''/up/a/b'') 0 [1, 2, 3] \<in> set ops"
proof -
  have "map_option (snd \<circ> snd) (handle_fs demo_fs 10 (FsWriteBlock 1 0 [1, 2, 3] False) \<lparr>cm_write_jobs = [demo_job], cm_read_jobs = []\<rparr>) =
    Some [OpRemove (digest_path ''/up/a/b''), OpRename (download_path ''/up/a/b'') ''/up/a/b'', OpSetMtime ''/up/a/b'' 0,
      OpCreateDirAll [RootDir, Normal ''up'', Normal ''a''], OpCreate (download_path ''/up/a/b''),
      OpWriteDigest (digest_path ''/up/a/b'') \<lparr>fd_size = 0, fd_modified = 0\<rparr>,
      OpWrite (download_path ''/up/a/b'') 0 [1, 2, 3]]"
    by (simp add: demo_job_def new_write_def job_write_def usize_of_def open_for_write_def modify_time_def entry_path_def
        resolve_entry_path_def demo_join FileEntry_default_def write_target_def demo_paths parent_def)
      (simp add: demo_fs_def write_data_def write_stream_def)
  then show ?thesis by (auto simp del: handle_fs.simps)
qed

theorem uploads_confined_witness:
  "\<exists>path. Some path \<in> upload_target ` snd ` set
       [(demo_fs, FsNewWrite ''/up'' 1 0 [(''a/b'', 0)] False 3 0), (demo_fs, FsWriteBlock 1 0 [1, 2, 3] False)] \<and>
     op_ok path (OpWrite (download_path ''/up/a/b'') 0 [1, 2, 3])"
proof -
  obtain s rs ops where h: "handle_fs demo_fs 10 (FsWriteBlock 1 0 [1, 2, 3] False) \<lparr>cm_write_jobs = [demo_job], cm_read_jobs = []\<rparr> =
      Some (s, rs, ops)" and op: "OpWrite (download_path ''/up/a/b'') 0 [1, 2, 3] \<in> set ops"
    using demo_write_block by blast
  show ?thesis
    by (rule uploads_confined [where c = "FsWriteBlock 1 0 [1, 2, 3] False" and mx = 10, OF _ _ op],
        simp add: demo_new_write h del: handle_fs.simps, simp, simp)
qed

section \<open>Errors\<close>

text \<open>
  C36: The index of a confirmation is not checked: a peer that starts a transfer of no files and then confirms it at an
  offset other than zero makes the connection manager index an empty list and abort, whatever the path, the file
  number and the file system are.
\<close>

theorem confirm_without_files_panics:
  "fs_run mx [(fx, FsNewWrite path i n [] d t cn),
              (fx', FsSendConfirm \<lparr>sc_id = i, sc_file_num = n, sc_union = Some (CuOffsetBlk (Suc offset))\<rparr>)] cm_start = None"
  by (simp add: cm_start_def set_files_def validate_transfer_file_names_def new_write_def confirm_def set_stream_offset_def
      set_file_confirmed_def)

lemma job_write_failed_create:
  assumes "tj_type j = JobGeneric" "tj_data_source j = DsFilePath base" "tj_data_stream j = Some (FileStream p c pos)"
    "usize_of n < length (tj_files j)" "usize_of n \<noteq> usize_of (tj_file_num j)"
    "join_validated_path fx base (fe_name (tj_files j ! usize_of n)) = Inr path"
    "fx_sync fx = None" "\<not> fx_exists fx (digest_path path)" "fx_create fx (download_path path) = Some err"
  shows "\<exists>ops. job_write fx \<lparr>bk_id = tj_id j, bk_file_num = n, bk_data = d, bk_compressed = False\<rparr> j =
     (Inl err, j\<lparr>tj_file_num := n\<rparr>, ops)"
  using assms by (simp add: job_write_def open_for_write_def write_target_def Let_def)

text \<open>
  C37: A file that cannot be created corrupts the one before it. The failed block has already moved the job to the new
  file number and keeps the previous file's stream, so the next block of the new file passes every check and is
  written into the previous file, at its end.
\<close>

theorem failed_create_misdirects:
  assumes "tj_type j = JobGeneric" "tj_data_source j = DsFilePath base" "tj_data_stream j = Some (FileStream p c pos)"
    "usize_of n < length (tj_files j)" "usize_of n \<noteq> usize_of (tj_file_num j)"
    "join_validated_path fx base (fe_name (tj_files j ! usize_of n)) = Inr path"
    "fx_sync fx = None" "\<not> fx_exists fx (digest_path path)" "fx_create fx (download_path path) = Some err" "fx_write fx' = None"
  shows "\<exists>j' ops. job_write fx \<lparr>bk_id = tj_id j, bk_file_num = n, bk_data = d, bk_compressed = False\<rparr> j = (Inl err, j', ops) \<and>
     fst (job_write fx' \<lparr>bk_id = tj_id j, bk_file_num = n, bk_data = d', bk_compressed = False\<rparr> j') = Inr () \<and>
     snd (snd (job_write fx' \<lparr>bk_id = tj_id j, bk_file_num = n, bk_data = d', bk_compressed = False\<rparr> j')) = [OpWrite p pos d']"
proof -
  have "snd (snd (job_write fx' \<lparr>bk_id = tj_id j, bk_file_num = n, bk_data = d', bk_compressed = False\<rparr> (j\<lparr>tj_file_num := n\<rparr>)))
      = [OpWrite p pos d']"
    "fst (job_write fx' \<lparr>bk_id = tj_id j, bk_file_num = n, bk_data = d', bk_compressed = False\<rparr> (j\<lparr>tj_file_num := n\<rparr>)) = Inr ()"
    using assms(2-4,10) by (simp_all add: job_write_def write_data_def write_stream_def)
  then show ?thesis using job_write_failed_create [OF assms(1-9), of d] by blast
qed

definition full_fs :: FsEnv where
  "full_fs = demo_fs\<lparr>fx_create := (\<lambda>_. Some ''no space'')\<rparr>"

theorem failed_create_misdirects_witness:
  "\<exists>j' ops. job_write full_fs \<lparr>bk_id = 1, bk_file_num = 1, bk_data = [7], bk_compressed = False\<rparr>
       (demo_job\<lparr>tj_files := [FileEntry_default, FileEntry_default\<lparr>fe_name := ''a/b''\<rparr>],
                 tj_data_stream := Some (FileStream ''/up/x.download'' [] 4)\<rparr>) = (Inl ''no space'', j', ops) \<and>
     snd (snd (job_write demo_fs \<lparr>bk_id = 1, bk_file_num = 1, bk_data = [8], bk_compressed = False\<rparr> j')) = [OpWrite ''/up/x.download'' 4 [8]]"
proof -
  have "join_validated_path full_fs ''/up'' ''a/b'' = Inr ''/up/a/b''"
    by (simp add: join_validated_path_def validate_no_symlink_components_def demo_paths full_fs_def demo_fs_def job_join_def path_join_def)
  then show ?thesis
    using failed_create_misdirects [of "demo_job\<lparr>tj_files := [FileEntry_default, FileEntry_default\<lparr>fe_name := ''a/b''\<rparr>],
        tj_data_stream := Some (FileStream ''/up/x.download'' [] 4)\<rparr>" "''/up''" "''/up/x.download''" "[]" 4 1 full_fs
        "''/up/a/b''" "''no space''" demo_fs "[7]" "[8]"]
    by (simp add: demo_job_def new_write_def usize_of_def full_fs_def demo_fs_def) blast
qed

end
