(* ===== verification/Login.thy ===== *)
theory Login
  imports Login_Guard Password Cm_Files File_Log Floats
begin

text \<open>
  Logging in to the controlled side, \<open>src/src/server/connection.rs\<close>: the \<open>Connection\<close> of a peer and the
  process-wide state it shares with the others, permissions, the login request with its session scope, password,
  recent session and two-factor code, switching sides, and what authorising a connection sets up.

  The build is the Linux desktop one (features \<open>flutter\<close> and \<open>unix-file-copy-paste\<close>).  The machine the
  connection runs on is the record \<open>Env\<close>: configuration, clock, random values, the time-based one-time
  passwords of \<open>totp_rs\<close>, the outcome of a TCP connect, of starting a desktop and of listing displays.
  An operation maps a \<open>World\<close> (connection, shared state, effects so far) to a \<open>World\<close>; messages sent to the
  peer, to the connection manager and to the services are the effects, of type \<open>event\<close>, in their order.
  Not in the model: the contents of \<open>PeerInfo\<close> (machine information), \<open>peer_argb\<close> (a colour) and \<open>avatar\<close> (a picture),
  logging; an audit event is the call that posts it.
\<close>

section \<open>State\<close>

type_synonym totp = string

datatype ConnAuditPrimaryAuth = PaNone | PaClick | PaTemporaryPassword | PaPermanentPassword | PaSwitchSides

datatype ConnAuditTwoFactor = TfNone | TfTotp | TfTrustedDevice

record SessionKey =
  sk_peer_id :: string
  sk_name :: string
  sk_session_id :: int

text \<open>\<open>last_recv_time\<close> is shared between a session and the connections using it: the index of a cell.\<close>

record Session =
  ss_last_recv_time :: nat
  ss_random_password :: string
  ss_tfa :: bool

record AuthedConn =
  ac_conn_id :: int
  ac_conn_type :: AuthConnType
  ac_session_key :: SessionKey
  ac_printer :: bool

record Connection =
  cn_id :: int
  cn_display_idx :: nat
  cn_read_jobs :: "TransferJob list"
  cn_file_timer_ms :: nat
  cn_hash :: Hash
  cn_file_transfer :: "(string \<times> bool) option"
  cn_view_camera :: bool
  cn_terminal :: bool
  cn_port_forward_socket :: "string option"
  cn_port_forward_address :: string
  cn_authorized :: bool
  cn_require_2fa :: "totp option"
  cn_keyboard :: bool
  cn_clipboard :: bool
  cn_audio :: bool
  cn_file :: bool
  cn_restart :: bool
  cn_recording :: bool
  cn_block_input :: bool
  cn_privacy_mode :: bool
  cn_control_permissions :: "u64 option"
  cn_last_test_delay :: "nat option"
  cn_network_delay :: int
  cn_lock_after_session_end :: bool
  cn_show_remote_cursor :: bool
  cn_ip :: string
  cn_disable_keyboard :: bool
  cn_show_my_cursor :: bool
  cn_disable_clipboard :: bool
  cn_disable_audio :: bool
  cn_enable_file_transfer :: bool
  cn_audio_sender :: bool
  cn_video_ack_required :: bool
  cn_lr :: LoginRequest
  cn_session_last_recv_time :: "nat option"
  cn_chat_unanswered :: bool
  cn_file_transferred :: bool
  cn_from_switch :: bool
  cn_voice_call_request_timestamp :: "int option"
  cn_voice_calling :: bool
  cn_options_in_login :: "OptionMessage option"
  cn_pressed_modifiers :: "int list"
  cn_headless_allowed :: bool
  cn_headless :: bool
  cn_closed :: bool
  cn_start_cm_ipc_para :: bool
  cn_auto_disconnect_timer :: "(nat \<times> nat) option"
  cn_authed_conn_id :: "AuthConnType option"
  cn_services_subed :: bool
  cn_delayed_read_dir :: "(string \<times> bool) option"
  cn_follow_remote_cursor :: bool
  cn_follow_remote_window :: bool
  cn_multi_ui_session :: bool
  cn_audit_primary_auth :: ConnAuditPrimaryAuth
  cn_audit_two_factor :: ConnAuditTwoFactor
  cn_terminal_service_id :: string
  cn_terminal_persistent :: bool
  cn_file_remove_log_control :: FileRemoveLogControl
  cn_printer_data :: "(string \<times> bytes) list"
  cn_cm_read_job_ids :: "int list"
  cn_scope_violation_messages :: "string list"
  cn_terminal_user_token :: bool
  cn_terminal_generic_service :: bool

text \<open>The statics of the process: failure counters, sessions and their time cells, the temporary password, the
  configuration store, the switch-sides tickets and the authorised connections.\<close>

record Globals =
  gl_guard :: Guard
  gl_sessions :: "SessionKey \<rightharpoonup> Session"
  gl_cells :: "nat \<Rightarrow> nat"
  gl_next_cell :: nat
  gl_temp :: TempPassword
  gl_store :: PwStore
  gl_switch_sides :: "string \<rightharpoonup> nat \<times> bytes"
  gl_pending_switch_sides :: "string \<rightharpoonup> nat \<times> bytes"
  gl_authed_conns :: "AuthedConn list"
  gl_click_time :: int
  gl_mouse_move_time :: int

datatype VideoSource = Monitor | Camera

record Env =
  ev_deps :: PwDeps
  ev_pwenv :: PwEnv
  ev_opt :: options
  ev_builtin :: options
  ev_hard :: settings
  ev_id :: string
  ev_now :: nat
  ev_now_ms :: int
  ev_rng :: "nat \<Rightarrow> nat"
  ev_nonces :: "bytes \<times> bytes"
  ev_totp_check :: "totp \<Rightarrow> string \<Rightarrow> bool option"
  ev_connect :: "string \<Rightarrow> bool"
  ev_is_direct_ip_access :: "string \<Rightarrow> bool"
  ev_in_privacy_mode :: bool
  ev_is_logon :: bool
  ev_desktop_username :: string
  ev_try_start_desktop :: "string \<Rightarrow> string \<Rightarrow> string"
  ev_display_server_error :: string
  ev_displays_error :: "string option"
  ev_service_specified_user :: "string \<Rightarrow> bool option"
  ev_new_service_id :: string
  ev_is_dir :: "string \<Rightarrow> bool"
  ev_telegram_bot :: bool
  ev_is_prelogin :: bool
  ev_whiteboard_supported :: bool
  ev_modifier_key :: "int \<Rightarrow> int option"
  ev_fs :: FsEnv
  ev_need_fs_cm_send_files :: bool
  ev_serve_clip_messages :: "bytes \<Rightarrow> ((string \<times> int) list + bytes) list"
  ev_services :: "string list"
  ev_primary_display :: nat
  ev_subbed_displays :: nat
  ev_try_get_displays :: "string + (string \<times> int \<times> int) list"
  ev_sync_displays :: "(int \<times> int \<times> int \<times> int \<times> rat) list"
  ev_display_changed_msg :: "VideoSource \<Rightarrow> nat \<Rightarrow> bytes option"
  ev_default_sound_input :: "string option"
  ev_terminal_response :: "bytes \<Rightarrow> string + bytes option"
  ev_is_privacy_mode_supported :: bool
  ev_privacy_mode_conn :: "int option"
  ev_cur_impl_key :: "string option"
  ev_is_current_privacy_mode_impl :: "string \<Rightarrow> bool"
  ev_turn_on_privacy :: "string \<Rightarrow> (string + bool) option"
  ev_check_privacy_mode_err :: "nat \<Rightarrow> string"
  ev_in_privacy_mode_after :: bool
  ev_turn_off_privacy :: "int \<Rightarrow> (string + unit) option"
  ev_cidr_contains :: "string \<Rightarrow> string \<Rightarrow> bool"
  ev_main_window_open :: bool
  ev_is_server :: bool
  ev_wakelock_keep_awake :: "bool option"
  ev_bitrate :: int

record CmLogin =
  cl_id :: int
  cl_is_file_transfer :: bool
  cl_is_view_camera :: bool
  cl_is_terminal :: bool
  cl_port_forward :: string
  cl_peer_id :: string
  cl_name :: string
  cl_authorized :: bool
  cl_keyboard :: bool
  cl_clipboard :: bool
  cl_audio :: bool
  cl_file :: bool
  cl_file_transfer_enabled :: bool
  cl_restart :: bool
  cl_recording :: bool
  cl_block_input :: bool
  cl_privacy_mode :: bool
  cl_from_switch :: bool

datatype PrivacyModeState =
    PrvStateUnknown
  | PrvOnByOther
  | PrvNotSupported
  | PrvOnSucceeded
  | PrvOnFailedDenied
  | PrvOnFailedPlugin
  | PrvOnFailed
  | PrvOffSucceeded
  | PrvOffByPeer
  | PrvOffFailed
  | PrvOffUnknown

datatype ClipboardFile =
    CfNotifyCallback string string string
  | CfMonitorReady
  | CfFormatList "(int \<times> string) list"
  | CfFormatListResponse int
  | CfFormatDataRequest int
  | CfFormatDataResponse int bytes
  | CfFileContentsRequest "int list" bool int
  | CfFileContentsResponse int int bytes
  | CfTryEmpty
  | CfFiles "(string \<times> nat) list"

datatype peer_event =
    EvLoginError string bool
  | EvLoginResponseError string
  | EvPeerInfo
  | EvTestDelay TestDelay
  | EvPermissionInfo string bool
  | EvCloseReason string
  | EvPrivacy PrivacyModeState string string
  | EvBlockInputError bool
  | EvMessageBox string
  | EvFile FileResponse
  | EvCliprdr bytes
  | EvDisplayChanged bytes
  | EvTerminalResponse bytes
  | EvTerminalError string
  | EvSwitchBack
  | EvRaw bytes
  | EvServiceMessage bytes
  | EvClip ClipboardFile
  | EvClipboard bytes
  | EvFollowCurrentDisplay nat
  | EvVoiceCallResponse int bool
  | EvVoiceCallRequest bool
  | EvChatMessage string
  | EvHash Hash

datatype cm_event =
    EvCmLogin CmLogin
  | EvStartCmIpc
  | EvDesktopReady
  | EvCmClose bool
  | EvChat string
  | EvVoiceCallIncoming
  | EvFs Fs
  | EvCmSwitchPermission string bool
  | EvStartVoiceCall
  | EvCloseVoiceCall
  | EvCreateDirLog FileActionLog
  | EvRemoveLog FileActionLog
  | EvRenameLog int string string
  | EvTransferLog job_log
  | EvTransferJobsLog "TransferJob list"

datatype FileAuditType = RemoteSend | RemoteReceive

datatype audit_event =
    EvTelegramCode
  | EvAlarm AlarmAuditType
  | EvConnAudit string string nat ConnAuditPrimaryAuth ConnAuditTwoFactor
  | EvConnAuditNew string
  | EvConnAuditClose
  | EvFileAudit FileAuditType string "(string \<times> int) list"

datatype video_event =
    EvQosOpen int
  | EvQosImageQuality int int
  | EvQosCustomFps int int
  | EvQosNetworkDelay int int
  | EvQosAutoAdjustFps int int
  | EvQosRecord int bool
  | EvEncoderUpdate "bytes option"
  | EvEncoderRemove int
  | EvQosClose int
  | EvQosDelayElapsed int int
  | EvCaptureDisplays VideoSource "nat list" bool bool
  | EvRefreshVideo "(VideoSource \<times> nat) option"
  | EvFrameFetched int bool
  | EvDisplayFrameFetched nat int
  | EvScreenshot VideoSource nat string

datatype service_event =
    EvSubscribe string bool
  | EvAddConnection "string list"
  | EvAddCameraConnection
  | EvAudioThread bytes
  | EvAudioFrame bytes
  | EvVoiceInputDevice "string option" bool
  | EvAddVideoService VideoSource nat
  | EvWakeLock nat nat
  | EvRemoveConnection

text \<open>What acts on the machine: input, clipboard, files, terminals, privacy mode, display modes, power.\<close>

datatype control_event =
    EvInputMouse MouseEvent bool bool
  | EvInputPointer bytes
  | EvInputKey KeyEvent bool
  | EvBlockInput bool
  | EvUpdateClipboard "bytes list"
  | EvClipboardFile bytes
  | EvEmptyFileClipboard
  | EvReadTree string bool
  | EvInitTerminal string bool
  | EvTerminalPersistence string bool
  | EvTerminalAction string bool bytes
  | EvTurnOnPrivacy string
  | EvTurnOffPrivacy int
  | EvRecordResolution string int int int int
  | EvChangeResolution string int int
  | EvWhiteboard bool
  | EvRestoreDesktop
  | EvLockScreen
  | EvForceReboot
  | EvReboot
  | EvConnectBack string bytes

datatype event =
    ToPeer peer_event
  | ToCm cm_event
  | Audit audit_event
  | Video video_event
  | Service service_event
  | Control control_event
  | Aborted

record World =
  w_c :: Connection
  w_g :: Globals
  w_out :: "event list"

definition emit :: "event list \<Rightarrow> World \<Rightarrow> World" where
  "emit es w = w\<lparr>w_out := w_out w @ es\<rparr>"

definition session_key :: "LoginRequest \<Rightarrow> SessionKey" where
  "session_key lr = \<lparr>sk_peer_id = lr_my_id lr, sk_name = lr_my_name lr, sk_session_id = lr_session_id lr\<rparr>"

definition SESSION_TIMEOUT :: nat where
  "SESSION_TIMEOUT = 30 * 1000000000"

definition SWITCH_SIDES_TIMEOUT :: nat where
  "SWITCH_SIDES_TIMEOUT = 10 * 1000000000"

section \<open>Messages to the peer and to the connection manager\<close>

definition REQUIRE_2FA :: string where "REQUIRE_2FA = ''2FA Required''"
definition LOGIN_MSG_OFFLINE :: string where "LOGIN_MSG_OFFLINE = ''Offline''"
definition LOGIN_MSG_PASSWORD_WRONG :: string where "LOGIN_MSG_PASSWORD_WRONG = ''Wrong Password''"
definition LOGIN_MSG_2FA_WRONG :: string where "LOGIN_MSG_2FA_WRONG = ''Wrong 2FA Code''"
definition LOGIN_MSG_NO_PASSWORD_ACCESS :: string where "LOGIN_MSG_NO_PASSWORD_ACCESS = ''No Password Access''"
definition LOGIN_MSG_DESKTOP_SESSION_NOT_READY :: string where
  "LOGIN_MSG_DESKTOP_SESSION_NOT_READY = ''Desktop session not ready''"
definition LOGIN_MSG_DESKTOP_SESSION_NOT_READY_PASSWORD_EMPTY :: string where
  "LOGIN_MSG_DESKTOP_SESSION_NOT_READY_PASSWORD_EMPTY = ''Desktop session not ready, password empty''"
definition LOGIN_MSG_DESKTOP_SESSION_NOT_READY_PASSWORD_WRONG :: string where
  "LOGIN_MSG_DESKTOP_SESSION_NOT_READY_PASSWORD_WRONG = ''Desktop session not ready, password wrong''"

definition enable_trusted_devices :: "Env \<Rightarrow> bool" where
  "enable_trusted_devices env =
     option2bool ''enable-trusted-devices'' (ev_opt env ''enable-trusted-devices'')"

definition send_login_error :: "Env \<Rightarrow> string \<Rightarrow> World \<Rightarrow> World" where
  "send_login_error env err w =
     emit [ToPeer (EvLoginError err (if err = REQUIRE_2FA then enable_trusted_devices env else False))] w"

definition try_start_cm :: "string \<Rightarrow> string \<Rightarrow> bool \<Rightarrow> World \<Rightarrow> World" where
  "try_start_cm peer_id name authorized w =
     (let c = w_c w in
      emit [ToCm (EvCmLogin \<lparr>cl_id = cn_id c, cl_is_file_transfer = cn_file_transfer c \<noteq> None, cl_is_view_camera = cn_view_camera c,
              cl_is_terminal = cn_terminal c, cl_port_forward = cn_port_forward_address c, cl_peer_id = peer_id, cl_name = name,
              cl_authorized = authorized, cl_keyboard = cn_keyboard c, cl_clipboard = cn_clipboard c, cl_audio = cn_audio c,
              cl_file = cn_file c, cl_file_transfer_enabled = cn_file c, cl_restart = cn_restart c, cl_recording = cn_recording c,
              cl_block_input = cn_block_input c, cl_privacy_mode = cn_privacy_mode c, cl_from_switch = cn_from_switch c\<rparr>)] w)"

definition try_start_cm_ipc :: "World \<Rightarrow> World" where
  "try_start_cm_ipc w =
     (if cn_start_cm_ipc_para (w_c w)
      then emit [ToCm EvStartCmIpc] (w\<lparr>w_c := (w_c w)\<lparr>cn_start_cm_ipc_para := False\<rparr>\<rparr>) else w)"

definition wait_desktop_cm_ready :: "World \<Rightarrow> World" where
  "wait_desktop_cm_ready w = (if cn_headless (w_c w) then emit [ToCm EvDesktopReady] w else w)"

section \<open>Permissions\<close>

text \<open>\<open>get_control_permission\<close> of \<open>common.rs\<close>: two bits per permission, 1 disables it, 2 enables it.\<close>

definition get_control_permission :: "u64 \<Rightarrow> int \<Rightarrow> bool option" where
  "get_control_permission permissions index =
     (if 0 \<le> index \<and> index < 32 then
        let shift = nat (index * 2); v = (drop_bit shift permissions) AND 3 in
        if v = 1 then Some False else if v = 2 then Some True else None
      else None)"

definition permission_index :: "string \<Rightarrow> int option" where
  "permission_index enable_prefix_option = map_of
     [(''enable-keyboard'', 0), (''enable-remote-printer'', 1), (''enable-clipboard'', 2), (''enable-file-transfer'', 3),
      (''enable-audio'', 4), (''enable-camera'', 5), (''enable-terminal'', 6), (''enable-tunnel'', 7),
      (''enable-remote-restart'', 8), (''enable-record-session'', 9), (''enable-block-input'', 10),
      (''enable-privacy-mode'', 12)] enable_prefix_option"

definition is_permission_enabled_locally :: "options \<Rightarrow> string \<Rightarrow> bool" where
  "is_permission_enabled_locally opt enable_prefix_option =
     (let access_mode = opt ''access-mode'' in
      if access_mode = ''full'' then True
      else if access_mode = ''view'' then False
      else option2bool enable_prefix_option (opt enable_prefix_option))"

definition permission :: "options \<Rightarrow> string \<Rightarrow> u64 option \<Rightarrow> bool" where
  "permission opt enable_prefix_option control_permissions =
     (case (case (control_permissions, permission_index enable_prefix_option) of
              (Some ps, Some index) \<Rightarrow> get_control_permission ps index
            | _ \<Rightarrow> None) of
        Some enabled \<Rightarrow> enabled
      | None \<Rightarrow> is_permission_enabled_locally opt enable_prefix_option)"

section \<open>Sessions\<close>

text \<open>\<open>retain\<close> drops the sessions whose last message is older than the timeout; \<open>Instant\<close>s are nanoseconds.\<close>

definition retain_recent :: "nat \<Rightarrow> Globals \<Rightarrow> Globals" where
  "retain_recent now g =
     g\<lparr>gl_sessions := (\<lambda>k. case gl_sessions g k of
          Some s \<Rightarrow> if now - gl_cells g (ss_last_recv_time s) < SESSION_TIMEOUT then Some s else None
        | None \<Rightarrow> None)\<rparr>"

definition is_recent_session :: "Env \<Rightarrow> bool \<Rightarrow> World \<Rightarrow> bool \<times> World" where
  "is_recent_session env tfa w0 =
     (let w = w0\<lparr>w_g := retain_recent (ev_now env) (w_g w0)\<rparr>; lr = cn_lr (w_c w) in
      case gl_sessions (w_g w) (session_key lr) of
        Some session \<Rightarrow>
          if lr_password lr \<noteq> [] \<and>
             (tfa \<and> ss_tfa session \<or>
              \<not> tfa \<and> validate_password_plain (ev_deps env) (cn_hash (w_c w)) (lr_password lr) (ss_random_password session))
          then (True, if tfa then w\<lparr>w_c := (w_c w)\<lparr>cn_audit_two_factor := TfTotp\<rparr>\<rparr>
                      else w\<lparr>w_c := (w_c w)\<lparr>cn_audit_primary_auth := PaTemporaryPassword\<rparr>\<rparr>)
          else (False, w)
      | None \<Rightarrow> (False, w))"

definition new_session :: "nat \<Rightarrow> SessionKey \<Rightarrow> string \<Rightarrow> bool \<Rightarrow> Globals \<Rightarrow> Globals" where
  "new_session now key password tfa g =
     g\<lparr>gl_sessions := (gl_sessions g)(key \<mapsto>
          \<lparr>ss_last_recv_time = gl_next_cell g, ss_random_password = password, ss_tfa = tfa\<rparr>),
       gl_cells := (gl_cells g)(gl_next_cell g := now), gl_next_cell := Suc (gl_next_cell g)\<rparr>"

definition update_or_insert_session :: "nat \<Rightarrow> SessionKey \<Rightarrow> string option \<Rightarrow> bool option \<Rightarrow> Globals \<Rightarrow> Globals" where
  "update_or_insert_session now key password tfa g =
     (case gl_sessions g key of
        Some session \<Rightarrow>
          g\<lparr>gl_sessions := (gl_sessions g)(key \<mapsto>
              session\<lparr>ss_random_password := (case password of Some p \<Rightarrow> p | None \<Rightarrow> ss_random_password session),
                      ss_tfa := (case tfa of Some b \<Rightarrow> b | None \<Rightarrow> ss_tfa session)\<rparr>)\<rparr>
      | None \<Rightarrow> new_session now key (case password of Some p \<Rightarrow> p | None \<Rightarrow> []) (case tfa of Some b \<Rightarrow> b | None \<Rightarrow> False) g)"

definition set_session_2fa :: "nat \<Rightarrow> SessionKey \<Rightarrow> Globals \<Rightarrow> Globals" where
  "set_session_2fa now key g =
     (case gl_sessions g key of
        Some session \<Rightarrow> g\<lparr>gl_sessions := (gl_sessions g)(key \<mapsto> session\<lparr>ss_tfa := True\<rparr>)\<rparr>
      | None \<Rightarrow> new_session now key [] True g)"

definition check_remove_session :: "int \<Rightarrow> SessionKey \<Rightarrow> Globals \<Rightarrow> Globals" where
  "check_remove_session conn_id key g =
     (if gl_sessions g key \<noteq> None then
        let is_remote = (\<exists>c \<in> set (gl_authed_conns g). ac_conn_id c = conn_id \<and> ac_conn_type c = Remote);
            another_remote = (\<exists>c \<in> set (gl_authed_conns g).
              ac_conn_id c \<noteq> conn_id \<and> ac_session_key c = key \<and> ac_conn_type c = Remote) in
        if is_remote \<or> \<not> another_remote then g\<lparr>gl_sessions := (gl_sessions g)(key := None)\<rparr> else g
      else g)"

section \<open>Services and options\<close>

definition NAME_CURSOR :: string where "NAME_CURSOR = ''mouse_cursor''"
definition NAME_POS :: string where "NAME_POS = ''mouse_pos''"
definition NAME_WINDOW_FOCUS :: string where "NAME_WINDOW_FOCUS = ''window_focus''"
definition CLIPBOARD_NAME :: string where "CLIPBOARD_NAME = ''clipboard''"
definition FILE_CLIPBOARD_NAME :: string where "FILE_CLIPBOARD_NAME = ''file-clipboard''"
definition AUDIO_NAME :: string where "AUDIO_NAME = ''audio''"

definition is_remote :: "Connection \<Rightarrow> bool" where
  "is_remote c \<longleftrightarrow>
     cn_file_transfer c = None \<and> cn_port_forward_socket c = None \<and> \<not> cn_view_camera c \<and> \<not> cn_terminal c"

definition is_authed_remote_conn :: "Connection \<Rightarrow> bool" where
  "is_authed_remote_conn c \<longleftrightarrow> cn_authed_conn_id c = Some Remote"

definition is_authed_view_camera_conn :: "Connection \<Rightarrow> bool" where
  "is_authed_view_camera_conn c \<longleftrightarrow> cn_authed_conn_id c = Some ViewCamera"

definition peer_keyboard_enabled :: "Connection \<Rightarrow> bool" where
  "peer_keyboard_enabled c \<longleftrightarrow> cn_keyboard c \<and> \<not> cn_disable_keyboard c"

definition clipboard_enabled :: "Connection \<Rightarrow> bool" where
  "clipboard_enabled c \<longleftrightarrow> cn_clipboard c \<and> \<not> cn_disable_clipboard c"

definition can_sub_clipboard_service :: "Env \<Rightarrow> Connection \<Rightarrow> bool" where
  "can_sub_clipboard_service env c \<longleftrightarrow>
     clipboard_enabled c \<and> peer_keyboard_enabled c \<and> ev_builtin env ''one-way-clipboard-redirection'' \<noteq> ''Y''"

definition audio_enabled :: "Connection \<Rightarrow> bool" where
  "audio_enabled c \<longleftrightarrow> cn_audio c \<and> \<not> cn_disable_audio c"

definition file_transfer_enabled :: "Connection \<Rightarrow> bool" where
  "file_transfer_enabled c \<longleftrightarrow> cn_file c \<and> cn_enable_file_transfer c"

definition can_sub_file_clipboard_service :: "Env \<Rightarrow> Connection \<Rightarrow> bool" where
  "can_sub_file_clipboard_service env c \<longleftrightarrow>
     clipboard_enabled c \<and> file_transfer_enabled c \<and> ev_builtin env ''one-way-file-transfer'' \<noteq> ''Y''"

definition subscribe :: "string \<Rightarrow> bool \<Rightarrow> World \<Rightarrow> World" where
  "subscribe name sub w = emit [Service (EvSubscribe name sub)] w"

definition get_auto_disconenct_timer :: "Env \<Rightarrow> (nat \<times> nat) option" where
  "get_auto_disconenct_timer env =
     (if ev_opt env ''allow-auto-disconnect'' = ''Y'' then
        let minute = (case parse_unsigned (2 ^ 64 - 1) (ev_opt env ''auto-disconnect-timeout'') of
                        Some n \<Rightarrow> n | None \<Rightarrow> 10) in
        Some (ev_now env, if minute = 0 then 10 else minute)
      else None)"

definition try_sub_monitor_services :: "Env \<Rightarrow> World \<Rightarrow> World" where
  "try_sub_monitor_services env w =
     (let c = w_c w in
      if is_remote c \<and> \<not> cn_services_subed c then
        let noperms =
              (if \<not> peer_keyboard_enabled c \<and> \<not> cn_show_remote_cursor c then [NAME_CURSOR] else [])
              @ (if \<not> cn_show_remote_cursor c then [NAME_POS] else [])
              @ (if \<not> cn_follow_remote_window c then [NAME_WINDOW_FOCUS] else [])
              @ (if \<not> can_sub_clipboard_service env c then [CLIPBOARD_NAME] else [])
              @ (if \<not> can_sub_file_clipboard_service env c then [FILE_CLIPBOARD_NAME] else [])
              @ (if \<not> audio_enabled c then [AUDIO_NAME] else []) in
        emit [Service (EvAddConnection noperms)]
          (w\<lparr>w_c := c\<lparr>cn_services_subed := True, cn_auto_disconnect_timer := get_auto_disconenct_timer env\<rparr>\<rparr>)
      else w)"

text \<open>\<open>get_version_number\<close> of \<open>hbb_common\<close>, on 64-bit integers that wrap around.\<close>

definition wrap_i64 :: "int \<Rightarrow> int" where
  "wrap_i64 x = (x + 2 ^ 63) mod 2 ^ 64 - 2 ^ 63"

definition parse_i64_or_0 :: "string \<Rightarrow> int" where
  "parse_i64_or_0 s = (case parse_signed (- (2 ^ 63)) (2 ^ 63 - 1) s of Some v \<Rightarrow> v | None \<Rightarrow> 0)"

definition get_version_number :: "string \<Rightarrow> int" where
  "get_version_number v =
     (let versions = split_char (CHR ''-'') v;
          (n, last) = foldl (\<lambda>(n, last) x. let l = parse_i64_or_0 x in (wrap_i64 (wrap_i64 (n * 1000) + l), l)) (0, 0)
                        (split_char (CHR ''.'') (hd versions));
          n = wrap_i64 (wrap_i64 (n - last) + wrap_i64 (last * 10)) in
      case tl versions of p # _ \<Rightarrow> wrap_i64 (n + parse_i64_or_0 p) | [] \<Rightarrow> n)"

text \<open>An option that is set to yes or no; other values leave the connection as it is.\<close>

definition with_option :: "int \<Rightarrow> (bool \<Rightarrow> World \<Rightarrow> World) \<Rightarrow> World \<Rightarrow> World" where
  "with_option v f w =
     (case bool_option v of Some BoYes \<Rightarrow> f True w | Some BoNo \<Rightarrow> f False w | _ \<Rightarrow> w)"

text \<open>\<open>turn_off_privacy_to_msg\<close>: the call and the message about its outcome, which some callers drop.\<close>

definition turn_off_privacy_result_to_msg :: "(string + unit) option \<Rightarrow> string \<Rightarrow> peer_event" where
  "turn_off_privacy_result_to_msg turn_off_res impl_key =
     (case turn_off_res of
        Some (Inr _) \<Rightarrow> EvPrivacy PrvOffSucceeded [] impl_key
      | Some (Inl e) \<Rightarrow> EvPrivacy PrvOffFailed e impl_key
      | None \<Rightarrow> EvPrivacy PrvOffFailed ''Not supported'' impl_key)"

definition turn_off_privacy_to_msg :: "Env \<Rightarrow> int \<Rightarrow> string \<Rightarrow> World \<Rightarrow> peer_event \<times> World" where
  "turn_off_privacy_to_msg env conn_id impl_key w =
     (turn_off_privacy_result_to_msg (ev_turn_off_privacy env conn_id) impl_key, emit [Control (EvTurnOffPrivacy conn_id)] w)"

definition PRIVACY_UNSUPPORTED :: string where
  "PRIVACY_UNSUPPORTED =
     ''Unsupported. 1 Multi-screen is not supported. 2 Please confirm the license is activated.''"

definition INVALID_PRIVACY_MODE_CONN_ID :: int where
  "INVALID_PRIVACY_MODE_CONN_ID = 0"

definition turn_on_privacy_supported :: "Env \<Rightarrow> string \<Rightarrow> World \<Rightarrow> peer_event \<times> World" where
  "turn_on_privacy_supported env impl_key w =
     (let w1 = (if ev_in_privacy_mode env then
                  (case ev_cur_impl_key env of
                     Some pre_impl_key \<Rightarrow>
                       if \<not> ev_is_current_privacy_mode_impl env pre_impl_key
                       then emit [ToPeer (EvPrivacy PrvOffSucceeded [] pre_impl_key)] w else w
                   | None \<Rightarrow> w)
                else w);
          w2 = emit [Control (EvTurnOnPrivacy impl_key)] w1 in
      case ev_turn_on_privacy env impl_key of
        Some (Inr True) \<Rightarrow>
          let err_msg = ev_check_privacy_mode_err env (cn_display_idx (w_c w2)) in
          if err_msg = [] then (EvPrivacy PrvOnSucceeded [] impl_key, w2)
          else (EvPrivacy PrvOnFailed err_msg impl_key, snd (turn_off_privacy_to_msg env (cn_id (w_c w2)) [] w2))
      | Some (Inr False) \<Rightarrow> (EvPrivacy PrvOnFailedPlugin [] impl_key, w2)
      | Some (Inl e) \<Rightarrow>
          (EvPrivacy PrvOnFailed e impl_key,
           if ev_in_privacy_mode_after env then snd (turn_off_privacy_to_msg env INVALID_PRIVACY_MODE_CONN_ID [] w2) else w2)
      | None \<Rightarrow> (EvPrivacy PrvOffFailed ''Not supported'' impl_key, w2))"

definition turn_on_privacy :: "Env \<Rightarrow> string \<Rightarrow> World \<Rightarrow> World" where
  "turn_on_privacy env impl_key w =
     (if \<not> is_authed_remote_conn (w_c w) \<or> \<not> cn_privacy_mode (w_c w)
      then emit [ToPeer (EvPrivacy PrvOnFailedDenied [] impl_key)] w
      else if \<not> ev_is_privacy_mode_supported env
      then emit [ToPeer (EvPrivacy PrvNotSupported PRIVACY_UNSUPPORTED impl_key)] w
      else case turn_on_privacy_supported env impl_key w of (msg_out, w1) \<Rightarrow> emit [ToPeer msg_out] w1)"

definition turn_off_privacy :: "Env \<Rightarrow> string \<Rightarrow> World \<Rightarrow> World" where
  "turn_off_privacy env impl_key w =
     (if \<not> ev_is_privacy_mode_supported env
      then emit [ToPeer (EvPrivacy PrvNotSupported PRIVACY_UNSUPPORTED impl_key)] w
      else case turn_off_privacy_to_msg env (cn_id (w_c w)) impl_key w of (msg_out, w1) \<Rightarrow> emit [ToPeer msg_out] w1)"

definition option_image_quality :: "OptionMessage \<Rightarrow> World \<Rightarrow> World" where
  "option_image_quality option w =
     (case image_quality_value (om_image_quality option) of
        None \<Rightarrow> w
      | Some q \<Rightarrow>
          let image_quality =
                (if q = IqNotSet then (if om_custom_image_quality option > 0 then om_custom_image_quality option else -1)
                 else om_image_quality option) in
          if image_quality > 0 then emit [Video (EvQosImageQuality (cn_id (w_c w)) image_quality)] w else w)"

definition option_custom_fps :: "OptionMessage \<Rightarrow> World \<Rightarrow> World" where
  "option_custom_fps option w =
     (if om_custom_fps option > 0 then emit [Video (EvQosCustomFps (cn_id (w_c w)) (om_custom_fps option))] w else w)"

definition option_supported_decoding :: "OptionMessage \<Rightarrow> World \<Rightarrow> World" where
  "option_supported_decoding option w =
     (case om_supported_decoding option of Some q \<Rightarrow> emit [Video (EvEncoderUpdate (Some q))] w | None \<Rightarrow> w)"

definition option_show_remote_cursor :: "bool \<Rightarrow> World \<Rightarrow> World" where
  "option_show_remote_cursor yes w =
     (let w1 = w\<lparr>w_c := (w_c w)\<lparr>cn_show_remote_cursor := yes\<rparr>\<rparr> in
      subscribe NAME_POS yes (subscribe NAME_CURSOR (peer_keyboard_enabled (w_c w1) \<or> yes) w1))"

definition option_disable_audio :: "bool \<Rightarrow> World \<Rightarrow> World" where
  "option_disable_audio yes w =
     (let w1 = w\<lparr>w_c := (w_c w)\<lparr>cn_disable_audio := yes\<rparr>\<rparr>; c = w_c w1 in
      if is_authed_view_camera_conn c then
        (if cn_voice_calling c \<or> \<not> audio_enabled c then subscribe AUDIO_NAME (audio_enabled c) w1 else w1)
      else subscribe AUDIO_NAME (audio_enabled c) w1)"

definition option_enable_file_transfer :: "Env \<Rightarrow> bool \<Rightarrow> World \<Rightarrow> World" where
  "option_enable_file_transfer env yes w =
     (let w1 = w\<lparr>w_c := (w_c w)\<lparr>cn_enable_file_transfer := yes\<rparr>\<rparr>;
          w2 = (if \<not> yes then emit [Control EvEmptyFileClipboard] w1 else w1) in
      subscribe FILE_CLIPBOARD_NAME (can_sub_file_clipboard_service env (w_c w2)) w2)"

definition option_disable_clipboard :: "Env \<Rightarrow> bool \<Rightarrow> World \<Rightarrow> World" where
  "option_disable_clipboard env yes w =
     (let w1 = w\<lparr>w_c := (w_c w)\<lparr>cn_disable_clipboard := yes\<rparr>\<rparr> in
      subscribe CLIPBOARD_NAME (can_sub_clipboard_service env (w_c w1)) w1)"

definition option_disable_keyboard :: "Env \<Rightarrow> bool \<Rightarrow> World \<Rightarrow> World" where
  "option_disable_keyboard env yes w =
     (let w1 = w\<lparr>w_c := (w_c w)\<lparr>cn_disable_keyboard := yes\<rparr>\<rparr>; c = w_c w1 in
      subscribe NAME_CURSOR (peer_keyboard_enabled c \<or> cn_show_remote_cursor c)
        (subscribe FILE_CLIPBOARD_NAME (can_sub_file_clipboard_service env c)
          (subscribe CLIPBOARD_NAME (can_sub_clipboard_service env c) w1)))"

definition option_privacy_mode :: "Env \<Rightarrow> OptionMessage \<Rightarrow> World \<Rightarrow> World" where
  "option_privacy_mode env option w =
     (if get_version_number (lr_version (cn_lr (w_c w))) < get_version_number ''1.2.4'' \<and> cn_keyboard (w_c w) then
        with_option (om_privacy_mode option) (\<lambda>yes. if yes then turn_on_privacy env [] else turn_off_privacy env []) w
      else w)"

definition option_block_input :: "bool \<Rightarrow> World \<Rightarrow> World" where
  "option_block_input yes w =
     (if cn_keyboard (w_c w) \<and> cn_block_input (w_c w) then emit [Control (EvBlockInput yes)] w
      else emit [ToPeer (EvBlockInputError yes)] w)"

definition update_terminal_persistence :: "bool \<Rightarrow> World \<Rightarrow> World" where
  "update_terminal_persistence persistent w =
     emit [Control (EvTerminalPersistence (cn_terminal_service_id (w_c w)) persistent)]
       (w\<lparr>w_c := (w_c w)\<lparr>cn_terminal_persistent := persistent\<rparr>\<rparr>)"

definition option_show_my_cursor :: "Env \<Rightarrow> bool \<Rightarrow> World \<Rightarrow> World" where
  "option_show_my_cursor env yes w =
     (let w1 = w\<lparr>w_c := (w_c w)\<lparr>cn_show_my_cursor := yes\<rparr>\<rparr> in
      if ev_whiteboard_supported env then emit [Control (EvWhiteboard yes)] w1
      else if yes then emit [ToPeer (EvMessageBox ''Show my cursor'')] w1
      else w1)"

definition update_options :: "Env \<Rightarrow> OptionMessage \<Rightarrow> World \<Rightarrow> World" where
  "update_options env option w =
     (let w = option_image_quality option w;
          w = option_custom_fps option w;
          w = option_supported_decoding option w;
          w = with_option (om_lock_after_session_end option)
                (\<lambda>yes w. w\<lparr>w_c := (w_c w)\<lparr>cn_lock_after_session_end := yes\<rparr>\<rparr>) w;
          w = with_option (om_show_remote_cursor option) option_show_remote_cursor w;
          w = with_option (om_follow_remote_cursor option)
                (\<lambda>yes w. w\<lparr>w_c := (w_c w)\<lparr>cn_follow_remote_cursor := yes\<rparr>\<rparr>) w;
          w = with_option (om_follow_remote_window option)
                (\<lambda>yes w. subscribe NAME_WINDOW_FOCUS yes (w\<lparr>w_c := (w_c w)\<lparr>cn_follow_remote_window := yes\<rparr>\<rparr>)) w;
          w = with_option (om_disable_audio option) option_disable_audio w;
          w = with_option (om_enable_file_transfer option) (option_enable_file_transfer env) w;
          w = with_option (om_disable_clipboard option) (option_disable_clipboard env) w;
          w = with_option (om_disable_keyboard option) (option_disable_keyboard env) w;
          w = option_privacy_mode env option w;
          w = with_option (om_block_input option) option_block_input w;
          w = with_option (om_terminal_persistent option) update_terminal_persistence w;
          w = with_option (om_show_my_cursor option) (option_show_my_cursor env) w in
      w)"

definition update_scoped_login_options :: "Env \<Rightarrow> World \<Rightarrow> World" where
  "update_scoped_login_options env w =
     (case cn_options_in_login (w_c w) of
        None \<Rightarrow> w
      | Some option \<Rightarrow>
          let w1 = w\<lparr>w_c := (w_c w)\<lparr>cn_options_in_login := None\<rparr>\<rparr> in
          case cn_authed_conn_id (w_c w1) of
            None \<Rightarrow> w1
          | Some conn_type \<Rightarrow>
              (case fst (scoped_login_option conn_type option) of
                 Some scoped \<Rightarrow> update_options env scoped w1
               | None \<Rightarrow> w1))"

section \<open>Authorising a connection\<close>

definition int_to_string :: "int \<Rightarrow> string" where
  "int_to_string n = (if n < 0 then ''-'' @ nat_to_string (nat (- n)) else nat_to_string (nat n))"

definition normalize_port_forward_target :: "string \<Rightarrow> int \<Rightarrow> string \<times> bool" where
  "normalize_port_forward_target host port =
     (let (host, port, is_rdp) =
            (if host = ''RDP'' \<and> port = 0 then (''localhost'', 3389, True) else (host, port, False));
          host = (if host = [] then ''localhost'' else host) in
      (host @ '':'' @ int_to_string port, is_rdp))"

definition connect_port_forward_if_needed :: "Env \<Rightarrow> World \<Rightarrow> bool \<times> World" where
  "connect_port_forward_if_needed env w =
     (if cn_port_forward_socket (w_c w) \<noteq> None then (True, w)
      else case lr_union (cn_lr (w_c w)) of
             Some (LuPortForward host port) \<Rightarrow>
               let (addr, is_rdp) = normalize_port_forward_target host port;
                   w1 = w\<lparr>w_c := (w_c w)\<lparr>cn_port_forward_address := addr\<rparr>\<rparr> in
               if ev_connect env addr then (True, w1\<lparr>w_c := (w_c w1)\<lparr>cn_port_forward_socket := Some addr\<rparr>\<rparr>)
               else (False, send_login_error env
                      (''Failed to access remote '' @ (if is_rdp then ''RDP'' else addr)
                       @ ''. Please make sure it is reachable/open.'') w1)
           | _ \<Rightarrow> (True, w))"

definition os_login_username :: "LoginRequest \<Rightarrow> string" where
  "os_login_username lr = (case lr_os_login lr of Some l \<Rightarrow> osl_username l | None \<Rightarrow> [])"

text \<open>\<open>fill_terminal_user_token\<close> and \<open>prepare_terminal_login_for_authorization\<close> as Linux compiles them: no
  operating-system login, the shell runs as the user of the server.\<close>

definition prepare_terminal_login_for_authorization :: "Env \<Rightarrow> World \<Rightarrow> bool option \<times> World" where
  "prepare_terminal_login_for_authorization env w =
     (if \<not> cn_terminal (w_c w) \<or> cn_terminal_user_token (w_c w) then (None, w)
      else
        let w1 = w\<lparr>w_c := (w_c w)\<lparr>cn_terminal_user_token := True\<rparr>\<rparr> in
        case ev_service_specified_user env (cn_terminal_service_id (w_c w1)) of
          Some is_user \<Rightarrow>
            if is_user then (Some False, send_login_error env ''Terminal service user mismatch detected.'' w1) else (None, w1)
        | None \<Rightarrow> (None, w1))"

definition update_codec_on_login :: "World \<Rightarrow> World" where
  "update_codec_on_login w =
     emit [Video (EvEncoderUpdate
       (case lr_option (cn_lr (w_c w)) of Some option \<Rightarrow> om_supported_decoding option | None \<Rightarrow> None))] w"

definition normalize_conn_audit_auth_fields :: "Connection \<Rightarrow> Connection" where
  "normalize_conn_audit_auth_fields c =
     (if cn_audit_primary_auth c = PaClick \<or> cn_audit_primary_auth c = PaSwitchSides
      then c\<lparr>cn_audit_two_factor := TfNone\<rparr> else c)"

text \<open>The connection type of an authorised connection, with its number in the audit.\<close>

definition session_conn_type :: "Connection \<Rightarrow> nat \<times> AuthConnType" where
  "session_conn_type c =
     (if cn_file_transfer c \<noteq> None then (1, FileTransfer)
      else if cn_port_forward_socket c \<noteq> None then (2, PortForward)
      else if cn_view_camera c then (3, ViewCamera)
      else if cn_terminal c then (4, Terminal)
      else (0, Remote))"

text \<open>\<open>AuthedConnID::new\<close>.\<close>

definition is_support_remote_print :: "string \<Rightarrow> bool" where
  "is_support_remote_print ver \<longleftrightarrow> get_version_number ver \<ge> get_version_number ''1.3.9''"

definition check_wake_lock :: "World \<Rightarrow> World" where
  "check_wake_lock w =
     emit [Service (EvWakeLock (length (gl_authed_conns (w_g w)))
       (length (filter (\<lambda>c. ac_conn_type c = Remote) (gl_authed_conns (w_g w)))))] w"

definition new_authed_conn :: "int \<Rightarrow> AuthConnType \<Rightarrow> SessionKey \<Rightarrow> LoginRequest \<Rightarrow> World \<Rightarrow> World" where
  "new_authed_conn conn_id conn_type key lr w =
     (let printer = (conn_type = Remote \<and> is_support_remote_print (lr_version lr) \<and> lr_my_platform lr = ''Windows'') in
      emit (if conn_type = Remote \<or> conn_type = ViewCamera then [Video (EvQosOpen conn_id)] else [])
        (check_wake_lock
          (w\<lparr>w_g := (w_g w)\<lparr>gl_authed_conns := gl_authed_conns (w_g w) @
               [\<lparr>ac_conn_id = conn_id, ac_conn_type = conn_type, ac_session_key = key, ac_printer = printer\<rparr>]\<rparr>\<rparr>)))"

definition logon_authorize :: "World \<Rightarrow> World" where
  "logon_authorize w0 =
     (let w = w0\<lparr>w_c := (w_c w0)\<lparr>cn_authorized := True\<rparr>\<rparr>;
          (conn_type, auth_conn_type) = session_conn_type (w_c w);
          key = session_key (cn_lr (w_c w));
          w = new_authed_conn (cn_id (w_c w)) auth_conn_type key (cn_lr (w_c w)) w;
          w = w\<lparr>w_c := normalize_conn_audit_auth_fields
                 ((w_c w)\<lparr>cn_authed_conn_id := Some auth_conn_type,
                         cn_session_last_recv_time := map_option ss_last_recv_time (gl_sessions (w_g w) key)\<rparr>)\<rparr> in
      emit [Audit (EvConnAudit (lr_my_id (cn_lr (w_c w))) (lr_my_name (cn_lr (w_c w))) conn_type
              (cn_audit_primary_auth (w_c w)) (cn_audit_two_factor (w_c w)))] w)"

definition read_dir :: "string \<Rightarrow> bool \<Rightarrow> World \<Rightarrow> World" where
  "read_dir dir include_hidden w = emit [ToCm (EvFs (FsReadDir dir include_hidden))] w"

definition init_terminal_service :: "Env \<Rightarrow> World \<Rightarrow> World" where
  "init_terminal_service env w =
     (if \<not> cn_terminal_user_token (w_c w) then w
      else
        let w1 = (if cn_terminal_service_id (w_c w) = []
                  then w\<lparr>w_c := (w_c w)\<lparr>cn_terminal_service_id := ev_new_service_id env\<rparr>\<rparr> else w) in
        emit [Control (EvInitTerminal (cn_terminal_service_id (w_c w1)) (cn_terminal_persistent (w_c w1)))]
          (w1\<lparr>w_c := (w_c w1)\<lparr>cn_terminal_generic_service := True\<rparr>\<rparr>))"

text \<open>The response to the peer; the flag tells whether the monitor services are to be subscribed.\<close>

definition logon_response :: "Env \<Rightarrow> World \<Rightarrow> bool \<times> World" where
  "logon_response env w =
     (let c = w_c w in
      if cn_file_transfer c \<noteq> None \<or> cn_terminal c then (False, emit [ToPeer EvPeerInfo] w)
      else if cn_view_camera c then (False, emit [ToPeer EvPeerInfo] (update_codec_on_login w))
      else case ev_displays_error env of
             Some err \<Rightarrow> (False, emit [ToPeer (EvLoginResponseError err)] (update_codec_on_login w))
           | None \<Rightarrow> (True, emit [ToPeer EvPeerInfo] (update_codec_on_login w)))"

definition logon_services :: "Env \<Rightarrow> bool \<Rightarrow> World \<Rightarrow> World" where
  "logon_services env sub_service w =
     (case cn_file_transfer (w_c w) of
        Some (dir, show_hidden) \<Rightarrow>
          read_dir (if dir \<noteq> [] \<and> ev_is_dir env dir then dir else []) show_hidden
            (w\<lparr>w_c := (w_c w)\<lparr>cn_keyboard := False\<rparr>\<rparr>)
      | None \<Rightarrow>
          if cn_terminal (w_c w) then init_terminal_service env (w\<lparr>w_c := (w_c w)\<lparr>cn_keyboard := False\<rparr>\<rparr>)
          else if cn_view_camera (w_c w) then
            emit [Service EvAddCameraConnection, ToPeer (EvPermissionInfo ''keyboard'' False)]
              (w\<lparr>w_c := (w_c w)\<lparr>cn_keyboard := False\<rparr>\<rparr>)
          else if sub_service then try_sub_monitor_services env w
          else w)"

definition logon_session :: "Env \<Rightarrow> World \<Rightarrow> World" where
  "logon_session env w =
     (if cn_port_forward_socket (w_c w) \<noteq> None then emit [ToPeer EvPeerInfo] w
      else if is_remote (w_c w) \<and> ev_display_server_error env \<noteq> []
      then emit [ToPeer (EvLoginResponseError (ev_display_server_error env))] w
      else
        let (sub_service, w1) = logon_response env w in
        logon_services env sub_service (update_scoped_login_options env w1))"

definition send_logon_response_and_keep_alive :: "Env \<Rightarrow> World \<Rightarrow> bool \<times> World" where
  "send_logon_response_and_keep_alive env w =
     (if cn_authorized (w_c w) then (True, w)
      else
        let (recent, w1) = (if cn_require_2fa (w_c w) \<noteq> None then is_recent_session env True w else (False, w)) in
        if cn_require_2fa (w_c w1) \<noteq> None \<and> \<not> recent \<and> \<not> cn_from_switch (w_c w1) then
          (True, send_login_error env REQUIRE_2FA (if ev_telegram_bot env then emit [Audit EvTelegramCode] w1 else w1))
        else
          (case prepare_terminal_login_for_authorization env w1 of
             (Some keep_alive, w2) \<Rightarrow> (keep_alive, w2)
           | (None, w2) \<Rightarrow>
               (case connect_port_forward_if_needed env w2 of
                  (False, w3) \<Rightarrow> (False, w3)
                | (True, w3) \<Rightarrow> (True, logon_session env (logon_authorize w3)))))"

section \<open>Login requests\<close>

definition handle_login_request_without_validation :: "Env \<Rightarrow> LoginRequest \<Rightarrow> World \<Rightarrow> World" where
  "handle_login_request_without_validation env lr w =
     (let w = w\<lparr>w_c := (w_c w)\<lparr>cn_lr := lr\<rparr>\<rparr>;
          w = (case lr_option lr of
                 Some option \<Rightarrow> w\<lparr>w_c := (w_c w)\<lparr>cn_options_in_login := Some option\<rparr>\<rparr> | None \<Rightarrow> w);
          w = (if cn_require_2fa (w_c w) \<noteq> None \<and> lr_hwid lr \<noteq> [] \<and> enable_trusted_devices env then
                 (case get_trusted_devices (ev_deps env) (ev_pwenv env) (ev_now_ms env) (fst (ev_nonces env)) (gl_store (w_g w)) of
                    (devices, store) \<Rightarrow>
                      let w = w\<lparr>w_g := (w_g w)\<lparr>gl_store := store\<rparr>\<rparr> in
                      (case find (\<lambda>device. td_hwid device = lr_hwid lr) devices of
                         Some device \<Rightarrow>
                           if \<not> outdate (ev_now_ms env) device \<and> td_id device = lr_my_id lr \<and> td_name device = lr_my_name lr \<and>
                              td_platform device = lr_my_platform lr
                           then w\<lparr>w_c := (w_c w)\<lparr>cn_audit_two_factor := TfTrustedDevice, cn_require_2fa := None\<rparr>\<rparr>
                           else w
                       | None \<Rightarrow> w))
               else w) in
      w\<lparr>w_c := (w_c w)\<lparr>cn_video_ack_required := lr_video_ack_required lr\<rparr>\<rparr>)"

definition reset_session_scope_for_login :: "World \<Rightarrow> World" where
  "reset_session_scope_for_login w =
     w\<lparr>w_c := (w_c w)\<lparr>cn_file_transfer := None, cn_view_camera := False, cn_terminal := False,
                     cn_port_forward_address := [], cn_terminal_persistent := False\<rparr>\<rparr>"

definition check_privacy_mode_on :: "Env \<Rightarrow> World \<Rightarrow> bool \<times> World" where
  "check_privacy_mode_on env w =
     (if ev_in_privacy_mode env then (False, send_login_error env ''Someone turns on privacy mode, exit'' w) else (True, w))"

text \<open>The session a login asks for, and whether it is permitted.\<close>

definition login_scope :: "Env \<Rightarrow> LoginRequest \<Rightarrow> World \<Rightarrow> bool \<times> World" where
  "login_scope env lr w =
     (let permitted = (\<lambda>option. permission (ev_opt env) option (cn_control_permissions (w_c w))) in
      case lr_union lr of
        Some (LuFileTransfer dir show_hidden) \<Rightarrow>
          if \<not> permitted ''enable-file-transfer'' then (False, send_login_error env ''No permission of file transfer'' w)
          else (True, w\<lparr>w_c := (w_c w)\<lparr>cn_file_transfer := Some (dir, show_hidden)\<rparr>\<rparr>)
      | Some LuViewCamera \<Rightarrow>
          if \<not> permitted ''enable-camera'' then (False, send_login_error env ''No permission of viewing camera'' w)
          else (True, w\<lparr>w_c := (w_c w)\<lparr>cn_view_camera := True\<rparr>\<rparr>)
      | Some (LuTerminal service_id) \<Rightarrow>
          if \<not> permitted ''enable-terminal'' then (False, send_login_error env ''No permission of terminal'' w)
          else (True, w\<lparr>w_c := (w_c w)\<lparr>cn_terminal := True,
                 cn_terminal_persistent :=
                   (case cn_options_in_login (w_c w) of
                      Some option \<Rightarrow> bool_option (om_terminal_persistent option) = Some BoYes
                    | None \<Rightarrow> cn_terminal_persistent (w_c w)),
                 cn_terminal_service_id := service_id\<rparr>\<rparr>)
      | Some (LuPortForward host port) \<Rightarrow>
          if \<not> permitted ''enable-tunnel'' then (False, send_login_error env ''No permission of IP tunneling'' w)
          else (True, w\<lparr>w_c := (w_c w)\<lparr>cn_port_forward_address := fst (normalize_port_forward_target host port)\<rparr>\<rparr>)
      | None \<Rightarrow> check_privacy_mode_on env w)"

definition guard_events :: "guard_event list \<Rightarrow> event list" where
  "guard_events es =
     map (\<lambda>e. case e of LoginError s \<Rightarrow> ToPeer (EvLoginError s False) | Login_Guard.Alarm a \<Rightarrow> Audit (EvAlarm a)) es"

definition conn_check_failure :: "Env \<Rightarrow> nat \<Rightarrow> World \<Rightarrow> ((failure_entry \<times> int) \<times> bool) \<times> World" where
  "conn_check_failure env i w =
     (case check_failure (cn_ip (w_c w)) i (ev_now_ms env) (gl_guard (w_g w)) of
        (r, es, guard) \<Rightarrow> (r, emit (guard_events es) (w\<lparr>w_g := (w_g w)\<lparr>gl_guard := guard\<rparr>\<rparr>)))"

definition conn_update_failure :: "Env \<Rightarrow> failure_entry \<times> int \<Rightarrow> bool \<Rightarrow> nat \<Rightarrow> World \<Rightarrow> World" where
  "conn_update_failure env failure remove i w =
     w\<lparr>w_g := (w_g w)\<lparr>gl_guard := update_failure (cn_ip (w_c w)) failure remove i (ev_now_ms env) (gl_guard (w_g w))\<rparr>\<rparr>"

definition conn_check_update_temporary_password :: "Env \<Rightarrow> bool \<Rightarrow> World \<Rightarrow> World" where
  "conn_check_update_temporary_password env success w =
     w\<lparr>w_g := (w_g w)\<lparr>gl_temp := check_update_temporary_password (ev_opt env) (ev_rng env) success (gl_temp (w_g w))\<rparr>\<rparr>"

definition conn_validate_password :: "Env \<Rightarrow> bool \<Rightarrow> World \<Rightarrow> bool \<times> World" where
  "conn_validate_password env allow_permanent_password w =
     (let c = w_c w; g = w_g w; password = tp_password (gl_temp g) in
      case validate_password (ev_deps env) (ev_pwenv env) (ev_opt env) (ev_hard env) (cn_hash c) (lr_password (cn_lr c))
             password (gl_store g) allow_permanent_password of
        Some MatchTemporary \<Rightarrow>
          (True, conn_check_update_temporary_password env True
             (w\<lparr>w_c := c\<lparr>cn_audit_primary_auth := PaTemporaryPassword\<rparr>,
                w_g := update_or_insert_session (ev_now env) (session_key (cn_lr c)) (Some password) (Some False) g\<rparr>))
      | Some MatchPermanent \<Rightarrow> (True, w\<lparr>w_c := c\<lparr>cn_audit_primary_auth := PaPermanentPassword\<rparr>\<rparr>)
      | None \<Rightarrow> (False, w))"

text \<open>A password was accepted: answer, unless the desktop is not ready yet.\<close>

definition login_accepted :: "Env \<Rightarrow> LoginRequest \<Rightarrow> string \<Rightarrow> World \<Rightarrow> bool \<times> World" where
  "login_accepted env lr err_msg w =
     (if err_msg = [] then
        (case send_logon_response_and_keep_alive env (wait_desktop_cm_ready w) of
           (False, w1) \<Rightarrow> (False, w1)
         | (True, w1) \<Rightarrow> (True, try_start_cm (lr_my_id lr) (lr_my_name lr) (cn_authorized (w_c w1)) w1))
      else (True, send_login_error env err_msg w))"

definition login_password :: "Env \<Rightarrow> LoginRequest \<Rightarrow> string \<Rightarrow> bool \<Rightarrow> World \<Rightarrow> bool \<times> World" where
  "login_password env lr err_msg allow_logon_screen_password w =
     (case conn_check_failure env 0 w of
        ((failure, res), w1) \<Rightarrow>
          if \<not> res then (True, w1)
          else
            (case conn_validate_password env allow_logon_screen_password w1 of
               (False, w2) \<Rightarrow>
                 let w3 = conn_check_update_temporary_password env False (conn_update_failure env failure False 0 w2) in
                 (True, if err_msg = [] then try_start_cm (lr_my_id lr) (lr_my_name lr) False
                                               (send_login_error env LOGIN_MSG_PASSWORD_WRONG w3)
                        else send_login_error env LOGIN_MSG_DESKTOP_SESSION_NOT_READY_PASSWORD_WRONG w3)
             | (True, w2) \<Rightarrow> login_accepted env lr err_msg (conn_update_failure env failure True 0 w2)))"

text \<open>A password login is refused outright when connections are approved by clicking only.\<close>

definition allow_logon_screen_password :: "Env \<Rightarrow> bool" where
  "allow_logon_screen_password env \<longleftrightarrow> ev_builtin env ''allow-logon-screen-password'' = ''Y'' \<and> ev_is_logon env"

definition click_only :: "Env \<Rightarrow> World \<Rightarrow> bool" where
  "click_only env w \<longleftrightarrow>
     approve_mode (ev_opt env) = ApproveClick \<and> \<not> allow_logon_screen_password env \<or>
     approve_mode (ev_opt env) = ApproveBoth \<and>
       \<not> has_valid_password (ev_deps env) (ev_pwenv env) (ev_opt env) (ev_hard env) (tp_password (gl_temp (w_g w))) (gl_store (w_g w))"

definition login_approve :: "Env \<Rightarrow> LoginRequest \<Rightarrow> string \<Rightarrow> World \<Rightarrow> bool \<times> World" where
  "login_approve env lr err_msg w =
     (if click_only env w then
        let w1 = try_start_cm (lr_my_id lr) (lr_my_name lr) False w in
        (True, if get_version_number (lr_version lr) \<ge> get_version_number ''1.2.0''
               then send_login_error env LOGIN_MSG_NO_PASSWORD_ACCESS w1 else w1)
      else
        case is_recent_session env False w of
          (True, w1) \<Rightarrow> login_accepted env lr err_msg w1
        | (False, w1) \<Rightarrow>
            if lr_password lr = [] then
              (True, if err_msg = [] then try_start_cm (lr_my_id lr) (lr_my_name lr) False w1
                     else send_login_error env LOGIN_MSG_DESKTOP_SESSION_NOT_READY_PASSWORD_EMPTY w1)
            else login_password env lr err_msg (allow_logon_screen_password env) w1)"

definition should_check_linux_headless_os_auth_before_desktop_start :: "Env \<Rightarrow> bool \<Rightarrow> string \<Rightarrow> bool" where
  "should_check_linux_headless_os_auth_before_desktop_start env is_headless_allowed username \<longleftrightarrow>
     is_headless_allowed \<and> trim username \<noteq> [] \<and> ev_desktop_username env = []"

definition should_record_linux_headless_os_auth_failure :: "bool \<Rightarrow> string \<Rightarrow> string \<Rightarrow> bool" where
  "should_record_linux_headless_os_auth_failure is_headless_allowed username err_msg \<longleftrightarrow>
     is_headless_allowed \<and> trim username \<noteq> [] \<and> err_msg = LOGIN_MSG_PASSWORD_WRONG"

definition try_start_desktop :: "Env \<Rightarrow> bool \<Rightarrow> OSLogin option \<Rightarrow> string" where
  "try_start_desktop env is_headless_allowed os_login =
     (if is_headless_allowed then
        (case os_login of Some l \<Rightarrow> ev_try_start_desktop env (osl_username l) (osl_password l)
                        | None \<Rightarrow> ev_try_start_desktop env [] [])
      else [])"

definition login_desktop :: "Env \<Rightarrow> LoginRequest \<Rightarrow> World \<Rightarrow> bool \<times> World" where
  "login_desktop env lr w =
     (let allowed = cn_headless_allowed (w_c w);
          (pass, w1) =
            (if should_check_linux_headless_os_auth_before_desktop_start env allowed (os_login_username lr)
             then (case conn_check_failure env 0 w of ((_, res), w1) \<Rightarrow> (res, w1)) else (True, w)) in
      if \<not> pass then (True, w1)
      else
        let err_msg = try_start_desktop env allowed (lr_os_login lr) in
        if err_msg \<noteq> [] \<and> err_msg \<noteq> LOGIN_MSG_DESKTOP_SESSION_NOT_READY then
          (if should_record_linux_headless_os_auth_failure allowed (os_login_username lr) err_msg then
             (case conn_check_failure env 0 w1 of
                ((failure, res), w2) \<Rightarrow>
                  if \<not> res then (True, w2)
                  else (True, send_login_error env err_msg (conn_update_failure env failure False 0 w2)))
           else (True, send_login_error env err_msg w1))
        else login_approve env lr err_msg w1)"

definition on_login_request :: "Env \<Rightarrow> LoginRequest \<Rightarrow> World \<Rightarrow> bool \<times> World" where
  "on_login_request env lr w =
     (let w1 = handle_login_request_without_validation env lr w in
      if cn_authorized (w_c w1) then (True, w1)
      else
        case login_scope env lr (reset_session_scope_for_login w1) of
          (False, w2) \<Rightarrow> (False, w2)
        | (True, w2) \<Rightarrow>
            if \<not> ev_is_direct_ip_access env (lr_username lr) \<and> lr_username lr \<noteq> ev_id env
            then (False, send_login_error env LOGIN_MSG_OFFLINE w2)
            else login_desktop env lr (try_start_cm_ipc w2))"

section \<open>Two-factor codes and switching sides\<close>

definition on_auth_2fa :: "Env \<Rightarrow> string \<Rightarrow> bytes \<Rightarrow> World \<Rightarrow> bool \<times> World" where
  "on_auth_2fa env code hwid w =
     (case conn_check_failure env 1 w of
        ((failure, res), w1) \<Rightarrow>
          if \<not> res then (True, w1)
          else
            (case cn_require_2fa (w_c w1) of
               None \<Rightarrow> (True, w1)
             | Some totp \<Rightarrow>
                 (case ev_totp_check env totp code of
                    None \<Rightarrow> (True, w1)
                  | Some True \<Rightarrow>
                      let w2 = conn_update_failure env failure True 1 w1;
                          w3 = w2\<lparr>w_c := (w_c w2)\<lparr>cn_require_2fa := None, cn_audit_two_factor := TfTotp\<rparr>,
                                 w_g := set_session_2fa (ev_now env) (session_key (cn_lr (w_c w2))) (w_g w2)\<rparr> in
                      (case send_logon_response_and_keep_alive env w3 of
                         (False, w4) \<Rightarrow> (False, w4)
                       | (True, w4) \<Rightarrow>
                           let lr = cn_lr (w_c w4);
                               w5 = try_start_cm (lr_my_id lr) (lr_my_name lr) (cn_authorized (w_c w4)) w4 in
                           (True,
                            if hwid \<noteq> [] \<and> enable_trusted_devices env then
                              w5\<lparr>w_g := (w_g w5)\<lparr>gl_store := add_trusted_device (ev_deps env) (ev_pwenv env) (ev_now_ms env)
                                   (fst (ev_nonces env)) (snd (ev_nonces env))
                                   \<lparr>td_hwid = hwid, td_time = ev_now_ms env, td_id = lr_my_id lr, td_name = lr_my_name lr,
                                    td_platform = lr_my_platform lr\<rparr> (gl_store (w_g w5))\<rparr>\<rparr>
                            else w5))
                  | Some False \<Rightarrow>
                      (True, send_login_error env LOGIN_MSG_2FA_WRONG (conn_update_failure env failure False 1 w1)))))"

definition retain_tickets :: "nat \<Rightarrow> (string \<rightharpoonup> nat \<times> bytes) \<Rightarrow> string \<rightharpoonup> nat \<times> bytes" where
  "retain_tickets now m =
     (\<lambda>id. case m id of Some (t, uuid) \<Rightarrow> if now - t < SWITCH_SIDES_TIMEOUT then Some (t, uuid) else None | None \<Rightarrow> None)"

definition insert_switch_sides_uuid :: "nat \<Rightarrow> string \<Rightarrow> bytes \<Rightarrow> Globals \<Rightarrow> Globals" where
  "insert_switch_sides_uuid now peer uuid g = g\<lparr>gl_switch_sides := (gl_switch_sides g)(peer \<mapsto> (now, uuid))\<rparr>"

definition insert_pending_switch_sides_uuid :: "nat \<Rightarrow> string \<Rightarrow> bytes \<Rightarrow> Globals \<Rightarrow> Globals" where
  "insert_pending_switch_sides_uuid now peer uuid g =
     g\<lparr>gl_pending_switch_sides := (retain_tickets now (gl_pending_switch_sides g))(peer \<mapsto> (now, uuid))\<rparr>"

definition remove_pending_switch_sides_uuid :: "nat \<Rightarrow> string \<Rightarrow> bytes \<Rightarrow> Globals \<Rightarrow> bool \<times> Globals" where
  "remove_pending_switch_sides_uuid now peer uuid g =
     (let m = retain_tickets now (gl_pending_switch_sides g) in
      if map_option snd (m peer) = Some uuid then (True, g\<lparr>gl_pending_switch_sides := m(peer := None)\<rparr>)
      else (False, g\<lparr>gl_pending_switch_sides := m\<rparr>))"

definition on_switch_sides_response :: "Env \<Rightarrow> bytes \<Rightarrow> LoginRequest \<Rightarrow> World \<Rightarrow> bool \<times> World" where
  "on_switch_sides_response env uuid lr w =
     (let w1 = handle_login_request_without_validation env lr w;
          tickets = retain_tickets (ev_now env) (gl_switch_sides (w_g w1));
          uuid_old = tickets (lr_my_id lr);
          w2 = w1\<lparr>w_g := (w_g w1)\<lparr>gl_switch_sides := tickets(lr_my_id lr := None)\<rparr>\<rparr> in
      if length uuid = 16 \<and> map_option snd uuid_old = Some uuid then
        (case send_logon_response_and_keep_alive env
                (w2\<lparr>w_c := (w_c w2)\<lparr>cn_from_switch := True, cn_audit_primary_auth := PaSwitchSides\<rparr>\<rparr>) of
           (False, w3) \<Rightarrow> (False, w3)
         | (True, w3) \<Rightarrow>
             (True, try_start_cm_ipc (try_start_cm (lr_my_id lr) (lr_my_name lr) (cn_authorized (w_c w3)) w3)))
      else (True, w2))"

definition on_authorize :: "Env \<Rightarrow> World \<Rightarrow> bool \<times> World" where
  "on_authorize env w =
     (case send_logon_response_and_keep_alive env
             (w\<lparr>w_c := (w_c w)\<lparr>cn_audit_primary_auth := PaClick, cn_require_2fa := None\<rparr>\<rparr>) of
        (False, w1) \<Rightarrow> (False, w1)
      | (True, w1) \<Rightarrow> (cn_port_forward_socket (w_c w1) = None, w1))"

definition on_test_delay :: "Env \<Rightarrow> TestDelay \<Rightarrow> World \<Rightarrow> World" where
  "on_test_delay env t w =
     (if tdl_from_client t then emit [ToPeer (EvTestDelay t)] w
      else case cn_last_test_delay (w_c w) of
             Some tm \<Rightarrow>
               let new_delay = int ((ev_now env - tm) div 1000000) mod 2 ^ 32 in
               emit [Video (EvQosNetworkDelay (cn_id (w_c w)) new_delay)]
                 (w\<lparr>w_c := (w_c w)\<lparr>cn_last_test_delay := None, cn_network_delay := new_delay\<rparr>\<rparr>)
           | None \<Rightarrow> w)"

section \<open>What the steps leave unchanged\<close>

lemma emit_simps [simp]: "w_c (emit es w) = w_c w" "w_g (emit es w) = w_g w" "w_out (emit es w) = w_out w @ es"
  by (simp_all add: emit_def)

lemma send_login_error_simps [simp]:
  "w_c (send_login_error env err w) = w_c w" "w_g (send_login_error env err w) = w_g w"
  by (simp_all add: send_login_error_def)

lemma try_start_cm_simps [simp]:
  "w_c (try_start_cm peer name auth w) = w_c w" "w_g (try_start_cm peer name auth w) = w_g w"
  by (simp_all add: try_start_cm_def Let_def)

lemma subscribe_simps [simp]: "w_c (subscribe name sub w) = w_c w" "w_g (subscribe name sub w) = w_g w"
  by (simp_all add: subscribe_def)

lemma wait_desktop_cm_ready_simps [simp]:
  "w_c (wait_desktop_cm_ready w) = w_c w" "w_g (wait_desktop_cm_ready w) = w_g w"
  by (simp_all add: wait_desktop_cm_ready_def)

lemma update_codec_on_login_simps [simp]:
  "w_c (update_codec_on_login w) = w_c w" "w_g (update_codec_on_login w) = w_g w"
  by (simp_all add: update_codec_on_login_def)

lemma turn_off_msg_simps [simp]:
  "w_c (snd (turn_off_privacy_to_msg env i k w)) = w_c w" "w_g (snd (turn_off_privacy_to_msg env i k w)) = w_g w"
  by (simp_all add: turn_off_privacy_to_msg_def)

lemma turn_on_supported_simps [simp]:
  "w_c (snd (turn_on_privacy_supported env k w)) = w_c w" "w_g (snd (turn_on_privacy_supported env k w)) = w_g w"
  by (simp_all add: turn_on_privacy_supported_def Let_def split: option.split sum.split bool.split)

lemma privacy_simps [simp]:
  "w_c (turn_on_privacy env k w) = w_c w" "w_g (turn_on_privacy env k w) = w_g w"
  "w_c (turn_off_privacy env k w) = w_c w" "w_g (turn_off_privacy env k w) = w_g w"
  by (simp_all add: turn_on_privacy_def turn_off_privacy_def case_prod_beta)

lemma check_wake_lock_simps [simp]: "w_c (check_wake_lock w) = w_c w" "w_g (check_wake_lock w) = w_g w"
  by (simp_all add: check_wake_lock_def)

text \<open>What a login and its permissions rest on; no option of the peer changes any of it.\<close>

definition login_view :: "Connection \<Rightarrow>
    (bool \<times> AuthConnType option \<times> (string \<times> bool) option \<times> bool \<times> bool \<times> string option) \<times> (totp option \<times> bool) \<times>
    LoginRequest \<times> (bool \<times> string) \<times> (int \<times> string \<times> Hash \<times> u64 option) \<times>
    (bool \<times> bool \<times> bool \<times> bool \<times> bool \<times> bool \<times> bool \<times> bool)" where
  "login_view c =
     ((cn_authorized c, cn_authed_conn_id c, cn_file_transfer c, cn_view_camera c, cn_terminal c, cn_port_forward_socket c),
      (cn_require_2fa c, cn_from_switch c), cn_lr c, (cn_terminal_user_token c, cn_terminal_service_id c),
      (cn_id c, cn_ip c, cn_hash c, cn_control_permissions c),
      (cn_keyboard c, cn_clipboard c, cn_audio c, cn_file c, cn_restart c, cn_recording c, cn_block_input c, cn_privacy_mode c))"

lemma login_view_update [simp]:
  "login_view (c\<lparr>cn_lock_after_session_end := b\<rparr>) = login_view c"
  "login_view (c\<lparr>cn_follow_remote_cursor := b\<rparr>) = login_view c"
  "login_view (c\<lparr>cn_follow_remote_window := b\<rparr>) = login_view c"
  "login_view (c\<lparr>cn_options_in_login := x\<rparr>) = login_view c"
  by (simp_all add: login_view_def)

named_theorems option_defs

lemmas [option_defs] =
  option_image_quality_def option_custom_fps_def option_supported_decoding_def option_show_remote_cursor_def
  option_disable_audio_def option_enable_file_transfer_def option_disable_clipboard_def option_disable_keyboard_def
  option_privacy_mode_def option_block_input_def update_terminal_persistence_def option_show_my_cursor_def

lemma with_option_view:
  assumes "\<And>yes w. login_view (w_c (f yes w)) = login_view (w_c w)"
  shows "login_view (w_c (with_option v f w)) = login_view (w_c w)"
  by (simp add: with_option_def assms split: option.split BoolOption.split)

lemma option_views [simp]:
  "login_view (w_c (option_image_quality option w)) = login_view (w_c w)"
  "login_view (w_c (option_custom_fps option w)) = login_view (w_c w)"
  "login_view (w_c (option_supported_decoding option w)) = login_view (w_c w)"
  "login_view (w_c (option_show_remote_cursor yes w)) = login_view (w_c w)"
  "login_view (w_c (option_disable_audio yes w)) = login_view (w_c w)"
  "login_view (w_c (option_enable_file_transfer env yes w)) = login_view (w_c w)"
  "login_view (w_c (option_disable_clipboard env yes w)) = login_view (w_c w)"
  "login_view (w_c (option_disable_keyboard env yes w)) = login_view (w_c w)"
  "login_view (w_c (option_block_input yes w)) = login_view (w_c w)"
  "login_view (w_c (update_terminal_persistence yes w)) = login_view (w_c w)"
  "login_view (w_c (option_show_my_cursor env yes w)) = login_view (w_c w)"
  by (simp_all add: option_defs login_view_def Let_def split: option.split)

lemma option_privacy_mode_view [simp]: "login_view (w_c (option_privacy_mode env option w)) = login_view (w_c w)"
  by (simp add: option_privacy_mode_def with_option_def split: option.split BoolOption.split)

lemma update_options_view: "login_view (w_c (update_options env option w)) = login_view (w_c w)"
  unfolding update_options_def Let_def
  by (simp add: with_option_view)

lemma with_option_globals:
  assumes "\<And>yes w. w_g (f yes w) = w_g w"
  shows "w_g (with_option v f w) = w_g w"
  by (simp add: with_option_def assms split: option.split BoolOption.split)

lemma update_options_globals: "w_g (update_options env option w) = w_g w"
  unfolding update_options_def Let_def
  by (simp add: with_option_globals option_defs Let_def split: option.split)

lemma update_scoped_login_options_view:
  "login_view (w_c (update_scoped_login_options env w)) = login_view (w_c w)"
  "w_g (update_scoped_login_options env w) = w_g w"
  by (simp_all add: update_scoped_login_options_def update_options_view update_options_globals Let_def split: option.split)

lemma login_viewD:
  assumes "login_view c = login_view c'"
  shows "cn_authorized c = cn_authorized c'" "cn_authed_conn_id c = cn_authed_conn_id c'" "cn_file_transfer c = cn_file_transfer c'"
    "cn_view_camera c = cn_view_camera c'" "cn_terminal c = cn_terminal c'" "cn_port_forward_socket c = cn_port_forward_socket c'"
    "cn_require_2fa c = cn_require_2fa c'" "cn_from_switch c = cn_from_switch c'" "cn_lr c = cn_lr c'"
    "cn_terminal_user_token c = cn_terminal_user_token c'" "cn_terminal_service_id c = cn_terminal_service_id c'"
    "cn_control_permissions c = cn_control_permissions c'" "cn_privacy_mode c = cn_privacy_mode c'" "cn_keyboard c = cn_keyboard c'"
    "cn_clipboard c = cn_clipboard c'" "cn_restart c = cn_restart c'" "cn_id c = cn_id c'"
  using assms by (simp_all add: login_view_def)

lemmas update_scoped_simps [simp] = login_viewD [OF update_scoped_login_options_view(1)]
lemmas update_options_simps [simp] = login_viewD [OF update_options_view]

section \<open>When a connection is authorised\<close>

lemma logon_authorize_simps [simp]:
  "cn_authorized (w_c (logon_authorize w))"
  "cn_authed_conn_id (w_c (logon_authorize w)) = Some (snd (session_conn_type (w_c w)))"
  "cn_file_transfer (w_c (logon_authorize w)) = cn_file_transfer (w_c w)"
  "cn_view_camera (w_c (logon_authorize w)) = cn_view_camera (w_c w)"
  "cn_terminal (w_c (logon_authorize w)) = cn_terminal (w_c w)"
  "cn_port_forward_socket (w_c (logon_authorize w)) = cn_port_forward_socket (w_c w)"
  "cn_control_permissions (w_c (logon_authorize w)) = cn_control_permissions (w_c w)"
  "cn_terminal_user_token (w_c (logon_authorize w)) = cn_terminal_user_token (w_c w)"
  "cn_keyboard (w_c (logon_authorize w)) = cn_keyboard (w_c w)"
  "cn_from_switch (w_c (logon_authorize w)) = cn_from_switch (w_c w)"
  "cn_lr (w_c (logon_authorize w)) = cn_lr (w_c w)"
  by (auto simp: logon_authorize_def new_authed_conn_def normalize_conn_audit_auth_fields_def session_conn_type_def Let_def
      split: prod.split)

lemma logon_response_simps [simp]: "w_c (snd (logon_response env w)) = w_c w" "w_g (snd (logon_response env w)) = w_g w"
  by (simp_all add: logon_response_def Let_def split: option.split)

lemma try_sub_monitor_services_view [simp]:
  "login_view (w_c (try_sub_monitor_services env w)) = login_view (w_c w)" "w_g (try_sub_monitor_services env w) = w_g w"
  by (simp_all add: try_sub_monitor_services_def login_view_def Let_def)

lemmas try_sub_monitor_services_simps [simp] = login_viewD [OF try_sub_monitor_services_view(1)]

lemma logon_services_simps [simp]:
  "cn_authorized (w_c (logon_services env b w)) = cn_authorized (w_c w)"
  "cn_authed_conn_id (w_c (logon_services env b w)) = cn_authed_conn_id (w_c w)"
  "cn_file_transfer (w_c (logon_services env b w)) = cn_file_transfer (w_c w)"
  "cn_view_camera (w_c (logon_services env b w)) = cn_view_camera (w_c w)"
  "cn_terminal (w_c (logon_services env b w)) = cn_terminal (w_c w)"
  "cn_port_forward_socket (w_c (logon_services env b w)) = cn_port_forward_socket (w_c w)"
  "cn_control_permissions (w_c (logon_services env b w)) = cn_control_permissions (w_c w)"
  "cn_terminal_user_token (w_c (logon_services env b w)) = cn_terminal_user_token (w_c w)"
  "cn_from_switch (w_c (logon_services env b w)) = cn_from_switch (w_c w)"
  "cn_lr (w_c (logon_services env b w)) = cn_lr (w_c w)"
  by (simp_all add: logon_services_def read_dir_def init_terminal_service_def Let_def split: option.split prod.split)

lemma logon_session_simps [simp]:
  "cn_authorized (w_c (logon_session env w)) = cn_authorized (w_c w)"
  "cn_authed_conn_id (w_c (logon_session env w)) = cn_authed_conn_id (w_c w)"
  "cn_file_transfer (w_c (logon_session env w)) = cn_file_transfer (w_c w)"
  "cn_view_camera (w_c (logon_session env w)) = cn_view_camera (w_c w)"
  "cn_terminal (w_c (logon_session env w)) = cn_terminal (w_c w)"
  "cn_port_forward_socket (w_c (logon_session env w)) = cn_port_forward_socket (w_c w)"
  "cn_control_permissions (w_c (logon_session env w)) = cn_control_permissions (w_c w)"
  "cn_terminal_user_token (w_c (logon_session env w)) = cn_terminal_user_token (w_c w)"
  "cn_from_switch (w_c (logon_session env w)) = cn_from_switch (w_c w)"
  "cn_lr (w_c (logon_session env w)) = cn_lr (w_c w)"
  by (simp_all add: logon_session_def Let_def case_prod_beta)

text \<open>The conditions of \<open>send_logon_response_and_keep_alive\<close>.\<close>

definition recent_session :: "Env \<Rightarrow> LoginRequest \<Rightarrow> Globals \<Rightarrow> Session \<Rightarrow> bool" where
  "recent_session env lr g s \<longleftrightarrow>
     gl_sessions g (session_key lr) = Some s \<and> ev_now env - gl_cells g (ss_last_recv_time s) < SESSION_TIMEOUT"

definition second_factor_ok :: "Env \<Rightarrow> World \<Rightarrow> bool" where
  "second_factor_ok env w \<longleftrightarrow>
     cn_require_2fa (w_c w) = None \<or> cn_from_switch (w_c w) \<or>
     lr_password (cn_lr (w_c w)) \<noteq> [] \<and> (\<exists>s. recent_session env (cn_lr (w_c w)) (w_g w) s \<and> ss_tfa s)"

definition terminal_ready :: "Env \<Rightarrow> Connection \<Rightarrow> bool" where
  "terminal_ready env c \<longleftrightarrow>
     \<not> cn_terminal c \<or> cn_terminal_user_token c \<or> ev_service_specified_user env (cn_terminal_service_id c) \<noteq> Some True"

definition tunnel_ready :: "Env \<Rightarrow> Connection \<Rightarrow> bool" where
  "tunnel_ready env c \<longleftrightarrow>
     cn_port_forward_socket c \<noteq> None \<or>
     (case lr_union (cn_lr c) of
        Some (LuPortForward host port) \<Rightarrow> ev_connect env (fst (normalize_port_forward_target host port)) | _ \<Rightarrow> True)"

lemma is_recent_session_iff:
  "fst (is_recent_session env tfa w) \<longleftrightarrow>
     lr_password (cn_lr (w_c w)) \<noteq> [] \<and>
     (\<exists>s. recent_session env (cn_lr (w_c w)) (w_g w) s \<and>
        (if tfa then ss_tfa s
         else validate_password_plain (ev_deps env) (cn_hash (w_c w)) (lr_password (cn_lr (w_c w))) (ss_random_password s)))"
  by (auto simp: is_recent_session_def retain_recent_def recent_session_def Let_def split: option.splits if_splits)

lemma is_recent_session_simps [simp]:
  "cn_authorized (w_c (snd (is_recent_session env tfa w))) = cn_authorized (w_c w)"
  "cn_require_2fa (w_c (snd (is_recent_session env tfa w))) = cn_require_2fa (w_c w)"
  "cn_from_switch (w_c (snd (is_recent_session env tfa w))) = cn_from_switch (w_c w)"
  "cn_lr (w_c (snd (is_recent_session env tfa w))) = cn_lr (w_c w)"
  "cn_terminal (w_c (snd (is_recent_session env tfa w))) = cn_terminal (w_c w)"
  "cn_file_transfer (w_c (snd (is_recent_session env tfa w))) = cn_file_transfer (w_c w)"
  "cn_view_camera (w_c (snd (is_recent_session env tfa w))) = cn_view_camera (w_c w)"
  "cn_terminal_user_token (w_c (snd (is_recent_session env tfa w))) = cn_terminal_user_token (w_c w)"
  "cn_terminal_service_id (w_c (snd (is_recent_session env tfa w))) = cn_terminal_service_id (w_c w)"
  "cn_port_forward_socket (w_c (snd (is_recent_session env tfa w))) = cn_port_forward_socket (w_c w)"
  "cn_hash (w_c (snd (is_recent_session env tfa w))) = cn_hash (w_c w)"
  "cn_ip (w_c (snd (is_recent_session env tfa w))) = cn_ip (w_c w)"
  "cn_control_permissions (w_c (snd (is_recent_session env tfa w))) = cn_control_permissions (w_c w)"
  "w_g (snd (is_recent_session env tfa w)) = retain_recent (ev_now env) (w_g w)"
  by (auto simp: is_recent_session_def Let_def split: option.split)

lemma prepare_terminal_simps [simp]:
  "cn_authorized (w_c (snd (prepare_terminal_login_for_authorization env w))) = cn_authorized (w_c w)"
  "cn_lr (w_c (snd (prepare_terminal_login_for_authorization env w))) = cn_lr (w_c w)"
  "cn_file_transfer (w_c (snd (prepare_terminal_login_for_authorization env w))) = cn_file_transfer (w_c w)"
  "cn_view_camera (w_c (snd (prepare_terminal_login_for_authorization env w))) = cn_view_camera (w_c w)"
  "cn_terminal (w_c (snd (prepare_terminal_login_for_authorization env w))) = cn_terminal (w_c w)"
  "cn_port_forward_socket (w_c (snd (prepare_terminal_login_for_authorization env w))) = cn_port_forward_socket (w_c w)"
  "cn_control_permissions (w_c (snd (prepare_terminal_login_for_authorization env w))) = cn_control_permissions (w_c w)"
  "cn_from_switch (w_c (snd (prepare_terminal_login_for_authorization env w))) = cn_from_switch (w_c w)"
  "cn_terminal_user_token (w_c (snd (prepare_terminal_login_for_authorization env w))) =
     (cn_terminal_user_token (w_c w) \<or> cn_terminal (w_c w))"
  "w_g (snd (prepare_terminal_login_for_authorization env w)) = w_g w"
  by (auto simp: prepare_terminal_login_for_authorization_def Let_def split: option.split)

lemma prepare_terminal_ready:
  "fst (prepare_terminal_login_for_authorization env w) = (if terminal_ready env (w_c w) then None else Some False)"
  by (auto simp: prepare_terminal_login_for_authorization_def terminal_ready_def Let_def split: option.split)

lemma connect_port_forward_simps [simp]:
  "cn_authorized (w_c (snd (connect_port_forward_if_needed env w))) = cn_authorized (w_c w)"
  "cn_lr (w_c (snd (connect_port_forward_if_needed env w))) = cn_lr (w_c w)"
  "cn_file_transfer (w_c (snd (connect_port_forward_if_needed env w))) = cn_file_transfer (w_c w)"
  "cn_view_camera (w_c (snd (connect_port_forward_if_needed env w))) = cn_view_camera (w_c w)"
  "cn_terminal (w_c (snd (connect_port_forward_if_needed env w))) = cn_terminal (w_c w)"
  "cn_control_permissions (w_c (snd (connect_port_forward_if_needed env w))) = cn_control_permissions (w_c w)"
  "cn_from_switch (w_c (snd (connect_port_forward_if_needed env w))) = cn_from_switch (w_c w)"
  "cn_terminal_user_token (w_c (snd (connect_port_forward_if_needed env w))) = cn_terminal_user_token (w_c w)"
  "w_g (snd (connect_port_forward_if_needed env w)) = w_g w"
  by (simp_all add: connect_port_forward_if_needed_def Let_def case_prod_beta split: option.split LoginUnion.split)

lemma connect_port_forward_ready:
  "fst (connect_port_forward_if_needed env w) = tunnel_ready env (w_c w)"
  by (auto simp: connect_port_forward_if_needed_def tunnel_ready_def Let_def case_prod_beta
      split: option.split LoginUnion.split)

lemma ready_cong:
  assumes "cn_lr c' = cn_lr c" "cn_terminal c' = cn_terminal c" "cn_terminal_user_token c' = cn_terminal_user_token c"
    "cn_terminal_service_id c' = cn_terminal_service_id c" "cn_port_forward_socket c' = cn_port_forward_socket c"
  shows "terminal_ready env c' = terminal_ready env c" "tunnel_ready env c' = tunnel_ready env c"
  using assms by (simp_all add: terminal_ready_def tunnel_ready_def)

lemma ready_recent [simp]:
  "terminal_ready env (w_c (snd (is_recent_session env' tfa w))) = terminal_ready env (w_c w)"
  "tunnel_ready env (w_c (snd (is_recent_session env' tfa w))) = tunnel_ready env (w_c w)"
  by (rule ready_cong; simp)+

lemma tunnel_ready_prepare [simp]:
  "tunnel_ready env (w_c (snd (prepare_terminal_login_for_authorization env w))) = tunnel_ready env (w_c w)"
  by (simp add: tunnel_ready_def)

text \<open>The world in which the connection is authorised.\<close>

definition logon_prepared :: "Env \<Rightarrow> World \<Rightarrow> World" where
  "logon_prepared env w =
     snd (connect_port_forward_if_needed env (snd (prepare_terminal_login_for_authorization env
       (if cn_require_2fa (w_c w) \<noteq> None then snd (is_recent_session env True w) else w))))"

lemma send_logon_unfold:
  fixes env w
  defines "w1 \<equiv> if cn_require_2fa (w_c w) \<noteq> None then snd (is_recent_session env True w) else w"
  assumes "\<not> cn_authorized (w_c w)"
  shows "send_logon_response_and_keep_alive env w =
     (if \<not> second_factor_ok env w
      then (True, send_login_error env REQUIRE_2FA (if ev_telegram_bot env then emit [Audit EvTelegramCode] w1 else w1))
      else if \<not> terminal_ready env (w_c w) then (False, snd (prepare_terminal_login_for_authorization env w1))
      else if \<not> tunnel_ready env (w_c w) then (False, logon_prepared env w)
      else (True, logon_session env (logon_authorize (logon_prepared env w))))"
proof -
  let ?p = "prepare_terminal_login_for_authorization env w1"
  let ?q = "connect_port_forward_if_needed env (snd ?p)"
  have p: "fst ?p = (if terminal_ready env (w_c w) then None else Some False)" and q: "fst ?q = tunnel_ready env (w_c w)"
    by (simp_all add: w1_def prepare_terminal_ready connect_port_forward_ready)
  have tf: "(cn_require_2fa (w_c w1) \<noteq> None \<and> \<not> (if cn_require_2fa (w_c w) \<noteq> None then fst (is_recent_session env True w) else False)
       \<and> \<not> cn_from_switch (w_c w1)) = (\<not> second_factor_ok env w)"
    by (auto simp: w1_def is_recent_session_iff second_factor_ok_def)
  have "send_logon_response_and_keep_alive env w =
     (if \<not> second_factor_ok env w
      then (True, send_login_error env REQUIRE_2FA (if ev_telegram_bot env then emit [Audit EvTelegramCode] w1 else w1))
      else case fst ?p of Some keep_alive \<Rightarrow> (keep_alive, snd ?p)
         | None \<Rightarrow> if fst ?q then (True, logon_session env (logon_authorize (snd ?q))) else (False, snd ?q))"
    unfolding send_logon_response_and_keep_alive_def Let_def tf [symmetric] w1_def
    using assms by (auto simp: case_prod_beta split: option.split bool.split)
  then show ?thesis using p q by (simp add: logon_prepared_def w1_def)
qed

lemma logon_prepared_simps [simp]:
  "cn_authorized (w_c (logon_prepared env w)) = cn_authorized (w_c w)"
  "cn_file_transfer (w_c (logon_prepared env w)) = cn_file_transfer (w_c w)"
  "cn_view_camera (w_c (logon_prepared env w)) = cn_view_camera (w_c w)"
  "cn_terminal (w_c (logon_prepared env w)) = cn_terminal (w_c w)"
  "cn_control_permissions (w_c (logon_prepared env w)) = cn_control_permissions (w_c w)"
  "cn_terminal_user_token (w_c (logon_prepared env w)) = (cn_terminal_user_token (w_c w) \<or> cn_terminal (w_c w))"
  "cn_lr (w_c (logon_prepared env w)) = cn_lr (w_c w)"
  by (simp_all add: logon_prepared_def)

lemma send_logon_authorized:
  assumes "\<not> cn_authorized (w_c w)"
  shows "cn_authorized (w_c (snd (send_logon_response_and_keep_alive env w))) \<longleftrightarrow>
           second_factor_ok env w \<and> terminal_ready env (w_c w) \<and> tunnel_ready env (w_c w)"
  using assms by (simp add: send_logon_unfold)

lemma login_accepted_authorized:
  assumes "\<not> cn_authorized (w_c w)"
  shows "cn_authorized (w_c (snd (login_accepted env lr err_msg w))) \<longleftrightarrow>
           err_msg = [] \<and> second_factor_ok env w \<and> terminal_ready env (w_c w) \<and> tunnel_ready env (w_c w)"
proof -
  let ?v = "wait_desktop_cm_ready w"
  have "second_factor_ok env ?v = second_factor_ok env w" by (simp add: second_factor_ok_def)
  then show ?thesis
    using send_logon_authorized [of ?v env] assms
    by (auto simp: login_accepted_def case_prod_beta split: prod.split bool.split)
qed

definition guard_ok :: "Env \<Rightarrow> nat \<Rightarrow> World \<Rightarrow> bool" where
  "guard_ok env i w \<longleftrightarrow> snd (fst (check_failure (cn_ip (w_c w)) i (ev_now_ms env) (gl_guard (w_g w))))"

lemma conn_check_failure_simps [simp]:
  "snd (fst (conn_check_failure env i w)) = guard_ok env i w"
  "w_c (snd (conn_check_failure env i w)) = w_c w"
  "w_g (snd (conn_check_failure env i w)) = w_g w"
  using check_failure_guard [of "cn_ip (w_c w)" i "ev_now_ms env" "gl_guard (w_g w)"]
  by (simp_all add: conn_check_failure_def guard_ok_def case_prod_beta)

lemma conn_update_failure_simps [simp]:
  "w_c (conn_update_failure env f b i w) = w_c w"
  "gl_sessions (w_g (conn_update_failure env f b i w)) = gl_sessions (w_g w)"
  "gl_cells (w_g (conn_update_failure env f b i w)) = gl_cells (w_g w)"
  "gl_store (w_g (conn_update_failure env f b i w)) = gl_store (w_g w)"
  "gl_temp (w_g (conn_update_failure env f b i w)) = gl_temp (w_g w)"
  by (simp_all add: conn_update_failure_def)

lemma conn_check_update_temporary_password_simps [simp]:
  "w_c (conn_check_update_temporary_password env b w) = w_c w"
  "gl_sessions (w_g (conn_check_update_temporary_password env b w)) = gl_sessions (w_g w)"
  "gl_cells (w_g (conn_check_update_temporary_password env b w)) = gl_cells (w_g w)"
  by (simp_all add: conn_check_update_temporary_password_def)

text \<open>The match of a login's answer against the passwords of the machine.\<close>

definition stored_match :: "Env \<Rightarrow> bool \<Rightarrow> World \<Rightarrow> PwMatch option" where
  "stored_match env allow w =
     validate_password (ev_deps env) (ev_pwenv env) (ev_opt env) (ev_hard env) (cn_hash (w_c w)) (lr_password (cn_lr (w_c w)))
       (tp_password (gl_temp (w_g w))) (gl_store (w_g w)) allow"

lemma second_factor_cong:
  assumes "cn_require_2fa (w_c w') = cn_require_2fa (w_c w)" "cn_from_switch (w_c w') = cn_from_switch (w_c w)"
    "cn_lr (w_c w') = cn_lr (w_c w)" "gl_sessions (w_g w') = gl_sessions (w_g w)" "gl_cells (w_g w') = gl_cells (w_g w)"
  shows "second_factor_ok env w' = second_factor_ok env w"
  using assms by (simp add: second_factor_ok_def recent_session_def)

lemma no_recent_tfa_after_temporary:
  "\<not> (\<exists>s. recent_session env lr (update_or_insert_session now (session_key lr) (Some p) (Some False) g) s \<and> ss_tfa s)"
  by (auto simp: recent_session_def update_or_insert_session_def new_session_def split: option.splits)

lemma validated_simps:
  assumes "stored_match env allow w = Some r"
  shows "fst (conn_validate_password env allow w)"
    and "cn_authorized (w_c (snd (conn_validate_password env allow w))) = cn_authorized (w_c w)"
    and "terminal_ready env (w_c (snd (conn_validate_password env allow w))) = terminal_ready env (w_c w)"
    and "tunnel_ready env (w_c (snd (conn_validate_password env allow w))) = tunnel_ready env (w_c w)"
  using assms
  by (auto simp: conn_validate_password_def stored_match_def terminal_ready_def tunnel_ready_def Let_def split: PwMatch.split)

lemma validated_second_factor:
  assumes "stored_match env allow w = Some r"
  shows "second_factor_ok env (snd (conn_validate_password env allow w)) =
    (if r = MatchTemporary then cn_require_2fa (w_c w) = None \<or> cn_from_switch (w_c w) else second_factor_ok env w)"
proof (cases r)
  case MatchTemporary
  let ?v = "snd (conn_validate_password env allow w)"
  let ?g = "update_or_insert_session (ev_now env) (session_key (cn_lr (w_c w))) (Some (tp_password (gl_temp (w_g w)))) (Some False) (w_g w)"
  have v: "gl_sessions (w_g ?v) = gl_sessions ?g" "gl_cells (w_g ?v) = gl_cells ?g"
    "cn_require_2fa (w_c ?v) = cn_require_2fa (w_c w)" "cn_from_switch (w_c ?v) = cn_from_switch (w_c w)" "cn_lr (w_c ?v) = cn_lr (w_c w)"
    using assms MatchTemporary by (simp_all add: conn_validate_password_def stored_match_def Let_def)
  have "\<not> (\<exists>s. recent_session env (cn_lr (w_c ?v)) (w_g ?v) s \<and> ss_tfa s)"
    using no_recent_tfa_after_temporary [of env "cn_lr (w_c w)"] by (simp only: recent_session_def v) simp
  with MatchTemporary v show ?thesis by (auto simp: second_factor_ok_def)
next
  case MatchPermanent
  have "second_factor_ok env (snd (conn_validate_password env allow w)) = second_factor_ok env w"
    by (rule second_factor_cong; use assms MatchPermanent in \<open>simp add: conn_validate_password_def stored_match_def Let_def\<close>)
  with MatchPermanent show ?thesis by simp
qed

lemma conn_update_failure_second_factor [simp]:
  "second_factor_ok env' (conn_update_failure env f b i w) = second_factor_ok env' w"
  by (rule second_factor_cong) simp_all

lemma conn_check_failure_second_factor [simp]:
  "second_factor_ok env' (snd (conn_check_failure env i w)) = second_factor_ok env' w"
  by (rule second_factor_cong) simp_all

lemma login_password_authorized:
  assumes "\<not> cn_authorized (w_c w)"
  shows "cn_authorized (w_c (snd (login_password env lr err_msg allow w))) \<longleftrightarrow>
     err_msg = [] \<and> guard_ok env 0 w \<and>
     (stored_match env allow w = Some MatchTemporary \<and> (cn_require_2fa (w_c w) = None \<or> cn_from_switch (w_c w)) \<or>
      stored_match env allow w = Some MatchPermanent \<and> second_factor_ok env w) \<and>
     terminal_ready env (w_c w) \<and> tunnel_ready env (w_c w)"
proof -
  let ?f = "fst (fst (conn_check_failure env 0 w))"
  let ?w1 = "snd (conn_check_failure env 0 w)"
  let ?v = "conn_validate_password env allow ?w1"
  have un: "login_password env lr err_msg allow w =
      (if \<not> guard_ok env 0 w then (True, ?w1)
       else if fst ?v then login_accepted env lr err_msg (conn_update_failure env ?f True 0 (snd ?v))
       else (True, let w3 = conn_check_update_temporary_password env False (conn_update_failure env ?f False 0 (snd ?v)) in
             if err_msg = [] then try_start_cm (lr_my_id lr) (lr_my_name lr) False (send_login_error env LOGIN_MSG_PASSWORD_WRONG w3)
             else send_login_error env LOGIN_MSG_DESKTOP_SESSION_NOT_READY_PASSWORD_WRONG w3))"
    by (simp add: login_password_def case_prod_beta Let_def split: bool.split)
  have m: "stored_match env allow ?w1 = stored_match env allow w" by (simp add: stored_match_def)
  show ?thesis
  proof (cases "stored_match env allow w")
    case None
    then have "?v = (False, ?w1)" by (simp add: conn_validate_password_def stored_match_def Let_def)
    with None assms show ?thesis by (simp add: un Let_def)
  next
    case (Some r)
    then have r: "stored_match env allow ?w1 = Some r" using m by simp
    note v = validated_simps [OF r] validated_second_factor [OF r]
    have "\<not> cn_authorized (w_c (conn_update_failure env ?f True 0 (snd ?v)))" using assms v by simp
    from login_accepted_authorized [OF this, of env lr err_msg] show ?thesis
      using v Some assms by (cases r) (auto simp: un)
  qed
qed

text \<open>The answer is the one to the challenge for the password remembered in a session of the last thirty seconds.\<close>

definition session_password_ok :: "Env \<Rightarrow> World \<Rightarrow> bool" where
  "session_password_ok env w \<longleftrightarrow>
     (\<exists>s. recent_session env (cn_lr (w_c w)) (w_g w) s \<and>
        validate_password_plain (ev_deps env) (cn_hash (w_c w)) (lr_password (cn_lr (w_c w))) (ss_random_password s))"

text \<open>The answer is the one for the temporary password, or for any accepted password of the machine.\<close>

definition temporary_answer :: "Env \<Rightarrow> World \<Rightarrow> bool" where
  "temporary_answer env w \<longleftrightarrow>
     (let password = tp_password (gl_temp (w_g w)); hash = cn_hash (w_c w) in
      temporary_enabled (ev_opt env) \<and> password \<noteq> [] \<and>
      lr_password (cn_lr (w_c w)) = answer (ev_deps env) (salted (ev_deps env) password hash) hash)"

definition accepted_answer :: "Env \<Rightarrow> World \<Rightarrow> bool" where
  "accepted_answer env w \<longleftrightarrow>
     (\<exists>h1 \<in> accepted_h1 (ev_deps env) (ev_pwenv env) (ev_opt env) (ev_hard env) (cn_hash (w_c w))
               (tp_password (gl_temp (w_g w))) (gl_store (w_g w)) (allow_logon_screen_password env).
        lr_password (cn_lr (w_c w)) = answer (ev_deps env) h1 (cn_hash (w_c w)))"

definition password_ok :: "Env \<Rightarrow> World \<Rightarrow> bool" where
  "password_ok env w \<longleftrightarrow>
     lr_password (cn_lr (w_c w)) \<noteq> [] \<and>
     (if session_password_ok env w then second_factor_ok env w
      else guard_ok env 0 w \<and>
        (if temporary_answer env w then cn_require_2fa (w_c w) = None \<or> cn_from_switch (w_c w)
         else accepted_answer env w \<and> second_factor_ok env w))"

lemma stored_match_temporary: "stored_match env allow w = Some MatchTemporary \<longleftrightarrow> temporary_answer env w"
  by (auto simp: stored_match_def validate_password_def temporary_answer_def validate_password_plain_iff Let_def case_prod_beta)

lemma stored_match_accepted: "stored_match env (allow_logon_screen_password env) w \<noteq> None \<longleftrightarrow> accepted_answer env w"
  unfolding stored_match_def accepted_answer_def by (rule validate_password_iff)

lemma password_ok_code:
  "password_ok env w \<longleftrightarrow>
     lr_password (cn_lr (w_c w)) \<noteq> [] \<and>
     (if session_password_ok env w then second_factor_ok env w
      else guard_ok env 0 w \<and>
        (stored_match env (allow_logon_screen_password env) w = Some MatchTemporary \<and>
           (cn_require_2fa (w_c w) = None \<or> cn_from_switch (w_c w)) \<or>
         stored_match env (allow_logon_screen_password env) w = Some MatchPermanent \<and> second_factor_ok env w))"
proof (cases "stored_match env (allow_logon_screen_password env) w")
  case None
  then show ?thesis
    using stored_match_temporary [of env "allow_logon_screen_password env" w] stored_match_accepted [of env w]
    by (simp add: password_ok_def)
next
  case (Some r)
  then show ?thesis
    using stored_match_temporary [of env "allow_logon_screen_password env" w] stored_match_accepted [of env w]
    by (cases r) (auto simp: password_ok_def)
qed

lemma retain_recent_session [simp]:
  "recent_session env lr (retain_recent (ev_now env) g) s = recent_session env lr g s"
  by (auto simp: recent_session_def retain_recent_def split: option.splits if_splits)

lemma recent_second_factor [simp]:
  "second_factor_ok env (snd (is_recent_session env tfa w)) = second_factor_ok env w"
  by (simp add: second_factor_ok_def)

lemma retain_recent_simps [simp]:
  "gl_guard (retain_recent now g) = gl_guard g" "gl_temp (retain_recent now g) = gl_temp g"
  "gl_store (retain_recent now g) = gl_store g" "gl_switch_sides (retain_recent now g) = gl_switch_sides g"
  by (simp_all add: retain_recent_def)

lemma recent_guard_ok [simp]: "guard_ok env i (snd (is_recent_session env tfa w)) = guard_ok env i w"
  by (simp add: guard_ok_def)

lemma recent_stored_match [simp]: "stored_match env allow (snd (is_recent_session env tfa w)) = stored_match env allow w"
  by (simp add: stored_match_def)

lemma login_approve_authorized:
  assumes "\<not> cn_authorized (w_c w)" "cn_lr (w_c w) = lr"
  shows "cn_authorized (w_c (snd (login_approve env lr err_msg w))) \<longleftrightarrow>
     err_msg = [] \<and> \<not> click_only env w \<and> password_ok env w \<and> terminal_ready env (w_c w) \<and> tunnel_ready env (w_c w)"
proof -
  let ?r = "is_recent_session env False w"
  have un: "login_approve env lr err_msg w =
     (if click_only env w then (True, snd (login_approve env lr err_msg w))
      else if fst ?r then login_accepted env lr err_msg (snd ?r)
      else if lr_password lr = [] then (True, snd (login_approve env lr err_msg w))
      else login_password env lr err_msg (allow_logon_screen_password env) (snd ?r))"
    by (simp add: login_approve_def Let_def case_prod_beta split: bool.split)
  have cl: "\<not> cn_authorized (w_c (snd (login_approve env lr err_msg w)))" if "click_only env w"
    using that assms by (simp add: login_approve_def Let_def)
  have em: "\<not> cn_authorized (w_c (snd (login_approve env lr err_msg w)))" if "\<not> click_only env w" "lr_password lr = []" "\<not> fst ?r"
    using that assms by (simp add: login_approve_def Let_def case_prod_beta split: bool.split)
  have r: "fst ?r \<longleftrightarrow> lr_password lr \<noteq> [] \<and> session_password_ok env w"
    using assms(2) by (simp add: is_recent_session_iff session_password_ok_def)
  have na: "\<not> cn_authorized (w_c (snd ?r))" using assms by simp
  show ?thesis
    using login_accepted_authorized [OF na, of env lr err_msg] cl em r assms(2)
      login_password_authorized [OF na, of env lr err_msg "allow_logon_screen_password env"]
    by (subst un) (auto simp: password_ok_code)
qed

definition desktop_ready :: "Env \<Rightarrow> LoginRequest \<Rightarrow> World \<Rightarrow> bool" where
  "desktop_ready env lr w \<longleftrightarrow>
     (should_check_linux_headless_os_auth_before_desktop_start env (cn_headless_allowed (w_c w)) (os_login_username lr)
        \<longrightarrow> guard_ok env 0 w) \<and>
     try_start_desktop env (cn_headless_allowed (w_c w)) (lr_os_login lr) = []"

lemma validate_password_config:
  "ps_config st' = ps_config st \<Longrightarrow>
   validate_password d e opt hard hash p temporary st' allow = validate_password d e opt hard hash p temporary st allow"
  by (simp add: validate_password_def)

lemma has_valid_password_config:
  "ps_config st' = ps_config st \<Longrightarrow>
   has_valid_password d e opt hard temporary st' = has_valid_password d e opt hard temporary st"
  by (simp add: has_valid_password_def has_permanent_password_def)

lemma click_only_cong:
  assumes "gl_temp (w_g w') = gl_temp (w_g w)" "ps_config (gl_store (w_g w')) = ps_config (gl_store (w_g w))"
  shows "click_only env w' = click_only env w"
  using assms has_valid_password_config [OF assms(2)] by (simp add: click_only_def)

lemma password_ok_cong:
  assumes "cn_require_2fa (w_c w') = cn_require_2fa (w_c w)" "cn_from_switch (w_c w') = cn_from_switch (w_c w)"
    "cn_lr (w_c w') = cn_lr (w_c w)" "cn_hash (w_c w') = cn_hash (w_c w)" "cn_ip (w_c w') = cn_ip (w_c w)"
    "gl_sessions (w_g w') = gl_sessions (w_g w)" "gl_cells (w_g w') = gl_cells (w_g w)" "gl_guard (w_g w') = gl_guard (w_g w)"
    "gl_temp (w_g w') = gl_temp (w_g w)" "ps_config (gl_store (w_g w')) = ps_config (gl_store (w_g w))"
  shows "password_ok env w' = password_ok env w"
proof -
  have "second_factor_ok env w' = second_factor_ok env w" using assms by (intro second_factor_cong)
  moreover have "session_password_ok env w' = session_password_ok env w"
    using assms by (simp add: session_password_ok_def recent_session_def)
  moreover have "guard_ok env 0 w' = guard_ok env 0 w" using assms by (simp add: guard_ok_def)
  moreover have "stored_match env allow w' = stored_match env allow w" for allow
    using assms validate_password_config [OF assms(10)] by (simp add: stored_match_def)
  ultimately show ?thesis using assms by (simp add: password_ok_code)
qed

lemma check_failure_cong_simps [simp]:
  "click_only env (snd (conn_check_failure env' i w)) = click_only env w"
  "password_ok env (snd (conn_check_failure env' i w)) = password_ok env w"
  by (rule click_only_cong password_ok_cong; simp)+

lemma login_desktop_authorized:
  assumes "\<not> cn_authorized (w_c w)" "cn_lr (w_c w) = lr"
  shows "cn_authorized (w_c (snd (login_desktop env lr w))) \<longleftrightarrow>
     desktop_ready env lr w \<and> \<not> click_only env w \<and> password_ok env w \<and> terminal_ready env (w_c w) \<and> tunnel_ready env (w_c w)"
proof -
  let ?err = "try_start_desktop env (cn_headless_allowed (w_c w)) (lr_os_login lr)"
  let ?check = "should_check_linux_headless_os_auth_before_desktop_start env (cn_headless_allowed (w_c w)) (os_login_username lr)"
  let ?w1 = "if ?check then snd (conn_check_failure env 0 w) else w"
  have appr: "cn_authorized (w_c (snd (login_approve env lr ?err ?w1))) \<longleftrightarrow>
      ?err = [] \<and> \<not> click_only env w \<and> password_ok env w \<and> terminal_ready env (w_c w) \<and> tunnel_ready env (w_c w)"
    using login_approve_authorized [of ?w1 lr env ?err] assms by (auto split: if_splits)
  show ?thesis
  proof (cases "(?check \<longrightarrow> guard_ok env 0 w) \<and> (?err = [] \<or> ?err = LOGIN_MSG_DESKTOP_SESSION_NOT_READY)")
    case True
    then have "login_desktop env lr w = login_approve env lr ?err ?w1"
      by (auto simp: login_desktop_def Let_def case_prod_beta)
    with appr True show ?thesis by (auto simp: desktop_ready_def)
  next
    case False
    then have "\<not> cn_authorized (w_c (snd (login_desktop env lr w)))"
      using assms by (auto simp: login_desktop_def Let_def case_prod_beta)
    with False show ?thesis by (auto simp: desktop_ready_def)
  qed
qed

section \<open>Login requests: when they authorise\<close>

definition scope_permitted :: "Env \<Rightarrow> LoginUnion option \<Rightarrow> Connection \<Rightarrow> bool" where
  "scope_permitted env u c \<longleftrightarrow>
     (case u of
        Some (LuFileTransfer _ _) \<Rightarrow> permission (ev_opt env) ''enable-file-transfer'' (cn_control_permissions c)
      | Some LuViewCamera \<Rightarrow> permission (ev_opt env) ''enable-camera'' (cn_control_permissions c)
      | Some (LuTerminal _) \<Rightarrow> permission (ev_opt env) ''enable-terminal'' (cn_control_permissions c)
      | Some (LuPortForward _ _) \<Rightarrow> permission (ev_opt env) ''enable-tunnel'' (cn_control_permissions c)
      | None \<Rightarrow> \<not> ev_in_privacy_mode env)"

definition trusted_device :: "Env \<Rightarrow> LoginRequest \<Rightarrow> World \<Rightarrow> bool" where
  "trusted_device env lr w \<longleftrightarrow>
     lr_hwid lr \<noteq> [] \<and> enable_trusted_devices env \<and>
     (case find (\<lambda>device. td_hwid device = lr_hwid lr)
             (fst (get_trusted_devices (ev_deps env) (ev_pwenv env) (ev_now_ms env) (fst (ev_nonces env)) (gl_store (w_g w)))) of
        Some device \<Rightarrow> \<not> outdate (ev_now_ms env) device \<and> td_id device = lr_my_id lr \<and> td_name device = lr_my_name lr \<and>
                       td_platform device = lr_my_platform lr
      | None \<Rightarrow> False)"

text \<open>The world in which the credentials of a request are judged: its request in place, and no second factor
  required of a trusted device.\<close>

definition presented :: "Env \<Rightarrow> LoginRequest \<Rightarrow> World \<Rightarrow> World" where
  "presented env lr w =
     w\<lparr>w_c := (w_c w)\<lparr>cn_lr := lr,
        cn_require_2fa := (if trusted_device env lr w then None else cn_require_2fa (w_c w))\<rparr>\<rparr>"

definition login_ok :: "Env \<Rightarrow> LoginRequest \<Rightarrow> World \<Rightarrow> bool" where
  "login_ok env lr w \<longleftrightarrow>
     scope_permitted env (lr_union lr) (w_c w) \<and>
     (ev_is_direct_ip_access env (lr_username lr) \<or> lr_username lr = ev_id env) \<and>
     desktop_ready env lr w \<and> \<not> click_only env w \<and> password_ok env (presented env lr w) \<and>
     (case lr_union lr of
        Some (LuTerminal service_id) \<Rightarrow> cn_terminal_user_token (w_c w) \<or> ev_service_specified_user env service_id \<noteq> Some True
      | Some (LuPortForward host port) \<Rightarrow>
          cn_port_forward_socket (w_c w) \<noteq> None \<or> ev_connect env (fst (normalize_port_forward_target host port))
      | _ \<Rightarrow> True)"

lemma set_trusted_devices_config [simp]: "ps_config (set_trusted_devices d e now n devices st) = ps_config st"
  by (simp add: set_trusted_devices_def Let_def)

lemma get_trusted_devices_config [simp]: "ps_config (snd (get_trusted_devices d e now n st)) = ps_config st"
  by (simp add: get_trusted_devices_def Let_def case_prod_beta)

lemma trusted_device_cong: "gl_store (w_g w') = gl_store (w_g w) \<Longrightarrow> trusted_device env lr w' = trusted_device env lr w"
  by (simp add: trusted_device_def)

lemma handle_login_request_simps:
  fixes env lr w
  defines "v \<equiv> handle_login_request_without_validation env lr w"
  shows "cn_require_2fa (w_c v) = (if trusted_device env lr w then None else cn_require_2fa (w_c w))"
    "cn_lr (w_c v) = lr" "cn_authorized (w_c v) = cn_authorized (w_c w)" "cn_from_switch (w_c v) = cn_from_switch (w_c w)"
    "cn_hash (w_c v) = cn_hash (w_c w)" "cn_ip (w_c v) = cn_ip (w_c w)" "cn_headless_allowed (w_c v) = cn_headless_allowed (w_c w)"
    "cn_control_permissions (w_c v) = cn_control_permissions (w_c w)" "cn_terminal_user_token (w_c v) = cn_terminal_user_token (w_c w)"
    "cn_port_forward_socket (w_c v) = cn_port_forward_socket (w_c w)" "cn_file_transfer (w_c v) = cn_file_transfer (w_c w)"
    "cn_view_camera (w_c v) = cn_view_camera (w_c w)" "cn_terminal (w_c v) = cn_terminal (w_c w)"
    "cn_authed_conn_id (w_c v) = cn_authed_conn_id (w_c w)"
    "cn_terminal_service_id (w_c v) = cn_terminal_service_id (w_c w)"
    "gl_sessions (w_g v) = gl_sessions (w_g w)" "gl_cells (w_g v) = gl_cells (w_g w)" "gl_guard (w_g v) = gl_guard (w_g w)"
    "gl_temp (w_g v) = gl_temp (w_g w)" "ps_config (gl_store (w_g v)) = ps_config (gl_store (w_g w))"
    "gl_switch_sides (w_g v) = gl_switch_sides (w_g w)" "w_out v = w_out w"
  unfolding v_def handle_login_request_without_validation_def Let_def trusted_device_def case_prod_beta
  by (auto split: option.split)

lemma reset_session_scope_simps [simp]:
  fixes w
  defines "v \<equiv> reset_session_scope_for_login w"
  shows "w_g v = w_g w" "cn_require_2fa (w_c v) = cn_require_2fa (w_c w)" "cn_lr (w_c v) = cn_lr (w_c w)"
    "cn_authorized (w_c v) = cn_authorized (w_c w)" "cn_from_switch (w_c v) = cn_from_switch (w_c w)"
    "cn_hash (w_c v) = cn_hash (w_c w)" "cn_ip (w_c v) = cn_ip (w_c w)" "cn_headless_allowed (w_c v) = cn_headless_allowed (w_c w)"
    "cn_control_permissions (w_c v) = cn_control_permissions (w_c w)" "cn_terminal_user_token (w_c v) = cn_terminal_user_token (w_c w)"
    "cn_port_forward_socket (w_c v) = cn_port_forward_socket (w_c w)" "cn_authed_conn_id (w_c v) = cn_authed_conn_id (w_c w)"
    "cn_file_transfer (w_c v) = None" "\<not> cn_view_camera (w_c v)" "\<not> cn_terminal (w_c v)"
  by (simp_all add: v_def reset_session_scope_for_login_def)

lemma login_scope_permitted: "fst (login_scope env lr w) = scope_permitted env (lr_union lr) (w_c w)"
  by (simp add: login_scope_def scope_permitted_def check_privacy_mode_on_def Let_def split: option.split LoginUnion.split)

lemma scope_permitted_handled [simp]:
  "scope_permitted env u (w_c (reset_session_scope_for_login (handle_login_request_without_validation env' lr w))) =
   scope_permitted env u (w_c w)"
  unfolding scope_permitted_def reset_session_scope_simps handle_login_request_simps ..

lemma login_scope_simps [simp]:
  fixes env lr w
  defines "v \<equiv> snd (login_scope env lr w)"
  shows "w_g v = w_g w" "cn_require_2fa (w_c v) = cn_require_2fa (w_c w)" "cn_lr (w_c v) = cn_lr (w_c w)"
    "cn_authorized (w_c v) = cn_authorized (w_c w)" "cn_from_switch (w_c v) = cn_from_switch (w_c w)"
    "cn_hash (w_c v) = cn_hash (w_c w)" "cn_ip (w_c v) = cn_ip (w_c w)" "cn_headless_allowed (w_c v) = cn_headless_allowed (w_c w)"
    "cn_control_permissions (w_c v) = cn_control_permissions (w_c w)" "cn_terminal_user_token (w_c v) = cn_terminal_user_token (w_c w)"
    "cn_port_forward_socket (w_c v) = cn_port_forward_socket (w_c w)" "cn_authed_conn_id (w_c v) = cn_authed_conn_id (w_c w)"
  by (simp_all add: v_def login_scope_def check_privacy_mode_on_def Let_def split: option.split LoginUnion.split)

lemma try_start_cm_ipc_view [simp]:
  "login_view (w_c (try_start_cm_ipc w)) = login_view (w_c w)" "w_g (try_start_cm_ipc w) = w_g w"
  "cn_headless_allowed (w_c (try_start_cm_ipc w)) = cn_headless_allowed (w_c w)"
  by (simp_all add: try_start_cm_ipc_def login_view_def)

lemmas try_start_cm_ipc_simps [simp] = login_viewD [OF try_start_cm_ipc_view(1)]

lemma try_start_cm_ipc_more [simp]:
  "cn_hash (w_c (try_start_cm_ipc w)) = cn_hash (w_c w)" "cn_ip (w_c (try_start_cm_ipc w)) = cn_ip (w_c w)"
  by (simp_all add: try_start_cm_ipc_def)

lemma login_scope_terminal:
  assumes "fst (login_scope env lr w)" "\<not> cn_terminal (w_c w)"
  shows "cn_terminal (w_c (snd (login_scope env lr w))) \<longleftrightarrow> (\<exists>service_id. lr_union lr = Some (LuTerminal service_id))"
    and "lr_union lr = Some (LuTerminal service_id) \<Longrightarrow> cn_terminal_service_id (w_c (snd (login_scope env lr w))) = service_id"
  using assms by (auto simp: login_scope_def check_privacy_mode_on_def Let_def split: option.splits LoginUnion.splits if_splits)

text \<open>The connection when its credentials are judged, against the connection the request arrived at.\<close>

lemma login_world:
  fixes env lr w
  defines "v \<equiv> try_start_cm_ipc (snd (login_scope env lr (reset_session_scope_for_login (handle_login_request_without_validation env lr w))))"
  assumes permitted: "scope_permitted env (lr_union lr) (w_c w)"
  shows "cn_authorized (w_c v) = cn_authorized (w_c w)" "cn_lr (w_c v) = lr"
    and "desktop_ready env lr v = desktop_ready env lr w" and "click_only env v = click_only env w"
    and "password_ok env v = password_ok env (presented env lr w)"
    and "terminal_ready env (w_c v) \<and> tunnel_ready env (w_c v) \<longleftrightarrow>
      (case lr_union lr of
        Some (LuTerminal service_id) \<Rightarrow> cn_terminal_user_token (w_c w) \<or> ev_service_specified_user env service_id \<noteq> Some True
      | Some (LuPortForward host port) \<Rightarrow>
          cn_port_forward_socket (w_c w) \<noteq> None \<or> ev_connect env (fst (normalize_port_forward_target host port))
      | _ \<Rightarrow> True)"
proof -
  note h = handle_login_request_simps [of env lr w]
  show "cn_authorized (w_c v) = cn_authorized (w_c w)" "cn_lr (w_c v) = lr" by (simp_all add: v_def h)
  show "desktop_ready env lr v = desktop_ready env lr w"
    by (simp add: v_def desktop_ready_def guard_ok_def h)
  show "click_only env v = click_only env w" by (rule click_only_cong) (simp_all add: v_def h)
  show "password_ok env v = password_ok env (presented env lr w)"
    by (rule password_ok_cong) (simp_all add: v_def h presented_def)
  let ?r = "reset_session_scope_for_login (handle_login_request_without_validation env lr w)"
  have "fst (login_scope env lr ?r)"
    using permitted by (simp add: login_scope_permitted)
  note t = login_scope_terminal [OF this]
  show "terminal_ready env (w_c v) \<and> tunnel_ready env (w_c v) \<longleftrightarrow>
      (case lr_union lr of
        Some (LuTerminal service_id) \<Rightarrow> cn_terminal_user_token (w_c w) \<or> ev_service_specified_user env service_id \<noteq> Some True
      | Some (LuPortForward host port) \<Rightarrow>
          cn_port_forward_socket (w_c w) \<noteq> None \<or> ev_connect env (fst (normalize_port_forward_target host port))
      | _ \<Rightarrow> True)"
    using t by (auto simp: v_def h terminal_ready_def tunnel_ready_def split: option.split LoginUnion.split)
qed

lemma on_login_request_authorized:
  assumes "\<not> cn_authorized (w_c w)"
  shows "cn_authorized (w_c (snd (on_login_request env lr w))) \<longleftrightarrow> login_ok env lr w"
proof -
  let ?h = "handle_login_request_without_validation env lr w"
  let ?s = "login_scope env lr (reset_session_scope_for_login ?h)"
  let ?v = "try_start_cm_ipc (snd ?s)"
  let ?name = "ev_is_direct_ip_access env (lr_username lr) \<or> lr_username lr = ev_id env"
  have na: "\<not> cn_authorized (w_c ?h)" using assms by (simp add: handle_login_request_simps)
  have p: "fst ?s = scope_permitted env (lr_union lr) (w_c w)"
    by (simp add: login_scope_permitted)
  have un: "on_login_request env lr w =
     (if \<not> fst ?s then (False, snd ?s) else if \<not> ?name then (False, send_login_error env LOGIN_MSG_OFFLINE (snd ?s))
      else login_desktop env lr ?v)"
    using na by (simp add: on_login_request_def Let_def case_prod_beta split: bool.split)
  show ?thesis
  proof (cases "scope_permitted env (lr_union lr) (w_c w) \<and> ?name")
    case True
    then have permitted: "scope_permitted env (lr_union lr) (w_c w)" by simp
    note v = login_world [OF permitted]
    have "\<not> cn_authorized (w_c ?v)" using v(1) assms by simp
    from login_desktop_authorized [OF this v(2), of env] show ?thesis
      unfolding v using True p by (simp add: un login_ok_def v(6) [symmetric])
  next
    case False
    then show ?thesis using p na by (auto simp: un login_ok_def)
  qed
qed

section \<open>Codes, tickets and clicks: when they authorise\<close>

definition code_ok :: "Env \<Rightarrow> string \<Rightarrow> World \<Rightarrow> bool" where
  "code_ok env code w \<longleftrightarrow>
     guard_ok env 1 w \<and> (case cn_require_2fa (w_c w) of Some totp \<Rightarrow> ev_totp_check env totp code = Some True | None \<Rightarrow> False)"

lemma set_session_2fa_simps [simp]:
  "gl_guard (set_session_2fa now key g) = gl_guard g" "gl_store (set_session_2fa now key g) = gl_store g"
  "gl_temp (set_session_2fa now key g) = gl_temp g"
  by (simp_all add: set_session_2fa_def new_session_def split: option.split)

lemma second_factor_none: "cn_require_2fa (w_c w) = None \<Longrightarrow> second_factor_ok env w"
  by (simp add: second_factor_ok_def)

lemma second_factor_switch: "cn_from_switch (w_c w) \<Longrightarrow> second_factor_ok env w"
  by (simp add: second_factor_ok_def)

text \<open>The world after a right code, before the connection is authorised.\<close>

definition coded :: "Env \<Rightarrow> World \<Rightarrow> World" where
  "coded env w =
     (let w2 = conn_update_failure env (fst (fst (conn_check_failure env 1 w))) True 1 (snd (conn_check_failure env 1 w)) in
      w2\<lparr>w_c := (w_c w2)\<lparr>cn_require_2fa := None, cn_audit_two_factor := TfTotp\<rparr>,
         w_g := set_session_2fa (ev_now env) (session_key (cn_lr (w_c w2))) (w_g w2)\<rparr>)"

lemma coded_simps [simp]: "w_c (coded env w) = (w_c w)\<lparr>cn_require_2fa := None, cn_audit_two_factor := TfTotp\<rparr>"
  by (simp add: coded_def Let_def)

lemma on_auth_2fa_connection:
  "w_c (snd (on_auth_2fa env code hwid w)) =
     (if code_ok env code w then w_c (snd (send_logon_response_and_keep_alive env (coded env w))) else w_c w)"
  by (auto simp: on_auth_2fa_def code_ok_def coded_def Let_def case_prod_beta split: option.split bool.split)

lemma on_auth_2fa_authorized:
  assumes "\<not> cn_authorized (w_c w)"
  shows "cn_authorized (w_c (snd (on_auth_2fa env code hwid w))) \<longleftrightarrow>
           code_ok env code w \<and> terminal_ready env (w_c w) \<and> tunnel_ready env (w_c w)"
proof -
  have "\<not> cn_authorized (w_c (coded env w))" using assms by simp
  moreover have "terminal_ready env (w_c (coded env w)) = terminal_ready env (w_c w)"
    "tunnel_ready env (w_c (coded env w)) = tunnel_ready env (w_c w)"
    by (rule ready_cong; simp)+
  ultimately show ?thesis
    using send_logon_authorized [of "coded env w" env] assms
    by (auto simp: on_auth_2fa_connection second_factor_none)
qed

definition ticket_ok :: "Env \<Rightarrow> bytes \<Rightarrow> LoginRequest \<Rightarrow> World \<Rightarrow> bool" where
  "ticket_ok env uuid lr w \<longleftrightarrow>
     length uuid = 16 \<and>
     (case gl_switch_sides (w_g w) (lr_my_id lr) of
        Some (t, uuid_old) \<Rightarrow> uuid_old = uuid \<and> ev_now env - t < SWITCH_SIDES_TIMEOUT | None \<Rightarrow> False)"

definition switched :: "Env \<Rightarrow> LoginRequest \<Rightarrow> World \<Rightarrow> World" where
  "switched env lr w =
     (let w1 = handle_login_request_without_validation env lr w;
          tickets = retain_tickets (ev_now env) (gl_switch_sides (w_g w1)) in
      w1\<lparr>w_g := (w_g w1)\<lparr>gl_switch_sides := tickets(lr_my_id lr := None)\<rparr>\<rparr>)"

definition switched_accepted :: "Env \<Rightarrow> LoginRequest \<Rightarrow> World \<Rightarrow> World" where
  "switched_accepted env lr w =
     (switched env lr w)\<lparr>w_c := (w_c (switched env lr w))\<lparr>cn_from_switch := True, cn_audit_primary_auth := PaSwitchSides\<rparr>\<rparr>"

lemma ticket_ok_code:
  "ticket_ok env uuid lr w \<longleftrightarrow>
     length uuid = 16 \<and>
     map_option snd (retain_tickets (ev_now env)
       (gl_switch_sides (w_g (handle_login_request_without_validation env lr w))) (lr_my_id lr)) = Some uuid"
  by (auto simp: ticket_ok_def retain_tickets_def handle_login_request_simps split: option.split if_splits)

lemma on_switch_sides_connection:
  "w_c (snd (on_switch_sides_response env uuid lr w)) =
     (if ticket_ok env uuid lr w
      then (let v = send_logon_response_and_keep_alive env (switched_accepted env lr w) in
            if fst v then w_c (try_start_cm_ipc (snd v)) else w_c (snd v))
      else w_c (switched env lr w))"
proof -
  have ipc: "w_c (try_start_cm_ipc (try_start_cm a b d v)) = w_c (try_start_cm_ipc v)" for a b d v
    by (simp add: try_start_cm_ipc_def)
  show ?thesis
    unfolding on_switch_sides_response_def ticket_ok_code Let_def switched_accepted_def switched_def
    by (simp add: case_prod_beta ipc del: map_option_eq_Some split: bool.split)
qed

lemma on_switch_sides_authorized:
  assumes "\<not> cn_authorized (w_c w)"
  shows "cn_authorized (w_c (snd (on_switch_sides_response env uuid lr w))) \<longleftrightarrow>
           ticket_ok env uuid lr w \<and> terminal_ready env (w_c w) \<and> tunnel_ready env ((w_c w)\<lparr>cn_lr := lr\<rparr>)"
proof -
  let ?v = "switched_accepted env lr w"
  have na: "\<not> cn_authorized (w_c ?v)" "\<not> cn_authorized (w_c (switched env lr w))" and sw: "cn_from_switch (w_c ?v)"
    using assms by (simp_all add: switched_accepted_def switched_def Let_def handle_login_request_simps)
  moreover have "terminal_ready env (w_c ?v) = terminal_ready env (w_c w)"
    "tunnel_ready env (w_c ?v) = tunnel_ready env ((w_c w)\<lparr>cn_lr := lr\<rparr>)"
    by (simp_all add: switched_accepted_def switched_def terminal_ready_def tunnel_ready_def Let_def handle_login_request_simps)
  ultimately show ?thesis
    using send_logon_authorized [of ?v env]
    by (auto simp: on_switch_sides_connection Let_def second_factor_switch)
qed

lemma on_authorize_authorized:
  assumes "\<not> cn_authorized (w_c w)"
  shows "cn_authorized (w_c (snd (on_authorize env w))) \<longleftrightarrow> terminal_ready env (w_c w) \<and> tunnel_ready env (w_c w)"
proof -
  let ?v = "w\<lparr>w_c := (w_c w)\<lparr>cn_audit_primary_auth := PaClick, cn_require_2fa := None\<rparr>\<rparr>"
  have "terminal_ready env (w_c ?v) = terminal_ready env (w_c w)" "tunnel_ready env (w_c ?v) = tunnel_ready env (w_c w)"
    by (rule ready_cong; simp)+
  then show ?thesis
    using send_logon_authorized [of ?v env] assms
    by (auto simp: on_authorize_def second_factor_none case_prod_beta split: bool.split prod.split)
qed
end
