(* ===== verification/Session.thy ===== *)
theory Session
  imports Login
begin

text \<open>
  A connection after its login, \<open>src/src/server/connection.rs\<close>: the scope check and the handler of every message
  (\<open>on_message\<close>), the commands of the connection manager (\<open>ipc::Data\<close>), opening and closing.  A message of an
  authorised peer turns into events; those of type \<open>Control\<close> act on the machine.  The theorems say which login
  authorises a connection, what kind of session it gets, and which permission and kind of session stand behind each
  action on the machine.

  The handlers are those of the Linux desktop build.  Behind the events: injecting input, the clipboard, terminals,
  privacy mode and video capture, which the handlers only call.  Where the code panics, which aborts the process,
  the event is \<open>Aborted\<close> and the loop ends.
\<close>

section \<open>Closing\<close>

definition on_close :: "bool \<Rightarrow> World \<Rightarrow> World" where
  "on_close lock w =
     (if cn_closed (w_c w) then w
      else
        let c = w_c w in
        emit ([Service (EvVoiceInputDevice None True)]
              @ (if lock \<and> cn_lock_after_session_end c \<and> cn_keyboard c then [Control EvLockScreen] else [])
              @ [ToCm (EvCmClose (cn_chat_unanswered c \<or> cn_file_transferred c))])
          (w\<lparr>w_c := c\<lparr>cn_closed := True, cn_port_forward_socket := None\<rparr>\<rparr>))"

definition send_close_reason_no_retry :: "string \<Rightarrow> World \<Rightarrow> World" where
  "send_close_reason_no_retry reason w =
     (let w1 = emit [ToPeer (EvCloseReason (if reason = [] then ''Closed manually by the peer'' else reason))] w in
      w1\<lparr>w_g := check_remove_session (cn_id (w_c w1)) (session_key (cn_lr (w_c w1))) (w_g w1)\<rparr>)"

definition handle_authorized_scope_violation :: "Env \<Rightarrow> string \<Rightarrow> World \<Rightarrow> bool \<times> World" where
  "handle_authorized_scope_violation env message w =
     (let is_first = (message \<notin> set (cn_scope_violation_messages (w_c w)));
          w1 = w\<lparr>w_c := (w_c w)\<lparr>cn_scope_violation_messages := List.insert message (cn_scope_violation_messages (w_c w))\<rparr>\<rparr>;
          w2 = (if is_first \<and> get_bool_option (ev_opt env) ''allow-scope-violation-alarm''
                then emit [Audit (EvAlarm SessionScopeViolation)] w1 else w1) in
      if get_bool_option (ev_opt env) ''allow-scope-violation-close''
      then (False, on_close True (send_close_reason_no_retry ''Connection not allowed'' w2))
      else (True, w2))"

section \<open>Input and clipboard\<close>

definition update_auto_disconnect_timer :: "Env \<Rightarrow> World \<Rightarrow> World" where
  "update_auto_disconnect_timer env w =
     w\<lparr>w_c := (w_c w)\<lparr>cn_auto_disconnect_timer :=
        map_option (\<lambda>t. (ev_now env, snd t)) (cn_auto_disconnect_timer (w_c w))\<rparr>\<rparr>"

definition is_left_up :: "MouseEvent \<Rightarrow> bool" where
  "is_left_up me \<longleftrightarrow> me_mask me div 8 = 1 \<and> me_mask me mod 8 = 2"

definition is_enter :: "KeyEvent \<Rightarrow> bool" where
  "is_enter ke \<longleftrightarrow> (case ke_union ke of Some (KuControlKey ck) \<Rightarrow> ck = 27 \<or> ck = 72 | _ \<Rightarrow> False)"

definition is_modifier :: "KeyEvent \<Rightarrow> bool" where
  "is_modifier ke \<longleftrightarrow> (case ke_union ke of Some (KuControlKey v) \<Rightarrow> v \<in> {1, 29, 4, 23, 75, 73, 74, 64} | _ \<Rightarrow> False)"

definition on_mouse_event :: "Env \<Rightarrow> MouseEvent \<Rightarrow> World \<Rightarrow> World" where
  "on_mouse_event env me w =
     (let c = w_c w in
      if is_authed_view_camera_conn c then w
      else
        update_auto_disconnect_timer env
          (if peer_keyboard_enabled c then
             emit [Control (EvInputMouse me True (cn_show_my_cursor c))]
               (if is_left_up me then w\<lparr>w_g := (w_g w)\<lparr>gl_click_time := ev_now_ms env\<rparr>\<rparr>
                else w\<lparr>w_g := (w_g w)\<lparr>gl_mouse_move_time := ev_now_ms env\<rparr>\<rparr>)
           else if cn_show_my_cursor c then emit [Control (EvInputMouse me False True)] w
           else w))"

definition on_pointer_device_event :: "Env \<Rightarrow> bytes \<Rightarrow> World \<Rightarrow> World" where
  "on_pointer_device_event env pde w =
     (if is_authed_view_camera_conn (w_c w) then w
      else
        update_auto_disconnect_timer env
          (if peer_keyboard_enabled (w_c w)
           then emit [Control (EvInputPointer pde)] (w\<lparr>w_g := (w_g w)\<lparr>gl_mouse_move_time := ev_now_ms env\<rparr>\<rparr>) else w))"

text \<open>The modifier key of an event, if it is one: \<open>ev_modifier_key\<close> is the key table of \<open>rdev\<close> restricted to modifiers.\<close>

definition key_modifier :: "Env \<Rightarrow> KeyEvent \<Rightarrow> int option" where
  "key_modifier env ke =
     (if ke_mode ke = 1 then ev_modifier_key env (case ke_union ke of Some (KuChr chr) \<Rightarrow> chr | _ \<Rightarrow> 0)
      else if ke_mode ke = 2 then (case ke_union ke of Some (KuChr code) \<Rightarrow> ev_modifier_key env (code mod 65536) | _ \<Rightarrow> None)
      else None)"

definition on_key_event :: "Env \<Rightarrow> KeyEvent \<Rightarrow> World \<Rightarrow> World" where
  "on_key_event env me w =
     (if is_authed_view_camera_conn (w_c w) then w
      else
        update_auto_disconnect_timer env
          (if peer_keyboard_enabled (w_c w) then
             let w = (if is_enter me then w\<lparr>w_g := (w_g w)\<lparr>gl_click_time := ev_now_ms env\<rparr>\<rparr> else w);
                 w = w\<lparr>w_g := (w_g w)\<lparr>gl_mouse_move_time := ev_now_ms env\<rparr>\<rparr>;
                 key = key_modifier env me;
                 is_press = ((ke_press me \<or> ke_down me) \<and> \<not> (is_modifier me \<or> key \<noteq> None));
                 w = (case key of
                        Some k \<Rightarrow>
                          w\<lparr>w_c := (w_c w)\<lparr>cn_pressed_modifiers :=
                             (if is_press then List.insert k (cn_pressed_modifiers (w_c w))
                              else filter (\<lambda>m. m \<noteq> k) (cn_pressed_modifiers (w_c w)))\<rparr>\<rparr>
                      | None \<Rightarrow> w);
                 press = (is_press \<and> (case ke_union me of Some (KuUnicode _) \<Rightarrow> False | Some (KuSeq _) \<Rightarrow> False | _ \<Rightarrow> True)) in
             emit [Control (EvInputKey me press)] w
           else w))"

definition should_handle_text_clipboard_message :: "Connection \<Rightarrow> bool" where
  "should_handle_text_clipboard_message c \<longleftrightarrow> cn_authed_conn_id c = Some Remote"

definition should_handle_render_broadcast_message :: "Connection \<Rightarrow> bool" where
  "should_handle_render_broadcast_message c \<longleftrightarrow> cn_authed_conn_id c = Some Remote \<or> cn_authed_conn_id c = Some ViewCamera"

definition on_clipboards :: "bytes list \<Rightarrow> World \<Rightarrow> World" where
  "on_clipboards cbs w =
     (if should_handle_text_clipboard_message (w_c w) \<and> clipboard_enabled (w_c w)
      then emit [Control (EvUpdateClipboard cbs)] w else w)"

definition is_support_file_copy_paste :: "string \<Rightarrow> bool" where
  "is_support_file_copy_paste ver \<longleftrightarrow> get_version_number ver \<ge> get_version_number ''1.3.8''"

definition on_cliprdr :: "Env \<Rightarrow> Cliprdr \<Rightarrow> World \<Rightarrow> World" where
  "on_cliprdr env clip w =
     (case clip of
        CpFiles files \<Rightarrow> emit [Audit (EvFileAudit RemoteReceive [] files)] w
      | CpClip c \<Rightarrow>
          if is_support_file_copy_paste (lr_version (cn_lr (w_c w))) then
            emit (Control (EvClipboardFile c) #
                  map (\<lambda>out. case out of Inl files \<Rightarrow> Audit (EvFileAudit RemoteSend [] files) | Inr m \<Rightarrow> ToPeer (EvCliprdr m))
                    (ev_serve_clip_messages env c)) w
          else w
      | CpUnset \<Rightarrow> w)"

section \<open>Files\<close>

definition can_enable_overwrite_detection :: "int \<Rightarrow> bool" where
  "can_enable_overwrite_detection version \<longleftrightarrow> version \<ge> get_version_number ''1.1.10''"

definition send_fs :: "Fs \<Rightarrow> World \<Rightarrow> World" where
  "send_fs data w = emit [ToCm (EvFs data)] w"

text \<open>The job of an action that a one-way transfer refuses.\<close>

fun one_way_job :: "FileAction \<Rightarrow> int option" where
  "one_way_job (FaSend i _ _ _ _) = Some i"
| "one_way_job (FaRemoveFile i _ _) = Some i"
| "one_way_job (FaRename i _ _) = Some i"
| "one_way_job (FaCreate i _) = Some i"
| "one_way_job (FaRemoveDir i _ _) = Some i"
| "one_way_job _ = None"

definition get_files_for_audit :: "JobType \<Rightarrow> FileEntry list \<Rightarrow> (string \<times> int) list" where
  "get_files_for_audit job_type files =
     map (\<lambda>f. (if job_type = JobPrinter then ''Remote print'' else fe_name f, wrap_i64 (int (fe_size f)))) files"

definition process_new_read_job :: "TransferJob \<Rightarrow> string \<Rightarrow> World \<Rightarrow> World" where
  "process_new_read_job job path w =
     (let w1 = emit [ToPeer (EvFile (FrDir (tj_id job) path (tj_files job)))] w;
          w2 = w1\<lparr>w_c := (w_c w1)\<lparr>cn_read_jobs := cn_read_jobs (w_c w1) @ [job\<lparr>tj_is_remote := True, tj_conn_id := cn_id (w_c w1)\<rparr>],
                                  cn_file_timer_ms := 1\<rparr>\<rparr> in
      emit [Audit (EvFileAudit RemoteSend (if tj_type job = JobPrinter then ''Remote print'' else path)
              (get_files_for_audit (tj_type job) (tj_files job)))] w2)"

definition conn_check_file_count_limit :: "Env \<Rightarrow> nat \<Rightarrow> string + unit" where
  "conn_check_file_count_limit env file_count =
     check_file_count_limit (get_max_validated_files (ev_builtin env ''file-transfer-max-files'')) file_count"

definition create_and_start_read_job ::
  "Env \<Rightarrow> int \<Rightarrow> JobType \<Rightarrow> DataSource \<Rightarrow> int \<Rightarrow> bool \<Rightarrow> bool \<Rightarrow> string \<Rightarrow> bool \<Rightarrow> World \<Rightarrow> World" where
  "create_and_start_read_job env i job_type data_source file_num include_hidden overwrite_detection path check_file_limit w =
     (let w = emit (case data_source of DsFilePath p \<Rightarrow> [Control (EvReadTree p include_hidden)] | DsMemoryCursor _ \<Rightarrow> []) w in
      case new_read (ev_fs env) i job_type [] data_source file_num include_hidden False overwrite_detection of
        Inl err \<Rightarrow> emit [ToPeer (EvFile (FrError i err 0))] w
      | Inr job \<Rightarrow>
          (case (if check_file_limit then conn_check_file_count_limit env (length (tj_files job)) else Inr ()) of
             Inl msg \<Rightarrow> emit [ToPeer (EvFile (FrError i msg (-1)))] w
           | Inr _ \<Rightarrow> process_new_read_job job path w))"

definition on_all_files :: "Env \<Rightarrow> int \<Rightarrow> string \<Rightarrow> bool \<Rightarrow> World \<Rightarrow> World" where
  "on_all_files env i path include_hidden w =
     (if ev_need_fs_cm_send_files env then send_fs (FsReadAllFiles path i include_hidden (cn_id (w_c w))) w
      else
        emit [Control (EvReadTree path include_hidden),
              ToPeer (EvFile
                (case fx_recursive_files (ev_fs env) path include_hidden of
                   Inl err \<Rightarrow> FrError i err (-1)
                 | Inr files \<Rightarrow>
                     (case conn_check_file_count_limit env (length files) of
                        Inl msg \<Rightarrow> FrError i msg (-1)
                      | Inr _ \<Rightarrow> FrDir i path files)))] w)"

text \<open>The data of a print job, taken out of the list; only Windows puts any there.\<close>

fun take_printer_data :: "string \<Rightarrow> (string \<times> bytes) list \<Rightarrow> (bytes \<times> (string \<times> bytes) list) option" where
  "take_printer_data path [] = None"
| "take_printer_data path ((p, data) # rest) =
     (if p = path then Some (data, rest) else map_option (\<lambda>(d, r). (d, (p, data) # r)) (take_printer_data path rest))"

definition on_file_send :: "Env \<Rightarrow> int \<Rightarrow> string \<Rightarrow> bool \<Rightarrow> int \<Rightarrow> JobType \<Rightarrow> World \<Rightarrow> World" where
  "on_file_send env i path include_hidden file_num job_type w =
     (let transferred = (\<lambda>w. w\<lparr>w_c := (w_c w)\<lparr>cn_file_transferred := True\<rparr>\<rparr>) in
      case job_type of
        JobGeneric \<Rightarrow>
          let od = can_enable_overwrite_detection (get_version_number (lr_version (cn_lr (w_c w)))) in
          transferred
            (if ev_need_fs_cm_send_files env
             then send_fs (FsReadFile path i file_num include_hidden (cn_id (w_c w)) od)
                    (w\<lparr>w_c := (w_c w)\<lparr>cn_cm_read_job_ids := List.insert i (cn_cm_read_job_ids (w_c w))\<rparr>\<rparr>)
             else create_and_start_read_job env i job_type (DsFilePath path) file_num include_hidden od path True w)
      | JobPrinter \<Rightarrow>
          (case take_printer_data path (cn_printer_data (w_c w)) of
             Some (data, rest) \<Rightarrow>
               transferred
                 (create_and_start_read_job env i job_type (DsMemoryCursor data) file_num include_hidden True path False
                   (w\<lparr>w_c := (w_c w)\<lparr>cn_printer_data := rest\<rparr>\<rparr>))
           | None \<Rightarrow> w))"

definition on_file_receive :: "int \<Rightarrow> string \<Rightarrow> int \<Rightarrow> FileEntry list \<Rightarrow> nat \<Rightarrow> World \<Rightarrow> World" where
  "on_file_receive i path file_num files total_size w =
     (let od = can_enable_overwrite_detection (get_version_number (lr_version (cn_lr (w_c w))));
          w1 = send_fs (FsNewWrite path i file_num (map (\<lambda>f. (fe_name f, fe_modified_time f)) files) od total_size (cn_id (w_c w))) w;
          w2 = emit [Audit (EvFileAudit RemoteReceive path (get_files_for_audit JobGeneric files))] w1 in
      w2\<lparr>w_c := (w_c w2)\<lparr>cn_file_transferred := True\<rparr>\<rparr>)"

definition on_file_cancel :: "int \<Rightarrow> World \<Rightarrow> World" where
  "on_file_cancel i w =
     (let w1 = send_fs (FsCancelWrite i) w;
          w2 = send_fs (FsCancelRead i (cn_id (w_c w1)))
                 (w1\<lparr>w_c := (w_c w1)\<lparr>cn_cm_read_job_ids := filter (\<lambda>j. j \<noteq> i) (cn_cm_read_job_ids (w_c w1))\<rparr>\<rparr>) in
      case remove_job i (cn_read_jobs (w_c w2)) of
        (Some job, jobs) \<Rightarrow> emit [ToCm (EvTransferLog (job, False, True, []))] (w2\<lparr>w_c := (w_c w2)\<lparr>cn_read_jobs := jobs\<rparr>\<rparr>)
      | (None, _) \<Rightarrow> w2)"

definition on_send_confirm :: "Env \<Rightarrow> FileTransferSendConfirmRequest \<Rightarrow> World \<Rightarrow> bool \<times> World" where
  "on_send_confirm env r w =
     (case get_job (sc_id r) (cn_read_jobs (w_c w)) of
        Some job \<Rightarrow>
          (case confirm (ev_fs env) r job of
             Some job' \<Rightarrow> (True, w\<lparr>w_c := (w_c w)\<lparr>cn_read_jobs := put_job job' (cn_read_jobs (w_c w))\<rparr>\<rparr>)
           | None \<Rightarrow> (False, emit [Aborted] w))
      | None \<Rightarrow>
          (True,
           if sc_id r \<in> set (cn_cm_read_job_ids (w_c w))
           then send_fs (FsSendConfirmForRead (sc_id r) (sc_file_num r)
                  (case sc_union r of Some (CuSkip b) \<Rightarrow> b | _ \<Rightarrow> False)
                  (case sc_union r of Some (CuOffsetBlk n) \<Rightarrow> n | _ \<Rightarrow> 0) (cn_id (w_c w))) w
           else send_fs (FsSendConfirm r) w))"

definition log_removal :: "(FileRemoveLogControl \<Rightarrow> FileActionLog \<times> FileRemoveLogControl) \<Rightarrow> World \<Rightarrow> World" where
  "log_removal f w = w\<lparr>w_c := (w_c w)\<lparr>cn_file_remove_log_control := snd (f (cn_file_remove_log_control (w_c w)))\<rparr>\<rparr>"

definition read_empty_dirs :: "string \<Rightarrow> bool \<Rightarrow> World \<Rightarrow> World" where
  "read_empty_dirs dir include_hidden w = send_fs (FsReadEmptyDirs dir include_hidden) w"

fun run_file_action :: "Env \<Rightarrow> FileAction \<Rightarrow> World \<Rightarrow> bool \<times> World" where
  "run_file_action env (FaReadEmptyDirs path hidden) w = (True, read_empty_dirs path hidden w)"
| "run_file_action env (FaReadDir path hidden) w = (True, read_dir path hidden w)"
| "run_file_action env (FaAllFiles i path hidden) w = (True, on_all_files env i path hidden w)"
| "run_file_action env (FaSend i path hidden file_num file_type) w =
     (True, on_file_send env i path hidden file_num (JobType_from_proto file_type) w)"
| "run_file_action env (FaReceive i path file_num files total_size) w =
     (True, on_file_receive i path file_num files total_size w)"
| "run_file_action env (FaRemoveDir i path recursive) w =
     (True, log_removal (on_remove_dir (ev_now env) \<lparr>rd_dir_id = i, rd_dir_path = path, rd_recursive = recursive\<rparr>)
              (send_fs (FsRemoveDir path i recursive) w))"
| "run_file_action env (FaRemoveFile i path file_num) w =
     (True, log_removal (on_remove_file (ev_now env) \<lparr>rf_file_id = i, rf_file_path = path, rf_file_num = file_num\<rparr>)
              (send_fs (FsRemoveFile path i file_num) w))"
| "run_file_action env (FaCreate i path) w =
     (True, emit [ToCm (EvCreateDirLog \<lparr>fal_id = i, fal_conn_id = cn_id (w_c w), fal_path = path, fal_dir = True\<rparr>)]
              (send_fs (FsCreateDir path i) w))"
| "run_file_action env (FaCancel i) w = (True, on_file_cancel i w)"
| "run_file_action env (FaSendConfirm r) w = on_send_confirm env r w"
| "run_file_action env (FaRename i path new_name) w =
     (True, emit [ToCm (EvRenameLog (cn_id (w_c w)) path new_name)] (send_fs (FsRename i path new_name) w))"

definition on_file_action :: "Env \<Rightarrow> FileAction option \<Rightarrow> World \<Rightarrow> bool \<times> World" where
  "on_file_action env fa w =
     (let handle_fa =
            (cn_file_transfer (w_c w) \<noteq> None \<or>
             (case fa of Some (FaSend _ _ _ _ file_type) \<Rightarrow> JobType_from_proto file_type = JobPrinter | _ \<Rightarrow> False)) in
      if \<not> handle_fa then (True, w)
      else if cn_delayed_read_dir (w_c w) \<noteq> None then
        (case fa of
           Some (FaReadDir path hidden) \<Rightarrow> (True, w\<lparr>w_c := (w_c w)\<lparr>cn_delayed_read_dir := Some (path, hidden)\<rparr>\<rparr>)
         | _ \<Rightarrow> (True, w))
      else
        (case fa of
           None \<Rightarrow> (True, w)
         | Some a \<Rightarrow>
             (case (if ev_builtin env ''one-way-file-transfer'' = ''Y'' then one_way_job a else None) of
                Some job_id \<Rightarrow> (True, emit [ToPeer (EvFile (FrError job_id ''one-way-file-transfer-tip'' 0))] w)
              | None \<Rightarrow> run_file_action env a w)))"

definition on_file_response :: "FileResponse option \<Rightarrow> World \<Rightarrow> World" where
  "on_file_response fr w =
     (case fr of
        Some r \<Rightarrow> (case response_command r of Some command \<Rightarrow> send_fs command w | None \<Rightarrow> w)
      | None \<Rightarrow> w)"

section \<open>Miscellaneous messages\<close>

definition video_source :: "Connection \<Rightarrow> VideoSource" where
  "video_source c = (if cn_view_camera c then Camera else Monitor)"

definition get_service_name :: "VideoSource \<Rightarrow> nat \<Rightarrow> string" where
  "get_service_name source idx = (case source of Monitor \<Rightarrow> ''monitor'' | Camera \<Rightarrow> ''camera'') @ nat_to_string idx"

definition is_support_multi_ui_session :: "string \<Rightarrow> bool" where
  "is_support_multi_ui_session ver \<longleftrightarrow> get_version_number ver \<ge> get_version_number ''1.2.4''"

definition refresh_video_display :: "nat option \<Rightarrow> World \<Rightarrow> World" where
  "refresh_video_display display w = emit [Video (EvRefreshVideo (map_option (\<lambda>d. (video_source (w_c w), d)) display))] w"

definition change_resolution :: "Env \<Rightarrow> nat option \<Rightarrow> int \<Rightarrow> int \<Rightarrow> World \<Rightarrow> World" where
  "change_resolution env d width height w =
     (if cn_keyboard (w_c w) then
        (case ev_try_get_displays env of
           Inl _ \<Rightarrow> w
         | Inr displays \<Rightarrow>
             let display_idx = (case d of Some i \<Rightarrow> i | None \<Rightarrow> cn_display_idx (w_c w)) in
             if display_idx < length displays then
               (case displays ! display_idx of
                  (name, original_width, original_height) \<Rightarrow>
                    emit [Control (EvRecordResolution name original_width original_height width height),
                          Control (EvChangeResolution name width height)] w)
             else w)
      else w)"

definition switch_display_to :: "Env \<Rightarrow> nat \<Rightarrow> World \<Rightarrow> World" where
  "switch_display_to env display_idx w =
     (let source = video_source (w_c w);
          new_service_name = get_service_name source display_idx;
          old_service_name = get_service_name source (cn_display_idx (w_c w));
          w1 = (if display_idx \<noteq> ev_primary_display env \<and> new_service_name \<notin> set (ev_services env)
                then emit [Service (EvAddVideoService source display_idx)] w else w);
          w2 = (if \<not> is_support_multi_ui_session (lr_version (cn_lr (w_c w1))) then subscribe old_service_name False w1 else w1);
          w3 = subscribe new_service_name True w2 in
      w3\<lparr>w_c := (w_c w3)\<lparr>cn_display_idx := display_idx\<rparr>\<rparr>)"

definition send_display_changed :: "Env \<Rightarrow> nat \<Rightarrow> World \<Rightarrow> World" where
  "send_display_changed env display w =
     (case ev_display_changed_msg env (video_source (w_c w)) display of
        Some msg_out \<Rightarrow> emit [ToPeer (EvDisplayChanged msg_out)] w
      | None \<Rightarrow> w)"

definition handle_switch_display :: "Env \<Rightarrow> int \<Rightarrow> int \<Rightarrow> int \<Rightarrow> World \<Rightarrow> World" where
  "handle_switch_display env display width height w =
     (let display_idx = usize_of display in
      if cn_display_idx (w_c w) \<noteq> display_idx then
        let w1 = switch_display_to env display_idx w;
            w2 = (if \<not> cn_view_camera (w_c w1) \<and> width \<noteq> 0 \<and> height \<noteq> 0 then change_resolution env None width height w1 else w1) in
        send_display_changed env (cn_display_idx (w_c w2)) w2
      else w)"

text \<open>The services of the displays that have none yet; \<open>names\<close> are the names of those there are.\<close>

fun add_video_services :: "VideoSource \<Rightarrow> string list \<Rightarrow> nat list \<Rightarrow> event list" where
  "add_video_services source names [] = []"
| "add_video_services source names (display # displays) =
     (let service_name = get_service_name source display in
      if service_name \<in> set names then add_video_services source names displays
      else Service (EvAddVideoService source display) # add_video_services source (service_name # names) displays)"

definition capture_displays :: "Env \<Rightarrow> int list \<Rightarrow> int list \<Rightarrow> int list \<Rightarrow> World \<Rightarrow> World" where
  "capture_displays env add0 sub0 set0 w =
     (let add = map usize_of add0; sub = map usize_of sub0; set1 = map usize_of set0;
          source = video_source (w_c w);
          w1 = emit (add_video_services source (ev_services env) (add @ set1)) w;
          w2 = emit [Video (if add \<noteq> [] then EvCaptureDisplays source add True False
                            else if sub \<noteq> [] then EvCaptureDisplays source sub False True
                            else EvCaptureDisplays source set1 True True)] w1;
          w3 = w2\<lparr>w_c := (w_c w2)\<lparr>cn_multi_ui_session := ev_subbed_displays env > 1\<rparr>\<rparr> in
      if cn_follow_remote_window (w_c w3) then subscribe NAME_WINDOW_FOCUS (\<not> cn_multi_ui_session (w_c w3)) w3 else w3)"

definition toggle_privacy_mode :: "Env \<Rightarrow> string \<Rightarrow> bool \<Rightarrow> World \<Rightarrow> World" where
  "toggle_privacy_mode env impl_key on w = (if on then turn_on_privacy env impl_key w else turn_off_privacy env impl_key w)"

definition on_option :: "Env \<Rightarrow> OptionMessage \<Rightarrow> World \<Rightarrow> World" where
  "on_option env option w =
     (if cn_authed_conn_id (w_c w) = Some Remote then update_options env option w
      else case scoped_update_option_message (cn_authed_conn_id (w_c w)) option of
             Some scoped \<Rightarrow> update_options env scoped w
           | None \<Rightarrow> w)"

definition on_refresh_video :: "Env \<Rightarrow> nat option \<Rightarrow> bool \<Rightarrow> World \<Rightarrow> World" where
  "on_refresh_video env display refresh w =
     (if should_handle_render_broadcast_message (w_c w)
      then update_auto_disconnect_timer env (if refresh then refresh_video_display display w else w) else w)"

fun on_misc :: "Env \<Rightarrow> Misc \<Rightarrow> World \<Rightarrow> bool \<times> World" where
  "on_misc env (McSwitchDisplay display width height) w = (True, handle_switch_display env display width height w)"
| "on_misc env (McCaptureDisplays add sub set1) w = (True, capture_displays env add sub set1 w)"
| "on_misc env (McTogglePrivacyMode impl_key on) w =
     (True, if \<not> cn_view_camera (w_c w) then toggle_privacy_mode env impl_key on w else w)"
| "on_misc env (McChatMessage text) w =
     (True, let w1 = emit [ToCm (EvChat text)] w in
            update_auto_disconnect_timer env (w1\<lparr>w_c := (w_c w1)\<lparr>cn_chat_unanswered := True\<rparr>\<rparr>))"
| "on_misc env (McOption option) w = (True, on_option env option w)"
| "on_misc env (McRefreshVideo r) w = (True, on_refresh_video env None r w)"
| "on_misc env (McRefreshVideoDisplay display) w = (True, on_refresh_video env (Some (usize_of display)) True w)"
| "on_misc env (McVideoReceived _) w = (True, emit [Video (EvFrameFetched (cn_id (w_c w)) True)] w)"
| "on_misc env (McRestartRemoteDevice _) w =
     (True, if cn_restart (w_c w) then emit [Control EvForceReboot, Control EvReboot] w else w)"
| "on_misc env (McAudioFormat format) w =
     (True, if \<not> cn_disable_audio (w_c w)
            then emit [Service (EvAudioThread format)] (w\<lparr>w_c := (w_c w)\<lparr>cn_audio_sender := True\<rparr>\<rparr>) else w)"
| "on_misc env (McSwitchSidesRequest uuid) w =
     (if length uuid = 16 then
        let my_id = lr_my_id (cn_lr (w_c w));
            w1 = w\<lparr>w_g := insert_pending_switch_sides_uuid (ev_now env) my_id uuid (w_g w)\<rparr> in
        (False, on_close False (emit [Control (EvConnectBack my_id uuid)] w1))
      else (True, w))"
| "on_misc env (McChangeResolution width height) w =
     (True, if \<not> cn_view_camera (w_c w) then change_resolution env None width height w else w)"
| "on_misc env (McChangeDisplayResolution display width height) w =
     (True, if \<not> cn_view_camera (w_c w) then change_resolution env (Some (usize_of display)) width height w else w)"
| "on_misc env (McAutoAdjustFps fps) w = (True, emit [Video (EvQosAutoAdjustFps (cn_id (w_c w)) fps)] w)"
| "on_misc env (McClientRecordStatus status) w = (True, emit [Video (EvQosRecord (cn_id (w_c w)) status)] w)"
| "on_misc env (McMessageQuery switch_display) w = (True, send_display_changed env (usize_of switch_display) w)"
| "on_misc env _ w = (True, w)"

section \<open>Voice, screenshots and terminals\<close>

definition close_voice_call :: "World \<Rightarrow> World" where
  "close_voice_call w =
     (let w1 = emit [Service (EvVoiceInputDevice None True), ToCm EvCloseVoiceCall] w;
          w2 = w1\<lparr>w_c := (w_c w1)\<lparr>cn_voice_calling := False\<rparr>\<rparr> in
      if is_authed_view_camera_conn (w_c w2) then subscribe AUDIO_NAME False w2 else w2)"

definition on_voice_call_request :: "Env \<Rightarrow> bool \<Rightarrow> int \<Rightarrow> World \<Rightarrow> World" where
  "on_voice_call_request env is_connect req_timestamp w =
     (if is_connect then
        emit [ToCm EvVoiceCallIncoming]
          (w\<lparr>w_c := (w_c w)\<lparr>cn_voice_call_request_timestamp :=
             Some (if req_timestamp \<noteq> 0 then req_timestamp else ev_now_ms env)\<rparr>\<rparr>)
      else close_voice_call w)"

definition handle_voice_call :: "Env \<Rightarrow> bool \<Rightarrow> World \<Rightarrow> World" where
  "handle_voice_call env accepted w =
     (case cn_voice_call_request_timestamp (w_c w) of
        Some ts \<Rightarrow>
          let w1 = w\<lparr>w_c := (w_c w)\<lparr>cn_voice_call_request_timestamp := None\<rparr>\<rparr>;
              w2 = emit (if accepted then [Service (EvVoiceInputDevice (ev_default_sound_input env) False), ToCm EvStartVoiceCall]
                         else [ToCm EvCloseVoiceCall]) w1;
              w3 = emit [ToPeer (EvVoiceCallResponse ts accepted)] w2;
              w4 = w3\<lparr>w_c := (w_c w3)\<lparr>cn_voice_calling := accepted\<rparr>\<rparr> in
          if is_authed_view_camera_conn (w_c w4) then subscribe AUDIO_NAME (audio_enabled (w_c w4) \<and> accepted) w4 else w4
      | None \<Rightarrow> w)"

definition handle_terminal_action :: "Env \<Rightarrow> bytes \<Rightarrow> World \<Rightarrow> World" where
  "handle_terminal_action env action w =
     (if \<not> cn_terminal_user_token (w_c w) then w
      else
        emit (Control (EvTerminalAction (cn_terminal_service_id (w_c w)) (cn_terminal_persistent (w_c w)) action) #
              (case ev_terminal_response env action of
                 Inr (Some response) \<Rightarrow> [ToPeer (EvTerminalResponse response)]
               | Inr None \<Rightarrow> []
               | Inl err \<Rightarrow> [ToPeer (EvTerminalError (''Failed to handle action: '' @ err))])) w)"

definition on_screenshot_request :: "int \<Rightarrow> string \<Rightarrow> World \<Rightarrow> World" where
  "on_screenshot_request display sid w =
     refresh_video_display (Some (usize_of display))
       (emit [Video (EvScreenshot (video_source (w_c w)) (usize_of display) sid)] w)"

section \<open>Messages of the peer\<close>

fun on_authorized_message :: "Env \<Rightarrow> wire_message \<Rightarrow> World \<Rightarrow> bool \<times> World" where
  "on_authorized_message env (Some (MMouseEvent me)) w = (True, on_mouse_event env me w)"
| "on_authorized_message env (Some (MPointerDeviceEvent pde)) w = (True, on_pointer_device_event env pde w)"
| "on_authorized_message env (Some (MKeyEvent me)) w = (True, on_key_event env me w)"
| "on_authorized_message env (Some (MClipboard cb)) w = (True, on_clipboards [cb] w)"
| "on_authorized_message env (Some (MMultiClipboards cbs)) w = (True, on_clipboards cbs w)"
| "on_authorized_message env (Some (MCliprdr clip)) w = (True, on_cliprdr env clip w)"
| "on_authorized_message env (Some (MFileAction fa)) w = on_file_action env fa w"
| "on_authorized_message env (Some (MFileResponse fr)) w = (True, on_file_response fr w)"
| "on_authorized_message env (Some (MMisc (Some misc))) w = on_misc env misc w"
| "on_authorized_message env (Some (MAudioFrame frame)) w =
     (True, if \<not> cn_disable_audio (w_c w) \<and> cn_audio_sender (w_c w) then emit [Service (EvAudioFrame frame)] w else w)"
| "on_authorized_message env (Some (MVoiceCallRequest is_connect ts)) w = (True, on_voice_call_request env is_connect ts w)"
| "on_authorized_message env (Some (MScreenshotRequest display sid)) w =
     (True, on_screenshot_request display sid w)"
| "on_authorized_message env (Some (MTerminalAction action)) w = (True, handle_terminal_action env action w)"
| "on_authorized_message env _ w = (True, w)"

definition dispatch_message :: "Env \<Rightarrow> wire_message \<Rightarrow> World \<Rightarrow> bool \<times> World" where
  "dispatch_message env msg w =
     (case msg of
        Some (MLoginRequest lr) \<Rightarrow> on_login_request env lr w
      | Some (MAuth2fa code hwid) \<Rightarrow> on_auth_2fa env code hwid w
      | Some (MTestDelay t) \<Rightarrow> (True, on_test_delay env t w)
      | Some (MSwitchSidesResponse uuid lr) \<Rightarrow>
          (case lr of Some l \<Rightarrow> on_switch_sides_response env uuid l w | None \<Rightarrow> (True, w))
      | _ \<Rightarrow>
          if cn_authorized (w_c w) \<and> cn_port_forward_socket (w_c w) = None then on_authorized_message env msg w else (True, w))"

fun close_reason :: "wire_message \<Rightarrow> bool" where
  "close_reason (Some (MMisc (Some (McCloseReason _)))) = True"
| "close_reason _ = False"

fun is_login_request :: "wire_message \<Rightarrow> bool" where
  "is_login_request (Some (MLoginRequest _)) = True"
| "is_login_request _ = False"

definition on_message :: "Env \<Rightarrow> wire_message \<Rightarrow> World \<Rightarrow> bool \<times> World" where
  "on_message env msg w =
     (if close_reason msg then
        let w1 = on_close True w in
        (False, w1\<lparr>w_g := check_remove_session (cn_id (w_c w1)) (session_key (cn_lr (w_c w1))) (w_g w1)\<rparr>)
      else if cn_authorized (w_c w) then
        (if is_login_request msg then (True, w)
         else case authorized_scope_violation (cn_authed_conn_id (w_c w)) msg of
                Some message \<Rightarrow> handle_authorized_scope_violation env message w
              | None \<Rightarrow> dispatch_message env msg w)
      else dispatch_message env msg w)"

section \<open>Commands of the connection manager\<close>

datatype OffState = OffSucceeded | OffByPeer | OffUnknown

text \<open>A directory listing comes as bytes; \<open>Inr (Inl e)\<close> are bytes that do not parse, with the error of the parser.\<close>

type_synonym dir_result = "string + string + int \<times> string \<times> FileEntry list"

datatype cm_data =
    CmAuthorize
  | CmClose
  | CmErr string
  | CmChatMessage string
  | CmSwitchPermission string bool
  | CmRawMessage bytes
  | CmPrivacyModeState OffState string
  | CmSwitchSidesBack
  | CmVoiceCallResponse bool
  | CmCloseVoiceCall
  | CmReadJobInitResult int int bool int dir_result
  | CmFileBlock FileTransferBlock int
  | CmFileReadDone int int int
  | CmFileReadError int int string int
  | CmFileDigest int int nat nat bool int
  | CmAllFilesResult int int string dir_result

definition switch_keyboard :: "Env \<Rightarrow> bool \<Rightarrow> World \<Rightarrow> World" where
  "switch_keyboard env enabled w =
     (let w1 = emit [ToPeer (EvPermissionInfo ''keyboard'' enabled)] (w\<lparr>w_c := (w_c w)\<lparr>cn_keyboard := enabled\<rparr>\<rparr>); c = w_c w1 in
      subscribe NAME_CURSOR (enabled \<or> cn_show_remote_cursor c)
        (subscribe FILE_CLIPBOARD_NAME (can_sub_file_clipboard_service env c)
          (subscribe CLIPBOARD_NAME (can_sub_clipboard_service env c) w1)))"

definition switch_clipboard :: "Env \<Rightarrow> bool \<Rightarrow> World \<Rightarrow> World" where
  "switch_clipboard env enabled w =
     (let w1 = emit [ToPeer (EvPermissionInfo ''clipboard'' enabled)] (w\<lparr>w_c := (w_c w)\<lparr>cn_clipboard := enabled\<rparr>\<rparr>) in
      subscribe CLIPBOARD_NAME (can_sub_clipboard_service env (w_c w1)) w1)"

definition switch_audio :: "bool \<Rightarrow> World \<Rightarrow> World" where
  "switch_audio enabled w =
     (let w1 = emit [ToPeer (EvPermissionInfo ''audio'' enabled)] (w\<lparr>w_c := (w_c w)\<lparr>cn_audio := enabled\<rparr>\<rparr>); c = w_c w1 in
      if cn_authorized c then
        (if is_authed_view_camera_conn c then
           (if cn_voice_calling c \<or> \<not> audio_enabled c then subscribe AUDIO_NAME (audio_enabled c) w1 else w1)
         else subscribe AUDIO_NAME (audio_enabled c) w1)
      else w1)"

definition switch_file :: "Env \<Rightarrow> bool \<Rightarrow> World \<Rightarrow> World" where
  "switch_file env enabled w =
     (let w1 = emit [ToPeer (EvPermissionInfo ''file'' enabled)] (w\<lparr>w_c := (w_c w)\<lparr>cn_file := enabled\<rparr>\<rparr>);
          w2 = (if \<not> enabled then emit [Control EvEmptyFileClipboard] w1 else w1) in
      subscribe FILE_CLIPBOARD_NAME (can_sub_file_clipboard_service env (w_c w2)) w2)"

definition switch_privacy_mode :: "Env \<Rightarrow> bool \<Rightarrow> World \<Rightarrow> World" where
  "switch_privacy_mode env enabled w =
     (let set_permission = (\<lambda>w. emit [ToPeer (EvPermissionInfo ''privacy_mode'' enabled)] (w\<lparr>w_c := (w_c w)\<lparr>cn_privacy_mode := enabled\<rparr>\<rparr>));
          conn_id = cn_id (w_c w) in
      if \<not> enabled \<and> ev_in_privacy_mode env \<and> ev_privacy_mode_conn env = Some conn_id then
        let impl_key = (case ev_cur_impl_key env of Some k \<Rightarrow> k | None \<Rightarrow> []);
            turn_off_res = ev_turn_off_privacy env conn_id;
            w1 = emit [Control (EvTurnOffPrivacy conn_id)] w in
        (case turn_off_res of
           Some (Inr _) \<Rightarrow> set_permission (emit [ToPeer (EvPrivacy PrvOffByPeer [] impl_key)] w1)
         | _ \<Rightarrow> emit [ToPeer (turn_off_privacy_result_to_msg turn_off_res impl_key),
                     ToCm (EvCmSwitchPermission ''privacy_mode'' (cn_privacy_mode (w_c w1)))] w1)
      else set_permission w)"

definition switch_permission :: "Env \<Rightarrow> string \<Rightarrow> bool \<Rightarrow> World \<Rightarrow> World" where
  "switch_permission env name enabled w =
     (if name = ''keyboard'' then switch_keyboard env enabled w
      else if name = ''clipboard'' then switch_clipboard env enabled w
      else if name = ''audio'' then switch_audio enabled w
      else if name = ''file'' then switch_file env enabled w
      else if name = ''restart'' then
        emit [ToPeer (EvPermissionInfo name enabled)] (w\<lparr>w_c := (w_c w)\<lparr>cn_restart := enabled\<rparr>\<rparr>)
      else if name = ''recording'' then
        emit [ToPeer (EvPermissionInfo name enabled)] (w\<lparr>w_c := (w_c w)\<lparr>cn_recording := enabled\<rparr>\<rparr>)
      else if name = ''block_input'' then
        emit [ToPeer (EvPermissionInfo name enabled)] (w\<lparr>w_c := (w_c w)\<lparr>cn_block_input := enabled\<rparr>\<rparr>)
      else if name = ''privacy_mode'' then switch_privacy_mode env enabled w
      else w)"

text \<open>The files the connection manager reads: its messages count only for jobs that are still wanted.\<close>

definition forget_cm_job :: "int \<Rightarrow> World \<Rightarrow> World" where
  "forget_cm_job i w = w\<lparr>w_c := (w_c w)\<lparr>cn_cm_read_job_ids := filter (\<lambda>j. j \<noteq> i) (cn_cm_read_job_ids (w_c w))\<rparr>\<rparr>"

definition handle_read_job_init_result :: "int \<Rightarrow> dir_result \<Rightarrow> World \<Rightarrow> World" where
  "handle_read_job_init_result i result w =
     (if i \<notin> set (cn_cm_read_job_ids (w_c w)) then w
      else case result of
             Inl err \<Rightarrow> emit [ToPeer (EvFile (FrError i err 0))] (forget_cm_job i w)
           | Inr (Inl _) \<Rightarrow> emit [ToPeer (EvFile (FrError i ''internal error'' 0))] (forget_cm_job i w)
           | Inr (Inr (_, path, entries)) \<Rightarrow>
               emit [ToPeer (EvFile (FrDir i path entries)), Audit (EvFileAudit RemoteSend path (get_files_for_audit JobGeneric entries))]
                 (w\<lparr>w_c := (w_c w)\<lparr>cn_file_transferred := True\<rparr>\<rparr>))"

definition handle_file_block_from_cm :: "FileTransferBlock \<Rightarrow> World \<Rightarrow> World" where
  "handle_file_block_from_cm block w =
     (if bk_id block \<notin> set (cn_cm_read_job_ids (w_c w)) then w else emit [ToPeer (EvFile (FrBlock block))] w)"

definition handle_file_read_done :: "int \<Rightarrow> int \<Rightarrow> World \<Rightarrow> World" where
  "handle_file_read_done i file_num w =
     (if i \<notin> set (cn_cm_read_job_ids (w_c w)) then w else emit [ToPeer (EvFile (FrDone i file_num))] (forget_cm_job i w))"

definition handle_file_read_error :: "int \<Rightarrow> int \<Rightarrow> string \<Rightarrow> World \<Rightarrow> World" where
  "handle_file_read_error i file_num err w =
     (if i \<notin> set (cn_cm_read_job_ids (w_c w)) then w else emit [ToPeer (EvFile (FrError i err file_num))] (forget_cm_job i w))"

definition handle_file_digest_from_cm :: "int \<Rightarrow> int \<Rightarrow> nat \<Rightarrow> nat \<Rightarrow> bool \<Rightarrow> World \<Rightarrow> World" where
  "handle_file_digest_from_cm i file_num last_modified file_size is_resume w =
     (if i \<notin> set (cn_cm_read_job_ids (w_c w)) then w
      else emit [ToPeer (EvFile (FrDigest \<lparr>dg_id = i, dg_file_num = file_num, dg_last_modified = last_modified,
             dg_file_size = file_size, dg_is_upload = False, dg_is_identical = False, dg_transferred_size = 0,
             dg_is_resume = is_resume\<rparr>))] w)"

definition handle_all_files_result :: "int \<Rightarrow> string \<Rightarrow> dir_result \<Rightarrow> World \<Rightarrow> World" where
  "handle_all_files_result i path result w =
     emit [ToPeer (EvFile
       (case result of
          Inl err \<Rightarrow> FrError i err (-1)
        | Inr (Inr (k, p, entries)) \<Rightarrow> FrDir k p entries
        | Inr (Inl e) \<Rightarrow> FrError i (''deserialize failed for '' @ path @ '': '' @ e) (-1)))] w"

fun on_cm_data :: "Env \<Rightarrow> cm_data \<Rightarrow> World \<Rightarrow> bool \<times> World" where
  "on_cm_data env CmAuthorize w = on_authorize env w"
| "on_cm_data env CmClose w =
     (False, on_close True (send_close_reason_no_retry []
       (w\<lparr>w_c := (w_c w)\<lparr>cn_chat_unanswered := False, cn_file_transferred := False\<rparr>\<rparr>)))"
| "on_cm_data env (CmErr e) w = (if e \<noteq> ''expected'' then (False, on_close False w) else (True, w))"
| "on_cm_data env (CmChatMessage text) w =
     (True, let w1 = emit [ToPeer (EvChatMessage text)] w in w1\<lparr>w_c := (w_c w1)\<lparr>cn_chat_unanswered := False\<rparr>\<rparr>)"
| "on_cm_data env (CmSwitchPermission name enabled) w = (True, switch_permission env name enabled w)"
| "on_cm_data env (CmRawMessage bs) w = (True, emit [ToPeer (EvRaw bs)] w)"
| "on_cm_data env (CmPrivacyModeState state impl_key) w =
     (True, emit [ToPeer (EvPrivacy
        (case state of OffSucceeded \<Rightarrow> PrvOffSucceeded | OffByPeer \<Rightarrow> PrvOffByPeer | OffUnknown \<Rightarrow> PrvOffUnknown) [] impl_key)] w)"
| "on_cm_data env CmSwitchSidesBack w = (True, emit [ToPeer EvSwitchBack] w)"
| "on_cm_data env (CmVoiceCallResponse accepted) w = (True, handle_voice_call env accepted w)"
| "on_cm_data env CmCloseVoiceCall w = (True, emit [ToPeer (EvVoiceCallRequest False)] (close_voice_call w))"
| "on_cm_data env (CmReadJobInitResult i _ _ conn_id result) w =
     (True, if conn_id = cn_id (w_c w) then handle_read_job_init_result i result w else w)"
| "on_cm_data env (CmFileBlock block conn_id) w =
     (True, if conn_id = cn_id (w_c w) then handle_file_block_from_cm block w else w)"
| "on_cm_data env (CmFileReadDone i file_num conn_id) w =
     (True, if conn_id = cn_id (w_c w) then handle_file_read_done i file_num w else w)"
| "on_cm_data env (CmFileReadError i file_num err conn_id) w =
     (True, if conn_id = cn_id (w_c w) then handle_file_read_error i file_num err w else w)"
| "on_cm_data env (CmFileDigest i file_num last_modified file_size is_resume conn_id) w =
     (True, if conn_id = cn_id (w_c w) then handle_file_digest_from_cm i file_num last_modified file_size is_resume w else w)"
| "on_cm_data env (CmAllFilesResult i conn_id path result) w =
     (True, if conn_id = cn_id (w_c w) then handle_all_files_result i path result w else w)"

section \<open>The other sources of the loop\<close>

text \<open>Messages of the services to the peer; the data that the handlers only pass on is bytes.\<close>

datatype service_message =
    SmStopService
  | SmPeerInfo bytes
  | SmCursorPosition int int bytes
  | SmMultiClipboards "(int \<times> bytes) list" bytes
  | SmAudioFrame bytes
  | SmOther bytes

datatype select_arm =
    SaStreamError
  | SaReset
  | SaFileTimer
  | SaWebConsole "int list"
  | SaVideo "nat option" bytes
  | SaService nat service_message
  | SaClip ClipboardFile

definition send_or_close :: "Env \<Rightarrow> peer_event \<Rightarrow> World \<Rightarrow> bool \<times> World" where
  "send_or_close env msg w =
     (case fx_send (ev_fs env) of None \<Rightarrow> (True, emit [ToPeer msg] w) | Some _ \<Rightarrow> (False, on_close False w))"

definition on_file_timer :: "Env \<Rightarrow> World \<Rightarrow> bool \<times> World" where
  "on_file_timer env w =
     (if cn_read_jobs (w_c w) \<noteq> [] then
        let w1 = emit [ToCm (EvTransferJobsLog (cn_read_jobs (w_c w)))] w in
        (case handle_read_jobs (ev_fs env) (cn_read_jobs (w_c w1)) of
           (res, jobs, msgs) \<Rightarrow>
             let w2 = emit (map (\<lambda>m. ToPeer (EvFile m)) msgs) (w1\<lparr>w_c := (w_c w1)\<lparr>cn_read_jobs := jobs\<rparr>\<rparr>) in
             (case res of
                Inr (Some entry) \<Rightarrow> (True, emit [ToCm (EvTransferLog entry)] w2)
              | Inr None \<Rightarrow> (True, w2)
              | Inl _ \<Rightarrow> (False, on_close False w2)))
      else (True, w\<lparr>w_c := (w_c w)\<lparr>cn_file_timer_ms := 30000\<rparr>\<rparr>))"

text \<open>The first display that contains the position; an \<open>i32\<close> difference times the scale, in \<open>f64\<close>.\<close>

definition display_contains :: "int \<Rightarrow> int \<Rightarrow> int \<times> int \<times> int \<times> int \<times> rat \<Rightarrow> bool" where
  "display_contains x y d =
     (case d of
        (dx, dy, width, height, scale) \<Rightarrow>
          x \<ge> dx \<and> y \<ge> dy \<and> f64 (of_int (wrap_i32 (x - dx)) * scale) < of_int width \<and>
          f64 (of_int (wrap_i32 (y - dy)) * scale) < of_int height)"

fun position :: "('a \<Rightarrow> bool) \<Rightarrow> 'a list \<Rightarrow> nat option" where
  "position p [] = None"
| "position p (x # xs) = (if p x then Some 0 else map_option Suc (position p xs))"

definition handle_cursor_switch_display :: "Env \<Rightarrow> int \<Rightarrow> int \<Rightarrow> World \<Rightarrow> World" where
  "handle_cursor_switch_display env x y w =
     (if cn_multi_ui_session (w_c w) then w
      else case position (display_contains x y) (ev_sync_displays env) of
             Some d_index \<Rightarrow>
               if cn_display_idx (w_c w) \<noteq> d_index then emit [ToPeer (EvFollowCurrentDisplay d_index)] w else w
           | None \<Rightarrow> w)"

definition is_support_multi_clipboard :: "string \<Rightarrow> string \<Rightarrow> bool" where
  "is_support_multi_clipboard peer_version peer_platform \<longleftrightarrow>
     \<not> get_version_number peer_version < get_version_number ''1.3.0'' \<and>
     peer_platform \<notin> {[], ''iOS''} \<and>
     \<not> (peer_platform = ''Android'' \<and> get_version_number peer_version < get_version_number ''1.3.3'')"

definition get_msg_if_not_support_multi_clip :: "string \<Rightarrow> string \<Rightarrow> (int \<times> bytes) list \<Rightarrow> bytes option" where
  "get_msg_if_not_support_multi_clip version platform clipboards =
     (if is_support_multi_clipboard version platform then None
      else map_option snd (find (\<lambda>c. fst c = 0) clipboards))"

definition on_service_message :: "Env \<Rightarrow> nat \<Rightarrow> service_message \<Rightarrow> World \<Rightarrow> bool \<times> World" where
  "on_service_message env latency msg w =
     (case msg of
        SmStopService \<Rightarrow> (False, on_close False (send_close_reason_no_retry [] w))
      | SmAudioFrame bs \<Rightarrow> if latency > 1000 then (True, w) else send_or_close env (EvServiceMessage bs) w
      | SmPeerInfo bs \<Rightarrow> send_or_close env (EvServiceMessage bs) (refresh_video_display None w)
      | SmCursorPosition x y bs \<Rightarrow>
          send_or_close env (EvServiceMessage bs)
            (if cn_follow_remote_cursor (w_c w) then handle_cursor_switch_display env x y w else w)
      | SmMultiClipboards clipboards bs \<Rightarrow>
          (case get_msg_if_not_support_multi_clip (lr_version (cn_lr (w_c w))) (lr_my_platform (cn_lr (w_c w))) clipboards of
             Some cb \<Rightarrow> send_or_close env (EvClipboard cb) w
           | None \<Rightarrow> send_or_close env (EvServiceMessage bs) w)
      | SmOther bs \<Rightarrow> send_or_close env (EvServiceMessage bs) w)"

definition is_stopping_allowed :: "ClipboardFile \<Rightarrow> bool" where
  "is_stopping_allowed clip \<longleftrightarrow>
     (case clip of CfMonitorReady \<Rightarrow> True | CfFormatList _ \<Rightarrow> True | CfFormatDataRequest _ \<Rightarrow> True | _ \<Rightarrow> False)"

definition is_beginning_message :: "ClipboardFile \<Rightarrow> bool" where
  "is_beginning_message clip \<longleftrightarrow> (case clip of CfMonitorReady \<Rightarrow> True | CfFormatList _ \<Rightarrow> True | _ \<Rightarrow> False)"

definition handle_file_clip :: "Env \<Rightarrow> ClipboardFile \<Rightarrow> World \<Rightarrow> World" where
  "handle_file_clip env clip w =
     (let stop = (is_stopping_allowed clip \<and> \<not> file_transfer_enabled (w_c w)) in
      if \<not> stop \<and> \<not> (is_beginning_message clip \<and> ev_builtin env ''one-way-file-transfer'' = ''Y'')
      then emit [ToPeer (EvClip clip)] w else w)"

definition on_select_arm :: "Env \<Rightarrow> select_arm \<Rightarrow> World \<Rightarrow> bool \<times> World" where
  "on_select_arm env arm w =
     (case arm of
        SaStreamError \<Rightarrow> (False, on_close True w)
      | SaReset \<Rightarrow> (False, on_close True w)
      | SaFileTimer \<Rightarrow> on_file_timer env w
      | SaWebConsole conns \<Rightarrow>
          if cn_id (w_c w) \<in> set conns
          then (False, on_close True (send_close_reason_no_retry ''Closed manually by web console'' w)) else (True, w)
      | SaVideo display bs \<Rightarrow>
          send_or_close env (EvServiceMessage bs)
            (case display of
               Some d \<Rightarrow> if \<not> cn_video_ack_required (w_c w) then emit [Video (EvDisplayFrameFetched d (cn_id (w_c w)))] w else w
             | None \<Rightarrow> w)
      | SaService latency msg \<Rightarrow> on_service_message env latency msg w
      | SaClip clip \<Rightarrow> (True, if is_support_file_copy_paste (lr_version (cn_lr (w_c w))) then handle_file_clip env clip w else w))"

section \<open>The connection loop\<close>

record Loop =
  lp_w :: World
  lp_last_recv_time :: nat
  lp_running :: bool

datatype conn_event =
    CePeer wire_message
  | CeUnparsable
  | CeCm cm_data
  | CeArm select_arm
  | CeTestDelayTimer
  | CeSecondTimer

definition touch_session :: "nat \<Rightarrow> World \<Rightarrow> World" where
  "touch_session now w =
     (case cn_session_last_recv_time (w_c w) of
        Some cell \<Rightarrow> w\<lparr>w_g := (w_g w)\<lparr>gl_cells := (gl_cells (w_g w))(cell := now)\<rparr>\<rparr> | None \<Rightarrow> w)"

definition on_peer_message :: "Env \<Rightarrow> wire_message \<Rightarrow> Loop \<Rightarrow> Loop" where
  "on_peer_message env msg l =
     (let (go_on, w) = on_message env msg (touch_session (ev_now env) (lp_w l)); c = w_c w in
      l\<lparr>lp_w := w, lp_last_recv_time := ev_now env,
        lp_running := (go_on \<and> \<not> (cn_port_forward_socket c \<noteq> None \<and> cn_authorized c \<and> cn_last_test_delay c = None))\<rparr>)"

text \<open>Bytes that are no message of this version only keep the connection alive.\<close>

definition on_unparsable :: "Env \<Rightarrow> Loop \<Rightarrow> Loop" where
  "on_unparsable env l = l\<lparr>lp_w := touch_session (ev_now env) (lp_w l), lp_last_recv_time := ev_now env\<rparr>"

definition check_wake_lock_on_setting_changed :: "Env \<Rightarrow> World \<Rightarrow> World" where
  "check_wake_lock_on_setting_changed env w =
     (if ev_wakelock_keep_awake env \<noteq> Some (get_bool_option (ev_opt env) ''keep-awake-during-incoming-sessions'')
      then check_wake_lock w else w)"

definition log_removals :: "Env \<Rightarrow> World \<Rightarrow> World" where
  "log_removals env w =
     (case on_timer (ev_now env) (cn_file_remove_log_control (w_c w)) of
        (logs, rc) \<Rightarrow> emit (map (\<lambda>x. ToCm (EvRemoveLog x)) logs) (w\<lparr>w_c := (w_c w)\<lparr>cn_file_remove_log_control := rc\<rparr>\<rparr>))"

definition on_second_timer :: "Env \<Rightarrow> Loop \<Rightarrow> Loop" where
  "on_second_timer env l =
     (let w = check_wake_lock_on_setting_changed env (lp_w l) in
      if (case cn_auto_disconnect_timer (w_c w) of
            Some (instant, minute) \<Rightarrow> (ev_now env - instant) div 1000000000 > minute * 60 | None \<Rightarrow> False)
      then l\<lparr>lp_w := on_close True (send_close_reason_no_retry ''Connection failed due to inactivity'' w), lp_running := False\<rparr>
      else l\<lparr>lp_w := log_removals env w\<rparr>)"

definition on_test_delay_timer :: "Env \<Rightarrow> Loop \<Rightarrow> Loop" where
  "on_test_delay_timer env l =
     (if ev_now env - lp_last_recv_time l \<ge> 30 * 1000000000 then l\<lparr>lp_w := on_close True (lp_w l), lp_running := False\<rparr>
      else
        let w = lp_w l; c = w_c w;
            w1 = (if cn_last_test_delay c = None \<and> \<not> (cn_port_forward_socket c \<noteq> None \<and> cn_authorized c)
                  then emit [ToPeer (EvTestDelay \<lparr>tdl_time = 0, tdl_from_client = False, tdl_last_delay = cn_network_delay c,
                         tdl_target_bitrate = ev_bitrate env\<rparr>)] (w\<lparr>w_c := c\<lparr>cn_last_test_delay := Some (ev_now env)\<rparr>\<rparr>)
                  else w);
            w2 = (case cn_last_test_delay (w_c w1) of
                    Some tm \<Rightarrow>
                      if is_authed_remote_conn (w_c w1) \<or> cn_view_camera (w_c w1)
                      then emit [Video (EvQosDelayElapsed (cn_id (w_c w1)) (int ((ev_now env - tm) div 1000000)))] w1 else w1
                  | None \<Rightarrow> w1) in
        l\<lparr>lp_w := w2\<rparr>)"

definition loop_step :: "Env \<Rightarrow> conn_event \<Rightarrow> Loop \<Rightarrow> Loop" where
  "loop_step env e l =
     (if \<not> lp_running l then l
      else case e of
             CePeer msg \<Rightarrow> on_peer_message env msg l
           | CeUnparsable \<Rightarrow> on_unparsable env l
           | CeCm data \<Rightarrow> (let (go_on, w) = on_cm_data env data (lp_w l) in l\<lparr>lp_w := w, lp_running := go_on\<rparr>)
           | CeArm arm \<Rightarrow> (let (go_on, w) = on_select_arm env arm (lp_w l) in l\<lparr>lp_w := w, lp_running := go_on\<rparr>)
           | CeTestDelayTimer \<Rightarrow> on_test_delay_timer env l
           | CeSecondTimer \<Rightarrow> on_second_timer env l)"

section \<open>Opening a connection\<close>

definition check_whitelist :: "Env \<Rightarrow> string \<Rightarrow> World \<Rightarrow> bool \<times> World" where
  "check_whitelist env ip w =
     (let whitelist = filter (\<lambda>x. x \<noteq> []) (split_char (CHR '','') (ev_opt env ''whitelist'')) in
      if whitelist \<noteq> [] \<and> ''0.0.0.0'' \<notin> set whitelist \<and> \<not> list_ex (\<lambda>x. ev_cidr_contains env x ip) whitelist
      then (False, emit [Audit (EvAlarm IpWhitelist)] (send_login_error env ''Your ip is blocked by the peer'' w))
      else (True, w))"

definition on_open :: "Env \<Rightarrow> string \<Rightarrow> World \<Rightarrow> bool \<times> World" where
  "on_open env ip w =
     (case check_whitelist env ip w of
        (False, w1) \<Rightarrow> (False, w1)
      | (True, w1) \<Rightarrow>
          if ev_is_server env \<and> ev_opt env ''allow-only-conn-window-open'' = ''Y'' \<and> \<not> ev_main_window_open env
          then (False, send_login_error env ''The main window is not open'' w1)
          else (True, emit [ToPeer (EvHash (cn_hash (w_c w1))), Audit (EvConnAuditNew ip)] (w1\<lparr>w_c := (w_c w1)\<lparr>cn_ip := ip\<rparr>\<rparr>)))"

definition Connection_new :: "Env \<Rightarrow> int \<Rightarrow> Hash \<Rightarrow> totp option \<Rightarrow> u64 option \<Rightarrow> bool \<Rightarrow> bool \<Rightarrow> Connection" where
  "Connection_new env i hash totp control_permissions headless_allowed headless =
     (let perm = (\<lambda>name. permission (ev_opt env) name control_permissions) in
      \<lparr>cn_id = i, cn_display_idx = ev_primary_display env, cn_read_jobs = [], cn_file_timer_ms = 30000, cn_hash = hash, cn_file_transfer = None, cn_view_camera = False,
       cn_terminal = False, cn_port_forward_socket = None, cn_port_forward_address = [], cn_authorized = False,
       cn_require_2fa = totp, cn_keyboard = perm ''enable-keyboard'', cn_clipboard = perm ''enable-clipboard'',
       cn_audio = perm ''enable-audio'', cn_file = perm ''enable-file-transfer'', cn_restart = perm ''enable-remote-restart'',
       cn_recording = perm ''enable-record-session'', cn_block_input = perm ''enable-block-input'',
       cn_privacy_mode = perm ''enable-privacy-mode'', cn_control_permissions = control_permissions,
       cn_last_test_delay = None, cn_network_delay = 0, cn_lock_after_session_end = False, cn_show_remote_cursor = False,
       cn_ip = [], cn_disable_keyboard = False, cn_show_my_cursor = False, cn_disable_clipboard = False,
       cn_disable_audio = False, cn_enable_file_transfer = False, cn_audio_sender = False, cn_video_ack_required = False,
       cn_lr = LoginRequest_default, cn_session_last_recv_time = None, cn_chat_unanswered = False, cn_file_transferred = False,
       cn_from_switch = False, cn_voice_call_request_timestamp = None, cn_voice_calling = False, cn_options_in_login = None,
       cn_pressed_modifiers = [], cn_headless_allowed = headless_allowed, cn_headless = headless, cn_closed = False,
       cn_start_cm_ipc_para = True, cn_auto_disconnect_timer = None, cn_authed_conn_id = None, cn_services_subed = False,
       cn_delayed_read_dir = None, cn_follow_remote_cursor = False, cn_follow_remote_window = False,
       cn_multi_ui_session = False, cn_audit_primary_auth = PaNone, cn_audit_two_factor = TfNone,
       cn_terminal_service_id = [], cn_terminal_persistent = False,
       cn_file_remove_log_control = FileRemoveLogControl_new (ev_now env) i, cn_printer_data = [], cn_cm_read_job_ids = [],
       cn_scope_violation_messages = [],
       cn_terminal_user_token = False, cn_terminal_generic_service = False\<rparr>)"

definition send_permissions :: "World \<Rightarrow> World" where
  "send_permissions w =
     (let c = w_c w in
      emit (map (\<lambda>(name, _). ToPeer (EvPermissionInfo name False))
              (filter (\<lambda>(_, enabled). \<not> enabled)
                [(''keyboard'', cn_keyboard c), (''clipboard'', cn_clipboard c), (''audio'', cn_audio c), (''file'', cn_file c),
                 (''restart'', cn_restart c), (''recording'', cn_recording c), (''block_input'', cn_block_input c),
                 (''privacy_mode'', cn_privacy_mode c)])) w)"

definition start :: "Env \<Rightarrow> string \<Rightarrow> Connection \<Rightarrow> Globals \<Rightarrow> Loop" where
  "start env ip c g =
     (case on_open env ip \<lparr>w_c = c, w_g = g, w_out = []\<rparr> of
        (True, w) \<Rightarrow> \<lparr>lp_w = send_permissions w, lp_last_recv_time = ev_now env, lp_running = True\<rparr>
      | (False, w) \<Rightarrow> \<lparr>lp_w = w\<lparr>w_c := (w_c w)\<lparr>cn_closed := True\<rparr>\<rparr>, lp_last_recv_time = ev_now env, lp_running = False\<rparr>)"

text \<open>
  A run of one connection: between its own steps the other connections and the rest of the program may leave the shared
  state in any condition.
\<close>

inductive conn_run :: "(Env \<Rightarrow> bool) \<Rightarrow> Loop \<Rightarrow> (Env \<times> conn_event \<times> Loop) list \<Rightarrow> Loop \<Rightarrow> bool" for ok :: "Env \<Rightarrow> bool" where
  run_start: "ok env \<Longrightarrow> conn_run ok (start env ip (Connection_new env i hash totp cps ha hl) g) []
     (start env ip (Connection_new env i hash totp cps ha hl) g)"
| run_step: "conn_run ok l0 h l \<Longrightarrow> ok env \<Longrightarrow> lp_running l \<Longrightarrow>
     conn_run ok l0 (h @ [(env, e, l)]) (loop_step env e l)"
| run_others: "conn_run ok l0 h l \<Longrightarrow> conn_run ok l0 h (l\<lparr>lp_w := (lp_w l)\<lparr>w_g := g\<rparr>\<rparr>)"

section \<open>What authorises a connection\<close>

fun authorizing :: "Env \<Rightarrow> conn_event \<Rightarrow> World \<Rightarrow> bool" where
  "authorizing env (CePeer (Some (MLoginRequest lr))) w = login_ok env lr w"
| "authorizing env (CePeer (Some (MAuth2fa code hwid))) w =
     (code_ok env code w \<and> terminal_ready env (w_c w) \<and> tunnel_ready env (w_c w))"
| "authorizing env (CePeer (Some (MSwitchSidesResponse uuid (Some lr)))) w =
     (ticket_ok env uuid lr w \<and> terminal_ready env (w_c w) \<and> tunnel_ready env ((w_c w)\<lparr>cn_lr := lr\<rparr>))"
| "authorizing env (CeCm CmAuthorize) w = (terminal_ready env (w_c w) \<and> tunnel_ready env (w_c w))"
| "authorizing env _ w = False"

lemma on_close_simps [simp]:
  "cn_authorized (w_c (on_close lock w)) = cn_authorized (w_c w)"
  "cn_authed_conn_id (w_c (on_close lock w)) = cn_authed_conn_id (w_c w)"
  "cn_file_transfer (w_c (on_close lock w)) = cn_file_transfer (w_c w)"
  "cn_view_camera (w_c (on_close lock w)) = cn_view_camera (w_c w)"
  "cn_terminal (w_c (on_close lock w)) = cn_terminal (w_c w)"
  "cn_control_permissions (w_c (on_close lock w)) = cn_control_permissions (w_c w)"
  "cn_terminal_user_token (w_c (on_close lock w)) = cn_terminal_user_token (w_c w)"
  "cn_lr (w_c (on_close lock w)) = cn_lr (w_c w)" "cn_id (w_c (on_close lock w)) = cn_id (w_c w)"
  "cn_pressed_modifiers (w_c (on_close lock w)) = cn_pressed_modifiers (w_c w)"
  by (simp_all add: on_close_def Let_def)

lemma send_close_reason_simps [simp]: "w_c (send_close_reason_no_retry reason w) = w_c w"
  by (simp add: send_close_reason_no_retry_def Let_def)

text \<open>The part of a connection that only a login changes.\<close>

definition session_view :: "Connection \<Rightarrow>
    bool \<times> AuthConnType option \<times> (string \<times> bool) option \<times> bool \<times> bool \<times> bool \<times> u64 option" where
  "session_view c =
     (cn_authorized c, cn_authed_conn_id c, cn_file_transfer c, cn_view_camera c, cn_terminal c, cn_terminal_user_token c,
      cn_control_permissions c)"

lemma session_view_on_close [simp]: "session_view (w_c (on_close lock w)) = session_view (w_c w)"
  by (simp add: session_view_def)

lemma session_view_login_view: "login_view c = login_view c' \<Longrightarrow> session_view c = session_view c'"
  by (simp add: login_view_def session_view_def)

lemma session_view_options [simp]: "session_view (w_c (update_options env option w)) = session_view (w_c w)"
  by (rule session_view_login_view) (rule update_options_view)

lemma session_view_updates [simp]:
  "session_view (c\<lparr>cn_auto_disconnect_timer := x1\<rparr>) = session_view c"
  "session_view (c\<lparr>cn_pressed_modifiers := x2\<rparr>) = session_view c"
  "session_view (c\<lparr>cn_read_jobs := x9\<rparr>) = session_view c" "session_view (c\<lparr>cn_file_timer_ms := x10\<rparr>) = session_view c"
  "session_view (c\<lparr>cn_file_remove_log_control := x11\<rparr>) = session_view c"
  "session_view (c\<lparr>cn_printer_data := x12\<rparr>) = session_view c" "session_view (c\<lparr>cn_cm_read_job_ids := x2\<rparr>) = session_view c"
  "session_view (c\<lparr>cn_file_transferred := b\<rparr>) = session_view c"
  "session_view (c\<lparr>cn_delayed_read_dir := x3\<rparr>) = session_view c"
  "session_view (c\<lparr>cn_display_idx := x10\<rparr>) = session_view c"
  "session_view (c\<lparr>cn_multi_ui_session := b\<rparr>) = session_view c"
  "session_view (c\<lparr>cn_chat_unanswered := b\<rparr>) = session_view c"
  "session_view (c\<lparr>cn_audio_sender := b\<rparr>) = session_view c"
  "session_view (c\<lparr>cn_voice_calling := b\<rparr>) = session_view c"
  "session_view (c\<lparr>cn_voice_call_request_timestamp := x5\<rparr>) = session_view c"
  "session_view (c\<lparr>cn_scope_violation_messages := x6\<rparr>) = session_view c"
  "session_view (c\<lparr>cn_keyboard := b\<rparr>) = session_view c" "session_view (c\<lparr>cn_clipboard := b\<rparr>) = session_view c"
  "session_view (c\<lparr>cn_audio := b\<rparr>) = session_view c" "session_view (c\<lparr>cn_file := b\<rparr>) = session_view c"
  "session_view (c\<lparr>cn_restart := b\<rparr>) = session_view c" "session_view (c\<lparr>cn_recording := b\<rparr>) = session_view c"
  "session_view (c\<lparr>cn_block_input := b\<rparr>) = session_view c" "session_view (c\<lparr>cn_privacy_mode := b\<rparr>) = session_view c"
  "session_view (c\<lparr>cn_last_test_delay := x7\<rparr>) = session_view c" "session_view (c\<lparr>cn_network_delay := x4\<rparr>) = session_view c"
  "session_view (c\<lparr>cn_port_forward_socket := x8\<rparr>) = session_view c"
  by (simp_all add: session_view_def)

lemma display_views [simp]:
  "session_view (w_c (refresh_video_display d w)) = session_view (w_c w)"
  "session_view (w_c (change_resolution env d width height w)) = session_view (w_c w)"
  "session_view (w_c (switch_display_to env i w)) = session_view (w_c w)"
  "session_view (w_c (send_display_changed env i w)) = session_view (w_c w)"
  by (simp_all add: refresh_video_display_def change_resolution_def switch_display_to_def send_display_changed_def Let_def
      case_prod_beta split: option.split sum.split)

lemma handler_views [simp]:
  "session_view (w_c (on_mouse_event env me w)) = session_view (w_c w)"
  "session_view (w_c (on_pointer_device_event env pde w)) = session_view (w_c w)"
  "session_view (w_c (on_key_event env ke w)) = session_view (w_c w)"
  "session_view (w_c (on_clipboards cbs w)) = session_view (w_c w)"
  "session_view (w_c (on_cliprdr env clip w)) = session_view (w_c w)"
  "session_view (w_c (handle_switch_display env i width height w)) = session_view (w_c w)"
  "session_view (w_c (capture_displays env add sub set1 w)) = session_view (w_c w)"
  "session_view (w_c (toggle_privacy_mode env k on w)) = session_view (w_c w)"
  "session_view (w_c (on_refresh_video env d2 r w)) = session_view (w_c w)"
  "session_view (w_c (close_voice_call w)) = session_view (w_c w)"
  "session_view (w_c (handle_terminal_action env a w)) = session_view (w_c w)"
  "session_view (w_c (on_screenshot_request display sid w)) = session_view (w_c w)"
  "session_view (w_c (update_auto_disconnect_timer env w)) = session_view (w_c w)"
  by (simp_all add: on_mouse_event_def on_pointer_device_event_def on_key_event_def on_clipboards_def on_cliprdr_def
      handle_switch_display_def capture_displays_def toggle_privacy_mode_def on_refresh_video_def on_screenshot_request_def
      close_voice_call_def handle_terminal_action_def update_auto_disconnect_timer_def Let_def split: option.split Cliprdr.split)

lemma send_fs_simps [simp]: "w_c (send_fs c w) = w_c w" "w_g (send_fs c w) = w_g w"
  by (simp_all add: send_fs_def)

lemma on_file_response_view [simp]: "session_view (w_c (on_file_response fr w)) = session_view (w_c w)"
  by (simp add: on_file_response_def split: option.split)

lemma read_job_view [simp]:
  "session_view (w_c (process_new_read_job job path w)) = session_view (w_c w)"
  "session_view (w_c (create_and_start_read_job env i t src n hidden od path check w)) = session_view (w_c w)"
  by (simp_all add: process_new_read_job_def create_and_start_read_job_def Let_def split: sum.split)

lemma file_action_views [simp]:
  "session_view (w_c (on_all_files env i path hidden w)) = session_view (w_c w)"
  "session_view (w_c (on_file_send env i path hidden n t w)) = session_view (w_c w)"
  "session_view (w_c (on_file_receive i path n files ts w)) = session_view (w_c w)"
  "session_view (w_c (on_file_cancel i w)) = session_view (w_c w)"
  "session_view (w_c (snd (on_send_confirm env r w))) = session_view (w_c w)"
  "session_view (w_c (log_removal f w)) = session_view (w_c w)"
  by (simp_all add: on_all_files_def on_file_send_def on_file_receive_def on_file_cancel_def on_send_confirm_def log_removal_def
      Let_def case_prod_beta split: option.split JobType.split)

lemma run_file_action_view [simp]: "session_view (w_c (snd (run_file_action env a w))) = session_view (w_c w)"
  by (cases a) (simp_all add: read_dir_def read_empty_dirs_def)

lemma on_file_action_view [simp]: "session_view (w_c (snd (on_file_action env fa w))) = session_view (w_c w)"
  by (simp add: on_file_action_def Let_def split: option.split FileAction.split)

lemma on_option_view [simp]: "session_view (w_c (on_option env option w)) = session_view (w_c w)"
  by (simp add: on_option_def split: option.split)

lemma on_misc_view [simp]: "session_view (w_c (snd (on_misc env misc w))) = session_view (w_c w)"
  by (cases misc) (simp_all add: Let_def)

lemma on_voice_call_request_view [simp]: "session_view (w_c (on_voice_call_request env b ts w)) = session_view (w_c w)"
  by (simp add: on_voice_call_request_def)

lemma on_authorized_message_view [simp]:
  "session_view (w_c (snd (on_authorized_message env msg w))) = session_view (w_c w)"
  by (cases "(env, msg, w)" rule: on_authorized_message.cases) simp_all

lemma on_test_delay_view [simp]: "session_view (w_c (on_test_delay env t w)) = session_view (w_c w)"
  by (simp add: on_test_delay_def Let_def split: option.split)

lemma handle_scope_violation_view [simp]:
  "session_view (w_c (snd (handle_authorized_scope_violation env m w))) = session_view (w_c w)"
  by (simp add: handle_authorized_scope_violation_def Let_def)

lemma send_logon_already: "cn_authorized (w_c w) \<Longrightarrow> send_logon_response_and_keep_alive env w = (True, w)"
  by (simp add: send_logon_response_and_keep_alive_def)

lemma session_viewD: "session_view c = session_view c' \<Longrightarrow> cn_authorized c = cn_authorized c'"
  by (simp add: session_view_def)

lemma dispatch_other:
  assumes "\<And>lr. msg \<noteq> Some (MLoginRequest lr)" "\<And>code hwid. msg \<noteq> Some (MAuth2fa code hwid)"
    "\<And>uuid lr. msg \<noteq> Some (MSwitchSidesResponse uuid (Some lr))"
  shows "session_view (w_c (snd (dispatch_message env msg w))) = session_view (w_c w)"
  using assms by (auto simp: dispatch_message_def split: option.split Message.split)

lemma dispatch_authorized:
  assumes "\<not> cn_authorized (w_c w)"
  shows "cn_authorized (w_c (snd (dispatch_message env msg w))) \<longleftrightarrow> authorizing env (CePeer msg) w"
proof (cases "(env, CePeer msg, w)" rule: authorizing.cases)
  case (1 e lr v)
  then show ?thesis using assms by (simp add: dispatch_message_def on_login_request_authorized)
next
  case (2 e code hwid v)
  then show ?thesis using assms by (simp add: dispatch_message_def on_auth_2fa_authorized)
next
  case (3 e uuid lr v)
  then show ?thesis using assms by (simp add: dispatch_message_def on_switch_sides_authorized)
qed (use assms in \<open>simp_all add: dispatch_message_def on_test_delay_def Let_def split: option.split\<close>)

lemma on_message_authorized:
  assumes "\<not> cn_authorized (w_c w)"
  shows "cn_authorized (w_c (snd (on_message env msg w))) \<longleftrightarrow> authorizing env (CePeer msg) w"
proof (cases "close_reason msg")
  case True
  then obtain s where "msg = Some (MMisc (Some (McCloseReason s)))" by (cases msg rule: close_reason.cases) auto
  with assms show ?thesis by (simp add: on_message_def Let_def)
next
  case False
  with assms show ?thesis by (simp add: on_message_def dispatch_authorized)
qed

lemma handle_voice_call_view [simp]: "session_view (w_c (handle_voice_call env b w)) = session_view (w_c w)"
  by (simp add: handle_voice_call_def Let_def session_view_def split: option.split)

lemma switch_permission_view [simp]: "session_view (w_c (switch_permission env name b w)) = session_view (w_c w)"
  by (simp add: switch_permission_def switch_keyboard_def switch_clipboard_def switch_audio_def switch_file_def
      switch_privacy_mode_def Let_def split: option.split sum.split)

lemma forget_cm_job_view [simp]: "session_view (w_c (forget_cm_job i w)) = session_view (w_c w)"
  by (simp add: forget_cm_job_def)

lemmas cm_file_defs =
  handle_read_job_init_result_def handle_file_block_from_cm_def handle_file_read_done_def handle_file_read_error_def
  handle_file_digest_from_cm_def handle_all_files_result_def

lemma on_cm_data_view:
  "data \<noteq> CmAuthorize \<Longrightarrow> session_view (w_c (snd (on_cm_data env data w))) = session_view (w_c w)"
  by (cases data) (simp_all add: cm_file_defs Let_def split: sum.split option.split prod.split)

lemma on_cm_data_authorized:
  assumes "\<not> cn_authorized (w_c w)"
  shows "cn_authorized (w_c (snd (on_cm_data env data w))) \<longleftrightarrow> authorizing env (CeCm data) w"
proof (cases "data = CmAuthorize")
  case True
  with assms show ?thesis by (simp add: on_authorize_authorized)
next
  case False
  with session_viewD [OF on_cm_data_view [OF False, of env w]] assms show ?thesis by (cases data) simp_all
qed

lemma touch_session_view [simp]: "w_c (touch_session now w) = w_c w"
  by (simp add: touch_session_def split: option.split)

lemma select_arm_view [simp]: "session_view (w_c (snd (on_select_arm env arm w))) = session_view (w_c w)"
  by (simp add: on_select_arm_def on_file_timer_def on_service_message_def send_or_close_def handle_file_clip_def
      handle_cursor_switch_display_def Let_def case_prod_beta
      split: select_arm.split service_message.split option.split sum.split)

lemma wake_lock_setting_view [simp]: "w_c (check_wake_lock_on_setting_changed env w) = w_c w"
  by (simp add: check_wake_lock_on_setting_changed_def)

lemma log_removals_view [simp]: "session_view (w_c (log_removals env w)) = session_view (w_c w)"
  by (simp add: log_removals_def case_prod_beta)

lemma timers_view [simp]:
  "session_view (w_c (lp_w (on_test_delay_timer env l))) = session_view (w_c (lp_w l))"
  "session_view (w_c (lp_w (on_second_timer env l))) = session_view (w_c (lp_w l))"
  by (simp_all add: on_test_delay_timer_def on_second_timer_def Let_def split: option.split)

lemma touch_session_unused: "cn_session_last_recv_time (w_c w) = None \<Longrightarrow> touch_session now w = w"
  by (simp add: touch_session_def)

lemma loop_step_authorized:
  assumes "\<not> cn_authorized (w_c (lp_w l))" "cn_session_last_recv_time (w_c (lp_w l)) = None" "lp_running l"
  shows "cn_authorized (w_c (lp_w (loop_step env e l))) \<longleftrightarrow> authorizing env e (lp_w l)"
proof (cases e)
  case (CePeer msg)
  then show ?thesis
    using assms by (simp add: loop_step_def on_peer_message_def Let_def case_prod_beta touch_session_unused on_message_authorized)
next
  case (CeCm data)
  then show ?thesis using assms by (simp add: loop_step_def case_prod_beta on_cm_data_authorized)
next
  case CeUnparsable
  then show ?thesis using assms by (simp add: loop_step_def on_unparsable_def)
next
  case (CeArm arm)
  then show ?thesis
    using assms session_viewD [OF select_arm_view, of env arm "lp_w l"] by (simp add: loop_step_def case_prod_beta)
next
  case CeTestDelayTimer
  then show ?thesis using assms session_viewD [OF timers_view(1), of env l] by (simp add: loop_step_def)
next
  case CeSecondTimer
  then show ?thesis using assms session_viewD [OF timers_view(2), of env l] by (simp add: loop_step_def)
qed

section \<open>Invariants of a connection\<close>

definition conn_inv :: "options \<Rightarrow> Connection \<Rightarrow> bool" where
  "conn_inv opt c \<longleftrightarrow>
     (cn_authorized c \<longleftrightarrow> cn_authed_conn_id c \<noteq> None) \<and>
     (cn_file_transfer c \<noteq> None \<longrightarrow>
        \<not> cn_view_camera c \<and> \<not> cn_terminal c \<and> permission opt ''enable-file-transfer'' (cn_control_permissions c)) \<and>
     (cn_view_camera c \<longrightarrow> \<not> cn_terminal c \<and> permission opt ''enable-camera'' (cn_control_permissions c)) \<and>
     (cn_terminal c \<longrightarrow> permission opt ''enable-terminal'' (cn_control_permissions c)) \<and>
     (cn_terminal_user_token c \<longrightarrow> cn_terminal c) \<and>
     (cn_authed_conn_id c = Some Remote \<longrightarrow> cn_file_transfer c = None \<and> \<not> cn_view_camera c \<and> \<not> cn_terminal c) \<and>
     (cn_authed_conn_id c = Some FileTransfer \<longrightarrow> cn_file_transfer c \<noteq> None) \<and>
     (cn_authed_conn_id c = Some PortForward \<longrightarrow> cn_file_transfer c = None) \<and>
     (cn_authed_conn_id c = Some ViewCamera \<longrightarrow> cn_view_camera c) \<and>
     (cn_authed_conn_id c = Some Terminal \<longrightarrow> cn_terminal c)"

text \<open>A connection that is not authorised, while its loop runs, holds nothing of a session yet.\<close>

definition pending :: "Connection \<Rightarrow> bool" where
  "pending c \<longleftrightarrow>
     (\<not> cn_authorized c \<longrightarrow>
        cn_session_last_recv_time c = None \<and> cn_port_forward_socket c = None \<and> \<not> cn_terminal_user_token c \<and> \<not> cn_from_switch c)"

definition jview :: "Connection \<Rightarrow> (bool \<times> AuthConnType option \<times> (string \<times> bool) option \<times> bool \<times> bool \<times> bool \<times> u64 option)
    \<times> nat option \<times> string option \<times> bool" where
  "jview c = (session_view c, cn_session_last_recv_time c, cn_port_forward_socket c, cn_from_switch c)"

lemma conn_inv_cong: "session_view c = session_view c' \<Longrightarrow> conn_inv opt c = conn_inv opt c'"
  by (simp add: session_view_def conn_inv_def)

lemma pending_cong: "jview c = jview c' \<Longrightarrow> pending c = pending c'"
  by (simp add: jview_def session_view_def pending_def)

lemma jviewD: "jview c = jview c' \<Longrightarrow> session_view c = session_view c'"
  by (simp add: jview_def)

lemma recent_jview [simp]: "jview (w_c (snd (is_recent_session env tfa w))) = jview (w_c w)"
  by (auto simp: is_recent_session_def jview_def session_view_def Let_def split: option.split)

lemma conn_inv_token:
  "conn_inv opt c \<Longrightarrow> cn_terminal c \<Longrightarrow> conn_inv opt (c\<lparr>cn_terminal_user_token := b\<rparr>)"
  unfolding conn_inv_def by (simp del: not_None_eq) blast

lemma conn_inv_prepare:
  "conn_inv opt (w_c w) \<Longrightarrow> conn_inv opt (w_c (snd (prepare_terminal_login_for_authorization env w)))"
  by (simp add: prepare_terminal_login_for_authorization_def conn_inv_token Let_def split: option.split)

lemma session_view_connect [simp]:
  "session_view (w_c (snd (connect_port_forward_if_needed env w))) = session_view (w_c w)"
  by (simp add: connect_port_forward_if_needed_def session_view_def Let_def case_prod_beta split: option.split LoginUnion.split)

lemma conn_inv_connect:
  "conn_inv opt (w_c w) \<Longrightarrow> conn_inv opt (w_c (snd (connect_port_forward_if_needed env w)))"
  using conn_inv_cong [OF session_view_connect] by blast

lemma conn_inv_recent [simp]: "conn_inv opt (w_c (snd (is_recent_session env tfa w))) = conn_inv opt (w_c w)"
  by (rule conn_inv_cong) (rule jviewD [OF recent_jview])

lemma conn_inv_prepared: "conn_inv opt (w_c w) \<Longrightarrow> conn_inv opt (w_c (logon_prepared env w))"
  unfolding logon_prepared_def by (rule conn_inv_connect, rule conn_inv_prepare) simp

lemma session_conn_type_cases:
  "snd (session_conn_type c) = Remote \<Longrightarrow> cn_file_transfer c = None \<and> \<not> cn_view_camera c \<and> \<not> cn_terminal c"
  "snd (session_conn_type c) = FileTransfer \<Longrightarrow> cn_file_transfer c \<noteq> None"
  "snd (session_conn_type c) = PortForward \<Longrightarrow> cn_file_transfer c = None"
  "snd (session_conn_type c) = ViewCamera \<Longrightarrow> cn_view_camera c"
  "snd (session_conn_type c) = Terminal \<Longrightarrow> cn_terminal c"
  unfolding session_conn_type_def by (simp_all del: not_None_eq split: if_splits)

lemma conn_inv_authorize:
  assumes "conn_inv opt (w_c w)"
  shows "conn_inv opt (w_c (logon_session env (logon_authorize w)))"
  using assms session_conn_type_cases [of "w_c w"] logon_authorize_simps(1) [of w]
  unfolding conn_inv_def logon_session_simps logon_authorize_simps(2-) option.inject
  by blast

lemma send_logon_inv:
  assumes "conn_inv opt (w_c w)"
  shows "conn_inv opt (w_c (snd (send_logon_response_and_keep_alive env w)))"
proof (cases "cn_authorized (w_c w)")
  case True
  with assms show ?thesis by (simp add: send_logon_already)
next
  case False
  show ?thesis
    using assms False
    by (simp add: send_logon_unfold conn_inv_prepare conn_inv_prepared conn_inv_authorize)
qed

lemma send_logon_keeps_pending:
  assumes "\<not> cn_authorized (w_c w)" "fst (send_logon_response_and_keep_alive env w)"
    "\<not> cn_authorized (w_c (snd (send_logon_response_and_keep_alive env w)))"
  shows "jview (w_c (snd (send_logon_response_and_keep_alive env w))) = jview (w_c w)" "\<not> second_factor_ok env w"
  using assms by (auto simp: send_logon_unfold split: if_splits)

text \<open>A handler that keeps both invariants; \<open>r\<close> is its result on \<open>w\<close>.\<close>

definition keeps :: "options \<Rightarrow> World \<Rightarrow> bool \<times> World \<Rightarrow> bool" where
  "keeps opt w r \<longleftrightarrow>
     (conn_inv opt (w_c w) \<longrightarrow> conn_inv opt (w_c (snd r))) \<and>
     (pending (w_c w) \<longrightarrow> fst r \<longrightarrow> pending (w_c (snd r)))"

lemma keeps_jview: "jview (w_c (snd r)) = jview (w_c w) \<Longrightarrow> keeps opt w r"
  unfolding keeps_def using conn_inv_cong [OF jviewD] pending_cong by blast

lemma keeps_from: "jview (w_c w1) = jview (w_c w) \<Longrightarrow> keeps opt w1 r \<Longrightarrow> keeps opt w r"
  unfolding keeps_def using conn_inv_cong [OF jviewD] pending_cong by blast

lemma keeps_then: "keeps opt w r \<Longrightarrow> jview (w_c w') = jview (w_c (snd r)) \<Longrightarrow> keeps opt w (fst r, w')"
  unfolding keeps_def using conn_inv_cong [OF jviewD] pending_cong by (metis fst_conv snd_conv)

lemma keeps_send: "keeps opt w (send_logon_response_and_keep_alive env w)"
proof (cases "cn_authorized (w_c w)")
  case True
  then show ?thesis by (simp add: send_logon_already keeps_def)
next
  case False
  then show ?thesis
    unfolding keeps_def using send_logon_inv send_logon_keeps_pending(1) [OF False, of env] pending_cong
    by (metis pending_def)
qed

lemma try_start_cm_ipc_jview [simp]: "jview (w_c (try_start_cm_ipc w)) = jview (w_c w)"
  by (simp add: try_start_cm_ipc_def jview_def session_view_def)

lemma validate_jview [simp]: "jview (w_c (snd (conn_validate_password env allow w))) = jview (w_c w)"
  by (auto simp: conn_validate_password_def jview_def session_view_def Let_def split: option.split PwMatch.split)

lemma keeps_login_accepted: "keeps opt w (login_accepted env lr err_msg w)"
proof (cases "err_msg = []")
  case True
  let ?r = "send_logon_response_and_keep_alive env (wait_desktop_cm_ready w)"
  have k: "keeps opt w ?r" by (rule keeps_from [OF _ keeps_send]) simp
  have "login_accepted env lr err_msg w =
      (fst ?r, if fst ?r then try_start_cm (lr_my_id lr) (lr_my_name lr) (cn_authorized (w_c (snd ?r))) (snd ?r) else snd ?r)"
    using True by (simp add: login_accepted_def case_prod_beta prod_eq_iff split: bool.split)
  then show ?thesis using keeps_then [OF k] by simp
qed (simp add: login_accepted_def keeps_jview)

lemma keeps_login_password: "keeps opt w (login_password env lr err_msg allow w)"
proof -
  let ?c = "conn_check_failure env 0 w"
  let ?v = "conn_validate_password env allow (snd ?c)"
  have un: "login_password env lr err_msg allow w =
      (if \<not> snd (fst ?c) then (True, snd ?c)
       else if fst ?v then login_accepted env lr err_msg (conn_update_failure env (fst (fst ?c)) True 0 (snd ?v))
       else (True, let w3 = conn_check_update_temporary_password env False (conn_update_failure env (fst (fst ?c)) False 0 (snd ?v)) in
             if err_msg = [] then try_start_cm (lr_my_id lr) (lr_my_name lr) False (send_login_error env LOGIN_MSG_PASSWORD_WRONG w3)
             else send_login_error env LOGIN_MSG_DESKTOP_SESSION_NOT_READY_PASSWORD_WRONG w3))"
    by (simp add: login_password_def case_prod_beta Let_def split: bool.split)
  have "keeps opt w (login_accepted env lr err_msg (conn_update_failure env (fst (fst ?c)) True 0 (snd ?v)))"
    by (rule keeps_from [OF _ keeps_login_accepted]) simp
  then show ?thesis by (simp add: un keeps_jview Let_def)
qed

lemma keeps_login_approve: "keeps opt w (login_approve env lr err_msg w)"
proof -
  let ?r = "is_recent_session env False w"
  have "keeps opt w (login_accepted env lr err_msg (snd ?r))" for err_msg
    by (rule keeps_from [OF _ keeps_login_accepted]) simp
  moreover have "keeps opt w (login_password env lr err_msg (allow_logon_screen_password env) (snd ?r))" for err_msg
    by (rule keeps_from [OF _ keeps_login_password]) simp
  ultimately show ?thesis
    by (simp add: login_approve_def keeps_jview Let_def case_prod_beta split: bool.split)
qed

lemma keeps_login_desktop: "keeps opt w (login_desktop env lr w)"
proof -
  have "keeps opt w (login_approve env lr err_msg (snd (conn_check_failure env 0 w)))" for err_msg
    by (rule keeps_from [OF _ keeps_login_approve]) simp
  then show ?thesis
    by (simp add: login_desktop_def keeps_jview keeps_login_approve Let_def case_prod_beta)
qed

lemma handle_login_request_jview [simp]:
  "jview (w_c (handle_login_request_without_validation env lr w)) = jview (w_c w)"
proof -
  have "cn_session_last_recv_time (w_c (handle_login_request_without_validation env lr w)) = cn_session_last_recv_time (w_c w)"
    unfolding handle_login_request_without_validation_def Let_def case_prod_beta by (simp split: option.split)
  then show ?thesis by (simp add: jview_def session_view_def handle_login_request_simps)
qed

text \<open>The scope of a login: what it sets is permitted, on a connection that is not authorised.\<close>

lemma login_scope_inv:
  assumes "conn_inv (ev_opt env) (w_c w)" "pending (w_c w)" "\<not> cn_authorized (w_c w)"
  shows "conn_inv (ev_opt env) (w_c (snd (login_scope env lr (reset_session_scope_for_login w))))"
    "pending (w_c (snd (login_scope env lr (reset_session_scope_for_login w))))"
proof -
  have u: "cn_authed_conn_id (w_c w) = None" "\<not> cn_terminal_user_token (w_c w)"
    using assms by (auto simp: conn_inv_def pending_def)
  show "conn_inv (ev_opt env) (w_c (snd (login_scope env lr (reset_session_scope_for_login w))))"
    using u assms(3)
    by (simp add: login_scope_def conn_inv_def reset_session_scope_for_login_def check_privacy_mode_on_def Let_def
        split: option.split LoginUnion.split)
  have "cn_session_last_recv_time (w_c (snd (login_scope env lr (reset_session_scope_for_login w)))) = cn_session_last_recv_time (w_c w)"
    by (simp add: login_scope_def reset_session_scope_for_login_def check_privacy_mode_on_def Let_def
        split: option.split LoginUnion.split)
  with assms(2) show "pending (w_c (snd (login_scope env lr (reset_session_scope_for_login w))))"
    by (simp add: pending_def)
qed

lemma on_login_request_inv:
  assumes "conn_inv (ev_opt env) (w_c w)" "pending (w_c w)" "\<not> cn_authorized (w_c w)"
  shows "conn_inv (ev_opt env) (w_c (snd (on_login_request env lr w)))"
    "fst (on_login_request env lr w) \<Longrightarrow> pending (w_c (snd (on_login_request env lr w)))"
proof -
  let ?h = "handle_login_request_without_validation env lr w"
  let ?s = "login_scope env lr (reset_session_scope_for_login ?h)"
  have j: "jview (w_c ?h) = jview (w_c w)" by simp
  have h: "conn_inv (ev_opt env) (w_c ?h)" "pending (w_c ?h)" "\<not> cn_authorized (w_c ?h)"
    using assms conn_inv_cong [OF jviewD [OF j]] pending_cong [OF j] session_viewD [OF jviewD [OF j]] by blast+
  have un: "on_login_request env lr w =
     (if \<not> fst ?s then (False, snd ?s)
      else if \<not> (ev_is_direct_ip_access env (lr_username lr) \<or> lr_username lr = ev_id env)
      then (False, send_login_error env LOGIN_MSG_OFFLINE (snd ?s))
      else login_desktop env lr (try_start_cm_ipc (snd ?s)))"
    using h(3) by (simp add: on_login_request_def Let_def case_prod_beta split: bool.split)
  have s: "conn_inv (ev_opt env) (w_c (snd ?s))" "pending (w_c (snd ?s))" by (rule login_scope_inv [OF h])+
  have "keeps (ev_opt env) (snd ?s) (login_desktop env lr (try_start_cm_ipc (snd ?s)))"
    by (rule keeps_from [OF _ keeps_login_desktop]) simp
  then have k: "conn_inv (ev_opt env) (w_c (snd (login_desktop env lr (try_start_cm_ipc (snd ?s)))))"
    "fst (login_desktop env lr (try_start_cm_ipc (snd ?s))) \<Longrightarrow> pending (w_c (snd (login_desktop env lr (try_start_cm_ipc (snd ?s)))))"
    using s by (simp_all add: keeps_def)
  show "conn_inv (ev_opt env) (w_c (snd (on_login_request env lr w)))" using s k by (simp add: un)
  show "pending (w_c (snd (on_login_request env lr w)))" if "fst (on_login_request env lr w)"
    using that s k by (simp add: un split: if_splits)
qed

lemma on_auth_2fa_keeps: "keeps opt w (on_auth_2fa env code hwid w)"
proof (cases "code_ok env code w")
  case True
  let ?r = "send_logon_response_and_keep_alive env (coded env w)"
  have "jview (w_c (coded env w)) = jview (w_c w)" by (simp add: jview_def session_view_def)
  then have k: "keeps opt w ?r" by (rule keeps_from [OF _ keeps_send])
  from True obtain totp where "cn_require_2fa (w_c w) = Some totp" "ev_totp_check env totp code = Some True" "guard_ok env 1 w"
    by (auto simp: code_ok_def split: option.splits)
  then have "fst (on_auth_2fa env code hwid w) = fst ?r"
    by (simp add: on_auth_2fa_def coded_def Let_def case_prod_beta split: bool.split)
  with k True show ?thesis by (simp add: keeps_def on_auth_2fa_connection)
next
  case False
  then show ?thesis by (intro keeps_jview) (simp add: on_auth_2fa_connection)
qed

lemma on_switch_sides_keeps: "keeps opt w (on_switch_sides_response env uuid lr w)"
proof (cases "ticket_ok env uuid lr w")
  case True
  let ?v = "switched_accepted env lr w"
  let ?r = "send_logon_response_and_keep_alive env ?v"
  have c: "session_view (w_c (snd (on_switch_sides_response env uuid lr w))) = session_view (w_c (snd ?r))"
    using True jviewD [OF try_start_cm_ipc_jview] by (simp add: on_switch_sides_connection Let_def)
  have f: "fst (on_switch_sides_response env uuid lr w) = fst ?r"
    using True unfolding on_switch_sides_response_def ticket_ok_code Let_def switched_accepted_def switched_def
    by (simp add: case_prod_beta del: map_option_eq_Some split: bool.split)
  have v: "session_view (w_c ?v) = session_view (w_c w)"
    using jviewD [OF handle_login_request_jview, of env lr w]
    by (simp add: switched_accepted_def switched_def session_view_def Let_def)
  have "second_factor_ok env ?v" by (simp add: second_factor_switch switched_accepted_def)
  then have "cn_authorized (w_c (snd ?r)) \<or> \<not> fst ?r"
    using send_logon_keeps_pending(2) [of ?v env] by (cases "cn_authorized (w_c ?v)") (auto simp: send_logon_already)
  then have "fst ?r \<Longrightarrow> pending (w_c (snd (on_switch_sides_response env uuid lr w)))"
    using session_viewD [OF c] by (simp add: pending_def)
  moreover have "conn_inv opt (w_c w) \<Longrightarrow> conn_inv opt (w_c (snd (on_switch_sides_response env uuid lr w)))"
    using send_logon_inv [of opt ?v env] conn_inv_cong [OF c] conn_inv_cong [OF v] by blast
  ultimately show ?thesis using f by (simp add: keeps_def)
next
  case False
  then show ?thesis
    by (intro keeps_jview) (simp add: on_switch_sides_connection switched_def Let_def)
qed

lemma on_authorize_keeps: "keeps opt w (on_authorize env w)"
proof -
  let ?v = "w\<lparr>w_c := (w_c w)\<lparr>cn_audit_primary_auth := PaClick, cn_require_2fa := None\<rparr>\<rparr>"
  have "jview (w_c ?v) = jview (w_c w)" by (simp add: jview_def session_view_def)
  then have k: "keeps opt w (send_logon_response_and_keep_alive env ?v)" by (rule keeps_from [OF _ keeps_send])
  then show ?thesis by (auto simp: on_authorize_def keeps_def case_prod_beta split: bool.split)
qed

text \<open>The other handlers, on a connection that is not authorised, change nothing of this.\<close>

lemma dispatch_unauthorized:
  assumes "\<not> cn_authorized (w_c w)" "\<And>lr. msg \<noteq> Some (MLoginRequest lr)" "\<And>code hwid. msg \<noteq> Some (MAuth2fa code hwid)"
    "\<And>uuid lr. msg \<noteq> Some (MSwitchSidesResponse uuid (Some lr))"
  shows "jview (w_c (snd (dispatch_message env msg w))) = jview (w_c w)"
  using assms
  by (auto simp: dispatch_message_def on_test_delay_def jview_def session_view_def Let_def split: option.split Message.split)

lemma dispatch_inv:
  assumes "conn_inv (ev_opt env) (w_c w)" "pending (w_c w)" "\<not> cn_authorized (w_c w)"
  shows "conn_inv (ev_opt env) (w_c (snd (dispatch_message env msg w)))"
    "fst (dispatch_message env msg w) \<Longrightarrow> pending (w_c (snd (dispatch_message env msg w)))"
proof -
  consider lr where "msg = Some (MLoginRequest lr)" | code hwid where "msg = Some (MAuth2fa code hwid)"
    | uuid lr where "msg = Some (MSwitchSidesResponse uuid (Some lr))"
    | "jview (w_c (snd (dispatch_message env msg w))) = jview (w_c w)"
    using dispatch_unauthorized [OF assms(3), of msg env] by blast
  then have "conn_inv (ev_opt env) (w_c (snd (dispatch_message env msg w))) \<and>
      (fst (dispatch_message env msg w) \<longrightarrow> pending (w_c (snd (dispatch_message env msg w))))"
  proof cases
    case 1
    then show ?thesis using on_login_request_inv [OF assms] by (simp add: dispatch_message_def)
  next
    case 2
    then show ?thesis using on_auth_2fa_keeps assms by (simp add: dispatch_message_def keeps_def)
  next
    case 3
    then show ?thesis using on_switch_sides_keeps assms by (simp add: dispatch_message_def keeps_def)
  next
    case 4
    then show ?thesis using keeps_jview [OF 4] assms by (simp add: keeps_def)
  qed
  then show "conn_inv (ev_opt env) (w_c (snd (dispatch_message env msg w)))"
    "fst (dispatch_message env msg w) \<Longrightarrow> pending (w_c (snd (dispatch_message env msg w)))" by blast+
qed

lemma on_auth_2fa_again:
  "cn_authorized (w_c w) \<Longrightarrow> session_view (w_c (snd (on_auth_2fa env code hwid w))) = session_view (w_c w)"
  by (simp add: on_auth_2fa_connection send_logon_already session_view_def)

lemma on_switch_sides_again:
  assumes "cn_authorized (w_c w)"
  shows "session_view (w_c (snd (on_switch_sides_response env uuid lr w))) = session_view (w_c w)"
proof -
  have s: "session_view (w_c (switched env lr w)) = session_view (w_c w)"
    using jviewD [OF handle_login_request_jview] by (simp add: switched_def Let_def)
  then have a: "session_view (w_c (switched_accepted env lr w)) = session_view (w_c w)"
    by (simp add: switched_accepted_def session_view_def)
  then have "cn_authorized (w_c (switched_accepted env lr w))" using session_viewD assms by blast
  then show ?thesis
    using s a jviewD [OF try_start_cm_ipc_jview] by (simp add: on_switch_sides_connection Let_def send_logon_already)
qed

lemma dispatch_again:
  assumes "cn_authorized (w_c w)" "\<not> is_login_request msg"
  shows "session_view (w_c (snd (dispatch_message env msg w))) = session_view (w_c w)"
proof -
  consider lr where "msg = Some (MLoginRequest lr)" | code hwid where "msg = Some (MAuth2fa code hwid)"
    | uuid lr where "msg = Some (MSwitchSidesResponse uuid (Some lr))"
    | "session_view (w_c (snd (dispatch_message env msg w))) = session_view (w_c w)"
    using dispatch_other [of msg env w] by blast
  then show ?thesis
    using assms on_auth_2fa_again [OF assms(1)] on_switch_sides_again [OF assms(1)]
    by cases (simp_all add: dispatch_message_def)
qed

lemma on_message_again:
  assumes "cn_authorized (w_c w)"
  shows "session_view (w_c (snd (on_message env msg w))) = session_view (w_c w)"
  using assms dispatch_again [OF assms, of msg env] by (simp add: on_message_def Let_def split: option.split)

lemma on_message_inv:
  assumes "conn_inv (ev_opt env) (w_c w)" "pending (w_c w)"
  shows "conn_inv (ev_opt env) (w_c (snd (on_message env msg w)))"
    "fst (on_message env msg w) \<Longrightarrow> pending (w_c (snd (on_message env msg w)))"
proof -
  have "conn_inv (ev_opt env) (w_c (snd (on_message env msg w))) \<and>
     (fst (on_message env msg w) \<longrightarrow> pending (w_c (snd (on_message env msg w))))"
  proof (cases "cn_authorized (w_c w)")
    case True
    note v = on_message_again [OF True, of env msg]
    show ?thesis using conn_inv_cong [OF v] session_viewD [OF v] assms True by (simp add: pending_def)
  next
    case False
    show ?thesis
    proof (cases "close_reason msg")
      case True
      then show ?thesis using assms conn_inv_cong [OF session_view_on_close] by (simp add: on_message_def Let_def)
    next
      case c: False
      with False show ?thesis using dispatch_inv [OF assms False, of msg] by (simp add: on_message_def)
    qed
  qed
  then show "conn_inv (ev_opt env) (w_c (snd (on_message env msg w)))"
    "fst (on_message env msg w) \<Longrightarrow> pending (w_c (snd (on_message env msg w)))" by blast+
qed

lemma switch_permission_jview:
  "jview (w_c (switch_permission env name b w)) = jview (w_c w)"
  using switch_permission_view [of env name b w]
  by (simp add: jview_def switch_permission_def switch_keyboard_def switch_clipboard_def switch_audio_def switch_file_def
      switch_privacy_mode_def Let_def split: option.split sum.split)

lemmas switch_permission_simps = switch_permission_jview [unfolded jview_def prod.inject, THEN conjunct2]

lemma on_cm_data_keeps: "keeps opt w (on_cm_data env data w)"
proof (cases "data = CmAuthorize")
  case True
  then show ?thesis by (simp add: on_authorize_keeps)
next
  case False
  have "conn_inv opt (w_c (snd (on_cm_data env data w))) = conn_inv opt (w_c w)"
    by (rule conn_inv_cong) (rule on_cm_data_view [OF False])
  moreover have "fst (on_cm_data env data w) \<Longrightarrow> jview (w_c (snd (on_cm_data env data w))) = jview (w_c w)"
    using on_cm_data_view [OF False, of env w] False
    by (cases data) (auto simp: jview_def switch_permission_simps handle_voice_call_def close_voice_call_def cm_file_defs
        forget_cm_job_def Let_def split: option.split if_splits sum.split)
  ultimately show ?thesis unfolding keeps_def using pending_cong by blast
qed

definition loop_inv :: "options \<Rightarrow> Loop \<Rightarrow> bool" where
  "loop_inv opt l \<longleftrightarrow> conn_inv opt (w_c (lp_w l)) \<and> (lp_running l \<longrightarrow> pending (w_c (lp_w l)))"

lemma select_arm_keeps: "keeps opt w (on_select_arm env arm w)"
proof -
  have "fst (on_select_arm env arm w) \<Longrightarrow> jview (w_c (snd (on_select_arm env arm w))) = jview (w_c w)"
    using select_arm_view [of env arm w]
    by (auto simp: jview_def on_select_arm_def on_file_timer_def on_service_message_def send_or_close_def handle_file_clip_def
        handle_cursor_switch_display_def refresh_video_display_def Let_def case_prod_beta
        split: select_arm.splits service_message.splits option.splits sum.splits if_splits)
  then show ?thesis
    unfolding keeps_def using pending_cong conn_inv_cong [OF select_arm_view] by blast
qed

lemma timers_pending:
  "lp_running (on_test_delay_timer env l) \<Longrightarrow> jview (w_c (lp_w (on_test_delay_timer env l))) = jview (w_c (lp_w l))"
  "lp_running (on_second_timer env l) \<Longrightarrow> jview (w_c (lp_w (on_second_timer env l))) = jview (w_c (lp_w l))"
  by (auto simp: on_test_delay_timer_def on_second_timer_def log_removals_def jview_def session_view_def Let_def case_prod_beta
      split: option.splits if_splits)

lemma loop_inv_step:
  assumes "loop_inv (ev_opt env) l"
  shows "loop_inv (ev_opt env) (loop_step env e l)"
proof (cases "lp_running l")
  case False
  then show ?thesis using assms by (simp add: loop_step_def)
next
  case True
  then have i: "conn_inv (ev_opt env) (w_c (lp_w l))" "pending (w_c (lp_w l))" using assms by (simp_all add: loop_inv_def)
  show ?thesis
  proof (cases e)
    case (CePeer msg)
    have "conn_inv (ev_opt env) (w_c (touch_session (ev_now env) (lp_w l)))" "pending (w_c (touch_session (ev_now env) (lp_w l)))"
      using i by simp_all
    from on_message_inv [OF this, of msg] show ?thesis
      using True CePeer by (simp add: loop_step_def loop_inv_def on_peer_message_def Let_def case_prod_beta)
  next
    case (CeCm data)
    then show ?thesis using True i on_cm_data_keeps [of "ev_opt env" "lp_w l" env data]
      by (simp add: loop_step_def loop_inv_def keeps_def case_prod_beta)
  next
    case CeUnparsable
    then show ?thesis using True i by (simp add: loop_step_def on_unparsable_def loop_inv_def)
  next
    case (CeArm arm)
    then show ?thesis using True i select_arm_keeps [of "ev_opt env" "lp_w l" env arm]
      by (simp add: loop_step_def loop_inv_def keeps_def case_prod_beta)
  next
    case CeTestDelayTimer
    have "lp_running (on_test_delay_timer env l) \<Longrightarrow> pending (w_c (lp_w (on_test_delay_timer env l)))"
      using i(2) pending_cong [OF timers_pending(1)] by blast
    with CeTestDelayTimer show ?thesis
      using True i conn_inv_cong [OF timers_view(1)] by (simp add: loop_step_def loop_inv_def)
  next
    case CeSecondTimer
    have "lp_running (on_second_timer env l) \<Longrightarrow> pending (w_c (lp_w (on_second_timer env l)))"
      using i(2) pending_cong [OF timers_pending(2)] by blast
    with CeSecondTimer show ?thesis
      using True i conn_inv_cong [OF timers_view(2)] by (simp add: loop_step_def loop_inv_def)
  qed
qed

lemma on_open_simps: "session_view (w_c (snd (on_open env ip w))) = session_view (w_c w)"
    "cn_session_last_recv_time (w_c (snd (on_open env ip w))) = cn_session_last_recv_time (w_c w)"
    "cn_port_forward_socket (w_c (snd (on_open env ip w))) = cn_port_forward_socket (w_c w)"
    "cn_from_switch (w_c (snd (on_open env ip w))) = cn_from_switch (w_c w)"
  by (simp_all add: on_open_def check_whitelist_def session_view_def Let_def)

lemma start_connection:
  "session_view (w_c (lp_w (start env ip c g))) = session_view c"
  "jview (w_c (lp_w (start env ip c g))) = jview c"
  using on_open_simps [of env ip "\<lparr>w_c = c, w_g = g, w_out = []\<rparr>"]
  by (auto simp: start_def send_permissions_def jview_def session_view_def Let_def case_prod_beta split: bool.split)

lemma loop_inv_start: "loop_inv opt (start env ip (Connection_new env' i hash totp cps ha hl) g)"
proof -
  let ?c = "Connection_new env' i hash totp cps ha hl"
  have "conn_inv opt ?c" "pending ?c"
    by (simp_all add: Connection_new_def conn_inv_def pending_def Let_def)
  then show ?thesis
    unfolding loop_inv_def using conn_inv_cong [OF start_connection(1)] pending_cong [OF start_connection(2)] by blast
qed

lemma conn_run_inv:
  assumes "conn_run (\<lambda>env. ev_opt env = opt) l0 h l"
  shows "loop_inv opt l"
  using assms
proof (induction rule: conn_run.induct)
  case (run_start env ip i hash totp cps ha hl g)
  show ?case by (rule loop_inv_start)
next
  case (run_step l0 h l env e)
  then show ?case using loop_inv_step [of env l e] by simp
next
  case (run_others l0 h l g)
  then show ?case by (simp add: loop_inv_def)
qed

lemma on_authorize_again: "cn_authorized (w_c w) \<Longrightarrow> session_view (w_c (snd (on_authorize env w))) = session_view (w_c w)"
  by (simp add: on_authorize_def send_logon_already session_view_def)

lemma on_cm_data_again:
  "cn_authorized (w_c w) \<Longrightarrow> session_view (w_c (snd (on_cm_data env data w))) = session_view (w_c w)"
  using on_cm_data_view [of data env w] on_authorize_again [of w env] by (cases "data = CmAuthorize") simp_all

lemma loop_step_again:
  assumes "cn_authorized (w_c (lp_w l))"
  shows "session_view (w_c (lp_w (loop_step env e l))) = session_view (w_c (lp_w l))"
  using assms on_message_again [of "touch_session (ev_now env) (lp_w l)" env] on_cm_data_again [of "lp_w l" env]
  by (simp add: loop_step_def on_peer_message_def on_unparsable_def Let_def case_prod_beta split: conn_event.split)

section \<open>The login theorems\<close>

text \<open>C2: a connection is authorised exactly when some step of its history authorised it, and a step does so only for
  one of four reasons: a login request whose scope is permitted and whose answer to the challenge is the one for an
  accepted password (the temporary or the permanent one, or the one remembered by a session of the last thirty
  seconds), with the second factor satisfied by a trusted device or a recent session where one is required; a right
  two-factor code; a switch-sides ticket issued to that peer in the last ten seconds; or the user's click.\<close>

theorem login_authorization:
  assumes "conn_run (\<lambda>env. ev_opt env = opt) l0 h l"
  shows "cn_authorized (w_c (lp_w l)) \<longleftrightarrow>
           (\<exists>(env, e, l1) \<in> set h. \<not> cn_authorized (w_c (lp_w l1)) \<and> authorizing env e (lp_w l1))"
  using assms
proof (induction rule: conn_run.induct)
  case (run_start env ip i hash totp cps ha hl g)
  show ?case using session_viewD [OF start_connection(1), of env ip "Connection_new env i hash totp cps ha hl" g]
    by (simp add: Connection_new_def Let_def)
next
  case (run_step l0 h l env e)
  show ?case
  proof (cases "cn_authorized (w_c (lp_w l))")
    case True
    then show ?thesis using run_step session_viewD [OF loop_step_again [OF True]] by auto
  next
    case False
    have "loop_inv opt l" by (rule conn_run_inv) fact
    then have "cn_session_last_recv_time (w_c (lp_w l)) = None" using False run_step.hyps by (simp add: loop_inv_def pending_def)
    from loop_step_authorized [OF False this] show ?thesis using run_step False by auto
  qed
next
  case (run_others l0 h l g)
  then show ?case by simp
qed


lemma step_auth_2fa:
  assumes "lp_running l" "\<not> cn_authorized (w_c (lp_w l))" "pending (w_c (lp_w l))"
  shows "w_c (lp_w (loop_step env (CePeer (Some (MAuth2fa code hwid))) l)) = w_c (snd (on_auth_2fa env code hwid (lp_w l)))"
  using assms
  by (simp add: loop_step_def on_peer_message_def on_message_def dispatch_message_def Let_def case_prod_beta pending_def
      touch_session_unused)

lemma send_logon_type:
  assumes "\<not> cn_authorized (w_c w)" "second_factor_ok env w" "terminal_ready env (w_c w)" "tunnel_ready env (w_c w)"
  shows "cn_authed_conn_id (w_c (snd (send_logon_response_and_keep_alive env w))) =
           Some (snd (session_conn_type (w_c (logon_prepared env w))))"
  using assms by (simp add: send_logon_unfold)

lemma connect_socket:
  "cn_port_forward_socket (w_c (snd (connect_port_forward_if_needed env w))) =
     (case cn_port_forward_socket (w_c w) of
        Some s \<Rightarrow> Some s
      | None \<Rightarrow>
          (case lr_union (cn_lr (w_c w)) of
             Some (LuPortForward host port) \<Rightarrow>
               if ev_connect env (fst (normalize_port_forward_target host port))
               then Some (fst (normalize_port_forward_target host port)) else None
           | _ \<Rightarrow> None))"
proof (cases "cn_port_forward_socket (w_c w)")
  case None
  then show ?thesis
    by (cases "lr_union (cn_lr (w_c w))")
      (simp_all add: connect_port_forward_if_needed_def Let_def case_prod_beta split: LoginUnion.split)
qed (simp add: connect_port_forward_if_needed_def)

lemma connect_socket_cong:
  assumes "cn_port_forward_socket (w_c w') = cn_port_forward_socket (w_c w)" "cn_lr (w_c w') = cn_lr (w_c w)"
  shows "cn_port_forward_socket (w_c (snd (connect_port_forward_if_needed env w'))) =
     cn_port_forward_socket (w_c (snd (connect_port_forward_if_needed env w)))"
  unfolding connect_socket assms ..

lemma logon_prepared_socket:
  "cn_port_forward_socket (w_c (logon_prepared env w)) =
     cn_port_forward_socket (w_c (snd (connect_port_forward_if_needed env w)))"
  unfolding logon_prepared_def by (rule connect_socket_cong) simp_all

lemma Connection_new_simps [simp]:
  fixes env i hash totp cps ha hl
  defines "c \<equiv> Connection_new env i hash totp cps ha hl"
  shows "cn_require_2fa c = totp" "\<not> cn_authorized c" "\<not> cn_terminal c" "\<not> cn_view_camera c" "cn_file_transfer c = None"
    "cn_port_forward_socket c = None" "lr_union (cn_lr c) = None" "cn_session_last_recv_time c = None"
    "\<not> cn_terminal_user_token c" "\<not> cn_from_switch c" "cn_hash c = hash" "cn_control_permissions c = cps"
    "cn_headless_allowed c = ha" "cn_headless c = hl" "cn_id c = i"
  by (simp_all add: c_def Connection_new_def LoginRequest_default_def Let_def)

lemma check_whitelist_simps [simp]:
  "w_c (snd (check_whitelist env ip w)) = w_c w" "w_g (snd (check_whitelist env ip w)) = w_g w"
  by (simp_all add: check_whitelist_def Let_def)

lemma on_open_running:
  assumes "on_open env ip w = (True, v)"
  shows "w_c v = (w_c w)\<lparr>cn_ip := ip\<rparr>" "w_g v = w_g w"
proof -
  obtain b w1 where c: "check_whitelist env ip w = (b, w1)" by (cases "check_whitelist env ip w")
  then have w1: "w_c w1 = w_c w" "w_g w1 = w_g w" using check_whitelist_simps [of env ip w] by simp_all
  have "v = emit [ToPeer (EvHash (cn_hash (w_c w1))), Audit (EvConnAuditNew ip)] (w1\<lparr>w_c := (w_c w1)\<lparr>cn_ip := ip\<rparr>\<rparr>)"
    using assms c by (cases b) (simp_all add: on_open_def split: if_split_asm)
  then show "w_c v = (w_c w)\<lparr>cn_ip := ip\<rparr>" "w_g v = w_g w" using w1 by simp_all
qed

lemma start_running:
  assumes "lp_running (start env ip c g)"
  shows "w_c (lp_w (start env ip c g)) = c\<lparr>cn_ip := ip\<rparr>" "w_g (lp_w (start env ip c g)) = g"
proof -
  obtain b v where o: "on_open env ip \<lparr>w_c = c, w_g = g, w_out = []\<rparr> = (b, v)"
    by (cases "on_open env ip \<lparr>w_c = c, w_g = g, w_out = []\<rparr>")
  then have b: b using assms by (cases b) (simp_all add: start_def)
  then have "start env ip c g = \<lparr>lp_w = send_permissions v, lp_last_recv_time = ev_now env, lp_running = True\<rparr>"
    using o by (simp add: start_def)
  then show "w_c (lp_w (start env ip c g)) = c\<lparr>cn_ip := ip\<rparr>" "w_g (lp_w (start env ip c g)) = g"
    using on_open_running [of env ip "\<lparr>w_c = c, w_g = g, w_out = []\<rparr>" v] o b
    by (simp_all add: send_permissions_def Let_def)
qed

text \<open>C33: where two-factor login is enabled, the code alone opens a remote-control session: a peer that sends no login
  request, and hence no password, is authorised by a right code, although the code is meant as a second factor.\<close>

theorem totp_alone_authorises:
  assumes "lp_running (start env ip (Connection_new env i hash (Some totp) cps ha hl) g)"
    and "ev_totp_check env' totp code = Some True"
    and "snd (fst (check_failure ip 1 (ev_now_ms env') (gl_guard g)))"
  shows "cn_authed_conn_id (w_c (lp_w (loop_step env' (CePeer (Some (MAuth2fa code hwid)))
           (start env ip (Connection_new env i hash (Some totp) cps ha hl) g)))) = Some Remote"
proof -
  let ?c = "Connection_new env i hash (Some totp) cps ha hl"
  let ?l = "start env ip ?c g"
  note w = start_running [OF assms(1)]
  have c: "cn_require_2fa (w_c (lp_w ?l)) = Some totp" "\<not> cn_authorized (w_c (lp_w ?l))" "cn_ip (w_c (lp_w ?l)) = ip"
    "pending (w_c (lp_w ?l))" "\<not> cn_terminal (w_c (lp_w ?l))" "\<not> cn_view_camera (w_c (lp_w ?l))"
    "cn_file_transfer (w_c (lp_w ?l)) = None" "cn_port_forward_socket (w_c (lp_w ?l)) = None"
    "lr_union (cn_lr (w_c (lp_w ?l))) = None"
    by (simp_all add: w pending_def)
  have ok: "code_ok env' code (lp_w ?l)" using assms(2,3) c w by (simp add: code_ok_def guard_ok_def)
  let ?v = "coded env' (lp_w ?l)"
  have "cn_authed_conn_id (w_c (snd (send_logon_response_and_keep_alive env' ?v))) =
      Some (snd (session_conn_type (w_c (logon_prepared env' ?v))))"
    using c by (intro send_logon_type) (simp_all add: second_factor_none terminal_ready_def tunnel_ready_def)
  moreover have "snd (session_conn_type (w_c (logon_prepared env' ?v))) = Remote"
    using c by (simp add: session_conn_type_def logon_prepared_socket connect_socket)
  ultimately show ?thesis
    using step_auth_2fa [OF assms(1) c(2,4)] ok by (simp add: on_auth_2fa_connection)
qed

text \<open>C34: the permission to open tunnels can be evaded: on a connection that waits for the user's click, a switch-sides
  response replaces the login request even if its ticket is wrong, and its scope is not checked; if that request asks for
  a tunnel, the click opens the tunnel, whatever the permissions are.\<close>

theorem tunnel_without_permission:
  assumes "conn_run (\<lambda>env. ev_opt env = opt) l0 h l" "lp_running l" "\<not> cn_authorized (w_c (lp_w l))"
    and "cn_file_transfer (w_c (lp_w l)) = None" "\<not> cn_terminal (w_c (lp_w l))"
    and "\<not> ticket_ok env uuid lr (lp_w l)" "lr_union lr = Some (LuPortForward host port)"
    and "ev_connect env (fst (normalize_port_forward_target host port))"
  shows "cn_authed_conn_id (w_c (lp_w (loop_step env (CeCm CmAuthorize)
           (loop_step env (CePeer (Some (MSwitchSidesResponse uuid (Some lr)))) l)))) = Some PortForward"
proof -
  have p: "pending (w_c (lp_w l))" using conn_run_inv [OF assms(1)] assms(2) by (simp add: loop_inv_def)
  let ?s = "switched env lr (lp_w l)"
  let ?l = "loop_step env (CePeer (Some (MSwitchSidesResponse uuid (Some lr)))) l"
  have r: "on_switch_sides_response env uuid lr (lp_w l) = (True, ?s)"
    using assms(6) unfolding on_switch_sides_response_def ticket_ok_code Let_def switched_def by auto
  have s: "w_c ?s = w_c (handle_login_request_without_validation env lr (lp_w l))" by (simp add: switched_def Let_def)
  have l: "lp_w ?l = ?s" "lp_running ?l"
    using assms(2,3) p r
    by (simp_all add: loop_step_def on_peer_message_def on_message_def dispatch_message_def Let_def pending_def
        touch_session_unused s handle_login_request_simps)
  let ?v = "?s\<lparr>w_c := (w_c ?s)\<lparr>cn_audit_primary_auth := PaClick, cn_require_2fa := None\<rparr>\<rparr>"
  have f: "cn_port_forward_socket (w_c ?v) = None" "lr_union (cn_lr (w_c ?v)) = Some (LuPortForward host port)"
    "\<not> cn_authorized (w_c ?v)" "\<not> cn_terminal (w_c ?v)" "cn_file_transfer (w_c ?v) = None"
    using assms(3-5,7) p by (simp_all add: s handle_login_request_simps pending_def)
  have "cn_authed_conn_id (w_c (snd (send_logon_response_and_keep_alive env ?v))) =
      Some (snd (session_conn_type (w_c (logon_prepared env ?v))))"
    using f assms(8) by (intro send_logon_type) (simp_all add: second_factor_none terminal_ready_def tunnel_ready_def)
  moreover have "snd (session_conn_type (w_c (logon_prepared env ?v))) = PortForward"
    using f assms(8) by (simp add: session_conn_type_def logon_prepared_socket connect_socket)
  ultimately show ?thesis
    using l by (simp add: loop_step_def on_authorize_def case_prod_beta split: bool.split)
qed

section \<open>A concrete connection\<close>

text \<open>A peer at 1.2.3.4 that connects to a machine with default options and two-factor login enabled.\<close>

definition demo_env :: Env where
  "demo_env =
     \<lparr>ev_deps = demo_pw_deps, ev_pwenv = demo_pw_env, ev_opt = (\<lambda>_. []), ev_builtin = (\<lambda>_. []), ev_hard = Map.empty,
      ev_id = ''42'', ev_now = 0, ev_now_ms = 0, ev_rng = (\<lambda>_. 0), ev_nonces = (replicate 24 7, replicate 24 8),
      ev_totp_check = (\<lambda>_ code. Some (code = ''123456'')), ev_connect = (\<lambda>_. True), ev_is_direct_ip_access = (\<lambda>_. False),
      ev_in_privacy_mode = False, ev_is_logon = False, ev_desktop_username = [], ev_try_start_desktop = (\<lambda>_ _. []),
      ev_display_server_error = [], ev_displays_error = None, ev_service_specified_user = (\<lambda>_. None),
      ev_new_service_id = [], ev_is_dir = (\<lambda>_. True), ev_telegram_bot = False, ev_is_prelogin = False,
      ev_whiteboard_supported = True, ev_modifier_key = (\<lambda>_. None), ev_fs = demo_fs,
      ev_need_fs_cm_send_files = False, ev_serve_clip_messages = (\<lambda>_. []), ev_services = [], ev_primary_display = 0,
      ev_subbed_displays = 0, ev_try_get_displays = Inr [], ev_sync_displays = [], ev_display_changed_msg = (\<lambda>_ _. None),
      ev_default_sound_input = None, ev_terminal_response = (\<lambda>_. Inr None), ev_is_privacy_mode_supported = False,
      ev_privacy_mode_conn = None, ev_cur_impl_key = None, ev_is_current_privacy_mode_impl = (\<lambda>_. False),
      ev_turn_on_privacy = (\<lambda>_. None), ev_check_privacy_mode_err = (\<lambda>_. []), ev_in_privacy_mode_after = False,
      ev_turn_off_privacy = (\<lambda>_. None), ev_cidr_contains = (\<lambda>_ _. False), ev_main_window_open = True, ev_is_server = True,
      ev_wakelock_keep_awake = None, ev_bitrate = 0\<rparr>"

definition demo_globals :: Globals where
  "demo_globals =
     \<lparr>gl_guard = Guard_default, gl_sessions = Map.empty, gl_cells = (\<lambda>_. 0), gl_next_cell = 0,
      gl_temp = \<lparr>tp_password = ''abcdef'', tp_state_password = ''abcdef'', tp_failures = 0\<rparr>, gl_store = demo_pw_store, gl_switch_sides = Map.empty,
      gl_pending_switch_sides = Map.empty, gl_authed_conns = [], gl_click_time = 0, gl_mouse_move_time = 0\<rparr>"

definition demo_start :: Loop where
  "demo_start = start demo_env ''1.2.3.4''
     (Connection_new demo_env 1 \<lparr>hs_salt = ''salt'', hs_challenge = ''abc''\<rparr> (Some ''totp'') None False False) demo_globals"

lemma demo_running: "lp_running demo_start"
  by (simp add: demo_start_def start_def on_open_def check_whitelist_def demo_env_def Let_def)

lemmas demo_connection = start_running [OF demo_running [unfolded demo_start_def], folded demo_start_def]

lemma demo_simps [simp]:
  "\<not> cn_authorized (w_c (lp_w demo_start))" "\<not> cn_terminal (w_c (lp_w demo_start))"
  "\<not> cn_view_camera (w_c (lp_w demo_start))" "cn_file_transfer (w_c (lp_w demo_start)) = None"
  "cn_port_forward_socket (w_c (lp_w demo_start)) = None" "lr_union (cn_lr (w_c (lp_w demo_start))) = None"
  "cn_require_2fa (w_c (lp_w demo_start)) = Some ''totp''" "cn_ip (w_c (lp_w demo_start)) = ''1.2.3.4''"
  "w_g (lp_w demo_start) = demo_globals" "lp_running demo_start"
  using demo_running by (simp_all add: demo_connection)

lemma demo_run: "conn_run (\<lambda>env. ev_opt env = (\<lambda>_. [])) demo_start [] demo_start"
  unfolding demo_start_def by (rule run_start) (simp add: demo_env_def)

lemma demo_run_step: "conn_run (\<lambda>env. ev_opt env = (\<lambda>_. [])) demo_start [(demo_env, e, demo_start)] (loop_step demo_env e demo_start)"
  using run_step [OF demo_run, of demo_env e] by (simp add: demo_env_def)

lemma demo_guard: "snd (fst (check_failure ''1.2.3.4'' 1 0 Guard_default))"
proof -
  have p: "get_ipv6_prefixes ''1.2.3.4'' = None" by code_simp
  show ?thesis
    by (simp add: Guard_default_def check_failure_def check_failure_with_scope_def p entry_or_zero_def minute_of_def wrap_i32_def)
qed

lemma click_opens:
  assumes "lp_running l" "\<not> cn_authorized (w_c (lp_w l))" "\<not> cn_terminal (w_c (lp_w l))" "cn_port_forward_socket (w_c (lp_w l)) = None"
    and "lr_union (cn_lr (w_c (lp_w l))) = None"
  shows "cn_authed_conn_id (w_c (lp_w (loop_step env (CeCm CmAuthorize) l))) =
           Some (if cn_file_transfer (w_c (lp_w l)) \<noteq> None then FileTransfer
                 else if cn_view_camera (w_c (lp_w l)) then ViewCamera else Remote)"
proof -
  let ?v = "(lp_w l)\<lparr>w_c := (w_c (lp_w l))\<lparr>cn_audit_primary_auth := PaClick, cn_require_2fa := None\<rparr>\<rparr>"
  have "cn_authed_conn_id (w_c (snd (send_logon_response_and_keep_alive env ?v))) =
      Some (snd (session_conn_type (w_c (logon_prepared env ?v))))"
    using assms by (intro send_logon_type) (simp_all add: second_factor_none terminal_ready_def tunnel_ready_def)
  moreover have "snd (session_conn_type (w_c (logon_prepared env ?v))) =
      (if cn_file_transfer (w_c (lp_w l)) \<noteq> None then FileTransfer else if cn_view_camera (w_c (lp_w l)) then ViewCamera else Remote)"
    using assms by (simp add: session_conn_type_def logon_prepared_socket connect_socket del: not_None_eq)
  ultimately show ?thesis
    using assms(1) by (simp add: loop_step_def on_authorize_def case_prod_beta del: not_None_eq split: bool.split)
qed

theorem login_authorization_witness:
  "let l = loop_step demo_env (CePeer (Some (MAuth2fa ''123456'' []))) demo_start in
   conn_run (\<lambda>env. ev_opt env = (\<lambda>_. [])) demo_start [(demo_env, CePeer (Some (MAuth2fa ''123456'' [])), demo_start)] l
   \<and> cn_authorized (w_c (lp_w l))"
proof -
  have "authorizing demo_env (CePeer (Some (MAuth2fa ''123456'' []))) (lp_w demo_start)"
    using demo_guard
    by (simp add: code_ok_def guard_ok_def terminal_ready_def tunnel_ready_def demo_globals_def) (simp add: demo_env_def)
  then show ?thesis
    using login_authorization [OF demo_run_step [of "CePeer (Some (MAuth2fa ''123456'' []))"]] demo_run_step by (simp add: Let_def)
qed


theorem totp_alone_authorises_witness:
  "cn_authed_conn_id (w_c (lp_w (loop_step demo_env (CePeer (Some (MAuth2fa ''123456'' []))) demo_start))) = Some Remote"
proof -
  have "ev_totp_check demo_env ''totp'' ''123456'' = Some True" by (simp add: demo_env_def)
  moreover have "snd (fst (check_failure ''1.2.3.4'' 1 (ev_now_ms demo_env) (gl_guard demo_globals)))"
    using demo_guard by (simp add: demo_env_def demo_globals_def)
  ultimately show ?thesis
    unfolding demo_start_def by (rule totp_alone_authorises [OF demo_running [unfolded demo_start_def]])
qed

theorem tunnel_without_permission_witness:
  "cn_authed_conn_id (w_c (lp_w (loop_step demo_env (CeCm CmAuthorize)
     (loop_step demo_env (CePeer (Some (MSwitchSidesResponse [] (Some (LoginRequest_default\<lparr>lr_union := Some (LuPortForward ''db'' 5432)\<rparr>)))))
       demo_start)))) = Some PortForward"
proof -
  have "\<not> ticket_ok demo_env [] (LoginRequest_default\<lparr>lr_union := Some (LuPortForward ''db'' 5432)\<rparr>) (lp_w demo_start)"
    by (simp add: ticket_ok_def demo_globals_def)
  moreover have "ev_connect demo_env (fst (normalize_port_forward_target ''db'' 5432))" by (simp add: demo_env_def)
  ultimately show ?thesis by (intro tunnel_without_permission [OF demo_run]) simp_all
qed

end
