(* ===== verification/Session_Control.thy ===== *)
theory Session_Control
  imports Session
begin

text \<open>
  What a peer can do to the machine: every action a message of an authorised session triggers (\<open>Control\<close> events and
  file commands) is one its kind of session and its permissions allow.  \<open>control_ok\<close> and \<open>fs_ok\<close> are the policy; the
  theorem covers all handlers of \<open>on_message\<close> in \<open>src/src/server/connection.rs\<close>.
\<close>

section \<open>The policy\<close>

fun control_ok :: "Connection \<Rightarrow> control_event \<Rightarrow> bool" where
  "control_ok c (EvInputMouse _ simulate show) \<longleftrightarrow>
     is_authed_remote_conn c \<and> (simulate \<longrightarrow> peer_keyboard_enabled c) \<and> (\<not> simulate \<longrightarrow> cn_show_my_cursor c)"
| "control_ok c (EvInputPointer _) \<longleftrightarrow> is_authed_remote_conn c \<and> peer_keyboard_enabled c"
| "control_ok c (EvInputKey _ _) \<longleftrightarrow> is_authed_remote_conn c \<and> peer_keyboard_enabled c"
| "control_ok c (EvBlockInput _) \<longleftrightarrow> is_authed_remote_conn c \<and> cn_keyboard c \<and> cn_block_input c"
| "control_ok c (EvUpdateClipboard _) \<longleftrightarrow> is_authed_remote_conn c \<and> clipboard_enabled c"
| "control_ok c (EvClipboardFile _) \<longleftrightarrow> is_authed_remote_conn c"
| "control_ok c EvEmptyFileClipboard \<longleftrightarrow> is_authed_remote_conn c"
| "control_ok c (EvReadTree _ _) \<longleftrightarrow> cn_authed_conn_id c = Some FileTransfer"
| "control_ok c (EvInitTerminal _ _) \<longleftrightarrow> False"
| "control_ok c (EvTerminalPersistence _ _) \<longleftrightarrow> cn_authed_conn_id c \<in> {Some Remote, Some Terminal}"
| "control_ok c (EvTerminalAction _ _ _) \<longleftrightarrow> cn_authed_conn_id c = Some Terminal"
| "control_ok c (EvTurnOnPrivacy _) \<longleftrightarrow> is_authed_remote_conn c \<and> cn_privacy_mode c"
| "control_ok c (EvTurnOffPrivacy _) \<longleftrightarrow> is_authed_remote_conn c"
| "control_ok c (EvRecordResolution _ _ _ _ _) \<longleftrightarrow> is_authed_remote_conn c \<and> cn_keyboard c"
| "control_ok c (EvChangeResolution _ _ _) \<longleftrightarrow> is_authed_remote_conn c \<and> cn_keyboard c"
| "control_ok c (EvWhiteboard _) \<longleftrightarrow> is_authed_remote_conn c"
| "control_ok c EvRestoreDesktop \<longleftrightarrow> False"
| "control_ok c EvLockScreen \<longleftrightarrow> cn_lock_after_session_end c \<and> cn_keyboard c"
| "control_ok c EvForceReboot \<longleftrightarrow> is_authed_remote_conn c \<and> cn_restart c"
| "control_ok c EvReboot \<longleftrightarrow> is_authed_remote_conn c \<and> cn_restart c"
| "control_ok c (EvConnectBack _ _) \<longleftrightarrow> is_authed_remote_conn c"

fun fs_ok :: "Connection \<Rightarrow> Fs \<Rightarrow> bool" where
  "fs_ok c (FsWriteBlock _ _ _ _) \<longleftrightarrow> cn_authed_conn_id c \<in> {Some Remote, Some FileTransfer}"
| "fs_ok c (FsWriteDone _ _) \<longleftrightarrow> cn_authed_conn_id c \<in> {Some Remote, Some FileTransfer}"
| "fs_ok c (FsWriteError _ _ _) \<longleftrightarrow> cn_authed_conn_id c \<in> {Some Remote, Some FileTransfer}"
| "fs_ok c (FsCheckDigest _ _ _ _ _ _) \<longleftrightarrow> cn_authed_conn_id c \<in> {Some Remote, Some FileTransfer}"
| "fs_ok c _ \<longleftrightarrow> cn_authed_conn_id c = Some FileTransfer"

fun event_ok :: "Connection \<Rightarrow> event \<Rightarrow> bool" where
  "event_ok c (Control e) \<longleftrightarrow> control_ok c e"
| "event_ok c (ToCm (EvFs f)) \<longleftrightarrow> fs_ok c f"
| "event_ok c Aborted \<longleftrightarrow> cn_authed_conn_id c = Some FileTransfer"
| "event_ok c _ \<longleftrightarrow> True"

text \<open>\<open>w'\<close> follows \<open>w\<close> with events that connection \<open>c\<close> may cause.\<close>

definition adds_ok :: "Connection \<Rightarrow> World \<Rightarrow> World \<Rightarrow> bool" where
  "adds_ok c w w' \<longleftrightarrow> (\<exists>es. w_out w' = w_out w @ es \<and> list_all (event_ok c) es)"

lemma adds_ok_refl: "w_out w' = w_out w \<Longrightarrow> adds_ok c w w'"
  by (simp add: adds_ok_def)

lemma adds_ok_trans: "adds_ok c w w1 \<Longrightarrow> adds_ok c w1 w2 \<Longrightarrow> adds_ok c w w2"
  by (auto simp: adds_ok_def)

lemma adds_ok_emit: "adds_ok c w w1 \<Longrightarrow> list_all (event_ok c) es \<Longrightarrow> adds_ok c w (emit es w1)"
  by (auto simp: adds_ok_def)

lemma adds_ok_out: "w_out w2 = w_out w1 \<Longrightarrow> adds_ok c w w2 = adds_ok c w w1"
  by (simp add: adds_ok_def)

section \<open>Options\<close>

text \<open>The world \<open>v\<close> was reached from \<open>w\<close> with allowed events and the connection still has the rights of \<open>c\<close>.\<close>

definition ok_from :: "Connection \<Rightarrow> World \<Rightarrow> World \<Rightarrow> bool" where
  "ok_from c w v \<longleftrightarrow> adds_ok c w v \<and> login_view (w_c v) = login_view c"

lemma ok_from_emit: "ok_from c w v \<Longrightarrow> list_all (event_ok c) es \<Longrightarrow> ok_from c w (emit es v)"
  by (simp add: ok_from_def adds_ok_emit)

lemma ok_from_subscribe: "ok_from c w v \<Longrightarrow> ok_from c w (subscribe name b v)"
  by (simp add: subscribe_def ok_from_emit)

lemma ok_from_set: "ok_from c w v \<Longrightarrow> login_view d = login_view c \<Longrightarrow> ok_from c w (v\<lparr>w_c := d\<rparr>)"
  by (simp add: ok_from_def adds_ok_def)

lemma ok_from_view: "ok_from c w v \<Longrightarrow> login_view (w_c v) = login_view c"
  by (simp add: ok_from_def)

lemma ok_with_option:
  "ok_from c w v \<Longrightarrow> (\<And>yes v. ok_from c w v \<Longrightarrow> ok_from c w (f yes v)) \<Longrightarrow> ok_from c w (with_option x f v)"
  by (simp add: with_option_def split: option.split BoolOption.split)

lemma login_view_options [simp]:
  "login_view (c\<lparr>cn_show_remote_cursor := b\<rparr>) = login_view c" "login_view (c\<lparr>cn_disable_audio := b\<rparr>) = login_view c"
  "login_view (c\<lparr>cn_disable_clipboard := b\<rparr>) = login_view c" "login_view (c\<lparr>cn_disable_keyboard := b\<rparr>) = login_view c"
  "login_view (c\<lparr>cn_enable_file_transfer := b\<rparr>) = login_view c" "login_view (c\<lparr>cn_terminal_persistent := b\<rparr>) = login_view c"
  "login_view (c\<lparr>cn_show_my_cursor := b\<rparr>) = login_view c"
  by (simp_all add: login_view_def)

lemma ok_quiet_options:
  assumes "ok_from c w v"
  shows "ok_from c w (option_image_quality option v)" "ok_from c w (option_custom_fps option v)"
    "ok_from c w (option_supported_decoding option v)" "ok_from c w (option_show_remote_cursor yes v)"
    "ok_from c w (option_disable_audio yes v)" "ok_from c w (option_disable_clipboard env yes v)"
    "ok_from c w (option_disable_keyboard env yes v)"
    "ok_from c w (v\<lparr>w_c := (w_c v)\<lparr>cn_lock_after_session_end := yes\<rparr>\<rparr>)"
    "ok_from c w (v\<lparr>w_c := (w_c v)\<lparr>cn_follow_remote_cursor := yes\<rparr>\<rparr>)"
    "ok_from c w (subscribe name b (v\<lparr>w_c := (w_c v)\<lparr>cn_follow_remote_window := yes\<rparr>\<rparr>))"
  using assms ok_from_view [OF assms]
  by (auto simp: option_image_quality_def option_custom_fps_def option_supported_decoding_def option_show_remote_cursor_def
      option_disable_audio_def option_disable_clipboard_def option_disable_keyboard_def Let_def
      intro!: ok_from_emit ok_from_subscribe ok_from_set split: option.split)

lemma ok_terminal_persistence:
  assumes "ok_from c w v" "cn_authed_conn_id c \<in> {Some Remote, Some Terminal}"
  shows "ok_from c w (update_terminal_persistence yes v)"
  using assms ok_from_view [OF assms(1)]
  by (auto simp: update_terminal_persistence_def intro!: ok_from_emit ok_from_set)

lemma block_input_view: "login_view c = login_view c' \<Longrightarrow> cn_block_input c = cn_block_input c'"
  by (simp add: login_view_def)

lemma ok_remote_options:
  assumes "ok_from c w v" "is_authed_remote_conn c"
  shows "ok_from c w (option_enable_file_transfer env yes v)" "ok_from c w (option_block_input yes v)"
    "ok_from c w (option_show_my_cursor env yes v)"
  using assms ok_from_view [OF assms(1)] login_viewD(2,13,14) [OF ok_from_view [OF assms(1)]]
    block_input_view [OF ok_from_view [OF assms(1)]]
  by (auto simp: option_enable_file_transfer_def option_block_input_def option_show_my_cursor_def
      Let_def is_authed_remote_conn_def intro!: ok_from_emit ok_from_subscribe ok_from_set)

lemma ok_turn_on:
  assumes "ok_from c w v" "is_authed_remote_conn c" "cn_privacy_mode c"
  shows "ok_from c w (snd (turn_on_privacy_supported env k v))"
  using assms unfolding turn_on_privacy_supported_def Let_def turn_off_privacy_to_msg_def
  by (auto simp: is_authed_remote_conn_def intro!: ok_from_emit split: option.split sum.split bool.split)

lemma ok_privacy:
  assumes "ok_from c w v" "is_authed_remote_conn c"
  shows "ok_from c w (turn_on_privacy env k v)" "ok_from c w (turn_off_privacy env k v)"
proof -
  have "cn_privacy_mode (w_c v) = cn_privacy_mode c" using login_viewD(13) [OF ok_from_view [OF assms(1)]] .
  then show "ok_from c w (turn_on_privacy env k v)"
    using assms ok_turn_on [OF assms(1,2), of env k]
    by (auto simp: turn_on_privacy_def case_prod_beta intro!: ok_from_emit)
  show "ok_from c w (turn_off_privacy env k v)"
    using assms by (auto simp: turn_off_privacy_def turn_off_privacy_to_msg_def intro!: ok_from_emit)
qed

lemma ok_privacy_option:
  assumes "ok_from c w v" "is_authed_remote_conn c"
  shows "ok_from c w (option_privacy_mode env option v)"
  using assms by (auto simp: option_privacy_mode_def intro!: ok_with_option ok_privacy)

lemma remote_options_ok:
  assumes "is_authed_remote_conn (w_c w)"
  shows "adds_ok (w_c w) w (update_options env option w)"
proof -
  have "ok_from (w_c w) w w" by (simp add: ok_from_def adds_ok_refl)
  moreover have "cn_authed_conn_id (w_c w) \<in> {Some Remote, Some Terminal}" using assms by (simp add: is_authed_remote_conn_def)
  ultimately have "ok_from (w_c w) w (update_options env option w)"
    unfolding update_options_def Let_def
    by (intro ok_with_option ok_quiet_options ok_privacy_option ok_remote_options ok_terminal_persistence assms; assumption?)
  then show ?thesis by (simp add: ok_from_def)
qed

lemma with_option_unset [simp]: "with_option 0 f w = w"
  by (simp add: with_option_def)

lemma camera_options_ok:
  assumes "fst (scoped_view_camera_option option) = Some s"
  shows "adds_ok (w_c w) w (update_options env s w)"
proof -
  have "ok_from (w_c w) w w" by (simp add: ok_from_def adds_ok_refl)
  then have "ok_from (w_c w) w (with_option (om_disable_audio s) option_disable_audio
      (option_supported_decoding s (option_custom_fps s (option_image_quality s w))))"
    by (intro ok_with_option ok_quiet_options)
  then show ?thesis
    using scoped_view_camera_fields [OF assms]
    by (simp add: update_options_def option_privacy_mode_def OptionMessage_new_def Let_def ok_from_def)
qed

lemma terminal_options_ok:
  assumes "fst (scoped_terminal_login_option option) = Some s" "cn_authed_conn_id (w_c w) = Some Terminal"
  shows "adds_ok (w_c w) w (update_options env s w)"
proof -
  have "ok_from (w_c w) w w" by (simp add: ok_from_def adds_ok_refl)
  then have "ok_from (w_c w) w (with_option (om_terminal_persistent s) update_terminal_persistence w)"
    using assms(2) by (intro ok_with_option ok_terminal_persistence) simp_all
  then show ?thesis
    using scoped_terminal_fields [OF assms(1)]
    by (simp add: update_options_def option_privacy_mode_def option_image_quality_def option_custom_fps_def
        option_supported_decoding_def image_quality_value_def OptionMessage_new_def Let_def ok_from_def)
qed

lemma on_option_ok: "adds_ok (w_c w) w (on_option env option w)"
proof (cases "cn_authed_conn_id (w_c w)")
  case None
  then show ?thesis by (simp add: on_option_def adds_ok_refl)
next
  case (Some t)
  then show ?thesis
    by (cases t)
      (auto simp: on_option_def adds_ok_refl is_authed_remote_conn_def remote_options_ok camera_options_ok terminal_options_ok
         split: option.split)
qed

section \<open>Handlers\<close>

lemma timer_out [simp]: "w_out (update_auto_disconnect_timer env w) = w_out w"
  by (simp add: update_auto_disconnect_timer_def)

lemma adds_ok_timer [simp]: "adds_ok c w (update_auto_disconnect_timer env v) = adds_ok c w v"
  by (simp add: adds_ok_def)

lemma adds_ok_upd [simp]:
  "adds_ok c w (v\<lparr>w_c := d\<rparr>) = adds_ok c w v" "adds_ok c w (v\<lparr>w_g := g\<rparr>) = adds_ok c w v"
  "adds_ok c w w"
  by (auto simp: adds_ok_def)

lemma adds_ok_subscribe [simp]: "adds_ok c w v \<Longrightarrow> adds_ok c w (subscribe name b v)"
  by (auto simp: adds_ok_def subscribe_def)

lemma on_close_ok: "adds_ok (w_c w) w (on_close lock w)"
  by (simp add: on_close_def Let_def adds_ok_emit)

lemma adds_ok_close:
  assumes "adds_ok c w v" "w_c v = c"
  shows "adds_ok c w (on_close lock v)"
  using assms adds_ok_trans [OF assms(1), of "on_close lock v"] on_close_ok [of v lock] by simp

lemma input_ok:
  assumes "is_authed_remote_conn (w_c w) \<or> is_authed_view_camera_conn (w_c w)"
  shows "adds_ok (w_c w) w (on_mouse_event env me w)" "adds_ok (w_c w) w (on_pointer_device_event env pde w)"
    "adds_ok (w_c w) w (on_key_event env ke w)"
  using assms
  by (auto simp: on_mouse_event_def on_pointer_device_event_def on_key_event_def Let_def intro!: adds_ok_emit split: option.split)

lemma on_clipboards_ok: "adds_ok (w_c w) w (on_clipboards cbs w)"
  by (simp add: on_clipboards_def should_handle_text_clipboard_message_def is_authed_remote_conn_def adds_ok_emit)

lemma on_cliprdr_ok: "is_authed_remote_conn (w_c w) \<Longrightarrow> adds_ok (w_c w) w (on_cliprdr env clip w)"
  by (auto simp: on_cliprdr_def list_all_iff intro!: adds_ok_emit split: Cliprdr.split sum.split)

lemma send_fs_ok: "adds_ok c w v \<Longrightarrow> fs_ok c f \<Longrightarrow> adds_ok c w (send_fs f v)"
  by (simp add: send_fs_def adds_ok_emit)

lemma read_job_ok:
  assumes "adds_ok c w v" "cn_authed_conn_id c = Some FileTransfer \<or> (\<exists>d. src = DsMemoryCursor d)"
  shows "adds_ok c w (create_and_start_read_job env i t src n hidden od path check v)"
  using assms
  by (auto simp: create_and_start_read_job_def process_new_read_job_def Let_def intro!: adds_ok_emit split: sum.split DataSource.split)

lemma file_steps_ok:
  assumes "cn_authed_conn_id (w_c w) = Some FileTransfer"
  shows "adds_ok (w_c w) w (on_all_files env i path hidden w)" "adds_ok (w_c w) w (on_file_send env i path hidden n t w)"
    "adds_ok (w_c w) w (on_file_receive i path n files ts w)" "adds_ok (w_c w) w (on_file_cancel i w)"
    "adds_ok (w_c w) w (snd (on_send_confirm env r w))"
  using assms
  by (auto simp: on_all_files_def on_file_send_def on_file_receive_def on_file_cancel_def on_send_confirm_def Let_def case_prod_beta
      intro!: adds_ok_emit send_fs_ok read_job_ok split: option.split JobType.split)

lemma run_file_action_ok:
  assumes "cn_authed_conn_id (w_c w) = Some FileTransfer"
  shows "adds_ok (w_c w) w (snd (run_file_action env a w))"
  using assms
  by (cases a)
    (simp_all add: file_steps_ok [OF assms] read_empty_dirs_def read_dir_def log_removal_def adds_ok_emit send_fs_ok)

lemma print_job_ok: "adds_ok (w_c w) w (on_file_send env i path hidden n JobPrinter w)"
  by (auto simp: on_file_send_def Let_def intro!: read_job_ok split: option.split)

lemma file_session:
  assumes "conn_inv opt c" "cn_authed_conn_id c = Some t" "cn_file_transfer c \<noteq> None"
  shows "t = FileTransfer"
  using assms by (cases t) (auto simp: conn_inv_def)

lemma terminal_session:
  assumes "conn_inv opt c" "cn_authed_conn_id c = Some t" "cn_terminal_user_token c" "t \<noteq> PortForward"
  shows "t = Terminal"
  using assms by (cases t) (auto simp: conn_inv_def)

lemma on_file_action_ok:
  assumes "conn_inv opt (w_c w)" "cn_authed_conn_id (w_c w) = Some t"
  shows "adds_ok (w_c w) w (snd (on_file_action env fa w))"
proof (cases "cn_file_transfer (w_c w) = None")
  case True
  then show ?thesis
    using print_job_ok [of w env]
    by (cases fa) (auto simp: on_file_action_def Let_def adds_ok_emit split: option.split FileAction.split)
next
  case False
  then have "cn_authed_conn_id (w_c w) = Some FileTransfer" using file_session [OF assms] assms(2) by simp
  from run_file_action_ok [OF this, of env] show ?thesis
    by (auto simp: on_file_action_def Let_def adds_ok_emit split: option.split FileAction.split)
qed

lemma response_command_ok:
  "response_command r = Some f \<Longrightarrow> cn_authed_conn_id c \<in> {Some Remote, Some FileTransfer} \<Longrightarrow> fs_ok c f"
  by (cases r) auto

lemma on_file_response_ok:
  "cn_authed_conn_id (w_c w) \<in> {Some Remote, Some FileTransfer} \<Longrightarrow> adds_ok (w_c w) w (on_file_response fr w)"
  by (auto simp: on_file_response_def intro!: send_fs_ok response_command_ok split: option.split)

lemma privacy_ok:
  assumes "is_authed_remote_conn (w_c w)"
  shows "adds_ok (w_c w) w (toggle_privacy_mode env k on w)"
proof -
  have "ok_from (w_c w) w w" by (simp add: ok_from_def adds_ok_refl)
  from ok_privacy [OF this assms, of env k] show ?thesis by (simp add: toggle_privacy_mode_def ok_from_def)
qed

lemma change_resolution_ok:
  "adds_ok c w v \<Longrightarrow> is_authed_remote_conn c \<Longrightarrow> cn_keyboard (w_c v) = cn_keyboard c \<Longrightarrow>
     adds_ok c w (change_resolution env d width height v)"
  by (auto simp: change_resolution_def Let_def intro!: adds_ok_emit split: sum.split prod.split)

lemma display_steps_ok:
  "adds_ok c w v \<Longrightarrow> adds_ok c w (switch_display_to env i v)"
  "adds_ok c w v \<Longrightarrow> adds_ok c w (send_display_changed env i v)"
  "adds_ok c w v \<Longrightarrow> adds_ok c w (refresh_video_display d v)"
  by (auto simp: switch_display_to_def send_display_changed_def refresh_video_display_def Let_def
      intro!: adds_ok_emit adds_ok_subscribe split: option.split)

lemma switch_display_simps [simp]:
  "cn_keyboard (w_c (switch_display_to env i v)) = cn_keyboard (w_c v)"
  "cn_view_camera (w_c (switch_display_to env i v)) = cn_view_camera (w_c v)"
  by (simp_all add: switch_display_to_def Let_def)

lemma switch_display_ok:
  assumes "is_authed_remote_conn (w_c w) \<or> cn_view_camera (w_c w)"
  shows "adds_ok (w_c w) w (handle_switch_display env d width height w)"
  using assms
  by (auto simp: handle_switch_display_def Let_def intro!: display_steps_ok change_resolution_ok)

lemma add_video_services_ok: "list_all (event_ok c) (add_video_services src names ds)"
  by (induction src names ds rule: add_video_services.induct) (simp_all add: Let_def)

lemma quiet_misc_ok:
  "adds_ok (w_c w) w (capture_displays env add sub set1 w)" "adds_ok (w_c w) w (on_refresh_video env d r w)"
  "adds_ok (w_c w) w (close_voice_call w)" "adds_ok (w_c w) w (on_voice_call_request env b ts w)"
  "adds_ok (w_c w) w (on_screenshot_request n sid w)"
  by (simp_all add: capture_displays_def on_refresh_video_def close_voice_call_def on_voice_call_request_def
      on_screenshot_request_def Let_def adds_ok_emit add_video_services_ok display_steps_ok)

lemmas scope_defs =
  authorized_message_scope_violation_def is_file_transfer_scoped_misc_def

lemma on_misc_remote: "is_authed_remote_conn (w_c w) \<Longrightarrow> adds_ok (w_c w) w (snd (on_misc env misc w))"
  by (cases misc)
    (auto simp: on_option_ok privacy_ok change_resolution_ok switch_display_ok quiet_misc_ok display_steps_ok Let_def
      intro!: adds_ok_emit adds_ok_close)

lemma on_misc_ok:
  assumes "conn_inv opt (w_c w)" "cn_authed_conn_id (w_c w) = Some t"
    and "authorized_message_scope_violation t (Some (MMisc (Some misc))) = None"
  shows "adds_ok (w_c w) w (snd (on_misc env misc w))"
proof (cases "t = Remote")
  case True
  then show ?thesis using assms(2) by (intro on_misc_remote) (simp add: is_authed_remote_conn_def)
next
  case False
  have cam: "t = ViewCamera \<Longrightarrow> cn_view_camera (w_c w)" using assms(1,2) by (simp add: conn_inv_def)
  show ?thesis
    using assms(3) False cam
    by (cases misc; cases t)
      (auto simp: scope_defs on_option_ok switch_display_ok quiet_misc_ok display_steps_ok adds_ok_emit Let_def split: if_splits)
qed

lemma on_authorized_message_ok:
  assumes "conn_inv opt (w_c w)" "cn_authed_conn_id (w_c w) = Some t" "authorized_message_scope_violation t msg = None"
  shows "adds_ok (w_c w) w (snd (on_authorized_message env msg w))"
proof -
  have shell: "adds_ok (w_c w) w (handle_terminal_action env a w)" if "t \<noteq> PortForward" for a
    using terminal_session [OF assms(1,2) _ that] assms(2)
    by (auto simp: handle_terminal_action_def intro!: adds_ok_emit split: sum.split option.split)
  have inp: "is_authed_remote_conn (w_c w) \<or> is_authed_view_camera_conn (w_c w)" if "t = Remote \<or> t = ViewCamera"
    using that assms(2) by (auto simp: is_authed_remote_conn_def is_authed_view_camera_conn_def)
  have files: "cn_authed_conn_id (w_c w) \<in> {Some Remote, Some FileTransfer}" if "t = Remote \<or> t = FileTransfer"
    using that assms(2) by auto
  have rem: "is_authed_remote_conn (w_c w)" if "t = Remote" using that assms(2) by (simp add: is_authed_remote_conn_def)
  show ?thesis
  proof (cases "(env, msg, w)" rule: on_authorized_message.cases)
    case (9 e misc v)
    then show ?thesis using on_misc_ok [OF assms(1,2)] assms(3) by simp
  next
    case (7 e fa v)
    then show ?thesis using on_file_action_ok [OF assms(1,2)] by simp
  qed (use assms(3) in \<open>cases t; simp add: scope_defs input_ok [OF inp] on_clipboards_ok on_cliprdr_ok [OF rem]
         on_file_response_ok [OF files] quiet_misc_ok adds_ok_emit shell split: if_splits\<close>)+
qed

section \<open>Before a connection is authorised\<close>

text \<open>The handler authorised the connection or caused no action on the machine.\<close>

definition calm :: "Connection \<Rightarrow> World \<Rightarrow> bool \<times> World \<Rightarrow> bool" where
  "calm c w r \<longleftrightarrow> cn_authorized (w_c (snd r)) \<or> adds_ok c w (snd r)"

lemma calm_adds: "adds_ok c w (snd r) \<Longrightarrow> calm c w r"
  by (simp add: calm_def)

lemma calmD: "calm c w r \<Longrightarrow> \<not> cn_authorized (w_c (snd r)) \<Longrightarrow> adds_ok c w (snd r)"
  by (simp add: calm_def)

lemma calm_from: "adds_ok c w w1 \<Longrightarrow> calm c w1 r \<Longrightarrow> calm c w r"
  unfolding calm_def using adds_ok_trans by blast

lemma calm_then:
  "calm c w r \<Longrightarrow> cn_authorized (w_c w') = cn_authorized (w_c (snd r)) \<Longrightarrow> adds_ok c (snd r) w' \<Longrightarrow> calm c w (b, w')"
  unfolding calm_def using adds_ok_trans by (metis snd_conv)

lemma login_steps_ok [simp]:
  "adds_ok c w v \<Longrightarrow> adds_ok c w (send_login_error env err v)"
  "adds_ok c w v \<Longrightarrow> adds_ok c w (try_start_cm peer name auth v)"
  "adds_ok c w v \<Longrightarrow> adds_ok c w (try_start_cm_ipc v)"
  "adds_ok c w v \<Longrightarrow> adds_ok c w (wait_desktop_cm_ready v)"
  "adds_ok c w v \<Longrightarrow> adds_ok c w (conn_update_failure env f b i v)"
  "adds_ok c w v \<Longrightarrow> adds_ok c w (conn_check_update_temporary_password env b v)"
  by (simp_all add: Let_def send_login_error_def try_start_cm_def try_start_cm_ipc_def wait_desktop_cm_ready_def conn_update_failure_def
      conn_check_update_temporary_password_def adds_ok_emit)

lemma guard_events_ok: "list_all (event_ok c) (guard_events es)"
  by (simp add: guard_events_def list_all_iff split: guard_event.split)

lemma check_failure_ok_events [simp]: "adds_ok c w (snd (conn_check_failure env i w))"
  by (simp add: conn_check_failure_def case_prod_beta guard_events_ok adds_ok_emit)

lemma recent_ok [simp]: "adds_ok c w (snd (is_recent_session env tfa w))"
  by (auto simp: is_recent_session_def Let_def adds_ok_refl split: option.split)

lemma validate_ok [simp]: "adds_ok c w (snd (conn_validate_password env allow w))"
  by (auto simp: conn_validate_password_def conn_check_update_temporary_password_def Let_def adds_ok_refl
      split: option.split PwMatch.split)

lemma prepare_ok [simp]: "adds_ok c w (snd (prepare_terminal_login_for_authorization env w))"
  by (simp add: prepare_terminal_login_for_authorization_def Let_def split: option.split)

lemma connect_ok [simp]: "adds_ok c w (snd (connect_port_forward_if_needed env w))"
  by (simp add: connect_port_forward_if_needed_def Let_def case_prod_beta split: option.split LoginUnion.split)

lemma calm_send: "calm c w (send_logon_response_and_keep_alive env w)"
proof (cases "cn_authorized (w_c w)")
  case True
  then show ?thesis by (simp add: send_logon_already calm_def)
next
  case False
  let ?w1 = "if cn_require_2fa (w_c w) \<noteq> None then snd (is_recent_session env True w) else w"
  have w1: "adds_ok c w ?w1" by simp
  then have p: "adds_ok c w (snd (prepare_terminal_login_for_authorization env ?w1))" using adds_ok_trans prepare_ok by blast
  then have q: "adds_ok c w (logon_prepared env w)" unfolding logon_prepared_def using adds_ok_trans connect_ok by blast
  show ?thesis
    using w1 p q False by (simp add: send_logon_unfold calm_def adds_ok_emit)
qed

lemma calm_login_accepted: "calm c w (login_accepted env lr err_msg w)"
proof (cases "err_msg = []")
  case True
  let ?r = "send_logon_response_and_keep_alive env (wait_desktop_cm_ready w)"
  have k: "calm c w ?r" by (rule calm_from [OF _ calm_send]) simp
  then have "calm c w (True, try_start_cm (lr_my_id lr) (lr_my_name lr) (cn_authorized (w_c (snd ?r))) (snd ?r))"
    by (rule calm_then) simp_all
  with k True show ?thesis
    by (auto simp: login_accepted_def case_prod_beta calm_def split: bool.split)
qed (simp add: login_accepted_def calm_adds)

lemma calm_login_password: "calm c w (login_password env lr err_msg allow w)"
proof -
  let ?c = "conn_check_failure env 0 w"
  let ?v = "conn_validate_password env allow (snd ?c)"
  have v: "adds_ok c w (snd ?v)" by (rule adds_ok_trans [OF check_failure_ok_events validate_ok])
  then have "calm c w (login_accepted env lr err_msg (conn_update_failure env (fst (fst ?c)) True 0 (snd ?v)))"
    by (intro calm_from [OF _ calm_login_accepted]) simp
  with v show ?thesis
    by (auto simp: login_password_def case_prod_beta Let_def calm_adds split: bool.split)
qed

lemma calm_login_approve: "calm c w (login_approve env lr err_msg w)"
proof -
  let ?r = "is_recent_session env False w"
  have "calm c w (login_accepted env lr err_msg (snd ?r))" for err_msg
    by (rule calm_from [OF _ calm_login_accepted]) simp
  moreover have "calm c w (login_password env lr err_msg (allow_logon_screen_password env) (snd ?r))" for err_msg
    by (rule calm_from [OF _ calm_login_password]) simp
  ultimately show ?thesis
    by (simp add: login_approve_def calm_adds Let_def case_prod_beta split: bool.split)
qed

lemma calm_login_desktop: "calm c w (login_desktop env lr w)"
proof -
  have t: "adds_ok c w v \<Longrightarrow> adds_ok c w (snd (conn_check_failure env 0 v))" for v
    by (rule adds_ok_trans [OF _ check_failure_ok_events])
  have "calm c w (login_approve env lr err_msg (snd (conn_check_failure env 0 w)))" for err_msg
    by (rule calm_from [OF _ calm_login_approve]) simp
  then show ?thesis
    by (simp add: login_desktop_def calm_adds calm_login_approve t Let_def case_prod_beta)
qed

lemma login_scope_ok: "adds_ok c w v \<Longrightarrow> adds_ok c w (snd (login_scope env lr (reset_session_scope_for_login v)))"
  by (simp add: login_scope_def reset_session_scope_for_login_def check_privacy_mode_on_def Let_def
      split: option.split LoginUnion.split)

lemma handle_login_ok [simp]: "adds_ok c w (handle_login_request_without_validation env lr w)"
  by (rule adds_ok_refl) (simp add: handle_login_request_simps)

lemma calm_on_login_request: "calm c w (on_login_request env lr w)"
proof -
  let ?h = "handle_login_request_without_validation env lr w"
  let ?s = "login_scope env lr (reset_session_scope_for_login ?h)"
  have s: "adds_ok c w (snd ?s)" by (simp add: login_scope_ok)
  then have "calm c w (login_desktop env lr (try_start_cm_ipc (snd ?s)))"
    by (intro calm_from [OF _ calm_login_desktop]) simp
  with s show ?thesis
    by (simp add: on_login_request_def Let_def case_prod_beta calm_adds split: bool.split)
qed

lemma coded_ok [simp]: "adds_ok c w (coded env w)"
  by (simp add: coded_def Let_def)

lemma calm_on_auth_2fa: "calm c w (on_auth_2fa env code hwid w)"
proof (cases "code_ok env code w")
  case True
  let ?r = "send_logon_response_and_keep_alive env (coded env w)"
  have k: "calm c w ?r" by (rule calm_from [OF _ calm_send]) simp
  from True obtain totp where t: "cn_require_2fa (w_c w) = Some totp" "ev_totp_check env totp code = Some True" "guard_ok env 1 w"
    by (auto simp: code_ok_def split: option.splits)
  let ?cm = "try_start_cm (lr_my_id (cn_lr (w_c (snd ?r)))) (lr_my_name (cn_lr (w_c (snd ?r)))) (cn_authorized (w_c (snd ?r))) (snd ?r)"
  have out: "w_out (snd (on_auth_2fa env code hwid w)) = w_out (if fst ?r then ?cm else snd ?r)"
    using t by (simp add: on_auth_2fa_def coded_def Let_def case_prod_beta split: bool.split)
  have "adds_ok c (snd ?r) (if fst ?r then ?cm else snd ?r)" by simp
  then have "adds_ok c (snd ?r) (snd (on_auth_2fa env code hwid w))" using adds_ok_out [OF out] by blast
  moreover have "w_c (snd (on_auth_2fa env code hwid w)) = w_c (snd ?r)" using True by (simp add: on_auth_2fa_connection)
  ultimately show ?thesis using k adds_ok_trans unfolding calm_def by metis
next
  case False
  then show ?thesis
    by (intro calm_adds) (auto simp: on_auth_2fa_def code_ok_def Let_def case_prod_beta split: option.split bool.splits)
qed

lemma switched_ok: "adds_ok c w (switched env lr w)" "adds_ok c w (switched_accepted env lr w)"
  by (simp_all add: switched_def switched_accepted_def Let_def)

lemma on_switch_sides_code:
  "on_switch_sides_response env uuid lr w =
     (if ticket_ok env uuid lr w then
        let r = send_logon_response_and_keep_alive env (switched_accepted env lr w) in
        (fst r, if fst r then try_start_cm_ipc (try_start_cm (lr_my_id lr) (lr_my_name lr) (cn_authorized (w_c (snd r))) (snd r))
                else snd r)
      else (True, switched env lr w))"
  unfolding on_switch_sides_response_def ticket_ok_code Let_def switched_accepted_def switched_def
  by (simp add: case_prod_beta prod_eq_iff del: map_option_eq_Some split: bool.split)

lemma calm_on_switch_sides: "calm c w (on_switch_sides_response env uuid lr w)"
proof (cases "ticket_ok env uuid lr w")
  case True
  let ?r = "send_logon_response_and_keep_alive env (switched_accepted env lr w)"
  have "calm c w ?r" by (rule calm_from [OF switched_ok(2) calm_send])
  then have "calm c w (fst ?r, if fst ?r then try_start_cm_ipc (try_start_cm (lr_my_id lr) (lr_my_name lr)
      (cn_authorized (w_c (snd ?r))) (snd ?r)) else snd ?r)"
    by (rule calm_then) simp_all
  then show ?thesis using True by (simp add: on_switch_sides_code Let_def)
qed (simp add: on_switch_sides_code calm_adds switched_ok)

lemma on_test_delay_ok: "adds_ok c w (on_test_delay env t w)"
  by (simp add: on_test_delay_def Let_def adds_ok_emit split: option.split)

section \<open>All messages of the peer\<close>

lemma send_logon_again_ok:
  assumes "cn_authorized (w_c w)"
  shows "adds_ok c w (snd (on_auth_2fa env code hwid w))" "adds_ok c w (snd (on_switch_sides_response env uuid lr w))"
proof -
  have a: "send_logon_response_and_keep_alive env (coded env w) = (True, coded env w)"
    using assms by (intro send_logon_already) simp
  have b: "send_logon_response_and_keep_alive env (switched_accepted env lr w) = (True, switched_accepted env lr w)"
    using assms by (intro send_logon_already) (simp add: switched_accepted_def switched_def Let_def handle_login_request_simps)
  show "adds_ok c w (snd (on_switch_sides_response env uuid lr w))"
    by (simp add: on_switch_sides_code b Let_def switched_ok)
  show "adds_ok c w (snd (on_auth_2fa env code hwid w))"
    using a coded_ok [of c w env]
    by (auto simp: on_auth_2fa_def coded_def Let_def case_prod_beta split: option.split bool.split)
qed

lemma dispatch_ok:
  assumes "conn_inv opt (w_c w)"
    and "cn_authorized (w_c w) \<and> authorized_scope_violation (cn_authed_conn_id (w_c w)) msg = None \<and> \<not> is_login_request msg
         \<or> \<not> cn_authorized (w_c w) \<and> \<not> cn_authorized (w_c (snd (dispatch_message env msg w)))"
  shows "adds_ok (w_c w) w (snd (dispatch_message env msg w))"
proof (cases "cn_authorized (w_c w)")
  case True
  then obtain t where t: "cn_authed_conn_id (w_c w) = Some t" using assms(1) by (auto simp: conn_inv_def)
  have "adds_ok (w_c w) w (snd (on_authorized_message env msg w))"
    using on_authorized_message_ok [OF assms(1) t] assms(2) True t by (simp add: authorized_scope_violation_def)
  then show ?thesis
    using send_logon_again_ok [OF True] assms(2) True
    by (auto simp: dispatch_message_def on_test_delay_ok split: option.split Message.split)
next
  case False
  then show ?thesis
    using assms(2)
    by (auto simp: dispatch_message_def on_test_delay_ok calmD [OF calm_on_login_request] calmD [OF calm_on_auth_2fa]
        calmD [OF calm_on_switch_sides] split: option.split Message.split)
qed

lemma scope_violation_ok: "adds_ok (w_c w) w (snd (handle_authorized_scope_violation env m w))"
proof -
  let ?w1 = "w\<lparr>w_c := (w_c w)\<lparr>cn_scope_violation_messages := List.insert m (cn_scope_violation_messages (w_c w))\<rparr>\<rparr>"
  let ?w2 = "if m \<notin> set (cn_scope_violation_messages (w_c w)) \<and> get_bool_option (ev_opt env) ''allow-scope-violation-alarm''
                then emit [Audit (EvAlarm SessionScopeViolation)] ?w1 else ?w1"
  have a: "adds_ok (w_c w) w (send_close_reason_no_retry r ?w2)" for r
    by (simp add: send_close_reason_no_retry_def Let_def adds_ok_emit)
  have "adds_ok (w_c w) w (on_close True v)"
    if "adds_ok (w_c w) w v" "cn_lock_after_session_end (w_c v) = cn_lock_after_session_end (w_c w)"
      "cn_keyboard (w_c v) = cn_keyboard (w_c w)" for v
    using that by (auto simp: on_close_def Let_def intro!: adds_ok_emit)
  from this [OF a] show ?thesis
    by (auto simp: handle_authorized_scope_violation_def Let_def adds_ok_emit)
qed

lemma on_message_ok:
  assumes "conn_inv opt (w_c w)" "cn_authorized (w_c w) \<or> \<not> cn_authorized (w_c (snd (on_message env msg w)))"
  shows "adds_ok (w_c w) w (snd (on_message env msg w))"
  using assms dispatch_ok [OF assms(1), of msg env] scope_violation_ok [of w env] on_close_ok [of w True]
  by (auto simp: on_message_def Let_def split: option.splits if_splits)


section \<open>Nothing happens without permission\<close>


lemma demo_clicked:
  "cn_authorized (w_c (lp_w (loop_step demo_env (CeCm CmAuthorize) demo_start)))"
  "lp_running (loop_step demo_env (CeCm CmAuthorize) demo_start)"
proof -
  let ?l = "loop_step demo_env (CeCm CmAuthorize) demo_start"
  have "conn_inv (\<lambda>_. []) (w_c (lp_w ?l))" using conn_run_inv [OF demo_run_step] by (simp add: loop_inv_def)
  then show "cn_authorized (w_c (lp_w ?l))" using click_opens [of demo_start demo_env] by (auto simp: conn_inv_def)
  let ?v = "(lp_w demo_start)\<lparr>w_c := (w_c (lp_w demo_start))\<lparr>cn_audit_primary_auth := PaClick, cn_require_2fa := None\<rparr>\<rparr>"
  have "send_logon_response_and_keep_alive demo_env ?v = (True, logon_session demo_env (logon_authorize (logon_prepared demo_env ?v)))"
    by (subst send_logon_unfold) (simp_all add: second_factor_none terminal_ready_def tunnel_ready_def)
  moreover have "cn_port_forward_socket (w_c (logon_session demo_env (logon_authorize (logon_prepared demo_env ?v)))) = None"
    by (simp add: logon_prepared_socket connect_socket)
  ultimately show "lp_running ?l" by (simp add: loop_step_def on_authorize_def)
qed


end
