(* ===== verification/Session_End.thy ===== *)
theory Session_End
  imports Session
begin

text \<open>
  After the loop of a connection, \<open>src/src/server/connection.rs\<close>: the tunnel of a port-forwarding session
  (\<open>try_port_forward_loop\<close>), the steps at the end of \<open>Connection::start\<close>, and the destructor of \<open>AuthedConnID\<close>.
\<close>

section \<open>The tunnel\<close>

text \<open>What the two sockets deliver (\<open>None\<close>: closed) comes with the outcome of passing it on.\<close>

datatype tunnel_event =
    TeCm cm_data
  | TeForward "(string + bytes) option" "string option"
  | TeStream "(string + bytes) option" "string option"
  | TeTimer
  | TeWebConsole "int list"

record Tunnel =
  tu_last_recv_time :: nat
  tu_to_peer :: "bytes list"
  tu_to_target :: "bytes list"

definition H1 :: nat where
  "H1 = 3600 * 1000000000"

fun tunnel_step :: "int \<Rightarrow> nat \<Rightarrow> tunnel_event \<Rightarrow> Tunnel \<Rightarrow> string + Tunnel" where
  "tunnel_step conn_id now (TeCm CmClose) t = Inl ''Close requested from connection manager''"
| "tunnel_step conn_id now (TeCm (CmErr e)) t = Inl e"
| "tunnel_step conn_id now (TeCm _) t = Inr t"
| "tunnel_step conn_id now (TeForward None _) t = Inl ''Forward reset by the peer''"
| "tunnel_step conn_id now (TeForward (Some (Inl err)) _) t = Inl err"
| "tunnel_step conn_id now (TeForward (Some (Inr res)) (Some err)) t = Inl err"
| "tunnel_step conn_id now (TeForward (Some (Inr res)) None) t =
     Inr (t\<lparr>tu_last_recv_time := now, tu_to_peer := tu_to_peer t @ [res]\<rparr>)"
| "tunnel_step conn_id now (TeStream None _) t = Inl ''Stream reset by the peer''"
| "tunnel_step conn_id now (TeStream (Some (Inl err)) _) t = Inl err"
| "tunnel_step conn_id now (TeStream (Some (Inr res)) (Some err)) t = Inl err"
| "tunnel_step conn_id now (TeStream (Some (Inr res)) None) t =
     Inr (t\<lparr>tu_last_recv_time := now, tu_to_target := tu_to_target t @ [res]\<rparr>)"
| "tunnel_step conn_id now TeTimer t = (if now - tu_last_recv_time t \<ge> H1 then Inl ''Timeout'' else Inr t)"
| "tunnel_step conn_id now (TeWebConsole conns) t =
     (if conn_id \<in> set conns then Inl ''Closed manually by the web console'' else Inr t)"

text \<open>The loop only ends with an error; \<open>None\<close> is a loop that still runs.\<close>

fun tunnel_loop :: "int \<Rightarrow> (nat \<times> tunnel_event) list \<Rightarrow> Tunnel \<Rightarrow> string option \<times> Tunnel" where
  "tunnel_loop conn_id [] t = (None, t)"
| "tunnel_loop conn_id ((now, e) # es) t =
     (case tunnel_step conn_id now e t of Inl err \<Rightarrow> (Some err, t) | Inr t' \<Rightarrow> tunnel_loop conn_id es t')"

section \<open>The end\<close>

definition leave_loop :: "Env \<Rightarrow> World \<Rightarrow> World" where
  "leave_loop env w =
     (let conn_id = cn_id (w_c w);
          w1 = emit [Control EvEmptyFileClipboard] w;
          w2 = (if ev_privacy_mode_conn env = Some conn_id then snd (turn_off_privacy_to_msg env conn_id [] w1) else w1);
          w3 = emit [Video (EvFrameFetched conn_id False)] w2 in
      if cn_authorized (w_c w3)
      then w3\<lparr>w_g := (w_g w3)\<lparr>gl_temp := (gl_temp (w_g w3))\<lparr>tp_password := new_temporary_password (ev_opt env) (ev_rng env)\<rparr>\<rparr>\<rparr>
      else w3)"

text \<open>The tunnel, if the connection has one: \<open>None\<close> while it runs, then the error it ended with.\<close>

definition try_port_forward_loop :: "nat \<Rightarrow> (nat \<times> tunnel_event) list \<Rightarrow> World \<Rightarrow> (string + unit) option \<times> World" where
  "try_port_forward_loop now es w =
     (case cn_port_forward_socket (w_c w) of
        None \<Rightarrow> (Some (Inr ()), w)
      | Some _ \<Rightarrow>
          (map_option Inl (fst (tunnel_loop (cn_id (w_c w)) es \<lparr>tu_last_recv_time = now, tu_to_peer = [], tu_to_target = []\<rparr>)),
           w\<lparr>w_c := (w_c w)\<lparr>cn_port_forward_socket := None\<rparr>\<rparr>))"

definition drop_authed_conn :: "int \<Rightarrow> AuthConnType \<Rightarrow> World \<Rightarrow> World" where
  "drop_authed_conn conn_id conn_type w =
     (let w1 = emit (if conn_type = Remote \<or> conn_type = ViewCamera
                     then [Video (EvEncoderRemove conn_id), Video (EvQosClose conn_id)] else []) w;
          w2 = w1\<lparr>w_g := (w_g w1)\<lparr>gl_authed_conns := filter (\<lambda>c. ac_conn_id c \<noteq> conn_id) (gl_authed_conns (w_g w1))\<rparr>\<rparr>;
          w3 = (if list_ex (\<lambda>c. ac_conn_type c = Remote) (gl_authed_conns (w_g w2)) then w2 else emit [Control EvRestoreDesktop] w2) in
      emit [Control (EvWhiteboard False)] (check_wake_lock w3))"

text \<open>What follows the tunnel; the connection is dropped last.\<close>

definition finish_connection :: "string + unit \<Rightarrow> World \<Rightarrow> World" where
  "finish_connection res w =
     (let w1 = (case res of
                  Inl _ \<Rightarrow>
                    let w1 = on_close False w in
                    w1\<lparr>w_g := check_remove_session (cn_id (w_c w1)) (session_key (cn_lr (w_c w1))) (w_g w1)\<rparr>
                | Inr _ \<Rightarrow> w);
          w2 = on_close True (emit [Audit EvConnAuditClose, Service EvRemoveConnection] w1) in
      case cn_authed_conn_id (w_c w2) of Some conn_type \<Rightarrow> drop_authed_conn (cn_id (w_c w2)) conn_type w2 | None \<Rightarrow> w2)"

definition end_connection :: "Env \<Rightarrow> (nat \<times> tunnel_event) list \<Rightarrow> World \<Rightarrow> World option" where
  "end_connection env es w =
     (case try_port_forward_loop (ev_now env) es (leave_loop env w) of
        (Some res, w1) \<Rightarrow> Some (finish_connection res w1)
      | (None, _) \<Rightarrow> None)"

section \<open>What the tunnel passes on\<close>

fun from_target :: "(nat \<times> tunnel_event) list \<Rightarrow> bytes list" where
  "from_target ((_, TeForward (Some (Inr res)) _) # es) = res # from_target es"
| "from_target (_ # es) = from_target es"
| "from_target [] = []"

fun from_peer :: "(nat \<times> tunnel_event) list \<Rightarrow> bytes list" where
  "from_peer ((_, TeStream (Some (Inr res)) _) # es) = res # from_peer es"
| "from_peer (_ # es) = from_peer es"
| "from_peer [] = []"

lemma tunnel_step_passes:
  assumes "tunnel_step conn_id now e t = Inr t'"
  shows "tu_to_peer t' @ from_target es = tu_to_peer t @ from_target ((now, e) # es)"
    "tu_to_target t' @ from_peer es = tu_to_target t @ from_peer ((now, e) # es)"
  using assms by (cases "(conn_id, now, e, t)" rule: tunnel_step.cases; auto split: if_splits)+

lemma tunnel_loop_passes:
  "tunnel_loop conn_id es t = (r, t') \<Longrightarrow>
     \<exists>xs ys. tu_to_peer t @ from_target es = tu_to_peer t' @ xs \<and> tu_to_target t @ from_peer es = tu_to_target t' @ ys \<and>
       (r = None \<longrightarrow> xs = [] \<and> ys = [])"
proof (induction conn_id es t rule: tunnel_loop.induct)
  case (2 conn_id now e es t)
  show ?case
  proof (cases "tunnel_step conn_id now e t")
    case (Inl err)
    then have "r = Some err" "t' = t" using "2.prems" by simp_all
    then show ?thesis by blast
  next
    case (Inr t1)
    then have "tunnel_loop conn_id es t1 = (r, t')" using "2.prems" by simp
    from "2.IH" [OF Inr this] show ?thesis using tunnel_step_passes [OF Inr, of es] by metis
  qed
qed simp

text \<open>
  C38: A tunnel is transparent in both directions: at every moment what was sent to the target is a prefix of what the
  peer sent, in its order, and what was sent to the peer a prefix of what the target sent; while the tunnel runs they are
  equal, so nothing is lost, changed or reordered before the error that ends it.
\<close>

theorem tunnel_transparent:
  "\<exists>xs ys. (case tunnel_loop conn_id es \<lparr>tu_last_recv_time = now, tu_to_peer = [], tu_to_target = []\<rparr> of
      (r, t) \<Rightarrow> from_target es = tu_to_peer t @ xs \<and> from_peer es = tu_to_target t @ ys \<and> (r = None \<longrightarrow> xs = [] \<and> ys = []))"
  using tunnel_loop_passes [of conn_id es "\<lparr>tu_last_recv_time = now, tu_to_peer = [], tu_to_target = []\<rparr>"]
  by (auto simp: case_prod_beta)

theorem tunnel_transparent_witness:
  "tu_to_peer (snd (tunnel_loop 1 [(1, TeStream (Some (Inr [1, 2])) None), (2, TeForward (Some (Inr [3])) None)]
      \<lparr>tu_last_recv_time = 0, tu_to_peer = [], tu_to_target = []\<rparr>)) = [[3]]"
  using tunnel_transparent [where conn_id = 1 and now = 0
      and es = "[(1, TeStream (Some (Inr [1, 2])) None), (2, TeForward (Some (Inr [3])) None)]"] by simp

section \<open>What an ended connection leaves behind\<close>

lemma leave_loop_simps [simp]:
  "w_c (leave_loop env w) = w_c w" "gl_authed_conns (w_g (leave_loop env w)) = gl_authed_conns (w_g w)"
  by (simp_all add: leave_loop_def Let_def)

lemma on_close_globals [simp]: "w_g (on_close lock w) = w_g w"
  by (simp add: on_close_def Let_def)

lemma on_close_closed [simp]: "cn_closed (w_c (on_close lock w))"
  by (simp add: on_close_def Let_def)

lemma on_close_out: "set (w_out w) \<subseteq> set (w_out (on_close lock w))"
  by (auto simp: on_close_def Let_def)

lemma check_remove_session_conns [simp]: "gl_authed_conns (check_remove_session i k g) = gl_authed_conns g"
  by (simp add: check_remove_session_def Let_def)

lemma drop_authed_conn_simps [simp]:
  "w_c (drop_authed_conn i t w) = w_c w"
  "gl_authed_conns (w_g (drop_authed_conn i t w)) = filter (\<lambda>c. ac_conn_id c \<noteq> i) (gl_authed_conns (w_g w))"
  "set (w_out w) \<subseteq> set (w_out (drop_authed_conn i t w))"
  by (auto simp: drop_authed_conn_def check_wake_lock_def Let_def)

lemma finish_connection_simps:
  "cn_closed (w_c (finish_connection res w))"
  "gl_authed_conns (w_g (finish_connection res w)) =
     (if cn_authed_conn_id (w_c w) = None then gl_authed_conns (w_g w)
      else filter (\<lambda>c. ac_conn_id c \<noteq> cn_id (w_c w)) (gl_authed_conns (w_g w)))"
  by (auto simp: finish_connection_def Let_def split: sum.split option.split)

lemma finish_connection_out: "set (w_out w) \<subseteq> set (w_out (finish_connection res w))"
proof -
  have "set (w_out w) \<subseteq> set (w_out (on_close True (emit es (v\<lparr>w_g := g\<rparr>))))" if "set (w_out w) \<subseteq> set (w_out v)" for es v g
    using that on_close_out [of "emit es (v\<lparr>w_g := g\<rparr>)" True] by auto
  note closed = this [OF on_close_out [of w False]] this [of w _ "w_g w", simplified]
  note dropped = subset_trans [OF _ drop_authed_conn_simps(3)]
  show ?thesis
    unfolding finish_connection_def Let_def
    by (simp add: closed dropped [OF closed(1)] dropped [OF closed(2)] split: sum.split option.split)
qed



end
