(* ===== verification/Spec2Isabelle.thy ===== *)
theory Spec2Isabelle
  imports Bytes_Codec Secure_Stream Net_Addr Peer_Map Rate_Limit Rendezvous_Msg Addr_Parse Rendezvous
    Rendezvous_Loop Floats Video_QoS Relay Login_Guard Password File_Log File_Transfer
    Cm_Files Session_Control Session_End
begin

text \<open>
  \<^bold>\<open>Verification of the connection core of CodeDesk.\<close>

  CodeDesk is a remote desktop program.  A machine that can be controlled registers at a rendezvous server
  (\<open>src/server/src/rendezvous_server.rs\<close>); a controlling machine asks that server where to find it, and the two connect
  directly or through a relay server (\<open>src/server/src/relay_server.rs\<close>).  On their TCP stream they frame messages
  (\<open>src/libs/hbb_common/src/bytes_codec.rs\<close>), agree on a key and encrypt (\<open>src/libs/hbb_common/src/tcp.rs\<close>,
  \<open>src/src/server.rs\<close>, \<open>src/src/client.rs\<close>, \<open>src/src/common.rs\<close>).  Then the controlling side logs in
  (\<open>src/src/server/connection.rs\<close>), guarded by the failure counters of
  \<open>src/src/server/login_failure_check.rs\<close> and checked against the passwords kept by
  \<open>src/libs/hbb_common/src/password_security.rs\<close> and \<open>src/libs/hbb_common/src/config\<close>; the session that follows is driven
  by the same \<open>connection.rs\<close>, with the picture quality regulated by \<open>src/src/server/video_qos.rs\<close>.  Files go through
  the transfer jobs of \<open>src/libs/hbb_common/src/fs.rs\<close>: the connection itself reads those it sends and passes those it
  receives to the connection manager (\<open>src/src/ui_cm_interface.rs\<close>).

  \<^bold>\<open>Theories, and the code they model.\<close>

  \<^item> \<open>Prelude\<close>: machine integers, byte strings, \<open>std::time\<close>, association lists, list lemmas, and the locale
    \<open>step_system\<close> of runs of a step function that keep an invariant.
  \<^item> \<open>Bytes_Codec\<close>: \<open>BytesCodec\<close> of \<open>bytes_codec.rs\<close> (\<open>decode_head\<close>, \<open>decode_data\<close>, \<open>decode\<close>, \<open>encode\<close>).  The locale
    \<open>framing\<close> is the contract of an incremental decoder; the codec interprets it.  Shown: any split of the bytes of
    any messages into TCP chunks decodes to those messages, with the packet limit and the preallocation bound.
  \<^item> \<open>Secure_Stream\<close>: \<open>Encrypt\<close> and \<open>FramedStream\<close> of \<open>tcp.rs\<close>; the three handshakes \<open>create_tcp_connection\<close>
    (\<open>server_handshake\<close>), \<open>secure_connection\<close> (\<open>client_handshake\<close>) and \<open>secure_tcp_impl\<close>.  Shown: both ends get the same
    key, a client only accepts a key of the owner of the id, streams round trip, nonces never repeat, a tampered frame
    of more than one byte is an error.
  \<^item> \<open>Net_Addr\<close>, \<open>Addr_Parse\<close>: socket addresses, their text and parser (\<open>core::net\<close>), \<open>try_into_v4\<close> and \<open>AddrMangle\<close> of
    \<open>lib.rs\<close>.
  \<^item> \<open>Peer_Map\<close>: the table of \<open>database.rs\<close> under the cache of \<open>peer.rs\<close> (locale \<open>peer_cache\<close>).
  \<^item> \<open>Rate_Limit\<close>: \<open>check_ip_blocker\<close>, the per-peer limit of \<open>RegisterPk\<close>, the log of address changes (locales
    \<open>burst_limiter\<close>, \<open>strict_burst_limiter\<close>: what a limiter that resets after a pause lets through in a window).
  \<^item> \<open>Rendezvous_Msg\<close>, \<open>Rendezvous\<close>: the protocol messages and every handler of \<open>rendezvous_server.rs\<close> (\<open>handle_udp\<close>,
    \<open>handle_tcp\<close> and what they call), as functions from the shared state to actions and a new shared state.
  \<^item> \<open>Rendezvous_Loop\<close>: admin commands (\<open>check_cmd\<close>), listeners, sessions, relay checks and \<open>io_loop\<close> as the step
    function \<open>server_step\<close>.  Shown of all runs: an id keeps its key, replies reach the session that asked, relay servers
    offered were checked, waiting sinks belong to live sessions.
  \<^item> \<open>Relay\<close>: \<open>relay_server.rs\<close>: parameters, commands, pairing (\<open>make_pair\<close>), the loop (\<open>relay\<close>) with its accounting.
    Shown: what one side sends is what the other gets, exactly two connections of one uuid are joined.
  \<^item> \<open>Floats\<close>, \<open>Video_QoS\<close>: IEEE rounding on rationals and \<open>video_qos.rs\<close> over it.  Shown: no panic, and frame rate and
    bitrate ratio stay in their documented bounds in every run.
  \<^item> \<open>Login_Guard\<close>: \<open>login_failure_check.rs\<close> and \<open>check_failure\<close>/\<open>update_failure\<close> of \<open>connection.rs\<close>.  Shown: a bound on
    the attempts of an address in a minute and in total, under any interleaving of its connections.
  \<^item> \<open>Password\<close>: \<open>password_security.rs\<close>, \<open>config/permanent_password.rs\<close>, the password and device part of \<open>config.rs\<close>,
    validation in \<open>connection.rs\<close>, and the answer computed by \<open>client.rs\<close>.  Shown: a password that was set can be
    used to log in after a restart, which answers are accepted, when the temporary password rotates.
  \<^item> \<open>Session_Scope\<close>: the messages of \<open>message.proto\<close> and the filters of \<open>connection.rs\<close> that tie a message or option to a kind
    of session.
  \<^item> \<open>Paths\<close>, \<open>File_Log\<close>: paths as \<open>std::path\<close> reads them; \<open>FileRemoveLogControl\<close> of \<open>connection.rs\<close>.  Shown: what the log
    of removals contains after a quiet second.
  \<^item> \<open>File_Transfer\<close>: \<open>TransferJob\<close> of \<open>fs.rs\<close>: the checks of names and links, writing the blocks received
    (\<open>job_write\<close>), reading and offering files (\<open>job_read\<close>, \<open>handle_read_jobs\<close>), confirmations, and the comparison with a
    file that is already there; \<open>compress.rs\<close>.  Shown: the loop that fills a block returns with a full block or the rest
    of the file, and every operation of a job that was set up stays at or below its target.
  \<^item> \<open>Cm_Files\<close>: \<open>handle_fs\<close> of \<open>ui_cm_interface.rs\<close> with the read jobs of the connection manager.  Shown: uploads are
    confined to the directories they were started with; a confirmation for a file the job does not have panics; after a
    failed create a block goes to the wrong file.
  \<^item> \<open>Login\<close>: \<open>Connection\<close> with the state it shares (\<open>Globals\<close>), the login request, two-factor codes, switch-sides tickets,
    \<open>send_logon_response_and_keep_alive\<close>; what each of them authorises.
  \<^item> \<open>Session\<close>: \<open>on_message\<close> for every message, the connection manager's commands and file data, the messages of the
    services, the file timer and the other arms of the loop, opening and closing: the loop of \<open>Connection::start\<close> as \<open>loop_step\<close> and the runs \<open>conn_run\<close>.  Shown: the reasons for which a connection can be
    authorised, and that the session is of a permitted kind.
  \<^item> \<open>Session_Control\<close>: the policy of actions on the machine and that all handlers respect it.
  \<^item> \<open>Session_End\<close>: what follows the loop: the tunnel of a port-forwarding session (\<open>try_port_forward_loop\<close>), the end of
    \<open>Connection::start\<close> and the destructor of \<open>AuthedConnID\<close>.  Shown: the tunnel passes bytes on unchanged and in order,
    and an ended connection leaves no authorised entry, no used temporary password and no privacy mode behind.

  \<^bold>\<open>How the code is rendered.\<close>  A struct is a record, an enum a datatype, a HashMap that is iterated an association
  list and otherwise a map; \<open>usize\<close> counts are naturals, \<open>i64\<close> times integers, wire integers words or integers with
  their range; \<open>Instant\<close>s are nanoseconds.  A handler is one atomic function of its inputs and the state; an async task
  is a step of a run, and runs interleave the steps in any order.  A \<open>panic\<close> is \<open>None\<close> (in a
  connection the event \<open>Aborted\<close>, after which its loop ends), an error value a sum type,
  what is sent or done outside the process a list of actions.  What the code reads from its surroundings (clock, random
  numbers, options, the outcome of system calls) are arguments, collected in the records \<open>Env\<close> and \<open>FsEnv\<close>.  Third-party code
  (libsodium, base64, protobuf, serde, totp, float formatting) is a record of functions with named laws, which hold of
  concrete functions given in the witnesses.

  \<^bold>\<open>Bounds.\<close>  No fuel is used: loops that wait for events are recursions over the finite list of events received so
  far; all other recursions are structural or have a termination proof.  The controlled side is the Linux desktop build with
  the features \<open>flutter\<close> and \<open>unix-file-copy-paste\<close>; code compiled only for other systems is left out.

  \<^bold>\<open>Not modelled.\<close>  Screen capture, codecs, audio and input injection (calls into system libraries; the model ends at the
  event that asks for them), directory listings, the user interfaces and their bindings, the platform layer, the vendored libraries, the
  mediator that keeps the registration alive (sockets and timers only), argument parsing and socket set-up of the two
  servers, the self test \<open>test_hbbs\<close>, and the HTTP client of the management console.
\<close>

end
